(* ===== verification/Prelude.thy ===== *)
theory Prelude
  imports Main "HOL-Library.AList" "HOL-Library.Sublist"
begin

text \<open>
  Shared vocabulary of the development: Python exceptions as values, the result type of a
  fallible operation with its bind, Python's string primitives on ASCII text, and dictionaries
  as association lists in insertion order (\<open>AList.update\<close> overwrites in place or appends, as
  \<open>d[k] = v\<close> does).

  Strings are lists of 8-bit characters and the case and whitespace functions are those of
  ASCII; code points beyond it are outside the model. Times are integer microseconds, which is
  the resolution of Python's \<open>datetime\<close>; identifiers (UUIDs) are natural numbers.
\<close>

named_theorems res_simps \<open>unfolding of fallible computations\<close>
named_theorems str_simps \<open>Python string primitives\<close>

section \<open>Exceptions and results\<close>

type_synonym uuid = nat
type_synonym time = int

datatype exn =
    HTTPException int string
  | ValueError string
  | RuntimeError string
  | KeyError string
  | TypeError string
  | AttributeError string
  | ImportError string
  | OSError string
  | TimeoutError string
  | SQLAlchemyError string
  | MultipleResultsFound
  | IntegrityError string
  | CancelledError
  | SystemExit
  | OtherError string

text \<open>
  \<open>CancelledError\<close> and \<open>SystemExit\<close> derive from \<open>BaseException\<close> only, so \<open>except Exception\<close>
  does not catch them.
\<close>

fun is_Exception :: "exn \<Rightarrow> bool" where
  "is_Exception CancelledError = False"
| "is_Exception SystemExit = False"
| "is_Exception _ = True"

fun is_HTTPException :: "exn \<Rightarrow> bool" where
  "is_HTTPException (HTTPException _ _) = True"
| "is_HTTPException _ = False"

fun ebind :: "exn + 'a \<Rightarrow> ('a \<Rightarrow> exn + 'b) \<Rightarrow> exn + 'b" where
  "ebind (Inl e) f = Inl e"
| "ebind (Inr x) f = f x"

definition guard :: "bool \<Rightarrow> exn \<Rightarrow> exn + unit" where
  "guard b e = (if b then Inr () else Inl e)"

lemma ebind_eq_Inr [res_simps]: "ebind m f = Inr y \<longleftrightarrow> (\<exists>x. m = Inr x \<and> f x = Inr y)"
  by (cases m) auto

lemma ebind_eq_Inl [res_simps]:
  "ebind m f = Inl e \<longleftrightarrow> m = Inl e \<or> (\<exists>x. m = Inr x \<and> f x = Inl e)"
  by (cases m) auto

lemma ebind_cong [fundef_cong]:
  "m = m' \<Longrightarrow> (\<And>x. m' = Inr x \<Longrightarrow> f x = g x) \<Longrightarrow> ebind m f = ebind m' g"
  by (cases m') auto

lemma guard_eq_Inr [res_simps]: "guard b e = Inr u \<longleftrightarrow> b"
  by (simp add: guard_def)

lemma guard_eq_Inl [res_simps]: "guard b e = Inl e' \<longleftrightarrow> \<not> b \<and> e' = e"
  by (auto simp: guard_def)

lemma ebind_guard [res_simps]: "ebind (guard b e) f = (if b then f () else Inl e)"
  by (simp add: guard_def)

text \<open>Python truthiness of an optional string: \<open>None\<close> and \<open>""\<close> are false.\<close>

definition truthy_str :: "string option \<Rightarrow> bool" where
  "truthy_str s = (case s of None \<Rightarrow> False | Some t \<Rightarrow> t \<noteq> [])"

lemma truthy_str_simps [simp]:
  "truthy_str None = False" "truthy_str (Some t) = (t \<noteq> [])"
  by (simp_all add: truthy_str_def)

section \<open>Python strings\<close>

abbreviation code :: "char \<Rightarrow> nat" where
  "code c \<equiv> of_char c"

definition is_upper :: "char \<Rightarrow> bool" where
  "is_upper c \<longleftrightarrow> 65 \<le> code c \<and> code c \<le> 90"

definition is_lower :: "char \<Rightarrow> bool" where
  "is_lower c \<longleftrightarrow> 97 \<le> code c \<and> code c \<le> 122"

definition is_digit :: "char \<Rightarrow> bool" where
  "is_digit c \<longleftrightarrow> 48 \<le> code c \<and> code c \<le> 57"

definition is_space :: "char \<Rightarrow> bool" where
  "is_space c \<longleftrightarrow> (9 \<le> code c \<and> code c \<le> 13) \<or> (28 \<le> code c \<and> code c \<le> 32)"

definition lower_char :: "char \<Rightarrow> char" where
  "lower_char c = (if is_upper c then char_of (code c + 32) else c)"

definition lower :: "string \<Rightarrow> string" where
  "lower s = map lower_char s"

definition lstrip :: "string \<Rightarrow> string" where
  "lstrip s = dropWhile is_space s"

definition rstrip :: "string \<Rightarrow> string" where
  "rstrip s = rev (dropWhile is_space (rev s))"

definition strip :: "string \<Rightarrow> string" where
  "strip s = rstrip (lstrip s)"

fun split_on :: "char \<Rightarrow> string \<Rightarrow> string list" where
  "split_on d [] = [[]]"
| "split_on d (c # cs) =
     (if c = d then [] # split_on d cs
      else (case split_on d cs of [] \<Rightarrow> [[c]] | w # ws \<Rightarrow> (c # w) # ws))"

fun join :: "string \<Rightarrow> string list \<Rightarrow> string" where
  "join sep [] = []"
| "join sep [x] = x"
| "join sep (x # y # ys) = x @ sep @ join sep (y # ys)"

fun contains :: "string \<Rightarrow> string \<Rightarrow> bool" where
  "contains p [] = (p = [])"
| "contains p (c # cs) = (prefix p (c # cs) \<or> contains p cs)"

definition startswith :: "string \<Rightarrow> string \<Rightarrow> bool" where
  "startswith s p = prefix p s"

lemma lower_char_idem [simp]: "lower_char (lower_char c) = lower_char c"
  by (auto simp: lower_char_def is_upper_def)

lemma lower_idem [simp]: "lower (lower s) = lower s"
  by (simp add: lower_def)

lemma pred_option_code [code]: "pred_option P None = True" "pred_option P (Some a) = P a"
  by simp_all

lemma pred_option_iff: "pred_option P x \<longleftrightarrow> (\<forall>a. x = Some a \<longrightarrow> P a)"
  by (cases x) auto

lemma split_on_nonempty [simp]: "split_on d s \<noteq> []"
  by (induction s) (auto split: list.splits)

lemma split_on_none: "d \<notin> set s \<Longrightarrow> split_on d s = [s]"
  by (induction s) auto

lemma split_on_pieces: "w \<in> set (split_on d s) \<Longrightarrow> d \<notin> set w"
  by (induction s arbitrary: w) (auto split: list.splits if_splits)

lemma split_on_append: "d \<notin> set w \<Longrightarrow> split_on d (w @ d # s) = w # split_on d s"
  by (induction w) auto

lemma join_split_on: "join [d] (split_on d s) = s"
proof (induction s)
  case (Cons c cs)
  show ?case
  proof (cases "split_on d cs")
    case (Cons w ws)
    with Cons.IH show ?thesis by (cases ws) auto
  qed simp
qed simp

lemma contains_iff: "contains p s \<longleftrightarrow> (\<exists>a b. s = a @ p @ b)"
proof (induction s)
  case (Cons c cs)
  have "(\<exists>a b. c # cs = a @ p @ b) \<longleftrightarrow> (\<exists>b. c # cs = p @ b) \<or> (\<exists>a b. cs = a @ p @ b)"
    (is "?l \<longleftrightarrow> ?r")
  proof
    assume ?l
    then obtain a b where "c # cs = a @ p @ b" by blast
    then show ?r by (cases a) auto
  next
    assume ?r
    then show ?l by (metis append_Cons append_Nil)
  qed
  with Cons.IH show ?case by (auto simp: prefix_def)
qed auto

section \<open>Integers as text\<close>

text \<open>
  \<open>int(s)\<close> strips whitespace, takes an optional sign and decimal digits that single underscores
  may separate, and raises \<open>ValueError\<close> otherwise. CPython (3.11 and later) also raises it for
  more than 4300 digits.
\<close>

definition digit_val :: "char \<Rightarrow> int" where
  "digit_val c = int (code c) - 48"

fun digits_val :: "bool \<Rightarrow> int \<Rightarrow> string \<Rightarrow> int option" where
  "digits_val p acc [] = (if p then Some acc else None)"
| "digits_val p acc (c # cs) =
     (if is_digit c then digits_val True (10 * acc + digit_val c) cs
      else if c = CHR ''_'' \<and> p then digits_val False acc cs
      else None)"

definition max_str_digits :: nat where
  "max_str_digits = 4300"

definition unsigned_val :: "string \<Rightarrow> int option" where
  "unsigned_val s =
     (if length (filter is_digit s) > max_str_digits then None else digits_val False 0 s)"

definition py_int :: "string \<Rightarrow> exn + int" where
  "py_int s =
     (let r = (case strip s of
           [] \<Rightarrow> None
         | c # cs \<Rightarrow>
             (if c = CHR ''-'' then map_option uminus (unsigned_val cs)
              else if c = CHR ''+'' then unsigned_val cs
              else unsigned_val (c # cs)))
      in case r of None \<Rightarrow> Inl (ValueError ''invalid literal for int()'') | Some n \<Rightarrow> Inr n)"

fun show_nat_acc :: "nat \<Rightarrow> string \<Rightarrow> string" where
  "show_nat_acc n acc =
     (let c = char_of (48 + n mod 10)
      in if n < 10 then c # acc else show_nat_acc (n div 10) (c # acc))"

declare show_nat_acc.simps [simp del]

definition show_nat :: "nat \<Rightarrow> string" where
  "show_nat n = show_nat_acc n []"

definition show_int :: "int \<Rightarrow> string" where
  "show_int i = (if i < 0 then CHR ''-'' # show_nat (nat (- i)) else show_nat (nat i))"

subsection \<open>Round trip\<close>

abbreviation add_digit :: "int \<Rightarrow> char \<Rightarrow> int" where
  "add_digit a c \<equiv> 10 * a + digit_val c"

lemma digits_val_foldl:
  "list_all is_digit s \<Longrightarrow> p \<or> s \<noteq> [] \<Longrightarrow> digits_val p a s = Some (foldl add_digit a s)"
  by (induction s arbitrary: p a) auto

lemma digit_char [simp]:
  "n < 10 \<Longrightarrow> code (char_of (48 + n) :: char) = 48 + n"
  by simp

lemma show_nat_acc_digits:
  "list_all is_digit acc \<Longrightarrow> list_all is_digit (show_nat_acc n acc)"
proof (induction n acc rule: show_nat_acc.induct)
  case (1 n acc)
  have "is_digit (char_of (48 + n mod 10))"
    using digit_char[of "n mod 10"] by (simp add: is_digit_def)
  with 1 show ?case
    by (cases "n < 10"; subst show_nat_acc.simps) (simp_all add: Let_def)
qed

lemma show_nat_acc_value:
  "foldl add_digit 0 (show_nat_acc n acc) = foldl add_digit (int n) acc"
proof (induction n acc rule: show_nat_acc.induct)
  case (1 n acc)
  have d: "digit_val (char_of (48 + n mod 10)) = int (n mod 10)"
    using digit_char[of "n mod 10"] by (simp add: digit_val_def)
  have "10 * int (n div 10) + int (n mod 10) = int n" by presburger
  with 1 d show ?case
    by (cases "n < 10"; subst show_nat_acc.simps) (simp_all add: Let_def)
qed

lemma show_nat_acc_length:
  "n < 10 ^ k \<Longrightarrow> 0 < k \<Longrightarrow> length (show_nat_acc n acc) \<le> k + length acc"
proof (induction n acc arbitrary: k rule: show_nat_acc.induct)
  case (1 n acc)
  show ?case
  proof (cases "n < 10")
    case True
    with "1.prems" show ?thesis by (subst show_nat_acc.simps) (simp add: Let_def)
  next
    case False
    obtain j where k: "k = Suc j" using "1.prems" by (cases k) auto
    with "1.prems" have less: "n div 10 < 10 ^ j"
      by (auto simp: div_less_iff_less_mult mult.commute)
    with False have "0 < j" by (cases j) auto
    from "1.IH"[OF refl False less this] False k show ?thesis
      by (subst show_nat_acc.simps) (simp add: Let_def)
  qed
qed

lemma show_nat_acc_nonempty [simp]: "show_nat_acc n acc \<noteq> []"
proof (induction n acc rule: show_nat_acc.induct)
  case (1 n acc)
  then show ?case by (subst show_nat_acc.simps) (simp add: Let_def)
qed

lemma show_nat_digits: "list_all is_digit (show_nat n)"
  by (simp add: show_nat_def show_nat_acc_digits)

lemma unsigned_val_show_nat:
  "n < 10 ^ max_str_digits \<Longrightarrow> unsigned_val (show_nat n) = Some (int n)"
proof -
  assume n: "n < 10 ^ max_str_digits"
  have "length (show_nat n) \<le> max_str_digits"
    using show_nat_acc_length[OF n, of "[]"] by (simp add: show_nat_def max_str_digits_def)
  moreover have "filter is_digit (show_nat n) = show_nat n"
    using show_nat_digits[of n] by (simp add: list_all_iff)
  ultimately show ?thesis
    using digits_val_foldl[OF show_nat_digits, of False n 0]
    by (simp add: unsigned_val_def show_nat_def show_nat_acc_value)
qed

lemma digit_not_space: "is_digit c \<Longrightarrow> \<not> is_space c"
  by (auto simp: is_digit_def is_space_def)

lemma strip_no_space: "list_all (\<lambda>c. \<not> is_space c) s \<Longrightarrow> strip s = s"
proof -
  have drop: "list_all (\<lambda>c. \<not> is_space c) t \<Longrightarrow> dropWhile is_space t = t" for t
    by (cases t) auto
  assume "list_all (\<lambda>c. \<not> is_space c) s"
  then show ?thesis
    using drop[of s] drop[of "rev s"] by (simp add: strip_def lstrip_def rstrip_def)
qed

lemma strip_digits: "list_all is_digit s \<Longrightarrow> strip s = s"
  using digit_not_space by (intro strip_no_space) (auto simp: list_all_iff)

lemma strip_minus_digits: "list_all is_digit s \<Longrightarrow> strip (CHR ''-'' # s) = CHR ''-'' # s"
  using digit_not_space by (intro strip_no_space) (auto simp: list_all_iff is_space_def)

lemma py_int_digits:
  assumes d: "list_all is_digit s" and ne: "s \<noteq> []"
  shows "py_int s = (case unsigned_val s of
      None \<Rightarrow> Inl (ValueError ''invalid literal for int()'') | Some n \<Rightarrow> Inr n)"
proof -
  obtain c cs where s: "s = c # cs" using ne by (cases s) auto
  with d have "c \<noteq> CHR ''-''" "c \<noteq> CHR ''+''" by (auto simp: is_digit_def)
  with s strip_digits[OF d] show ?thesis by (simp add: py_int_def)
qed

lemma py_int_show_int:
  assumes "\<bar>n\<bar> < 10 ^ max_str_digits"
  shows "py_int (show_int n) = Inr n"
proof -
  have "nat \<bar>n\<bar> < 10 ^ max_str_digits"
    using assms by (simp add: nat_less_iff)
  note u = unsigned_val_show_nat[OF this]
  have ne: "show_nat m \<noteq> []" for m by (simp add: show_nat_def)
  show ?thesis
  proof (cases "n < 0")
    case True
    with u show ?thesis
      by (simp add: show_int_def py_int_def strip_minus_digits[OF show_nat_digits])
  next
    case False
    with u show ?thesis
      by (simp add: show_int_def py_int_digits[OF show_nat_digits ne])
  qed
qed

section \<open>Lists and dictionaries\<close>

text \<open>Python's ordered duplicate removal with a \<open>seen\<close> set: first occurrences, in order.\<close>

fun dedup_seen :: "'a list \<Rightarrow> 'a list \<Rightarrow> 'a list" where
  "dedup_seen seen [] = []"
| "dedup_seen seen (x # xs) =
     (if x \<in> set seen then dedup_seen seen xs else x # dedup_seen (x # seen) xs)"

lemma dedup_seen_set: "set (dedup_seen seen xs) = set xs - set seen"
  by (induction xs arbitrary: seen) auto

lemma dedup_seen_distinct: "distinct (dedup_seen seen xs)"
  by (induction xs arbitrary: seen) (auto simp: dedup_seen_set)

lemma dedup_seen_cong: "set seen = set seen' \<Longrightarrow> dedup_seen seen xs = dedup_seen seen' xs"
proof (induction xs arbitrary: seen seen')
  case (Cons x xs)
  from Cons.prems have "set (x # seen) = set (x # seen')" by simp
  with Cons.IH[of "x # seen" "x # seen'"] Cons.IH[OF Cons.prems] Cons.prems show ?case by simp
qed simp

lemma dedup_seen_id: "distinct xs \<Longrightarrow> set xs \<inter> set seen = {} \<Longrightarrow> dedup_seen seen xs = xs"
  by (induction xs arbitrary: seen) auto

lemma map_of_alist_update [simp]: "map_of (AList.update k v d) = (map_of d)(k \<mapsto> v)"
  by (simp add: update_conv')

lemma map_of_alist_delete [simp]: "map_of (AList.delete k d) = (map_of d)(k := None)"
  by (simp add: delete_conv')

lemma keys_update: "map fst (AList.update k v d) =
    (if k \<in> fst ` set d then map fst d else map fst d @ [k])"
  by (induction d) (auto split: if_splits)

lemma keys_delete: "map fst (AList.delete k d) = filter (\<lambda>k'. k' \<noteq> k) (map fst d)"
  by (induction d) auto

lemma mem_update_values:
  "x \<in> set (AList.update k v d) \<Longrightarrow> x = (k, v) \<or> x \<in> set d"
  by (induction d) (auto split: if_splits)

lemma length_filter_mono:
  "(\<And>x. x \<in> set xs \<Longrightarrow> P x \<Longrightarrow> Q x) \<Longrightarrow> length (filter P xs) \<le> length (filter Q xs)"
  by (induction xs) (auto simp: le_SucI)

text \<open>Counting into a dictionary: the keys in order of first occurrence with their multiplicities.\<close>

definition incr :: "'k \<Rightarrow> ('k \<times> nat) list \<Rightarrow> ('k \<times> nat) list" where
  "incr k m = AList.update k (Suc (case map_of m k of None \<Rightarrow> 0 | Some n \<Rightarrow> n)) m"

definition tally :: "'k list \<Rightarrow> ('k \<times> nat) list" where
  "tally ks = fold incr ks []"

lemma incr_map [simp]: "map_of (incr k m) = (map_of m)(k \<mapsto> Suc (case map_of m k of None \<Rightarrow> 0 | Some n \<Rightarrow> n))"
  by (simp add: incr_def)

lemma tally_acc: "map_of (fold incr ks m) k =
    (if k \<in> set ks then Some ((case map_of m k of None \<Rightarrow> 0 | Some n \<Rightarrow> n) + count_list ks k) else map_of m k)"
  by (induction ks arbitrary: m) (auto split: option.splits)

lemma tally_map: "map_of (tally ks) k = (if k \<in> set ks then Some (count_list ks k) else None)"
  by (simp add: tally_def tally_acc)

lemma tally_distinct: "distinct (map fst (tally ks))"
proof -
  have "distinct (map fst m) \<Longrightarrow> distinct (map fst (fold incr ks m))" for m :: "('a \<times> nat) list"
    by (induction ks arbitrary: m) (auto simp: incr_def distinct_update)
  then show ?thesis by (simp add: tally_def)
qed

lemma tally_mem: "(k, c) \<in> set (tally ks) \<longleftrightarrow> k \<in> set ks \<and> c = count_list ks k"
  using map_of_eq_Some_iff[OF tally_distinct, of ks k c] by (auto simp: tally_map split: if_splits)

lemma tally_empty: "tally ks = [] \<longleftrightarrow> ks = []"
proof (cases ks)
  case (Cons x xs)
  then show ?thesis using tally_map[of ks x] by auto
qed (simp add: tally_def)

lemma sum_incr: "sum_list (map snd (incr k m)) = Suc (sum_list (map snd m))"
proof -
  have "sum_list (map snd (AList.update k v m)) + (case map_of m k of None \<Rightarrow> 0 | Some n \<Rightarrow> n) = sum_list (map snd m) + v" for v
    by (induction m) (auto split: option.splits)
  from this[of "Suc (case map_of m k of None \<Rightarrow> 0 | Some n \<Rightarrow> n)"] show ?thesis by (simp add: incr_def)
qed

lemma sum_tally: "sum_list (map snd (tally ks)) = length ks"
proof -
  have "sum_list (map snd (fold incr ks m)) = length ks + sum_list (map snd m)" for m
    by (induction ks arbitrary: m) (simp_all add: sum_incr)
  then show ?thesis by (simp add: tally_def)
qed

end
