(* ===== verification/Json.thy ===== *)
theory Json
  imports Prelude
begin

text \<open>
  Values of Python's \<open>json\<close> module, the payloads the program handles: \<open>None\<close>, booleans, integers,
  floats, strings, lists and dictionaries (association lists in insertion order). A float is kept
  as the text \<open>repr\<close> prints for it, which is all the modelled code ever looks at.

  \<open>py_repr\<close> and \<open>py_str\<close> are \<open>repr\<close> and \<open>str\<close>; \<open>py_eq\<close> is \<open>==\<close>, under which \<open>True\<close> equals \<open>1\<close>,
  an integral float equals its integer (the text of a float below 1e16 is the integer followed
  by \<open>.0\<close>), and dictionaries are compared without regard to order; \<open>truthy\<close> is \<open>bool(x)\<close>.
\<close>

datatype json =
    JNull
  | JBool bool
  | JInt int
  | JFloat string
  | JStr string
  | JArr "json list"
  | JObj "(string \<times> json) list"

type_synonym jdict = "(string \<times> json) list"

section \<open>Access\<close>

definition dget :: "jdict \<Rightarrow> string \<Rightarrow> json" where
  "dget d k = (case map_of d k of None \<Rightarrow> JNull | Some v \<Rightarrow> v)"

definition dget_default :: "jdict \<Rightarrow> string \<Rightarrow> json \<Rightarrow> json" where
  "dget_default d k v0 = (case map_of d k of None \<Rightarrow> v0 | Some v \<Rightarrow> v)"

fun is_str :: "json \<Rightarrow> bool" where
  "is_str (JStr _) = True"
| "is_str _ = False"

fun the_list :: "json \<Rightarrow> json list option" where
  "the_list (JArr xs) = Some xs"
| "the_list _ = None"

fun truthy :: "json \<Rightarrow> bool" where
  "truthy JNull = False"
| "truthy (JBool b) = b"
| "truthy (JInt i) = (i \<noteq> 0)"
| "truthy (JFloat t) = (t \<noteq> ''0.0'' \<and> t \<noteq> ''-0.0'')"
| "truthy (JStr s) = (s \<noteq> [])"
| "truthy (JArr xs) = (xs \<noteq> [])"
| "truthy (JObj d) = (d \<noteq> [])"

text \<open>\<open>x or y\<close>.\<close>

definition py_or :: "json \<Rightarrow> json \<Rightarrow> json" where
  "py_or x y = (if truthy x then x else y)"

section \<open>Text of a value\<close>

definition hex_digit :: "nat \<Rightarrow> char" where
  "hex_digit n = (if n < 10 then char_of (48 + n) else char_of (87 + n))"

definition repr_char :: "char \<Rightarrow> char \<Rightarrow> string" where
  "repr_char q c =
     (if c = q \<or> code c = 92 then [char_of (92::nat), c]
      else if code c = 10 then [char_of (92::nat), CHR ''n'']
      else if code c = 13 then [char_of (92::nat), CHR ''r'']
      else if code c = 9 then [char_of (92::nat), CHR ''t'']
      else if code c < 32 \<or> code c = 127 then
        [char_of (92::nat), CHR ''x'', hex_digit (code c div 16), hex_digit (code c mod 16)]
      else [c])"

definition repr_str :: "string \<Rightarrow> string" where
  "repr_str s =
     (let sq = char_of (39::nat); dq = char_of (34::nat);
          q = (if sq \<in> set s \<and> dq \<notin> set s then dq else sq)
      in [q] @ concat (map (repr_char q) s) @ [q])"

fun py_repr :: "json \<Rightarrow> string"
  and py_repr_items :: "json list \<Rightarrow> string list"
  and py_repr_kvs :: "jdict \<Rightarrow> string list"
where
  "py_repr JNull = ''None''"
| "py_repr (JBool b) = (if b then ''True'' else ''False'')"
| "py_repr (JInt i) = show_int i"
| "py_repr (JFloat t) = t"
| "py_repr (JStr s) = repr_str s"
| "py_repr (JArr xs) = ''['' @ join '', '' (py_repr_items xs) @ '']''"
| "py_repr (JObj d) = ''{'' @ join '', '' (py_repr_kvs d) @ ''}''"
| "py_repr_items [] = []"
| "py_repr_items (x # xs) = py_repr x # py_repr_items xs"
| "py_repr_kvs [] = []"
| "py_repr_kvs ((k, v) # d) = (repr_str k @ '': '' @ py_repr v) # py_repr_kvs d"

fun py_str :: "json \<Rightarrow> string" where
  "py_str (JStr s) = s"
| "py_str v = py_repr v"

section \<open>Equality\<close>

fun as_num :: "json \<Rightarrow> string option" where
  "as_num (JBool b) = Some (if b then ''1.0'' else ''0.0'')"
| "as_num (JInt i) = Some (show_int i @ ''.0'')"
| "as_num (JFloat t) = Some (if t = ''-0.0'' then ''0.0'' else t)"
| "as_num _ = None"

fun py_eq :: "json \<Rightarrow> json \<Rightarrow> bool"
  and py_eq_items :: "json list \<Rightarrow> json list \<Rightarrow> bool"
  and py_eq_kvs :: "jdict \<Rightarrow> jdict \<Rightarrow> bool"
where
  "py_eq JNull w = (w = JNull)"
| "py_eq (JBool b) w = (as_num w = as_num (JBool b))"
| "py_eq (JInt i) w = (as_num w = as_num (JInt i))"
| "py_eq (JFloat t) w = (t \<noteq> ''nan'' \<and> as_num w = as_num (JFloat t))"
| "py_eq (JStr s) w = (w = JStr s)"
| "py_eq (JArr xs) w = (case w of JArr ys \<Rightarrow> py_eq_items xs ys | _ \<Rightarrow> False)"
| "py_eq (JObj d) w =
     (case w of JObj e \<Rightarrow> length d = length e \<and> py_eq_kvs d e | _ \<Rightarrow> False)"
| "py_eq_items [] ys = (ys = [])"
| "py_eq_items (x # xs) ys =
     (case ys of [] \<Rightarrow> False | y # zs \<Rightarrow> py_eq x y \<and> py_eq_items xs zs)"
| "py_eq_kvs [] e = True"
| "py_eq_kvs ((k, v) # d) e =
     ((case map_of e k of None \<Rightarrow> False | Some w \<Rightarrow> py_eq v w) \<and> py_eq_kvs d e)"

text \<open>\<open>x in xs\<close> for a list.\<close>

definition py_in :: "json \<Rightarrow> json list \<Rightarrow> bool" where
  "py_in x xs \<longleftrightarrow> (\<exists>y \<in> set xs. py_eq x y)"

lemma py_eq_str [simp]: "py_eq x (JStr s) \<longleftrightarrow> x = JStr s"
  by (cases x) auto

lemma py_in_strs: "py_in (JStr s) (map JStr xs) \<longleftrightarrow> s \<in> set xs"
  by (auto simp: py_in_def)

lemma py_in_strs_any: "py_in x (map JStr xs) \<longleftrightarrow> (\<exists>s \<in> set xs. x = JStr s)"
  by (auto simp: py_in_def)

text \<open>A text in single quotes.\<close>

definition quoted :: "string \<Rightarrow> string" where
  "quoted s = [CHR 0x27] @ s @ [CHR 0x27]"

section \<open>Values read without a check of their type\<close>

text \<open>\<open>v.get(k, dflt)\<close>, \<open>v[k]\<close>, \<open>v[0]\<close>, \<open>v[:n]\<close> and \<open>for x in v\<close>, with the exceptions they raise on a value of
  another type; \<open>hashable\<close> says which values may be looked up in a set or a dictionary.\<close>

definition py_get :: "json \<Rightarrow> string \<Rightarrow> json \<Rightarrow> exn + json" where
  "py_get v k dflt = (case v of JObj d \<Rightarrow> Inr (dget_default d k dflt) | _ \<Rightarrow> Inl (AttributeError ''get''))"

definition py_key :: "string \<Rightarrow> json \<Rightarrow> exn + json" where
  "py_key k v = (case v of
      JObj d \<Rightarrow> (case map_of d k of None \<Rightarrow> Inl (KeyError k) | Some x \<Rightarrow> Inr x)
    | _ \<Rightarrow> Inl (TypeError ''indices''))"

definition py_first :: "json \<Rightarrow> exn + json" where
  "py_first v = (case v of
      JArr (x # xs) \<Rightarrow> Inr x
    | JStr (c # cs) \<Rightarrow> Inr (JStr [c])
    | JArr [] \<Rightarrow> Inl (OtherError ''IndexError'')
    | JStr [] \<Rightarrow> Inl (OtherError ''IndexError'')
    | JObj d \<Rightarrow> Inl (KeyError ''0'')
    | _ \<Rightarrow> Inl (TypeError ''indices''))"

definition py_take :: "nat \<Rightarrow> json \<Rightarrow> exn + json" where
  "py_take n v = (case v of
      JStr s \<Rightarrow> Inr (JStr (take n s))
    | JArr xs \<Rightarrow> Inr (JArr (take n xs))
    | _ \<Rightarrow> Inl (TypeError ''subscript''))"

fun py_iter :: "json \<Rightarrow> exn + json list" where
  "py_iter (JArr xs) = Inr xs"
| "py_iter (JStr s) = Inr (map (\<lambda>c. JStr [c]) s)"
| "py_iter (JObj d) = Inr (map (\<lambda>(k, v). JStr k) d)"
| "py_iter v = Inl (TypeError ''not iterable'')"

definition hashable :: "json \<Rightarrow> bool" where
  "hashable v = (case v of JArr xs \<Rightarrow> False | JObj m \<Rightarrow> False | _ \<Rightarrow> True)"

end
