(* ===== verification/Normalize.thy ===== *)
theory Normalize
  imports Json "HOL-Library.Multiset"
begin

text \<open>
  \<open>opensoar/ingestion/normalize.py\<close> and the per-vendor normalizers of
  \<open>opensoar/integrations/{elastic,msdefender,splunk}/normalize.py\<close>: how an arbitrary JSON payload
  becomes an alert dictionary.

  \<open>list(set(v))\<close> in \<open>extract_iocs\<close> has an order the language does not fix: the parameter \<open>ord\<close>
  permutes the duplicate-free list. \<open>extract_iocs\<close> can raise, because \<open>int(p)\<close> in
  \<open>_looks_like_ip\<close> refuses more than 4300 digits outside any \<open>try\<close>.
\<close>

section \<open>Severity\<close>

definition severity_keywords :: "(string \<times> string list) list" where
  "severity_keywords =
     [(''critical'', [''critical'', ''crit'']),
      (''high'', [''high'', ''3'', ''error'']),
      (''medium'', [''medium'', ''med'', ''2'', ''warning'', ''warn'']),
      (''low'', [''low'', ''1'', ''info'', ''informational''])]"

fun find_severity :: "string \<Rightarrow> (string \<times> string list) list \<Rightarrow> string option" where
  "find_severity val [] = None"
| "find_severity val ((sev, kws) # rest) =
     (if val \<in> set kws \<or> val = sev then Some sev else find_severity val rest)"

definition severity_of_num :: "int \<Rightarrow> string" where
  "severity_of_num num =
     (if num \<ge> 4 then ''critical''
      else if num = 3 then ''high''
      else if num = 2 then ''medium''
      else ''low'')"

definition normalize_severity :: "json \<Rightarrow> string" where
  "normalize_severity value =
     (if value = JNull then ''medium''
      else
        (let val = strip (lower (py_str value))
         in case find_severity val severity_keywords of
              Some sev \<Rightarrow> sev
            | None \<Rightarrow> (case py_int val of Inr num \<Rightarrow> severity_of_num num | Inl _ \<Rightarrow> ''medium'')))"

definition severity_levels :: "string set" where
  "severity_levels = {''critical'', ''high'', ''medium'', ''low''}"

section \<open>Field extraction\<close>

fun walk_path :: "string list \<Rightarrow> json \<Rightarrow> json" where
  "walk_path [] cur = cur"
| "walk_path (p # ps) cur =
     (case cur of JObj d \<Rightarrow> walk_path ps (dget d p) | _ \<Rightarrow> JNull)"

fun extract_field :: "jdict \<Rightarrow> string list \<Rightarrow> json \<Rightarrow> json" where
  "extract_field payload [] dflt = dflt"
| "extract_field payload (path # paths) dflt =
     (let current = walk_path (split_on (CHR ''.'') path) (JObj payload)
      in if current \<noteq> JNull then current else extract_field payload paths dflt)"

section \<open>Indicators of compromise\<close>

fun all_octets :: "string list \<Rightarrow> exn + bool" where
  "all_octets [] = Inr True"
| "all_octets (p # ps) =
     (if p \<noteq> [] \<and> list_all is_digit p then
        ebind (py_int p) (\<lambda>n. if 0 \<le> n \<and> n \<le> 255 then all_octets ps else Inr False)
      else Inr False)"

definition looks_like_ip :: "string \<Rightarrow> exn + bool" where
  "looks_like_ip value =
     (let parts = split_on (CHR ''.'') value
      in if length parts \<noteq> 4 then Inr False else all_octets parts)"

record iocs =
  ioc_ips :: "string list"
  ioc_domains :: "string list"
  ioc_hashes :: "string list"
  ioc_urls :: "string list"

definition empty_iocs :: iocs where
  "empty_iocs = \<lparr>ioc_ips = [], ioc_domains = [], ioc_hashes = [], ioc_urls = []\<rparr>"

text \<open>The \<open>if\<close>/\<open>elif\<close> chain for one string entry; \<open>and\<close> and \<open>or\<close> evaluate left to right.\<close>

definition classify_str :: "string \<Rightarrow> string \<Rightarrow> iocs \<Rightarrow> exn + iocs" where
  "classify_str key val acc =
     (let k = lower key;
          others =
            (if contains ''hash'' k \<or> k \<in> {''md5'', ''sha1'', ''sha256''} then
               Inr (acc\<lparr>ioc_hashes := ioc_hashes acc @ [val]\<rparr>)
             else if contains ''domain'' k \<or> contains ''host'' k then
               (if CHR ''.'' \<in> set val then
                  ebind (looks_like_ip val) (\<lambda>b.
                    if \<not> b then Inr (acc\<lparr>ioc_domains := ioc_domains acc @ [val]\<rparr>) else Inr acc)
                else Inr acc)
             else if contains ''url'' k \<and> (startswith val ''http://'' \<or> startswith val ''https://'')
               then Inr (acc\<lparr>ioc_urls := ioc_urls acc @ [val]\<rparr>)
             else Inr acc)
      in if contains ''ip'' k then
           ebind (looks_like_ip val) (\<lambda>b.
             if b then Inr (acc\<lparr>ioc_ips := ioc_ips acc @ [val]\<rparr>) else others)
         else others)"

fun ioc_walk :: "nat \<Rightarrow> json \<Rightarrow> iocs \<Rightarrow> exn + iocs"
  and ioc_walk_items :: "nat \<Rightarrow> json list \<Rightarrow> iocs \<Rightarrow> exn + iocs"
  and ioc_walk_kvs :: "nat \<Rightarrow> jdict \<Rightarrow> iocs \<Rightarrow> exn + iocs"
where
  "ioc_walk depth obj acc =
     (if depth > 10 then Inr acc
      else (case obj of
              JObj d \<Rightarrow> ioc_walk_kvs depth d acc
            | JArr xs \<Rightarrow> ioc_walk_items depth xs acc
            | _ \<Rightarrow> Inr acc))"
| "ioc_walk_items depth [] acc = Inr acc"
| "ioc_walk_items depth (x # xs) acc =
     ebind (ioc_walk (Suc depth) x acc) (ioc_walk_items depth xs)"
| "ioc_walk_kvs depth [] acc = Inr acc"
| "ioc_walk_kvs depth ((key, val) # d) acc =
     ebind (case val of JStr s \<Rightarrow> classify_str key s acc | _ \<Rightarrow> ioc_walk (Suc depth) val acc)
       (ioc_walk_kvs depth d)"

definition ioc_dict :: "(string list \<Rightarrow> string list) \<Rightarrow> iocs \<Rightarrow> jdict" where
  "ioc_dict ord acc =
     map (\<lambda>(k, v). (k, JArr (map JStr (ord (remdups v)))))
       (filter (\<lambda>(k, v). v \<noteq> [])
         [(''ips'', ioc_ips acc), (''domains'', ioc_domains acc),
          (''hashes'', ioc_hashes acc), (''urls'', ioc_urls acc)])"

definition extract_iocs :: "(string list \<Rightarrow> string list) \<Rightarrow> jdict \<Rightarrow> exn + jdict" where
  "extract_iocs ord payload =
     ebind (ioc_walk 0 (JObj payload) empty_iocs) (\<lambda>acc. Inr (ioc_dict ord acc))"

section \<open>Webhook payloads\<close>

definition shell_names :: "string list" where
  "shell_names = [''nc'', ''ncat'', ''bash'', ''sh'', ''powershell'', ''cmd'']"

text \<open>The severity the payload states, else the one the event context suggests.\<close>

definition raw_severity_of :: "jdict \<Rightarrow> json" where
  "raw_severity_of payload =
     (let raw = extract_field payload
            [''severity'', ''rule.severity'', ''alert.severity'', ''signal.rule.severity'',
             ''level'', ''priority''] JNull
      in if raw \<noteq> JNull then raw
         else
           (let event_category = extract_field payload [''event.category''] (JStr []);
                event_outcome = extract_field payload [''event.outcome''] (JStr []);
                process_name = extract_field payload [''process.name''] (JStr [])
            in if py_in process_name (map JStr shell_names) then JStr ''high''
               else if event_outcome = JStr ''failure'' \<and> event_category = JStr ''authentication''
                 then JStr ''medium''
               else if event_category = JStr ''process'' then JStr ''medium''
               else if event_category = JStr ''file'' then JStr ''medium''
               else JNull))"

definition title_of :: "jdict \<Rightarrow> json" where
  "title_of payload = extract_field payload
     [''rule_name'', ''rule.name'', ''alert.rule.name'', ''title'', ''name'',
      ''signal.rule.name'', ''message''] (JStr ''Untitled Alert'')"

definition normalize_alert ::
  "(string list \<Rightarrow> string list) \<Rightarrow> jdict \<Rightarrow> string \<Rightarrow> exn + jdict" where
  "normalize_alert ord payload source =
     (let title = title_of payload;
          severity = normalize_severity (raw_severity_of payload);
          raw_source = extract_field payload [''source''] (JStr source);
          alert_source = (if is_str raw_source then raw_source else JStr source)
      in ebind (extract_iocs ord payload) (\<lambda>iocs. Inr
        [(''source'', alert_source),
         (''source_id'', extract_field payload
            [''source_id'', ''id'', ''_id'', ''alert_id'', ''signal.id''] JNull),
         (''title'', JStr (py_str title)),
         (''description'', extract_field payload
            [''description'', ''message'', ''rule.description'', ''alert.description''] JNull),
         (''severity'', JStr severity),
         (''status'', JStr ''new''),
         (''source_ip'', extract_field payload
            [''source_ip'', ''source.ip'', ''src_ip'', ''client.ip'', ''signal.source.ip''] JNull),
         (''dest_ip'', extract_field payload
            [''dest_ip'', ''destination.ip'', ''dst_ip'', ''server.ip'',
             ''signal.destination.ip''] JNull),
         (''hostname'', extract_field payload
            [''hostname'', ''host.name'', ''agent.name'', ''computer_name'',
             ''signal.host.name''] JNull),
         (''rule_name'', JStr (py_str title)),
         (''iocs'', JObj iocs),
         (''tags'', extract_field payload [''tags'', ''rule.tags''] (JArr [])),
         (''partner'', extract_field payload
            [''partner'', ''tenant'', ''customer'', ''organization''] JNull)]))"

section \<open>Vendor payloads\<close>

text \<open>\<open>x.get(k)\<close> on a value that is not a dictionary raises \<open>AttributeError\<close>.\<close>

fun get_attr :: "json \<Rightarrow> string \<Rightarrow> json \<Rightarrow> exn + json" where
  "get_attr (JObj d) k v0 = Inr (dget_default d k v0)"
| "get_attr _ k v0 = Inl (AttributeError ''get'')"

definition normalize_elastic_alert ::
  "(string list \<Rightarrow> string list) \<Rightarrow> jdict \<Rightarrow> exn + jdict" where
  "normalize_elastic_alert ord payload =
     ebind (Inr (dget_default payload ''signal'' (JObj payload))) (\<lambda>signal.
     ebind (get_attr signal ''rule'' (dget_default payload ''rule'' (JObj []))) (\<lambda>rule.
     ebind (get_attr rule ''name'' JNull) (\<lambda>rname.
     ebind (get_attr rule ''severity'' JNull) (\<lambda>rsev.
     ebind (extract_iocs ord payload) (\<lambda>iocs.
     ebind (get_attr rule ''description'' JNull) (\<lambda>descr.
     ebind (get_attr rule ''tags'' (JArr [])) (\<lambda>tags.
       let title = py_or rname (py_or
             (extract_field payload [''kibana.alert.rule.name'', ''rule_name''] JNull)
             (JStr ''Elastic Alert''));
           severity = normalize_severity (py_or rsev
             (extract_field payload [''kibana.alert.severity'', ''signal.rule.severity''] JNull))
       in Inr
        [(''source'', JStr ''elastic''),
         (''source_id'', extract_field payload [''_id'', ''kibana.alert.uuid'', ''signal.id''] JNull),
         (''title'', JStr (py_str title)),
         (''description'', descr),
         (''severity'', JStr severity),
         (''status'', JStr ''new''),
         (''source_ip'', extract_field payload
            [''source.ip'', ''signal.source.ip'', ''kibana.alert.original_event.source.ip''] JNull),
         (''dest_ip'', extract_field payload [''destination.ip'', ''signal.destination.ip''] JNull),
         (''hostname'', extract_field payload
            [''host.name'', ''agent.name'', ''signal.host.name''] JNull),
         (''rule_name'', JStr (py_str title)),
         (''iocs'', JObj iocs),
         (''tags'', tags)])))))))"

text \<open>
  The Defender normalizer passes \<open>payload["alert"]\<close> to \<open>extract_field\<close> and \<open>extract_iocs\<close>
  whatever it is; on a value that is not a dictionary every path is \<open>None\<close>.
\<close>

definition extract_field_any :: "json \<Rightarrow> string list \<Rightarrow> json \<Rightarrow> json" where
  "extract_field_any v paths dflt =
     (case v of JObj d \<Rightarrow> extract_field d paths dflt | _ \<Rightarrow> dflt)"

definition add_tag :: "json \<Rightarrow> json list \<Rightarrow> json list" where
  "add_tag c tags = (if truthy c \<and> \<not> py_in c tags then tags @ [JStr (py_str c)] else tags)"

definition normalize_msdefender_alert ::
  "(string list \<Rightarrow> string list) \<Rightarrow> jdict \<Rightarrow> exn + jdict" where
  "normalize_msdefender_alert ord payload =
     (let alert = dget_default payload ''alert'' (JObj payload);
          title = py_or (extract_field_any alert [''title'', ''alertDisplayName'', ''threatName''] JNull)
                    (JStr ''Microsoft Defender Alert'');
          severity = normalize_severity (extract_field_any alert [''severity''] JNull);
          source_id = extract_field_any alert [''id'', ''alertId'', ''incidentId''] JNull;
          hostname = extract_field_any alert
            [''computerDnsName'', ''machineDnsName'', ''deviceName'', ''machineId''] JNull;
          source_ip = extract_field_any alert [''sourceIp'', ''lastSeenIpAddress'', ''ipAddress''] JNull;
          category = extract_field_any alert [''category''] JNull;
          detection_source = extract_field_any alert [''detectionSource''] JNull;
          tags_raw = extract_field_any alert [''tags''] (JArr []);
          tags0 = (case tags_raw of JArr xs \<Rightarrow> xs | _ \<Rightarrow> []);
          tags = add_tag detection_source (add_tag category tags0)
      in ebind (ebind (ioc_walk 0 alert empty_iocs) (\<lambda>acc. Inr (ioc_dict ord acc))) (\<lambda>iocs. Inr
        [(''source'', JStr ''msdefender''),
         (''source_id'', source_id),
         (''title'', JStr (py_str title)),
         (''description'', extract_field_any alert [''description'', ''alertDescription''] JNull),
         (''severity'', JStr severity),
         (''status'', JStr ''new''),
         (''source_ip'', source_ip),
         (''dest_ip'', extract_field_any alert [''destinationIp''] JNull),
         (''hostname'', hostname),
         (''rule_name'', JStr (py_str title)),
         (''iocs'', JObj iocs),
         (''tags'', JArr tags)]))"

definition normalize_splunk_notable ::
  "(string list \<Rightarrow> string list) \<Rightarrow> jdict \<Rightarrow> exn + jdict" where
  "normalize_splunk_notable ord payload =
     (let result = (case dget payload ''result'' of JObj d \<Rightarrow> d | _ \<Rightarrow> payload);
          title = py_or (extract_field result [''rule_name'', ''signature'', ''search_name''] JNull)
                    (py_or (extract_field payload [''search_name''] JNull) (JStr ''Splunk Notable''));
          raw_severity = extract_field result [''severity'', ''urgency'', ''priority''] JNull;
          source_ip = extract_field result [''src_ip'', ''src'', ''source_ip''] JNull;
          dest_ip = extract_field result [''dest_ip'', ''dest'', ''destination_ip''] JNull;
          hostname = extract_field result [''host'', ''hostname'', ''dvc''] JNull
      in ebind (extract_iocs ord result) (\<lambda>iocs. Inr
        [(''source'', JStr ''splunk''),
         (''source_id'', extract_field result [''event_id'', ''event_hash'', ''_cd'', ''sid''] JNull),
         (''title'', JStr (py_str title)),
         (''description'', extract_field result [''description'', ''_raw''] JNull),
         (''severity'', JStr (normalize_severity raw_severity)),
         (''status'', JStr ''new''),
         (''source_ip'', source_ip),
         (''dest_ip'', dest_ip),
         (''hostname'', hostname),
         (''rule_name'', JStr (py_str title)),
         (''iocs'', JObj iocs),
         (''tags'', case dget result ''tag'' of JArr xs \<Rightarrow> JArr xs | _ \<Rightarrow> JArr [])]))"

section \<open>Severity lemmas\<close>

lemma find_severity_level:
  "find_severity val severity_keywords = Some sev \<Longrightarrow> sev \<in> severity_levels"
  by (auto simp: severity_keywords_def severity_levels_def split: if_splits)

lemma severity_of_num_level: "severity_of_num n \<in> severity_levels"
  by (auto simp: severity_of_num_def severity_levels_def)

lemma normalize_severity_level: "normalize_severity v \<in> severity_levels"
proof -
  have "''medium'' \<in> severity_levels" by (simp add: severity_levels_def)
  then show ?thesis
    by (auto simp: normalize_severity_def Let_def severity_of_num_level
        dest: find_severity_level split: option.split sum.split)
qed

lemma severity_fixed: "s \<in> severity_levels \<Longrightarrow> normalize_severity (JStr s) = s"
  unfolding severity_levels_def
  by (elim insertE emptyE;
      simp add: normalize_severity_def severity_keywords_def Let_def lower_def lower_char_def
        is_upper_def strip_def lstrip_def rstrip_def is_space_def)

section \<open>Properties of severities\<close>

lemma find_severity_keyword:
  "find_severity val severity_keywords = Some sev \<Longrightarrow>
     val \<in> {''critical'', ''crit'', ''high'', ''3'', ''error'', ''medium'', ''med'', ''2'',
       ''warning'', ''warn'', ''low'', ''1'', ''info'', ''informational''}"
  by (auto simp: severity_keywords_def split: if_splits)

lemmas py_int_eval = py_int_def unsigned_val_def max_str_digits_def is_digit_def digit_val_def
  strip_def lstrip_def rstrip_def is_space_def

lemma py_int_keyword:
  "py_int ''critical'' = Inl (ValueError ''invalid literal for int()'')"
  "py_int ''crit'' = Inl (ValueError ''invalid literal for int()'')"
  "py_int ''high'' = Inl (ValueError ''invalid literal for int()'')"
  "py_int ''error'' = Inl (ValueError ''invalid literal for int()'')"
  "py_int ''medium'' = Inl (ValueError ''invalid literal for int()'')"
  "py_int ''med'' = Inl (ValueError ''invalid literal for int()'')"
  "py_int ''warning'' = Inl (ValueError ''invalid literal for int()'')"
  "py_int ''warn'' = Inl (ValueError ''invalid literal for int()'')"
  "py_int ''low'' = Inl (ValueError ''invalid literal for int()'')"
  "py_int ''info'' = Inl (ValueError ''invalid literal for int()'')"
  "py_int ''informational'' = Inl (ValueError ''invalid literal for int()'')"
  "py_int ''1'' = Inr 1"
  "py_int ''2'' = Inr 2"
  "py_int ''3'' = Inr 3"
  by (simp_all add: py_int_eval)

lemma find_severity_digit:
  "find_severity ''3'' severity_keywords = Some ''high''"
  "find_severity ''2'' severity_keywords = Some ''medium''"
  "find_severity ''1'' severity_keywords = Some ''low''"
  by (simp_all add: severity_keywords_def)

lemma keyword_severity_num:
  assumes "find_severity val severity_keywords = Some sev" and "py_int val = Inr n"
  shows "sev = severity_of_num n"
  using find_severity_keyword[OF assms(1)] assms
  by (elim insertE emptyE)
     (simp_all add: py_int_keyword find_severity_digit severity_of_num_def)

lemma lower_show_int: "lower (show_int n) = show_int n"
proof -
  have "lower_char c = c" if "is_digit c" for c
    using that by (auto simp: lower_char_def is_upper_def is_digit_def)
  then have "lower (show_nat m) = show_nat m" for m
    using show_nat_digits[of m] by (auto simp: lower_def list_all_iff intro: map_idI)
  moreover have "lower_char (CHR ''-'') = CHR ''-''" by (simp add: lower_char_def is_upper_def)
  ultimately show ?thesis by (simp add: show_int_def lower_def)
qed

lemma strip_show_int: "strip (show_int n) = show_int n"
  by (simp add: show_int_def strip_digits strip_minus_digits show_nat_digits)

text \<open>An integer severity below \<open>10 ^ 4300\<close> is read on the numeric scale: 4 and above is
  critical, 3 high, 2 medium, everything else low, whatever keyword its decimal text also matches.\<close>

theorem normalize_severity_int:
  "\<bar>n\<bar> < 10 ^ max_str_digits \<Longrightarrow> normalize_severity (JInt n) = severity_of_num n"
  using keyword_severity_num[of "show_int n" _ n]
  by (auto simp: normalize_severity_def Let_def lower_show_int strip_show_int py_int_show_int
      split: option.split)

theorem normalize_severity_int_witness:
  "\<bar>7::int\<bar> < 10 ^ max_str_digits \<and> normalize_severity (JInt 7) = ''critical''"
proof -
  have "(10::int) ^ 1 \<le> 10 ^ max_str_digits"
    by (rule power_increasing) (simp_all add: max_str_digits_def)
  then have h: "\<bar>7::int\<bar> < 10 ^ max_str_digits" by simp
  show ?thesis using h normalize_severity_int[OF h] by (simp add: severity_of_num_def)
qed

section \<open>Properties of indicator extraction\<close>

text \<open>What the four buckets hold.\<close>

definition iocs_ok :: "iocs \<Rightarrow> bool" where
  "iocs_ok acc \<longleftrightarrow>
     (\<forall>v \<in> set (ioc_ips acc). looks_like_ip v = Inr True) \<and>
     (\<forall>v \<in> set (ioc_domains acc). CHR ''.'' \<in> set v \<and> looks_like_ip v = Inr False) \<and>
     (\<forall>v \<in> set (ioc_urls acc). startswith v ''http://'' \<or> startswith v ''https://'')"

lemma classify_str_ok: "classify_str key val acc = Inr acc' \<Longrightarrow> iocs_ok acc \<Longrightarrow> iocs_ok acc'"
  by (auto simp: classify_str_def Let_def iocs_ok_def res_simps split: if_splits)

lemma ioc_walk_ok:
  "ioc_walk n v acc = Inr acc' \<Longrightarrow> iocs_ok acc \<Longrightarrow> iocs_ok acc'"
  "ioc_walk_items n xs acc = Inr acc' \<Longrightarrow> iocs_ok acc \<Longrightarrow> iocs_ok acc'"
  "ioc_walk_kvs n d acc = Inr acc' \<Longrightarrow> iocs_ok acc \<Longrightarrow> iocs_ok acc'"
proof (induction n v acc and n xs acc and n d acc arbitrary: acc' and acc' and acc'
    rule: ioc_walk_ioc_walk_items_ioc_walk_kvs.induct)
  case (1 depth obj acc)
  then show ?case by (auto split: if_splits json.splits)
next
  case (5 depth key val d acc)
  from "5.prems"(1) obtain a1 where
      a1: "(case val of JStr s \<Rightarrow> classify_str key s acc | _ \<Rightarrow> ioc_walk (Suc depth) val acc) = Inr a1"
    and a2: "ioc_walk_kvs depth d a1 = Inr acc'"
    by (auto simp: res_simps)
  have "iocs_ok a1"
    using a1 "5.IH"(1-6) "5.prems"(2) by (cases val) (auto dest: classify_str_ok)
  with a2 show ?case using "5.IH" a1 by auto
qed (auto simp: res_simps)

definition bucket_ok :: "string \<Rightarrow> string \<Rightarrow> bool" where
  "bucket_ok k v \<longleftrightarrow>
     (k = ''ips'' \<longrightarrow> looks_like_ip v = Inr True) \<and>
     (k = ''domains'' \<longrightarrow> CHR ''.'' \<in> set v \<and> looks_like_ip v = Inr False) \<and>
     (k = ''urls'' \<longrightarrow> startswith v ''http://'' \<or> startswith v ''https://'')"


lemma extract_iocs_example:
  "extract_iocs (\<lambda>xs. xs) [(''src_ip'', JStr ''10.0.0.1''), (''dns'', JObj [(''domain'', JStr ''evil.example'')])]
     = Inr [(''ips'', JArr [JStr ''10.0.0.1'']), (''domains'', JArr [JStr ''evil.example''])]"
  by (simp add: extract_iocs_def empty_iocs_def classify_str_def ioc_dict_def lower_def looks_like_ip_def
      py_int_eval startswith_def lower_char_def is_upper_def)


text \<open>The walk goes ten levels down and no further: a payload buried under \<open>n\<close> objects.\<close>

fun buried :: "nat \<Rightarrow> jdict \<Rightarrow> jdict" where
  "buried 0 d = d"
| "buried (Suc n) d = [(''wrapper'', JObj (buried n d))]"

lemma ioc_walk_buried:
  "ioc_walk m (JObj (buried n d)) acc =
     (if m + n \<le> 10 then ioc_walk_kvs (m + n) d acc else Inr acc)"
proof (induction n arbitrary: m)
  case (Suc n)
  have r: "ebind r (ioc_walk_kvs m []) = r" for r
    by (cases r) auto
  have "ioc_walk m (JObj (buried (Suc n) d)) acc =
      (if m \<le> 10 then ioc_walk (Suc m) (JObj (buried n d)) acc else Inr acc)"
    by (subst ioc_walk.simps(1)) (simp add: r del: ioc_walk.simps(1))
  with Suc.IH[of "Suc m"] show ?case by (simp del: ioc_walk.simps(1))
qed auto

text \<open>Indicator extraction is depth-bounded: entries nested under at most ten objects are walked
  exactly as at the top level of their object, entries nested deeper contribute nothing and
  cannot raise.\<close>

theorem extract_iocs_depth:
  "extract_iocs ord (buried n d) =
     (if n \<le> 10 then ebind (ioc_walk_kvs n d empty_iocs) (\<lambda>acc. Inr (ioc_dict ord acc))
      else Inr [])"
  unfolding extract_iocs_def ioc_walk_buried
  by (simp add: ioc_dict_def empty_iocs_def)

lemma unsigned_val_long: "list_all is_digit s \<Longrightarrow> max_str_digits < length s \<Longrightarrow> unsigned_val s = None"
  by (auto simp: unsigned_val_def list_all_iff)

lemma py_int_long:
  "list_all is_digit s \<Longrightarrow> max_str_digits < length s \<Longrightarrow>
     py_int s = Inl (ValueError ''invalid literal for int()'')"
  by (subst py_int_digits) (auto simp: unsigned_val_long)

text \<open>One oversized octet aborts ingestion: when a string entry whose key contains \<open>ip\<close> is a
  dotted quad whose first octet is a run of more than 4300 decimal digits, \<open>normalize_alert\<close>
  raises \<open>ValueError\<close> instead of treating the value as no address.\<close>

theorem normalize_alert_oversized_octet:
  assumes "list_all is_digit p" and "max_str_digits < length p"
    and "length (split_on (CHR ''.'') rest) = 3" and "contains ''ip'' (lower key)"
  shows "normalize_alert ord ((key, JStr (p @ CHR ''.'' # rest)) # payload) source =
    Inl (ValueError ''invalid literal for int()'')"
proof -
  have "CHR ''.'' \<notin> set p" using assms(1) by (auto simp: list_all_iff is_digit_def)
  moreover have "p \<noteq> []" using assms(2) by auto
  ultimately have "looks_like_ip (p @ CHR ''.'' # rest) = Inl (ValueError ''invalid literal for int()'')"
    using assms(1-3) by (simp add: looks_like_ip_def split_on_append py_int_long)
  then show ?thesis
    using assms(4) by (simp add: normalize_alert_def extract_iocs_def classify_str_def Let_def)
qed

theorem normalize_alert_oversized_octet_witness:
  "normalize_alert id [(''src_ip'', JStr (replicate 5000 (CHR ''0'') @ ''.0.0.1''))] ''webhook'' =
     Inl (ValueError ''invalid literal for int()'')"
proof -
  have "list_all is_digit (replicate 5000 (CHR ''0''))"
    by (simp add: list_all_iff is_digit_def)
  moreover have "max_str_digits < length (replicate 5000 (CHR ''0''))"
    by (simp only: length_replicate max_str_digits_def)
  moreover have "length (split_on (CHR ''.'') ''0.0.1'') = 3" by simp
  moreover have "contains ''ip'' (lower ''src_ip'')"
    by (simp add: lower_def lower_char_def is_upper_def)
  ultimately show ?thesis by (rule normalize_alert_oversized_octet[where payload = "[]"])
qed

section \<open>Shape of a normalized alert\<close>

definition alert_keys :: "string list" where
  "alert_keys = [''source'', ''source_id'', ''title'', ''description'', ''severity'', ''status'',
     ''source_ip'', ''dest_ip'', ''hostname'', ''rule_name'', ''iocs'', ''tags'', ''partner'']"

text \<open>C37: A normalized alert has exactly the thirteen documented fields; its severity is one of the
  four levels, its status is \<open>new\<close>, its source is a string (the payload's \<open>source\<close> when that is a
  string, the endpoint's otherwise), and title and rule name are the same text.\<close>

theorem normalize_alert_shape:
  assumes "normalize_alert ord payload source = Inr d"
  shows "map fst d = alert_keys \<and>
    (\<exists>sev \<in> severity_levels. dget d ''severity'' = JStr sev) \<and>
    dget d ''status'' = JStr ''new'' \<and>
    dget d ''source'' =
      (case dget payload ''source'' of JStr t \<Rightarrow> JStr t | _ \<Rightarrow> JStr source) \<and>
    dget d ''title'' = JStr (py_str (title_of payload)) \<and>
    dget d ''rule_name'' = dget d ''title''"
proof -
  have "(if is_str (extract_field payload [''source''] (JStr source))
      then extract_field payload [''source''] (JStr source) else JStr source) =
      (case dget payload ''source'' of JStr t \<Rightarrow> JStr t | _ \<Rightarrow> JStr source)"
    by (cases "dget payload ''source''") (auto simp: Let_def)
  with assms show ?thesis
    using normalize_severity_level[of "raw_severity_of payload"]
    by (auto simp: normalize_alert_def Let_def res_simps alert_keys_def dget_def)
qed

theorem normalize_alert_shape_witness:
  "\<exists>d. normalize_alert id [(''title'', JStr ''x''), (''source'', JObj [(''ip'', JStr ''10.0.0.7'')])]
        ''elastic'' = Inr d \<and> map fst d = alert_keys \<and> dget d ''source'' = JStr ''elastic''"
proof -
  let ?p = "[(''title'', JStr ''x''), (''source'', JObj [(''ip'', JStr ''10.0.0.7'')])]"
  have "\<exists>d. normalize_alert id ?p ''elastic'' = Inr d"
    by (simp add: normalize_alert_def extract_iocs_def classify_str_def looks_like_ip_def
        py_int_eval lower_def lower_char_def is_upper_def Let_def)
  then obtain d where d: "normalize_alert id ?p ''elastic'' = Inr d" by blast
  with normalize_alert_shape[OF d] show ?thesis
    by (intro exI[of _ d]) (simp add: dget_def[of ?p])
qed

end
