(* ===== verification/Observability.thy ===== *)
theory Observability
  imports Prelude
begin

text \<open>
  \<open>opensoar/logging_context.py\<close> and \<open>opensoar/middleware/metrics.py\<close>: the correlation-id context
  variable and the Prometheus counters.

  A counter is the association list from label tuples to counts, in the order of first use; the
  histogram keeps the observations per playbook. The context variable is an optional identifier.
\<close>

section \<open>Correlation identifiers\<close>

type_synonym cid_ctx = "uuid option"

definition set_correlation_id :: "uuid option \<Rightarrow> cid_ctx \<Rightarrow> uuid option \<times> cid_ctx" where
  "set_correlation_id cid ctx = (case cid of None \<Rightarrow> (None, None) | Some value \<Rightarrow> (Some value, Some value))"

text \<open>\<open>fresh\<close> is what \<open>uuid4()\<close> returns.\<close>

definition ensure_correlation_id :: "uuid \<Rightarrow> cid_ctx \<Rightarrow> uuid \<times> cid_ctx" where
  "ensure_correlation_id fresh ctx = (case ctx of Some current \<Rightarrow> (current, ctx) | None \<Rightarrow> (fresh, Some fresh))"

definition correlation_label :: "(uuid \<Rightarrow> string) \<Rightarrow> cid_ctx \<Rightarrow> string" where
  "correlation_label str_of ctx = (case ctx of None \<Rightarrow> ''-'' | Some cid \<Rightarrow> str_of cid)"

section \<open>Metrics\<close>

type_synonym 'l counter = "('l \<times> nat) list"

definition count_of :: "'l counter \<Rightarrow> 'l \<Rightarrow> nat" where
  "count_of c l = (case map_of c l of None \<Rightarrow> 0 | Some n \<Rightarrow> n)"

definition inc :: "'l \<Rightarrow> 'l counter \<Rightarrow> 'l counter" where
  "inc l c = AList.update l (Suc (count_of c l)) c"

lemma count_of_inc [simp]: "count_of (inc l c) l' = count_of c l' + (if l' = l then 1 else 0)"
  by (simp add: count_of_def inc_def)

lemma count_of_Nil [simp]: "count_of [] l = 0"
  by (simp add: count_of_def)

record metrics =
  mx_http :: "(string \<times> string \<times> int) counter"
  mx_alerts :: "string counter"
  mx_runs :: "(string \<times> string) counter"
  mx_durations :: "(string \<times> int list) list"
  mx_skips :: "string counter"

definition reset_metrics :: "metrics \<Rightarrow> metrics" where
  "reset_metrics m = \<lparr>mx_http = [], mx_alerts = [], mx_runs = [], mx_durations = [], mx_skips = []\<rparr>"

definition record_http_request :: "string \<Rightarrow> string \<Rightarrow> int \<Rightarrow> metrics \<Rightarrow> metrics" where
  "record_http_request meth path status m = m\<lparr>mx_http := inc (meth, path, status) (mx_http m)\<rparr>"

definition record_alert_ingested :: "string \<Rightarrow> metrics \<Rightarrow> metrics" where
  "record_alert_ingested source m = m\<lparr>mx_alerts := inc source (mx_alerts m)\<rparr>"

definition record_playbook_run :: "string \<Rightarrow> string \<Rightarrow> int \<Rightarrow> metrics \<Rightarrow> metrics" where
  "record_playbook_run name status duration m =
     m\<lparr>mx_runs := inc (name, status) (mx_runs m),
       mx_durations := AList.update name
         ((case map_of (mx_durations m) name of None \<Rightarrow> [] | Some ds \<Rightarrow> ds) @ [duration])
         (mx_durations m)\<rparr>"

definition record_enrichment_cache_skip :: "string \<Rightarrow> metrics \<Rightarrow> metrics" where
  "record_enrichment_cache_skip obs_type m = m\<lparr>mx_skips := inc obs_type (mx_skips m)\<rparr>"

text \<open>\<open>MetricsMiddleware.dispatch\<close>: the downstream handler answers with a status or raises; a raised
  exception is counted as status 500, and the scrape path is not counted.\<close>

definition metrics_dispatch :: "string \<Rightarrow> string \<Rightarrow> (exn + int) \<Rightarrow> metrics \<Rightarrow> (exn + int) \<times> metrics" where
  "metrics_dispatch meth path downstream m =
     (if path = ''/metrics'' then (downstream, m)
      else (downstream, record_http_request meth path
              (case downstream of Inl _ \<Rightarrow> 500 | Inr status \<Rightarrow> status) m))"

lemma metrics_dispatch_counts:
  "count_of (mx_http (snd (metrics_dispatch meth path r m))) l =
     count_of (mx_http m) l +
     (if path \<noteq> ''/metrics'' \<and> l = (meth, path, case r of Inl _ \<Rightarrow> 500 | Inr s \<Rightarrow> s) then 1 else 0)"
  by (auto simp: metrics_dispatch_def record_http_request_def)

lemma runs_count_record [simp]:
  "count_of (mx_runs (record_playbook_run n s t m)) l = count_of (mx_runs m) l + (if l = (n, s) then 1 else 0)"
  by (simp add: record_playbook_run_def)

end
