(* ===== verification/Decorators.thy ===== *)
theory Decorators
  imports Json Complex_Main
begin

text \<open>
  \<open>opensoar/core/decorators.py\<close>: the \<open>@action\<close> wrapper (attempts, timeout, exponential backoff,
  one recorded outcome) and the \<open>@playbook\<close> decorator, which fills the process-wide registry.

  User code is an oracle: \<open>func k\<close> is what \<open>asyncio.wait_for(func(...))\<close> does on attempt \<open>k\<close>, and
  \<open>recd r\<close> is what storing the action record \<open>r\<close> does (\<open>None\<close>: stored; \<open>Some e\<close>: raises \<open>e\<close>). The
  clock is \<open>now k\<close>. The wrapper returns the outcome together with the trace of its effects.
\<close>

section \<open>Metadata\<close>

record action_meta =
  am_name :: string
  am_timeout :: int
  am_retries :: int
  am_retry_backoff :: rat
  am_description :: string

record playbook_meta =
  pm_name :: string
  pm_trigger :: "string option"
  pm_conditions :: jdict
  pm_description :: string
  pm_enabled :: bool
  pm_order :: int
  pm_priority :: string

record registered_playbook =
  rp_meta :: playbook_meta
  rp_func :: string
  rp_module :: string

type_synonym registry = "(string \<times> registered_playbook) list"

section \<open>The action wrapper\<close>

record action_record =
  rc_action_name :: string
  rc_status :: string
  rc_started_at :: time
  rc_finished_at :: time
  rc_output_data :: "jdict option"
  rc_error :: "string option"
  rc_attempt :: int

datatype action_event =
    Called nat
  | Slept rat
  | Recorded action_record
  | RecordFailed exn

fun exn_str :: "exn \<Rightarrow> string" where
  "exn_str (HTTPException c d) = show_int c @ '': '' @ d"
| "exn_str (ValueError s) = s"
| "exn_str (RuntimeError s) = s"
| "exn_str (KeyError s) = repr_str s"
| "exn_str (TypeError s) = s"
| "exn_str (AttributeError s) = s"
| "exn_str (ImportError s) = s"
| "exn_str (OSError s) = s"
| "exn_str (TimeoutError s) = s"
| "exn_str (SQLAlchemyError s) = s"
| "exn_str MultipleResultsFound = ''Multiple rows were found when one or none was required''"
| "exn_str (IntegrityError s) = s"
| "exn_str CancelledError = []"
| "exn_str SystemExit = []"
| "exn_str (OtherError s) = s"

fun is_TimeoutError :: "exn \<Rightarrow> bool" where
  "is_TimeoutError (TimeoutError _) = True"
| "is_TimeoutError _ = False"

fun as_output :: "json \<Rightarrow> jdict" where
  "as_output (JObj d) = d"
| "as_output v = [(''result'', v)]"

definition success_record :: "action_meta \<Rightarrow> time \<Rightarrow> time \<Rightarrow> json \<Rightarrow> nat \<Rightarrow> action_record" where
  "success_record meta started finished result attempt =
     \<lparr>rc_action_name = am_name meta, rc_status = ''success'', rc_started_at = started,
      rc_finished_at = finished, rc_output_data = Some (as_output result), rc_error = None,
      rc_attempt = int attempt\<rparr>"

definition failed_record :: "action_meta \<Rightarrow> time \<Rightarrow> time \<Rightarrow> string \<Rightarrow> nat \<Rightarrow> action_record" where
  "failed_record meta started finished err attempt =
     \<lparr>rc_action_name = am_name meta, rc_status = ''failed'', rc_started_at = started,
      rc_finished_at = finished, rc_output_data = None, rc_error = Some err,
      rc_attempt = int attempt\<rparr>"

definition last_error_of :: "action_meta \<Rightarrow> exn \<Rightarrow> string" where
  "last_error_of meta e =
     (if is_TimeoutError e then ''Timeout after '' @ show_int (am_timeout meta) @ ''s'' else exn_str e)"

text \<open>The \<open>try\<close> body of one attempt: call, then record the success (when the context records).\<close>

definition attempt_body ::
  "action_meta \<Rightarrow> (nat \<Rightarrow> exn + json) \<Rightarrow> (action_record \<Rightarrow> exn option) option \<Rightarrow> (nat \<Rightarrow> time) \<Rightarrow>
   nat \<Rightarrow> (exn + json) \<times> action_event list" where
  "attempt_body meta func recd now k =
     (case func k of
        Inl e \<Rightarrow> (Inl e, [Called k])
      | Inr result \<Rightarrow>
          (case recd of
             None \<Rightarrow> (Inr result, [Called k])
           | Some store \<Rightarrow>
               (let r = success_record meta (now 0) (now k) result k
                in case store r of
                     None \<Rightarrow> (Inr result, [Called k, Recorded r])
                   | Some e \<Rightarrow> (Inl e, [Called k, RecordFailed e]))))"

text \<open>
  The loop over \<open>range(1, retries + 2)\<close>: both \<open>except\<close> clauses sleep and continue while attempts
  are left, else record the failure and re-raise; anything that is no \<open>Exception\<close> propagates.
\<close>

fun action_loop ::
  "action_meta \<Rightarrow> (nat \<Rightarrow> exn + json) \<Rightarrow> (action_record \<Rightarrow> exn option) option \<Rightarrow> (nat \<Rightarrow> time) \<Rightarrow>
   nat list \<Rightarrow> (exn + json) \<times> action_event list" where
  "action_loop meta func recd now [] =
     (Inl (RuntimeError (''Action '' @ am_name meta @ '' failed after '' @
        show_int (am_retries meta + 1) @ '' attempts'')), [])"
| "action_loop meta func recd now (k # ks) =
     (case attempt_body meta func recd now k of
        (Inr v, evs) \<Rightarrow> (Inr v, evs)
      | (Inl e, evs) \<Rightarrow>
          (if \<not> is_Exception e then (Inl e, evs)
           else if int k \<le> am_retries meta then
             (let (res, evs') = action_loop meta func recd now ks
              in (res, evs @ Slept (am_retry_backoff meta ^ k) # evs'))
           else
             (case recd of
                None \<Rightarrow> (Inl e, evs)
              | Some store \<Rightarrow>
                  (let r = failed_record meta (now 0) (now k) (last_error_of meta e) k
                   in case store r of
                        None \<Rightarrow> (Inl e, evs @ [Recorded r])
                      | Some e' \<Rightarrow> (Inl e', evs @ [RecordFailed e'])))))"

definition attempts_of :: "action_meta \<Rightarrow> nat list" where
  "attempts_of meta = [1 ..< nat (am_retries meta + 2)]"

text \<open>Without an execution context the function is awaited directly: no timeout, no retry.\<close>

definition action_wrapper ::
  "action_meta \<Rightarrow> (action_record \<Rightarrow> exn option) option option \<Rightarrow> (exn + json) \<Rightarrow>
   (nat \<Rightarrow> exn + json) \<Rightarrow> (nat \<Rightarrow> time) \<Rightarrow> (exn + json) \<times> action_event list" where
  "action_wrapper meta ctx direct func now =
     (case ctx of
        None \<Rightarrow> (direct, [Called 1])
      | Some recd \<Rightarrow> action_loop meta func recd now (attempts_of meta))"

definition action_decorator ::
  "string \<Rightarrow> string option \<Rightarrow> int \<Rightarrow> int \<Rightarrow> rat \<Rightarrow> string \<Rightarrow> action_meta" where
  "action_decorator func_name name timeout retries retry_backoff description =
     \<lparr>am_name = (case name of Some n \<Rightarrow> if n \<noteq> [] then n else func_name | None \<Rightarrow> func_name),
      am_timeout = timeout, am_retries = retries, am_retry_backoff = retry_backoff,
      am_description = description\<rparr>"

section \<open>The playbook decorator\<close>

definition valid_playbook_priorities :: "string list" where
  "valid_playbook_priorities = [''high'', ''default'', ''low'']"

record playbook_args =
  pa_func :: string
  pa_trigger :: "string option"
  pa_conditions :: "jdict option"
  pa_description :: string
  pa_name :: "string option"
  pa_order :: int
  pa_priority :: string

definition playbook_decorator ::
  "string \<Rightarrow> playbook_args \<Rightarrow> registry \<Rightarrow> exn + registry" where
  "playbook_decorator module_name args reg =
     (if pa_priority args \<notin> set valid_playbook_priorities
      then Inl (ValueError (''Invalid playbook priority '' @ repr_str (pa_priority args)))
      else
        (let meta = \<lparr>pm_name = (case pa_name args of
                         Some n \<Rightarrow> if n \<noteq> [] then n else pa_func args | None \<Rightarrow> pa_func args),
                     pm_trigger = pa_trigger args,
                     pm_conditions = (case pa_conditions args of None \<Rightarrow> [] | Some c \<Rightarrow> c),
                     pm_description = pa_description args,
                     pm_enabled = True,
                     pm_order = pa_order args,
                     pm_priority = pa_priority args\<rparr>
         in Inr (AList.update (pm_name meta)
              \<lparr>rp_meta = meta, rp_func = pa_func args, rp_module = module_name\<rparr> reg)))"

section \<open>What the wrapper does\<close>

text \<open>The trace of the attempts before attempt \<open>k\<close>: every one called and slept off.\<close>

definition failed_prefix :: "action_meta \<Rightarrow> nat \<Rightarrow> nat \<Rightarrow> action_event list" where
  "failed_prefix meta i k = concat (map (\<lambda>j. [Called j, Slept (am_retry_backoff meta ^ j)]) [i ..< k])"

lemma failed_prefix_step: "i < k \<Longrightarrow> failed_prefix meta i k =
    Called i # Slept (am_retry_backoff meta ^ i) # failed_prefix meta (Suc i) k"
  by (simp add: failed_prefix_def upt_conv_Cons)

lemma failed_prefix_refl [simp]: "failed_prefix meta k k = []"
  by (simp add: failed_prefix_def)

lemma action_loop_success:
  assumes "i \<le> k" and "k < n" and "int n = am_retries meta + 2"
    and "\<And>j. i \<le> j \<Longrightarrow> j < k \<Longrightarrow> \<exists>e. func j = Inl e \<and> is_Exception e"
    and "func k = Inr v" and "store (success_record meta (now 0) (now k) v k) = None"
  shows "action_loop meta func (Some store) now [i ..< n] =
    (Inr v, failed_prefix meta i k @ [Called k, Recorded (success_record meta (now 0) (now k) v k)])"
  using assms
proof (induction "k - i" arbitrary: i)
  case 0
  then have "i = k" by simp
  with 0 show ?case by (simp add: upt_conv_Cons attempt_body_def Let_def)
next
  case (Suc m)
  then have ik: "i < k" by simp
  with Suc.prems(4)[of i] obtain e where e: "func i = Inl e" "is_Exception e" by auto
  have "m = k - Suc i" using Suc.hyps(2) by simp
  from Suc.hyps(1)[OF this] ik Suc.prems
  have "action_loop meta func (Some store) now [Suc i ..< n] =
      (Inr v, failed_prefix meta (Suc i) k @ [Called k, Recorded (success_record meta (now 0) (now k) v k)])"
    by simp
  with ik e Suc.prems(2,3) show ?case
    by (simp add: upt_conv_Cons attempt_body_def failed_prefix_step)
qed

lemma action_loop_failure:
  assumes "i < n" and "int n = am_retries meta + 2"
    and "\<And>j. i \<le> j \<Longrightarrow> j < n \<Longrightarrow> \<exists>e. func j = Inl e \<and> is_Exception e"
    and "func (n - 1) = Inl e"
    and "store (failed_record meta (now 0) (now (n - 1)) (last_error_of meta e) (n - 1)) = None"
  shows "action_loop meta func (Some store) now [i ..< n] =
    (Inl e, failed_prefix meta i (n - 1) @ [Called (n - 1),
       Recorded (failed_record meta (now 0) (now (n - 1)) (last_error_of meta e) (n - 1))])"
  using assms
proof (induction "n - i" arbitrary: i)
  case (Suc m)
  show ?case
  proof (cases "Suc i = n")
    case True
    with Suc.prems(3)[of i] obtain e' where "func i = Inl e'" "is_Exception e'" by auto
    with True Suc.prems(2,4,5) show ?thesis
      by (auto simp: upt_conv_Cons attempt_body_def Let_def)
  next
    case False
    with Suc.prems(1) have lt: "Suc i < n" by simp
    from Suc.prems(3)[of i] Suc.prems(1) obtain e' where e': "func i = Inl e'" "is_Exception e'" by auto
    have "m = n - Suc i" using Suc.hyps(2) by simp
    from Suc.hyps(1)[OF this lt] Suc.prems
    have "action_loop meta func (Some store) now [Suc i ..< n] =
      (Inl e, failed_prefix meta (Suc i) (n - 1) @ [Called (n - 1),
       Recorded (failed_record meta (now 0) (now (n - 1)) (last_error_of meta e) (n - 1))])"
      by simp
    moreover have "i < n - 1" using lt by simp
    ultimately show ?thesis using e' Suc.prems(1,2) lt
      by (simp add: upt_conv_Cons attempt_body_def failed_prefix_step)
  qed
qed simp

text \<open>Retry semantics of \<open>@action\<close>: with \<open>retries \<ge> 0\<close>, storable records and ordinary exceptions,
  the first successful attempt among \<open>retries + 1\<close> decides; every attempt before it was called
  once and slept off with \<open>backoff ^ attempt\<close>, and exactly one record is written, with the number
  of the deciding attempt; if none succeeds the last exception is re-raised after one failure record.\<close>

theorem action_wrapper_spec:
  assumes "0 \<le> am_retries meta" and "\<forall>r. store r = None"
    and "\<forall>k e. func k = Inl e \<longrightarrow> is_Exception e"
  shows "action_wrapper meta (Some (Some store)) direct func now =
    (let n = nat (am_retries meta + 1)
     in case find (\<lambda>k. \<not> isl (func k)) [1 ..< Suc n] of
          Some k \<Rightarrow> (func k, failed_prefix meta 1 k @
            [Called k, Recorded (success_record meta (now 0) (now k) (projr (func k)) k)])
        | None \<Rightarrow> (func n, failed_prefix meta 1 n @
            [Called n, Recorded (failed_record meta (now 0) (now n)
               (last_error_of meta (projl (func n))) n)]))"
proof -
  define n where "n = nat (am_retries meta + 1)"
  have n: "int (Suc n) = am_retries meta + 2" "1 < Suc n" "attempts_of meta = [1 ..< Suc n]"
    using assms(1) by (auto simp: n_def attempts_of_def) (simp_all add: nat_add_distrib)
  have fails: "\<exists>e. func j = Inl e \<and> is_Exception e" if "isl (func j)" for j
    using that assms(3) by (metis isl_def)
  show ?thesis
  proof (cases "find (\<lambda>k. \<not> isl (func k)) [1 ..< Suc n]")
    case None
    then have all: "isl (func j)" if "1 \<le> j" "j < Suc n" for j
      using that by (auto simp: find_None_iff)
    obtain e where e: "func n = Inl e" using all[of n] n(2) by (auto simp: isl_def)
    have "action_loop meta func (Some store) now [1 ..< Suc n] =
      (Inl e, failed_prefix meta 1 (Suc n - 1) @ [Called (Suc n - 1),
       Recorded (failed_record meta (now 0) (now (Suc n - 1)) (last_error_of meta e) (Suc n - 1))])"
      using n(2,1) all fails e assms(2) by (intro action_loop_failure) auto
    with None e n(3) show ?thesis by (simp add: action_wrapper_def n_def Let_def)
  next
    case (Some k)
    then obtain i where i: "i < n" "k = Suc i" "\<not> isl (func k)"
      and before: "\<And>j. j < i \<Longrightarrow> isl (func (Suc j))"
      by (auto simp: find_Some_iff simp del: upt_Suc)
    then obtain v where v: "func k = Inr v" by (cases "func k") auto
    have pre: "isl (func j)" if "1 \<le> j" "j < k" for j
      using before[of "j - 1"] that i(2) by simp
    have "action_loop meta func (Some store) now [1 ..< Suc n] =
      (Inr v, failed_prefix meta 1 k @ [Called k, Recorded (success_record meta (now 0) (now k) v k)])"
      using n(1) i(1,2) pre fails v assms(2) by (intro action_loop_success) auto
    with Some v n(3) show ?thesis by (simp add: action_wrapper_def n_def Let_def)
  qed
qed

theorem action_wrapper_spec_witness:
  "action_wrapper \<lparr>am_name = ''a'', am_timeout = 30, am_retries = 2, am_retry_backoff = 2,
       am_description = []\<rparr> (Some (Some (\<lambda>_. None))) (Inr JNull)
     (\<lambda>k. if k < 2 then Inl (OSError ''down'') else Inr (JInt 1)) (\<lambda>k. int k) =
   (Inr (JInt 1), [Called 1, Slept 2, Called 2,
      Recorded \<lparr>rc_action_name = ''a'', rc_status = ''success'', rc_started_at = 0,
        rc_finished_at = 2, rc_output_data = Some [(''result'', JInt 1)], rc_error = None,
        rc_attempt = 2\<rparr>])"
  (is "action_wrapper ?m (Some (Some ?st)) ?d ?f ?now = _")
proof -
  have h: "0 \<le> am_retries ?m" "\<forall>r. ?st r = None" "\<forall>k e. ?f k = Inl e \<longrightarrow> is_Exception e" by auto
  show ?thesis
    unfolding action_wrapper_spec[OF h]
    by (simp add: failed_prefix_def success_record_def upt_conv_Cons numeral_3_eq_3)
qed

fun call_numbers :: "action_event list \<Rightarrow> nat list" where
  "call_numbers [] = []"
| "call_numbers (Called k # evs) = k # call_numbers evs"
| "call_numbers (_ # evs) = call_numbers evs"

fun records_of :: "action_event list \<Rightarrow> action_record list" where
  "records_of [] = []"
| "records_of (Recorded r # evs) = r # records_of evs"
| "records_of (_ # evs) = records_of evs"

lemma call_numbers_append [simp]: "call_numbers (a @ b) = call_numbers a @ call_numbers b"
  by (induction a rule: call_numbers.induct) auto

lemma records_of_append [simp]: "records_of (a @ b) = records_of a @ records_of b"
  by (induction a rule: records_of.induct) auto

lemma attempt_body_trace:
  "attempt_body meta func recd now k = (res, evs) \<Longrightarrow>
     call_numbers evs = [k] \<and> (isl res \<longrightarrow> records_of evs = []) \<and> length (records_of evs) \<le> 1"
  by (cases "func k") (auto simp: attempt_body_def isl_def Let_def split: option.splits)

lemma action_loop_trace:
  "prefix (call_numbers (snd (action_loop meta func recd now ks))) ks \<and>
   length (records_of (snd (action_loop meta func recd now ks))) \<le> 1"
proof (induction ks)
  case (Cons k ks)
  obtain res evs where b: "attempt_body meta func recd now k = (res, evs)" by fastforce
  obtain res' evs' where l: "action_loop meta func recd now ks = (res', evs')" by fastforce
  from attempt_body_trace[OF b] Cons.IH b l show ?case
    by (auto simp: Let_def split: sum.splits option.splits)
qed simp

text \<open>Whatever the wrapped function and the recorder do, attempts are numbered consecutively from 1,
  there are at most \<open>retries + 1\<close> of them, and at most one action record is stored.\<close>

theorem action_wrapper_bounded:
  "prefix (call_numbers (snd (action_wrapper meta (Some recd) direct func now)))
     [1 ..< nat (am_retries meta + 2)] \<and>
   length (records_of (snd (action_wrapper meta (Some recd) direct func now))) \<le> 1"
  using action_loop_trace[of meta func recd now "attempts_of meta"]
  by (simp add: action_wrapper_def attempts_of_def)

text \<open>Recording happens inside the \<open>try\<close>: when the call succeeds but storing its success record
  raises and a retry is left, the action that already succeeded is executed a second time.\<close>

theorem action_rerun_after_success:
  assumes "func 1 = Inr v" and "1 \<le> am_retries meta"
    and "store (success_record meta (now 0) (now 1) v 1) = Some e" and "is_Exception e"
  shows "prefix [1, 2] (call_numbers (snd (action_wrapper meta (Some (Some store)) direct func now)))"
proof -
  have a: "attempts_of meta = 1 # 2 # [3 ..< nat (am_retries meta + 2)]"
    using assms(2) by (simp add: attempts_of_def upt_conv_Cons numeral_3_eq_3 numeral_2_eq_2)
  obtain res evs where b: "attempt_body meta func (Some store) now 2 = (res, evs)" by fastforce
  have c: "call_numbers evs = [2]" using attempt_body_trace[OF b] by simp
  obtain r' e' where l: "action_loop meta func (Some store) now [3 ..< nat (am_retries meta + 2)] = (r', e')"
    by fastforce
  have "attempt_body meta func (Some store) now 1 = (Inl e, [Called 1, RecordFailed e])"
    using assms(1,3) by (simp add: attempt_body_def)
  with assms(2,4) b c l show ?thesis
    by (auto simp: action_wrapper_def a Let_def split: sum.splits option.splits)
qed

theorem action_rerun_after_success_witness:
  "prefix [1, 2] (call_numbers (snd (action_wrapper \<lparr>am_name = ''block_ip'', am_timeout = 30,
      am_retries = 1, am_retry_backoff = 1, am_description = []\<rparr>
      (Some (Some (\<lambda>_. Some (SQLAlchemyError ''connection lost'')))) (Inr JNull)
      (\<lambda>k. Inr (JStr ''blocked'')) (\<lambda>k. 0))))"
  by (rule action_rerun_after_success) auto

section \<open>What the playbook decorator does\<close>

text \<open>Registering a playbook under a valid priority makes it the entry of its name, enabled, and
  leaves every other entry alone; an invalid priority raises and registers nothing. Names stay
  unique in the registry.\<close>

theorem playbook_decorator_registers:
  assumes "playbook_decorator m args reg = Inr reg'" and "distinct (map fst reg)"
  shows "pa_priority args \<in> {''high'', ''default'', ''low''} \<and> distinct (map fst reg') \<and>
     (\<exists>pb. map_of reg' = (map_of reg)(pm_name (rp_meta pb) \<mapsto> pb) \<and>
        pm_enabled (rp_meta pb) \<and> pm_priority (rp_meta pb) = pa_priority args \<and>
        rp_func pb = pa_func args)"
proof -
  define pb where "pb = \<lparr>rp_meta = \<lparr>pm_name = (case pa_name args of
        Some n \<Rightarrow> if n \<noteq> [] then n else pa_func args | None \<Rightarrow> pa_func args),
      pm_trigger = pa_trigger args,
      pm_conditions = (case pa_conditions args of None \<Rightarrow> [] | Some c \<Rightarrow> c),
      pm_description = pa_description args, pm_enabled = True, pm_order = pa_order args,
      pm_priority = pa_priority args\<rparr>, rp_func = pa_func args, rp_module = m\<rparr>"
  have reg': "reg' = AList.update (pm_name (rp_meta pb)) pb reg"
    and prio: "pa_priority args \<in> set valid_playbook_priorities"
    using assms(1) by (auto simp: playbook_decorator_def pb_def Let_def split: if_splits)
  have "map_of reg' = (map_of reg)(pm_name (rp_meta pb) \<mapsto> pb)" by (simp add: reg')
  then show ?thesis
    using prio assms(2) by (auto simp: valid_playbook_priorities_def reg' distinct_update
        intro!: exI[of _ pb]) (simp_all add: pb_def)
qed

theorem playbook_decorator_registers_witness:
  "\<exists>reg'. playbook_decorator ''playbooks.triage'' \<lparr>pa_func = ''triage'', pa_trigger = Some ''webhook'',
      pa_conditions = None, pa_description = [], pa_name = None, pa_order = 10,
      pa_priority = ''high''\<rparr> [] = Inr reg' \<and> distinct (map fst reg') \<and> reg' \<noteq> []"
  (is "\<exists>reg'. playbook_decorator ?m ?a [] = Inr reg' \<and> _")
proof -
  obtain reg' where r: "playbook_decorator ?m ?a [] = Inr reg'"
    by (simp add: playbook_decorator_def valid_playbook_priorities_def Let_def)
  from playbook_decorator_registers[OF r] r show ?thesis
    by (auto simp: playbook_decorator_def valid_playbook_priorities_def Let_def)
qed

end
