(* ===== verification/Tables.thy ===== *)
theory Tables
  imports Json
begin

text \<open>
  The rows of \<open>opensoar/models/*.py\<close> and the database they live in.

  A table is the list of its rows in insertion order and \<open>db\<close> holds the tables together with the
  next fresh identifier (\<open>uuid4\<close>). Row columns are the mapped columns, without \<open>updated_at\<close>
  where no modelled code reads it; a JSONB list holds JSON null as \<open>None\<close>. A request handler is a function of the database: on an
  exception the session is closed without a commit, so the caller keeps the old database.

  The database itself is not under \<open>src/\<close>; the primitives below state what the handlers use of
  it: \<open>select ... where\<close> is a filter, \<open>scalar_one_or_none\<close> raises on more than one row, a
  \<open>NOT NULL\<close> column refuses null and a foreign key without an \<open>ON DELETE\<close> action refuses the
  deletion of a referenced row.
\<close>

section \<open>Rows\<close>

record alert =
  al_id :: uuid
  al_created_at :: time
  al_source :: string
  al_source_id :: "string option"
  al_title :: string
  al_description :: "string option"
  al_severity :: string
  al_status :: string
  al_raw_payload :: jdict
  al_normalized :: jdict
  al_correlation_id :: "uuid option"
  al_source_ip :: "string option"
  al_dest_ip :: "string option"
  al_hostname :: "string option"
  al_rule_name :: "string option"
  al_iocs :: "jdict option"
  al_tags :: "string list option"
  al_partner :: "string option"
  al_determination :: string
  al_resolved_at :: "time option"
  al_resolve_reason :: "string option"
  al_assigned_to :: "uuid option"
  al_assigned_username :: "string option"
  al_duplicate_count :: int
  al_archived_at :: "time option"

record incident =
  in_id :: uuid
  in_created_at :: time
  in_title :: string
  in_description :: "string option"
  in_severity :: string
  in_status :: string
  in_assigned_to :: "uuid option"
  in_assigned_username :: "string option"
  in_tags :: "string list option"
  in_closed_at :: "time option"
  in_archived_at :: "time option"

record incident_alert =
  ia_id :: uuid
  ia_incident_id :: uuid
  ia_alert_id :: uuid

record incident_template =
  it_id :: uuid
  it_created_at :: time
  it_name :: string
  it_description :: "string option"
  it_default_severity :: string
  it_default_tags :: "string list option"
  it_playbook_ids :: "string list option"
  it_observable_types :: "string list option"
  it_tenant_id :: "uuid option"

record activity =
  ac_id :: uuid
  ac_created_at :: time
  ac_updated_at :: time
  ac_alert_id :: "uuid option"
  ac_incident_id :: "uuid option"
  ac_analyst_id :: "uuid option"
  ac_action :: string
  ac_detail :: "string option"
  ac_metadata_json :: "jdict option"
  ac_analyst_username :: "string option"
  ac_mentions :: "string list option"
  ac_archived_at :: "time option"

record analyst =
  an_id :: uuid
  an_username :: string
  an_display_name :: string
  an_email :: "string option"
  an_password_hash :: "string option"
  an_is_active :: bool
  an_role :: string

record api_key =
  ak_id :: uuid
  ak_name :: string
  ak_key_hash :: string
  ak_prefix :: string
  ak_is_active :: bool
  ak_last_used_at :: "time option"
  ak_expires_at :: "time option"

record observable =
  ob_id :: uuid
  ob_created_at :: time
  ob_type :: string
  ob_value :: string
  ob_source :: "string option"
  ob_enrichment_status :: string
  ob_enrichments :: "jdict list"
  ob_tags :: "string list option"
  ob_alert_id :: "uuid option"
  ob_incident_id :: "uuid option"

record playbook_definition =
  pd_id :: uuid
  pd_name :: string
  pd_description :: "string option"
  pd_partner :: "string option"
  pd_tenant_id :: "uuid option"
  pd_module_path :: string
  pd_function_name :: string
  pd_trigger_type :: "string option"
  pd_trigger_config :: jdict
  pd_enabled :: bool
  pd_execution_order :: int
  pd_version :: int

record playbook_run =
  pr_id :: uuid
  pr_created_at :: time
  pr_playbook_id :: uuid
  pr_alert_id :: "uuid option"
  pr_status :: string
  pr_started_at :: "time option"
  pr_finished_at :: "time option"
  pr_error :: "string option"
  pr_result :: "jdict option"
  pr_sequence_id :: "uuid option"
  pr_sequence_position :: "int option"
  pr_sequence_total :: "int option"
  pr_correlation_id :: "uuid option"

record action_result =
  ar_id :: uuid
  ar_run_id :: uuid
  ar_action_name :: string
  ar_status :: string
  ar_started_at :: "time option"
  ar_finished_at :: "time option"
  ar_duration_ms :: "int option"
  ar_output_data :: "jdict option"
  ar_error :: "string option"
  ar_attempt :: int
  ar_correlation_id :: "uuid option"

record integration_instance =
  ii_id :: uuid
  ii_integration_type :: string
  ii_name :: string
  ii_partner :: "string option"
  ii_tenant_id :: "uuid option"
  ii_config :: jdict
  ii_enabled :: bool
  ii_health_status :: "string option"
  ii_last_health_check :: "time option"

record db =
  db_next_id :: uuid
  db_alerts :: "alert list"
  db_incidents :: "incident list"
  db_incident_alerts :: "incident_alert list"
  db_templates :: "incident_template list"
  db_activities :: "activity list"
  db_analysts :: "analyst list"
  db_api_keys :: "api_key list"
  db_observables :: "observable list"
  db_playbooks :: "playbook_definition list"
  db_runs :: "playbook_run list"
  db_action_results :: "action_result list"
  db_integrations :: "integration_instance list"

definition empty_db :: db where
  "empty_db = \<lparr>db_next_id = 0, db_alerts = [], db_incidents = [], db_incident_alerts = [],
     db_templates = [], db_activities = [], db_analysts = [], db_api_keys = [],
     db_observables = [], db_playbooks = [], db_runs = [], db_action_results = [],
     db_integrations = []\<rparr>"

section \<open>Selecting and updating rows\<close>

fun scalar_one_or_none :: "'a list \<Rightarrow> exn + 'a option" where
  "scalar_one_or_none [] = Inr None"
| "scalar_one_or_none [x] = Inr (Some x)"
| "scalar_one_or_none (x # y # xs) = Inl MultipleResultsFound"

text \<open>\<open>select(T).where(...)\<close> followed by \<open>scalar_one_or_none()\<close>; \<open>fetch_or\<close> adds the usual
  \<open>if not row: raise\<close>.\<close>

definition fetch :: "('a \<Rightarrow> bool) \<Rightarrow> 'a list \<Rightarrow> exn + 'a option" where
  "fetch p rows = scalar_one_or_none (filter p rows)"

definition fetch_or :: "exn \<Rightarrow> ('a \<Rightarrow> bool) \<Rightarrow> 'a list \<Rightarrow> exn + 'a" where
  "fetch_or e p rows =
     ebind (fetch p rows) (\<lambda>r. case r of None \<Rightarrow> Inl e | Some x \<Rightarrow> Inr x)"

text \<open>The rows whose key is \<open>i\<close>, rewritten in place (a flush of one changed instance).\<close>

definition update_where :: "('a \<Rightarrow> bool) \<Rightarrow> ('a \<Rightarrow> 'a) \<Rightarrow> 'a list \<Rightarrow> 'a list" where
  "update_where p f rows = map (\<lambda>r. if p r then f r else r) rows"

lemma scalar_one_or_none_eq_Some [res_simps]:
  "scalar_one_or_none xs = Inr (Some x) \<longleftrightarrow> xs = [x]"
  by (cases xs rule: scalar_one_or_none.cases) auto

lemma scalar_one_or_none_eq_None [res_simps]:
  "scalar_one_or_none xs = Inr None \<longleftrightarrow> xs = []"
  by (cases xs rule: scalar_one_or_none.cases) auto

lemma scalar_one_or_none_eq_Inl:
  "scalar_one_or_none xs = Inl e \<longleftrightarrow> e = MultipleResultsFound \<and> 2 \<le> length xs"
  by (cases xs rule: scalar_one_or_none.cases) auto

lemma fetch_or_eq_Inr [res_simps]: "fetch_or e p rows = Inr x \<longleftrightarrow> filter p rows = [x]"
  by (auto simp: fetch_or_def fetch_def res_simps split: option.splits)

lemma filter_single_mem: "filter p rows = [x] \<Longrightarrow> x \<in> set rows \<and> p x"
  by (metis filter_eq_ConsD in_set_conv_decomp list.set_intros(1))

lemma filter_key:
  "distinct (map k rows) \<Longrightarrow> x \<in> set rows \<Longrightarrow> filter (\<lambda>r. k r = k x) rows = [x]"
proof (induction rows)
  case (Cons r rows)
  then show ?case
    by (auto simp: filter_empty_conv image_iff)
qed simp

lemma fetch_or_key:
  "distinct (map k rows) \<Longrightarrow> x \<in> set rows \<Longrightarrow> fetch_or e (\<lambda>r. k r = k x) rows = Inr x"
  by (simp add: fetch_or_eq_Inr filter_key)

lemma map_update_where:
  "(\<And>r. p r \<Longrightarrow> k (f r) = k r) \<Longrightarrow> map k (update_where p f rows) = map k rows"
  by (simp add: update_where_def)

lemma set_update_where: "r \<in> set (update_where p f rows) \<longleftrightarrow>
    (\<exists>s \<in> set rows. r = (if p s then f s else s))"
  by (auto simp: update_where_def)

lemma length_update_where [simp]: "length (update_where p f rows) = length rows"
  by (simp add: update_where_def)

section \<open>Columns\<close>

text \<open>
  A nullable \<open>String(n)\<close> column receiving a Python value: a string that fits or \<open>None\<close>; the driver
  refuses anything else. \<open>col_tags\<close> is an \<open>ARRAY(String)\<close> column. A \<open>PATCH\<close> field is
  \<open>None\<close> when unset, \<open>Some None\<close> when the client sent null.
\<close>

type_synonym 'a patch = "'a option option"

definition data_error :: exn where
  "data_error = SQLAlchemyError ''DataError''"

definition col_str :: "nat \<Rightarrow> json \<Rightarrow> exn + string option" where
  "col_str n v = (case v of
      JNull \<Rightarrow> Inr None
    | JStr s \<Rightarrow> (if length s \<le> n then Inr (Some s) else Inl data_error)
    | _ \<Rightarrow> Inl data_error)"

definition col_text :: "json \<Rightarrow> exn + string option" where
  "col_text v = (case v of JNull \<Rightarrow> Inr None | JStr s \<Rightarrow> Inr (Some s) | _ \<Rightarrow> Inl data_error)"

fun str_items :: "json list \<Rightarrow> string list option" where
  "str_items [] = Some []"
| "str_items (x # xs) =
     (case x of JStr s \<Rightarrow> map_option (\<lambda>ss. s # ss) (str_items xs) | _ \<Rightarrow> None)"

definition col_tags :: "json \<Rightarrow> exn + string list option" where
  "col_tags v = (case v of
      JNull \<Rightarrow> Inr None
    | JArr xs \<Rightarrow> (case str_items xs of None \<Rightarrow> Inl data_error | Some ss \<Rightarrow> Inr (Some ss))
    | _ \<Rightarrow> Inl data_error)"

definition patch_nullable :: "'a patch \<Rightarrow> 'a option \<Rightarrow> 'a option" where
  "patch_nullable p old = (case p of None \<Rightarrow> old | Some v \<Rightarrow> v)"

definition patch_not_null :: "string \<Rightarrow> 'a patch \<Rightarrow> 'a \<Rightarrow> exn + 'a" where
  "patch_not_null col p old = (case p of
      None \<Rightarrow> Inr old
    | Some None \<Rightarrow> Inl (IntegrityError col)
    | Some (Some v) \<Rightarrow> Inr v)"

text \<open>The value a Pydantic model attribute has: \<open>None\<close> when unset or null.\<close>

definition patch_value :: "'a patch \<Rightarrow> 'a option" where
  "patch_value p = (case p of None \<Rightarrow> None | Some v \<Rightarrow> v)"

lemma patch_not_null_eq_Inr [res_simps]:
  "patch_not_null col p old = Inr v \<longleftrightarrow> (p = None \<and> v = old) \<or> p = Some (Some v)"
  by (auto simp: patch_not_null_def split: option.splits)

lemma patch_value_simps [simp]: "patch_value None = None" "patch_value (Some v) = v"
  by (simp_all add: patch_value_def)

lemma patch_value_eq_Some [simp]: "patch_value p = Some v \<longleftrightarrow> p = Some (Some v)"
  by (auto simp: patch_value_def split: option.splits)

section \<open>Activities\<close>

text \<open>\<open>session.add(Activity(...))\<close>: a row with a fresh identifier, created and updated now.\<close>

definition add_activity :: "time \<Rightarrow> activity \<Rightarrow> db \<Rightarrow> db" where
  "add_activity now a d =
     d\<lparr>db_next_id := Suc (db_next_id d),
       db_activities := db_activities d @
         [a\<lparr>ac_id := db_next_id d, ac_created_at := now, ac_updated_at := now\<rparr>]\<rparr>"

definition blank_activity :: activity where
  "blank_activity = \<lparr>ac_id = 0, ac_created_at = 0, ac_updated_at = 0, ac_alert_id = None,
     ac_incident_id = None, ac_analyst_id = None, ac_action = [], ac_detail = None,
     ac_metadata_json = None, ac_analyst_username = None, ac_mentions = None,
     ac_archived_at = None\<rparr>"

lemma add_activity_frame [simp]:
  "db_alerts (add_activity now a d) = db_alerts d"
  "db_incidents (add_activity now a d) = db_incidents d"
  "db_incident_alerts (add_activity now a d) = db_incident_alerts d"
  "db_templates (add_activity now a d) = db_templates d"
  "db_analysts (add_activity now a d) = db_analysts d"
  "db_api_keys (add_activity now a d) = db_api_keys d"
  "db_observables (add_activity now a d) = db_observables d"
  "db_playbooks (add_activity now a d) = db_playbooks d"
  "db_runs (add_activity now a d) = db_runs d"
  "db_integrations (add_activity now a d) = db_integrations d"
  by (simp_all add: add_activity_def)

section \<open>Deletion\<close>

text \<open>
  Deleting alerts: link and activity rows go with them (\<open>ON DELETE CASCADE\<close>), observables keep
  existing without the alert (\<open>SET NULL\<close>); the foreign key of \<open>playbook_runs\<close> has no action and
  refuses the deletion of an alert with a run. Deleting incidents has no such obstacle.
\<close>

definition delete_alerts :: "(alert \<Rightarrow> bool) \<Rightarrow> db \<Rightarrow> exn + db" where
  "delete_alerts p d =
     (let gone = al_id ` set (filter p (db_alerts d))
      in if \<exists>r \<in> set (db_runs d). \<exists>i \<in> gone. pr_alert_id r = Some i
         then Inl (IntegrityError ''fk_playbook_runs_alert_id_alerts'')
         else Inr (d\<lparr>db_alerts := filter (\<lambda>a. \<not> p a) (db_alerts d),
                db_incident_alerts := filter (\<lambda>l. ia_alert_id l \<notin> gone) (db_incident_alerts d),
                db_activities := filter (\<lambda>a. \<forall>i \<in> gone. ac_alert_id a \<noteq> Some i) (db_activities d),
                db_observables := map (\<lambda>ob. if \<exists>i \<in> gone. ob_alert_id ob = Some i
                  then ob\<lparr>ob_alert_id := None\<rparr> else ob) (db_observables d)\<rparr>))"

definition delete_incidents :: "(incident \<Rightarrow> bool) \<Rightarrow> db \<Rightarrow> db" where
  "delete_incidents p d =
     (let gone = in_id ` set (filter p (db_incidents d))
      in d\<lparr>db_incidents := filter (\<lambda>a. \<not> p a) (db_incidents d),
           db_incident_alerts := filter (\<lambda>l. ia_incident_id l \<notin> gone) (db_incident_alerts d),
           db_activities := filter (\<lambda>a. \<forall>i \<in> gone. ac_incident_id a \<noteq> Some i) (db_activities d),
           db_observables := map (\<lambda>ob. if \<exists>i \<in> gone. ob_incident_id ob = Some i
             then ob\<lparr>ob_incident_id := None\<rparr> else ob) (db_observables d)\<rparr>)"

section \<open>Pages\<close>

text \<open>\<open>order_by(created_at.desc())\<close> with \<open>offset\<close> and \<open>limit\<close>; PostgreSQL refuses a negative limit.
  Rows of equal creation time keep their table order here.\<close>

definition newest_first :: "('a \<Rightarrow> time) \<Rightarrow> 'a list \<Rightarrow> 'a list" where
  "newest_first k rows = sort_key (\<lambda>r. - k r) rows"

definition page :: "int \<Rightarrow> int \<Rightarrow> 'a list \<Rightarrow> exn + 'a list" where
  "page offset limit rows =
     (if limit < 0 then Inl data_error else Inr (take (nat limit) (drop (nat offset) rows)))"

lemma set_newest_first [simp]: "set (newest_first k rows) = set rows"
  by (simp add: newest_first_def)

lemma length_newest_first [simp]: "length (newest_first k rows) = length rows"
  by (simp add: newest_first_def)

section \<open>What happens after a commit\<close>

text \<open>
  A handler that goes on after its commit (audit sinks, notifications, task queues) returns its
  answer or exception together with the database, which keeps the committed change either way.
\<close>

type_synonym 'r outcome = "(exn + 'r) \<times> db"

definition after_commit :: "db \<Rightarrow> exn + ('a \<times> db) \<Rightarrow> ('a \<Rightarrow> exn + 'r) \<Rightarrow> 'r outcome" where
  "after_commit d m k = (case m of Inl e \<Rightarrow> (Inl e, d) | Inr (x, d') \<Rightarrow> (k x, d'))"

lemma after_commit_simps [simp]:
  "after_commit d (Inl e) k = (Inl e, d)" "after_commit d (Inr (x, d')) k = (k x, d')"
  by (simp_all add: after_commit_def)

end
