(* ===== verification/Registry.thy ===== *)
theory Registry
  imports Decorators Tables "HOL-Library.List_Lexorder" "HOL-Library.Char_ord"
    "HOL-Library.Product_Lexorder" "HOL-Library.Multiset"
begin

text \<open>
  \<open>opensoar/core/registry.py\<close> and \<open>opensoar/core/triggers.py\<close>: discovery of playbook modules into
  the process-wide registry, matching of alerts against the registry, the trigger engine, and the
  synchronisation of the registry with the \<open>playbook_definitions\<close> table.

  The registry and \<open>sys.modules\<close> are the state. A playbook file is the list of \<open>@playbook\<close>
  applications its top level performs, followed by the exception it ends with, if any.
\<close>

section \<open>Discovery\<close>

record py_file =
  pf_path :: "string list"
  pf_name :: string
  pf_module :: string
  pf_decls :: "playbook_args list"
  pf_raises :: "exn option"

record playbook_dir =
  dir_name :: string
  dir_exists :: bool
  dir_files :: "py_file list"

record runtime =
  rt_modules :: "string list"
  rt_registry :: registry

fun exec_decls :: "string \<Rightarrow> playbook_args list \<Rightarrow> registry \<Rightarrow> exn option \<times> registry" where
  "exec_decls m [] reg = (None, reg)"
| "exec_decls m (a # as) reg =
     (case playbook_decorator m a reg of
        Inl e \<Rightarrow> (Some e, reg)
      | Inr reg' \<Rightarrow> exec_decls m as reg')"

definition exec_module :: "py_file \<Rightarrow> registry \<Rightarrow> exn option \<times> registry" where
  "exec_module f reg =
     (case exec_decls (pf_module f) (pf_decls f) reg of
        (Some e, reg') \<Rightarrow> (Some e, reg')
      | (None, reg') \<Rightarrow> (pf_raises f, reg'))"

text \<open>The exceptions the \<open>except\<close> tuples of the loaders name (\<open>SyntaxError\<close> and \<open>NameError\<close> are
  folded into \<open>ImportError\<close> here; \<open>TimeoutError\<close> is an \<open>OSError\<close>).\<close>

fun import_caught :: "exn \<Rightarrow> bool" where
  "import_caught (ImportError _) = True"
| "import_caught (AttributeError _) = True"
| "import_caught (TypeError _) = True"
| "import_caught (ValueError _) = True"
| "import_caught (OSError _) = True"
| "import_caught (TimeoutError _) = True"
| "import_caught _ = False"

definition import_module :: "py_file \<Rightarrow> runtime \<Rightarrow> exn option \<times> runtime" where
  "import_module f rt =
     (if pf_module f \<in> set (rt_modules rt) then (None, rt)
      else
        (let (err, reg') = exec_module f (rt_registry rt);
             rt' = \<lparr>rt_modules = rt_modules rt @ [pf_module f], rt_registry = reg'\<rparr>
         in case err of
              None \<Rightarrow> (None, rt')
            | Some e \<Rightarrow> (if import_caught e then None else Some e, rt')))"

fun import_files :: "py_file list \<Rightarrow> runtime \<Rightarrow> exn option \<times> runtime" where
  "import_files [] rt = (None, rt)"
| "import_files (f # fs) rt =
     (if startswith (pf_name f) ''_'' then import_files fs rt
      else case import_module f rt of
             (Some e, rt') \<Rightarrow> (Some e, rt')
           | (None, rt') \<Rightarrow> import_files fs rt')"

fun discover :: "playbook_dir list \<Rightarrow> runtime \<Rightarrow> exn option \<times> runtime" where
  "discover [] rt = (None, rt)"
| "discover (d # ds) rt =
     (if \<not> dir_exists d then discover ds rt
      else case import_files (sort_key pf_path (dir_files d)) rt of
             (Some e, rt') \<Rightarrow> (Some e, rt')
           | (None, rt') \<Rightarrow> discover ds rt')"

definition module_under :: "string list \<Rightarrow> string \<Rightarrow> bool" where
  "module_under dir_prefixes m \<longleftrightarrow> (\<exists>p \<in> set dir_prefixes. m = p \<or> startswith m (p @ ''.''))"

definition clear_and_reload :: "playbook_dir list \<Rightarrow> runtime \<Rightarrow> (exn + nat) \<times> runtime" where
  "clear_and_reload ds rt =
     (let dir_prefixes = filter (\<lambda>n. n \<noteq> []) (map dir_name ds);
          rt1 = \<lparr>rt_modules = filter (\<lambda>m. \<not> module_under dir_prefixes m) (rt_modules rt),
                 rt_registry = []\<rparr>
      in case discover ds rt1 of
           (Some e, rt') \<Rightarrow> (Inl e, rt')
         | (None, rt') \<Rightarrow> (Inr (length (rt_registry rt')), rt'))"

section \<open>Matching\<close>

fun condition_value_matches :: "json \<Rightarrow> json \<Rightarrow> bool" where
  "condition_value_matches expected actual =
     (if actual = JNull then False
      else case actual of
             JArr items \<Rightarrow>
               (case expected of
                  JArr es \<Rightarrow> list_ex (\<lambda>item. py_in item es) items
                | _ \<Rightarrow> py_in expected items)
           | _ \<Rightarrow>
               (case expected of
                  JArr es \<Rightarrow> py_in actual es
                | _ \<Rightarrow> py_eq actual expected))"

fun conditions_match :: "jdict \<Rightarrow> jdict \<Rightarrow> bool" where
  "conditions_match [] alert_data = True"
| "conditions_match ((key, expected) # conds) alert_data =
     (if \<not> condition_value_matches expected (dget alert_data key) then False
      else conditions_match conds alert_data)"

definition pb_order :: "registered_playbook \<Rightarrow> int \<times> string" where
  "pb_order pb = (pm_order (rp_meta pb), pm_name (rp_meta pb))"

definition trigger_accepts :: "string \<Rightarrow> jdict \<Rightarrow> registered_playbook \<Rightarrow> bool" where
  "trigger_accepts trigger_type alert_data pb \<longleftrightarrow>
     pm_enabled (rp_meta pb) \<and> pm_trigger (rp_meta pb) = Some trigger_type \<and>
     conditions_match (pm_conditions (rp_meta pb)) alert_data"

definition get_playbooks_for_trigger ::
  "registry \<Rightarrow> string \<Rightarrow> jdict \<Rightarrow> registered_playbook list" where
  "get_playbooks_for_trigger reg trigger_type alert_data =
     sort_key pb_order (filter (trigger_accepts trigger_type alert_data) (map snd reg))"

section \<open>The trigger engine\<close>

definition trigger_types :: "string \<Rightarrow> string list" where
  "trigger_types source = [source, source @ ''.alert'', ''webhook'']"

fun match_types ::
  "registry \<Rightarrow> string list \<Rightarrow> jdict \<Rightarrow> registered_playbook list \<Rightarrow> registered_playbook list" where
  "match_types reg [] alert_data matches = matches"
| "match_types reg (t # ts) alert_data matches =
     match_types reg ts alert_data
       (foldl (\<lambda>ms pb. if pm_name (rp_meta pb) \<in> set (map (\<lambda>m. pm_name (rp_meta m)) ms)
                       then ms else ms @ [pb])
          matches (get_playbooks_for_trigger reg t alert_data))"

definition trigger_match :: "registry \<Rightarrow> string \<Rightarrow> jdict \<Rightarrow> registered_playbook list" where
  "trigger_match reg source alert_data = match_types reg (trigger_types source) alert_data []"

section \<open>Synchronisation with the database\<close>

definition definition_of :: "uuid \<Rightarrow> string \<Rightarrow> registered_playbook \<Rightarrow> playbook_definition" where
  "definition_of i name pb =
     \<lparr>pd_id = i, pd_name = name, pd_description = Some (pm_description (rp_meta pb)),
      pd_partner = None, pd_tenant_id = None, pd_module_path = rp_module pb,
      pd_function_name = rp_func pb, pd_trigger_type = pm_trigger (rp_meta pb),
      pd_trigger_config = pm_conditions (rp_meta pb), pd_enabled = pm_enabled (rp_meta pb),
      pd_execution_order = pm_order (rp_meta pb), pd_version = 1\<rparr>"

definition refresh_definition :: "registered_playbook \<Rightarrow> playbook_definition \<Rightarrow> playbook_definition" where
  "refresh_definition pb row =
     row\<lparr>pd_module_path := rp_module pb, pd_function_name := rp_func pb,
        pd_trigger_type := pm_trigger (rp_meta pb), pd_trigger_config := pm_conditions (rp_meta pb),
        pd_description := Some (pm_description (rp_meta pb)),
        pd_execution_order := pm_order (rp_meta pb)\<rparr>"

definition sync_one :: "string \<Rightarrow> registered_playbook \<Rightarrow> db \<Rightarrow> exn + db" where
  "sync_one name pb d =
     ebind (fetch (\<lambda>r. pd_name r = name) (db_playbooks d)) (\<lambda>existing.
       case existing of
         Some row \<Rightarrow> Inr (d\<lparr>db_playbooks :=
            update_where (\<lambda>r. pd_id r = pd_id row) (refresh_definition pb) (db_playbooks d)\<rparr>)
       | None \<Rightarrow> Inr (d\<lparr>db_next_id := Suc (db_next_id d),
            db_playbooks := db_playbooks d @ [definition_of (db_next_id d) name pb]\<rparr>))"

fun sync_to_db :: "registry \<Rightarrow> db \<Rightarrow> exn + db" where
  "sync_to_db [] d = Inr d"
| "sync_to_db ((name, pb) # reg) d = ebind (sync_one name pb d) (sync_to_db reg)"

section \<open>The registry invariant\<close>

text \<open>Every entry is filed under its own name and enabled; names are unique.\<close>

definition registry_ok :: "registry \<Rightarrow> bool" where
  "registry_ok reg \<longleftrightarrow> distinct (map fst reg) \<and>
     (\<forall>(n, pb) \<in> set reg. pm_name (rp_meta pb) = n \<and> pm_enabled (rp_meta pb))"

lemma registry_ok_Nil [simp]: "registry_ok []"
  by (simp add: registry_ok_def)

lemma registry_ok_update:
  "registry_ok reg \<Longrightarrow> pm_name (rp_meta pb) = n \<Longrightarrow> pm_enabled (rp_meta pb) \<Longrightarrow>
     registry_ok (AList.update n pb reg)"
  by (auto simp: registry_ok_def distinct_update dest: mem_update_values)

lemma playbook_decorator_ok:
  "playbook_decorator m a reg = Inr reg' \<Longrightarrow> registry_ok reg \<Longrightarrow> registry_ok reg'"
  by (auto simp: playbook_decorator_def Let_def intro!: registry_ok_update split: if_splits)

lemma exec_decls_ok: "registry_ok reg \<Longrightarrow> registry_ok (snd (exec_decls m as reg))"
  by (induction as arbitrary: reg) (auto split: sum.splits dest: playbook_decorator_ok)

lemma exec_module_ok: "registry_ok reg \<Longrightarrow> registry_ok (snd (exec_module f reg))"
  using exec_decls_ok[of reg "pf_module f" "pf_decls f"]
  by (auto simp: exec_module_def split: prod.splits option.splits)

lemma import_module_ok:
  "registry_ok (rt_registry rt) \<Longrightarrow> registry_ok (rt_registry (snd (import_module f rt)))"
  using exec_module_ok[of "rt_registry rt" f]
  by (auto simp: import_module_def Let_def split: prod.splits option.splits)

lemma import_files_ok:
  "registry_ok (rt_registry rt) \<Longrightarrow> registry_ok (rt_registry (snd (import_files fs rt)))"
proof (induction fs arbitrary: rt)
  case (Cons f fs)
  obtain e rt' where i: "import_module f rt = (e, rt')" by fastforce
  with Cons import_module_ok[of rt f] show ?case by (auto split: option.splits)
qed simp

lemma discover_ok:
  "registry_ok (rt_registry rt) \<Longrightarrow> registry_ok (rt_registry (snd (discover ds rt)))"
proof (induction ds arbitrary: rt)
  case (Cons d ds)
  obtain e rt' where i: "import_files (sort_key pf_path (dir_files d)) rt = (e, rt')" by fastforce
  with Cons import_files_ok[of rt "sort_key pf_path (dir_files d)"] show ?case
    by (auto split: option.splits)
qed simp

text \<open>A reload, whether it succeeds or is cut short by an exception, leaves a registry in which
  every playbook is filed under its own unique name and enabled, and its count is the registry's
  size.\<close>

theorem reload_registry_ok:
  "registry_ok (rt_registry (snd (clear_and_reload ds rt))) \<and>
   (case fst (clear_and_reload ds rt) of
      Inl e \<Rightarrow> \<not> import_caught e
    | Inr n \<Rightarrow> n = card (fst ` set (rt_registry (snd (clear_and_reload ds rt)))))"
proof -
  define rt1 where "rt1 = \<lparr>rt_modules = filter (\<lambda>m. \<not> module_under
      (filter (\<lambda>n. n \<noteq> []) (map dir_name ds)) m) (rt_modules rt), rt_registry = []\<rparr>"
  have uncaught: "fst (import_files fs r) = Some e \<Longrightarrow> \<not> import_caught e" for fs r e
    by (induction fs arbitrary: r)
       (auto simp: import_module_def Let_def split: if_splits prod.splits option.splits)
  have uncaught': "fst (discover ds r) = Some e \<Longrightarrow> \<not> import_caught e" for r e
  proof (induction ds arbitrary: r)
    case (Cons d ds)
    then show ?case
      using uncaught[of "sort_key pf_path (dir_files d)" r]
      by (auto split: if_splits prod.splits option.splits)
  qed simp
  have ok: "registry_ok (rt_registry (snd (discover ds rt1)))"
    by (rule discover_ok) (simp add: rt1_def)
  obtain e rt' where d: "discover ds rt1 = (e, rt')" by fastforce
  have "length (rt_registry rt') = card (fst ` set (rt_registry rt'))"
    using ok d by (metis distinct_card length_map list.set_map registry_ok_def snd_conv)
  with ok d uncaught'[of rt1] show ?thesis
    by (auto simp: clear_and_reload_def rt1_def[symmetric] Let_def split: option.splits)
qed

section \<open>Discovery is idempotent\<close>

definition loaded :: "runtime \<Rightarrow> py_file \<Rightarrow> bool" where
  "loaded rt f \<longleftrightarrow> startswith (pf_name f) ''_'' \<or> pf_module f \<in> set (rt_modules rt)"

lemma import_module_modules:
  "set (rt_modules (snd (import_module f rt))) = insert (pf_module f) (set (rt_modules rt))"
  by (auto simp: import_module_def Let_def split: prod.splits option.splits)

lemma import_files_modules:
  "set (rt_modules rt) \<subseteq> set (rt_modules (snd (import_files fs rt)))"
proof (induction fs arbitrary: rt)
  case (Cons f fs)
  obtain e rt' where i: "import_module f rt = (e, rt')" by fastforce
  with Cons[of rt'] Cons[of rt] import_module_modules[of f rt] show ?case
    by (auto split: option.splits)
qed simp

lemma discover_modules: "set (rt_modules rt) \<subseteq> set (rt_modules (snd (discover ds rt)))"
proof (induction ds arbitrary: rt)
  case (Cons d ds)
  let ?fs = "sort_key pf_path (dir_files d)"
  obtain e rt' where i: "import_files ?fs rt = (e, rt')" by fastforce
  then have "set (rt_modules rt) \<subseteq> set (rt_modules rt')"
    using import_files_modules[of rt ?fs] by simp
  with i Cons[of rt] Cons[of rt'] show ?case by (auto split: option.splits)
qed simp

lemma import_files_loaded:
  "import_files fs rt = (None, rt') \<Longrightarrow> f \<in> set fs \<Longrightarrow> loaded rt' f"
proof (induction fs arbitrary: rt)
  case (Cons g fs)
  obtain e r where i: "import_module g rt = (e, r)" by fastforce
  then have "pf_module g \<in> set (rt_modules r)"
    using import_module_modules[of g rt] by simp
  moreover have "set (rt_modules r) \<subseteq> set (rt_modules (snd (import_files fs r)))"
    by (rule import_files_modules)
  ultimately show ?case
    using Cons i by (auto simp: loaded_def split: if_splits option.splits)
qed simp

lemma import_files_done: "(\<And>f. f \<in> set fs \<Longrightarrow> loaded rt f) \<Longrightarrow> import_files fs rt = (None, rt)"
  by (induction fs) (auto simp: loaded_def import_module_def)

lemma discover_loaded:
  "discover ds rt = (None, rt') \<Longrightarrow> d \<in> set ds \<Longrightarrow> dir_exists d \<Longrightarrow> f \<in> set (dir_files d) \<Longrightarrow>
     loaded rt' f"
proof (induction ds arbitrary: rt)
  case (Cons c ds)
  show ?case
  proof (cases "dir_exists c")
    case True
    let ?fs = "sort_key pf_path (dir_files c)"
    obtain e r where i: "import_files ?fs rt = (e, r)" by fastforce
    with Cons.prems(1) True have e: "e = None" and r: "discover ds r = (None, rt')"
      by (auto split: option.splits)
    have mono: "set (rt_modules r) \<subseteq> set (rt_modules rt')"
      using discover_modules[of r ds] r by simp
    show ?thesis
    proof (cases "d = c")
      case True
      with Cons.prems(4) i e have "loaded r f" by (intro import_files_loaded[of ?fs rt]) auto
      with mono show ?thesis by (auto simp: loaded_def)
    next
      case False
      with Cons.prems Cons.IH[OF r] show ?thesis by simp
    qed
  qed (use Cons in auto)
qed simp

text \<open>Discovery is idempotent: once it has completed, running it again over the same directories
  (as every worker task does) imports nothing and changes neither the registry nor the modules.\<close>

theorem discover_idempotent:
  assumes "discover ds rt = (None, rt')"
  shows "discover ds rt' = (None, rt')"
proof -
  have "discover cs rt' = (None, rt')" if "set cs \<subseteq> set ds" for cs
    using that
  proof (induction cs)
    case (Cons c cs)
    have "import_files (sort_key pf_path (dir_files c)) rt' = (None, rt')" if "dir_exists c"
      using Cons.prems discover_loaded[OF assms] that by (intro import_files_done) auto
    with Cons show ?case by simp
  qed simp
  then show ?thesis by simp
qed

definition example_file :: py_file where
  "example_file = \<lparr>pf_path = [''playbooks'', ''triage.py''], pf_name = ''triage.py'',
     pf_module = ''playbooks.triage'',
     pf_decls = [\<lparr>pa_func = ''triage'', pa_trigger = Some ''webhook'',
       pa_conditions = Some [(''severity'', JArr [JStr ''high'', JStr ''critical''])],
       pa_description = [], pa_name = None, pa_order = 10, pa_priority = ''high''\<rparr>],
     pf_raises = None\<rparr>"

definition example_dirs :: "playbook_dir list" where
  "example_dirs = [\<lparr>dir_name = ''playbooks'', dir_exists = True, dir_files = [example_file]\<rparr>]"

lemma discover_example:
  "discover example_dirs \<lparr>rt_modules = [], rt_registry = []\<rparr> =
     (None, snd (discover example_dirs \<lparr>rt_modules = [], rt_registry = []\<rparr>))"
  "rt_registry (snd (discover example_dirs \<lparr>rt_modules = [], rt_registry = []\<rparr>)) \<noteq> []"
  by code_simp+

theorem discover_idempotent_witness:
  "\<exists>rt'. discover example_dirs \<lparr>rt_modules = [], rt_registry = []\<rparr> = (None, rt') \<and>
     discover example_dirs rt' = (None, rt') \<and> rt_registry rt' \<noteq> []"
  using discover_idempotent[OF discover_example(1)] discover_example by metis

section \<open>What the trigger engine returns\<close>

abbreviation pb_name :: "registered_playbook \<Rightarrow> string" where
  "pb_name pb \<equiv> pm_name (rp_meta pb)"

lemma set_get_playbooks:
  "set (get_playbooks_for_trigger reg t data) = {pb \<in> snd ` set reg. trigger_accepts t data pb}"
  by (auto simp: get_playbooks_for_trigger_def)

lemma registry_ok_names: "registry_ok reg \<Longrightarrow> map pb_name (map snd reg) = map fst reg"
  by (auto simp: registry_ok_def)

lemma registry_ok_distinct: "registry_ok reg \<Longrightarrow> distinct (map pb_name (map snd reg))"
  by (subst registry_ok_names) (simp_all add: registry_ok_def)

lemma registry_ok_inj:
  "registry_ok reg \<Longrightarrow> a \<in> snd ` set reg \<Longrightarrow> b \<in> snd ` set reg \<Longrightarrow> pb_name a = pb_name b \<Longrightarrow> a = b"
  using registry_ok_distinct[of reg] unfolding distinct_map inj_on_def set_map by blast

lemma sort_key_filter_distinct:
  "distinct (map f xs) \<Longrightarrow> distinct (map f (sort_key k (filter p xs)))"
  by (simp add: distinct_map inj_on_def)

lemma get_playbooks_distinct:
  "registry_ok reg \<Longrightarrow> distinct (map pb_name (get_playbooks_for_trigger reg t data))"
  unfolding get_playbooks_for_trigger_def
  by (rule sort_key_filter_distinct) (rule registry_ok_distinct)

lemma merge_all_seen:
  "pb_name ` set xs \<subseteq> pb_name ` set ms \<Longrightarrow>
     foldl (\<lambda>ms pb. if pb_name pb \<in> set (map pb_name ms) then ms else ms @ [pb]) ms xs = ms"
  by (induction xs) auto

lemma merge_all_new:
  "distinct (map pb_name xs) \<Longrightarrow> pb_name ` set xs \<inter> pb_name ` set ms = {} \<Longrightarrow>
     foldl (\<lambda>ms pb. if pb_name pb \<in> set (map pb_name ms) then ms else ms @ [pb]) ms xs = ms @ xs"
proof (induction xs arbitrary: ms)
  case (Cons x xs)
  then have "foldl (\<lambda>ms pb. if pb_name pb \<in> set (map pb_name ms) then ms else ms @ [pb])
      (ms @ [x]) xs = (ms @ [x]) @ xs"
    by (intro Cons.IH) auto
  moreover have "pb_name x \<notin> set (map pb_name ms)" using Cons.prems by auto
  ultimately show ?case by simp
qed simp

lemma get_playbooks_other_type:
  assumes "registry_ok reg" and "t \<noteq> u"
  shows "pb_name ` set (get_playbooks_for_trigger reg t data) \<inter>
         pb_name ` set (get_playbooks_for_trigger reg u data) = {}"
proof (rule ccontr)
  assume "\<not> ?thesis"
  then obtain a b where a: "a \<in> snd ` set reg" "trigger_accepts t data a"
    and b: "b \<in> snd ` set reg" "trigger_accepts u data b" and "pb_name a = pb_name b"
    by (auto simp: set_get_playbooks)
  with registry_ok_inj[OF assms(1) a(1) b(1)] assms(2) show False
    by (auto simp: trigger_accepts_def)
qed

lemma match_types_eq:
  assumes "registry_ok reg"
    and "\<And>t. t \<in> set seen \<Longrightarrow>
           pb_name ` set (get_playbooks_for_trigger reg t data) \<subseteq> pb_name ` set ms"
    and "\<And>t. t \<notin> set seen \<Longrightarrow>
           pb_name ` set (get_playbooks_for_trigger reg t data) \<inter> pb_name ` set ms = {}"
  shows "match_types reg ts data ms =
    ms @ concat (map (\<lambda>t. get_playbooks_for_trigger reg t data) (dedup_seen seen ts))"
  using assms(2,3)
proof (induction ts arbitrary: ms seen)
  case (Cons t ts)
  let ?g = "\<lambda>t. get_playbooks_for_trigger reg t data"
  show ?case
  proof (cases "t \<in> set seen")
    case True
    with merge_all_seen[OF Cons.prems(1)[OF True]] Cons.IH[OF Cons.prems] show ?thesis by simp
  next
    case False
    note new = merge_all_new[OF get_playbooks_distinct[OF assms(1)] Cons.prems(2)[OF False]]
    have "match_types reg ts data (ms @ ?g t) =
        (ms @ ?g t) @ concat (map ?g (dedup_seen (t # seen) ts))"
    proof (rule Cons.IH)
      show "pb_name ` set (?g u) \<subseteq> pb_name ` set (ms @ ?g t)" if "u \<in> set (t # seen)" for u
        using that Cons.prems(1)[of u] by auto
      show "pb_name ` set (?g u) \<inter> pb_name ` set (ms @ ?g t) = {}" if "u \<notin> set (t # seen)" for u
        using that Cons.prems(2)[of u] get_playbooks_other_type[OF assms(1), of u t data]
        by (auto simp: image_Un)
    qed
    with new False show ?thesis by simp
  qed
qed simp

lemma trigger_match_eq:
  "registry_ok reg \<Longrightarrow> trigger_match reg source data =
     concat (map (\<lambda>t. get_playbooks_for_trigger reg t data) (dedup_seen [] (trigger_types source)))"
  using match_types_eq[of reg "[]" data "[]" "trigger_types source"]
  by (simp add: trigger_match_def)

lemma concat_distinct_names:
  assumes "registry_ok reg" and "distinct ts"
  shows "distinct (map pb_name (concat (map (\<lambda>t. get_playbooks_for_trigger reg t data) ts)))"
  using assms(2)
proof (induction ts)
  case (Cons t ts)
  let ?g = "\<lambda>t. get_playbooks_for_trigger reg t data"
  have "pb_name ` set (?g t) \<inter> pb_name ` set (concat (map ?g ts)) = {}"
  proof (rule equals0I)
    fix n assume "n \<in> pb_name ` set (?g t) \<inter> pb_name ` set (concat (map ?g ts))"
    then obtain u where "u \<in> set ts" "n \<in> pb_name ` set (?g t) \<inter> pb_name ` set (?g u)" by auto
    moreover from this Cons.prems have "t \<noteq> u" by auto
    ultimately show False using get_playbooks_other_type[OF assms(1), of t u data] by blast
  qed
  with Cons get_playbooks_distinct[OF assms(1), of t data] show ?case
    by (simp del: set_concat)
qed simp

text \<open>C12: The trigger engine returns, in a well-formed registry, each playbook that accepts the alert
  for one of the trigger types \<open>source\<close>, \<open>source.alert\<close>, \<open>webhook\<close> exactly once and no other
  playbook, the types in this order and the playbooks of a type in \<open>(order, name)\<close> order, without
  repetition even when the source itself is \<open>webhook\<close>.\<close>

theorem trigger_match_spec:
  assumes "registry_ok reg"
  shows "trigger_match reg source data =
      concat (map (\<lambda>t. get_playbooks_for_trigger reg t data) (dedup_seen [] (trigger_types source)))
    \<and> (\<forall>t. sorted (map pb_order (get_playbooks_for_trigger reg t data)))
    \<and> distinct (map pb_name (trigger_match reg source data))
    \<and> set (trigger_match reg source data) = {pb \<in> snd ` set reg.
         pm_trigger (rp_meta pb) \<in> {Some source, Some (source @ ''.alert''), Some ''webhook''} \<and>
         conditions_match (pm_conditions (rp_meta pb)) data}"
proof -
  note eq = trigger_match_eq[OF assms, of source data]
  have "sorted (map pb_order (get_playbooks_for_trigger reg t data))" for t
    by (simp add: get_playbooks_for_trigger_def)
  moreover have "distinct (map pb_name (trigger_match reg source data))"
    unfolding eq by (rule concat_distinct_names[OF assms dedup_seen_distinct])
  moreover have "pm_enabled (rp_meta pb)" if "pb \<in> snd ` set reg" for pb
    using assms that by (force simp: registry_ok_def)
  then have "set (trigger_match reg source data) = {pb \<in> snd ` set reg.
           pm_trigger (rp_meta pb) \<in> {Some source, Some (source @ ''.alert''), Some ''webhook''} \<and>
           conditions_match (pm_conditions (rp_meta pb)) data}"
    unfolding eq by (auto simp: set_get_playbooks trigger_accepts_def dedup_seen_set trigger_types_def)
  ultimately show ?thesis using eq by blast
qed

definition example_registry :: registry where
  "example_registry = rt_registry (snd (discover example_dirs \<lparr>rt_modules = [], rt_registry = []\<rparr>))"

theorem trigger_match_spec_witness:
  "map pb_name (trigger_match example_registry ''webhook'' [(''severity'', JStr ''high'')]) = [''triage'']
   \<and> distinct (map pb_name (trigger_match example_registry ''webhook'' [(''severity'', JStr ''high'')]))"
proof -
  have ok: "registry_ok example_registry"
    unfolding example_registry_def by (rule discover_ok) simp
  have "map pb_name (trigger_match example_registry ''webhook'' [(''severity'', JStr ''high'')]) = [''triage'']"
    by code_simp
  with trigger_match_spec[OF ok] show ?thesis by blast
qed

section \<open>Synchronisation\<close>

definition definitions_ok :: "db \<Rightarrow> bool" where
  "definitions_ok d \<longleftrightarrow> distinct (map pd_name (db_playbooks d)) \<and> distinct (map pd_id (db_playbooks d)) \<and>
     (\<forall>r \<in> set (db_playbooks d). pd_id r < db_next_id d)"

definition refreshed :: "registry \<Rightarrow> playbook_definition \<Rightarrow> playbook_definition" where
  "refreshed reg r = (case map_of reg (pd_name r) of None \<Rightarrow> r | Some pb \<Rightarrow> refresh_definition pb r)"

definition new_entries :: "db \<Rightarrow> registry \<Rightarrow> registry" where
  "new_entries d reg = filter (\<lambda>(n, pb). n \<notin> pd_name ` set (db_playbooks d)) reg"

definition synced :: "registry \<Rightarrow> db \<Rightarrow> db" where
  "synced reg d = d\<lparr>db_next_id := db_next_id d + length (new_entries d reg),
     db_playbooks := map (refreshed reg) (db_playbooks d) @
       map (\<lambda>(i, n, pb). definition_of i n pb) (enumerate (db_next_id d) (new_entries d reg))\<rparr>"

lemma refresh_simps [simp]:
  "pd_name (refresh_definition pb r) = pd_name r" "pd_id (refresh_definition pb r) = pd_id r"
  "pd_name (definition_of i n pb) = n" "pd_id (definition_of i n pb) = i"
  "refresh_definition pb (refresh_definition pb r) = refresh_definition pb r"
  "refresh_definition pb (definition_of i n pb) = definition_of i n pb"
  by (simp_all add: refresh_definition_def definition_of_def)

lemma refreshed_simps [simp]: "pd_name (refreshed reg r) = pd_name r" "pd_id (refreshed reg r) = pd_id r"
  by (simp_all add: refreshed_def split: option.splits)

lemma sync_one_existing:
  assumes "definitions_ok d" and "row \<in> set (db_playbooks d)" and "pd_name row = n"
  shows "sync_one n pb d = Inr (d\<lparr>db_playbooks :=
     map (\<lambda>r. if pd_name r = n then refresh_definition pb r else r) (db_playbooks d)\<rparr>)"
proof -
  have names: "distinct (map pd_name (db_playbooks d))" and ids: "distinct (map pd_id (db_playbooks d))"
    using assms(1) by (simp_all add: definitions_ok_def)
  have "filter (\<lambda>r. pd_name r = n) (db_playbooks d) = [row]"
    using filter_key[OF names assms(2)] assms(3) by simp
  moreover have "pd_id r = pd_id row \<longleftrightarrow> pd_name r = n" if "r \<in> set (db_playbooks d)" for r
    using that assms(2,3) names ids by (auto simp: distinct_map inj_on_def)
  ultimately show ?thesis by (simp add: sync_one_def fetch_def update_where_def cong: map_cong)
qed

lemma sync_one_new:
  "n \<notin> pd_name ` set (db_playbooks d) \<Longrightarrow> sync_one n pb d = Inr (d\<lparr>db_next_id := Suc (db_next_id d),
     db_playbooks := db_playbooks d @ [definition_of (db_next_id d) n pb]\<rparr>)"
proof -
  assume "n \<notin> pd_name ` set (db_playbooks d)"
  then have "filter (\<lambda>r. pd_name r = n) (db_playbooks d) = []"
    by (auto simp: filter_empty_conv)
  then show ?thesis by (simp add: sync_one_def fetch_def)
qed

lemma sync_to_db_synced:
  "definitions_ok d \<Longrightarrow> distinct (map fst reg) \<Longrightarrow> sync_to_db reg d = Inr (synced reg d)"
proof (induction reg arbitrary: d)
  case Nil
  have "refreshed [] = id" by (simp add: refreshed_def fun_eq_iff)
  then show ?case by (simp add: synced_def new_entries_def)
next
  case (Cons entry reg)
  obtain n pb where entry: "entry = (n, pb)" by fastforce
  have fresh: "map_of reg n = None"
    using Cons.prems(2) entry by (simp add: map_of_eq_None_iff)
  show ?case
  proof (cases "n \<in> pd_name ` set (db_playbooks d)")
    case True
    define d1 where "d1 = d\<lparr>db_playbooks :=
      map (\<lambda>r. if pd_name r = n then refresh_definition pb r else r) (db_playbooks d)\<rparr>"
    have names: "map pd_name (db_playbooks d1) = map pd_name (db_playbooks d)"
      and ids: "map pd_id (db_playbooks d1) = map pd_id (db_playbooks d)" by (auto simp: d1_def)
    have "definitions_ok d1"
      using Cons.prems(1) unfolding definitions_ok_def names ids by (auto simp: d1_def)
    moreover have "sync_one n pb d = Inr d1"
      using True sync_one_existing[OF Cons.prems(1)] by (auto simp: d1_def)
    moreover have "new_entries d1 reg = new_entries d (entry # reg)"
      using True names by (auto simp: new_entries_def entry simp flip: set_map)
    moreover have "refreshed reg (if pd_name r = n then refresh_definition pb r else r) =
        refreshed (entry # reg) r" for r
      using fresh by (auto simp: refreshed_def entry)
    ultimately show ?thesis
      using Cons.IH[of d1] Cons.prems(2) by (simp add: entry synced_def d1_def comp_def)
  next
    case False
    define d1 where "d1 = d\<lparr>db_next_id := Suc (db_next_id d),
      db_playbooks := db_playbooks d @ [definition_of (db_next_id d) n pb]\<rparr>"
    have "definitions_ok d1"
      using Cons.prems(1) False by (fastforce simp: definitions_ok_def d1_def)
    moreover have "sync_one n pb d = Inr d1"
      using sync_one_new[OF False] by (simp add: d1_def)
    moreover have "new_entries d (entry # reg) = entry # new_entries d1 reg"
      using False Cons.prems(2) by (auto simp: new_entries_def entry d1_def image_iff intro!: filter_cong)
    moreover have "map (refreshed (entry # reg)) (db_playbooks d) = map (refreshed reg) (db_playbooks d)"
      using False by (auto simp: refreshed_def entry)
    moreover have "refreshed reg (definition_of (db_next_id d) n pb) = definition_of (db_next_id d) n pb"
      using fresh by (simp add: refreshed_def)
    ultimately show ?thesis
      using Cons.IH[of d1] Cons.prems(2) by (simp add: entry synced_def d1_def)
  qed
qed

definition new_rows :: "db \<Rightarrow> registry \<Rightarrow> playbook_definition list" where
  "new_rows d reg =
     map (\<lambda>(i, n, pb). definition_of i n pb) (enumerate (db_next_id d) (new_entries d reg))"

lemma new_rows_keys:
  "map pd_id (new_rows d reg) = [db_next_id d ..< db_next_id d + length (new_entries d reg)]"
  "map pd_name (new_rows d reg) = map fst (new_entries d reg)"
proof -
  have ids: "map pd_id (map (\<lambda>(i, n, pb). definition_of i n pb) xs) = map fst xs"
    and names: "map pd_name (map (\<lambda>(i, n, pb). definition_of i n pb) xs) = map fst (map snd xs)"
    for xs :: "(nat \<times> string \<times> registered_playbook) list"
    by (auto simp: split_beta)
  show "map pd_id (new_rows d reg) = [db_next_id d ..< db_next_id d + length (new_entries d reg)]"
    "map pd_name (new_rows d reg) = map fst (new_entries d reg)"
    unfolding new_rows_def ids names by simp_all
qed

lemma synced_rows: "db_playbooks (synced reg d) = map (refreshed reg) (db_playbooks d) @ new_rows d reg"
  by (simp add: synced_def new_rows_def)

lemma synced_names:
  "map pd_name (db_playbooks (synced reg d)) = map pd_name (db_playbooks d) @ map fst (new_entries d reg)"
  by (simp add: synced_rows new_rows_keys)

lemma synced_ids:
  "map pd_id (db_playbooks (synced reg d)) =
     map pd_id (db_playbooks d) @ [db_next_id d ..< db_next_id d + length (new_entries d reg)]"
  by (simp add: synced_rows new_rows_keys)

lemma synced_definitions_ok:
  assumes "definitions_ok d" and "distinct (map fst reg)"
  shows "definitions_ok (synced reg d)"
proof -
  have "distinct (map fst (new_entries d reg))"
    using assms(2) by (auto simp: new_entries_def distinct_map inj_on_def)
  moreover have "pd_name ` set (db_playbooks d) \<inter> fst ` set (new_entries d reg) = {}"
    by (auto simp: new_entries_def)
  ultimately have "distinct (map pd_name (db_playbooks (synced reg d)))"
    using assms(1) unfolding synced_names by (simp add: definitions_ok_def)
  moreover have "distinct (map pd_id (db_playbooks (synced reg d)))"
    using assms(1) unfolding synced_ids by (fastforce simp: definitions_ok_def)
  moreover have "\<forall>i \<in> set (map pd_id (db_playbooks (synced reg d))). i < db_next_id (synced reg d)"
    using assms(1) unfolding synced_ids by (fastforce simp: definitions_ok_def synced_def)
  ultimately show ?thesis by (simp add: definitions_ok_def)
qed

lemma synced_idem:
  assumes "distinct (map fst reg)"
  shows "synced reg (synced reg d) = synced reg d"
proof -
  have all: "(n, pb) \<in> set reg \<Longrightarrow> n \<in> set (map pd_name (db_playbooks (synced reg d)))" for n pb
    unfolding synced_names by (auto simp: new_entries_def image_iff split_beta)
  then have "new_entries (synced reg d) reg = []"
    by (auto simp: new_entries_def filter_empty_conv)
  moreover have "refreshed reg (refreshed reg r) = refreshed reg r" for r
    by (auto simp: refreshed_def split: option.splits)
  moreover have "refreshed reg r = r" if "r \<in> set (new_rows d reg)" for r
  proof -
    from that obtain i n pb where "r = definition_of i n pb"
      and mem: "(i, n, pb) \<in> set (enumerate (db_next_id d) (new_entries d reg))"
      by (auto simp: new_rows_def)
    moreover have "(n, pb) \<in> set (map snd (enumerate (db_next_id d) (new_entries d reg)))"
      using image_eqI[of _ snd, OF _ mem] by (simp del: map_snd_enumerate)
    then have "(n, pb) \<in> set (new_entries d reg)" by (simp only: map_snd_enumerate)
    ultimately have "r = definition_of i n pb" "(n, pb) \<in> set (new_entries d reg)" by simp_all
    moreover from this assms have "map_of reg n = Some pb" by (simp add: new_entries_def)
    ultimately show ?thesis by (simp add: refreshed_def)
  qed
  then have "map (refreshed reg) (new_rows d reg) = new_rows d reg" by (simp add: map_idI)
  ultimately show ?thesis
    unfolding synced_def[of reg "synced reg d"] by (simp add: synced_rows comp_def new_rows_def)
qed

text \<open>Synchronising a registry with the table of definitions refreshes, in place, the code-owned
  columns of exactly the rows whose name is registered (never their \<open>enabled\<close> flag, tenant or
  identifier), appends one new row per unregistered name in registry order, keeps names and
  identifiers unique, and changes nothing when it runs again.\<close>

theorem sync_to_db_spec:
  assumes "definitions_ok d" and "registry_ok reg"
  shows "sync_to_db reg d = Inr (synced reg d)
    \<and> map pd_name (db_playbooks (synced reg d)) =
        map pd_name (db_playbooks d) @ filter (\<lambda>n. n \<notin> pd_name ` set (db_playbooks d)) (map fst reg)
    \<and> map (\<lambda>r. (pd_id r, pd_enabled r, pd_partner r, pd_tenant_id r, pd_version r))
          (take (length (db_playbooks d)) (db_playbooks (synced reg d))) =
        map (\<lambda>r. (pd_id r, pd_enabled r, pd_partner r, pd_tenant_id r, pd_version r)) (db_playbooks d)
    \<and> (\<forall>r \<in> set (db_playbooks (synced reg d)). \<forall>pb. map_of reg (pd_name r) = Some pb \<longrightarrow>
        pd_module_path r = rp_module pb \<and> pd_trigger_type r = pm_trigger (rp_meta pb) \<and>
        pd_trigger_config r = pm_conditions (rp_meta pb) \<and> pd_execution_order r = pm_order (rp_meta pb))
    \<and> definitions_ok (synced reg d)
    \<and> sync_to_db reg (synced reg d) = Inr (synced reg d)"
proof -
  have dist: "distinct (map fst reg)" using assms(2) by (simp add: registry_ok_def)
  note sync = sync_to_db_synced[OF assms(1) dist]
  note ok = synced_definitions_ok[OF assms(1) dist]
  have again: "sync_to_db reg (synced reg d) = Inr (synced reg d)"
    using sync_to_db_synced[OF ok dist] synced_idem[OF dist] by simp
  have fixed: "refreshed reg r = r" if "r \<in> set (db_playbooks (synced reg d))" for r
  proof -
    have "map (refreshed reg) (db_playbooks (synced reg d)) @ new_rows (synced reg d) reg =
        db_playbooks (synced reg d)"
      using synced_rows[of reg "synced reg d"] synced_idem[OF dist, of d] by simp
    then have "map (refreshed reg) (db_playbooks (synced reg d)) = db_playbooks (synced reg d)"
      by (metis append_eq_append_conv length_map append_Nil2)
    with that show ?thesis by (metis map_eq_conv map_ident)
  qed
  have cols: "pd_module_path r = rp_module pb \<and> pd_trigger_type r = pm_trigger (rp_meta pb) \<and>
        pd_trigger_config r = pm_conditions (rp_meta pb) \<and> pd_execution_order r = pm_order (rp_meta pb)"
    if "r \<in> set (db_playbooks (synced reg d))" "map_of reg (pd_name r) = Some pb" for r pb
  proof -
    have "r = refresh_definition pb r" using fixed[OF that(1)] that(2) by (simp add: refreshed_def)
    moreover have "pd_module_path (refresh_definition pb r) = rp_module pb \<and>
        pd_trigger_type (refresh_definition pb r) = pm_trigger (rp_meta pb) \<and>
        pd_trigger_config (refresh_definition pb r) = pm_conditions (rp_meta pb) \<and>
        pd_execution_order (refresh_definition pb r) = pm_order (rp_meta pb)"
      by (simp add: refresh_definition_def)
    ultimately show ?thesis by simp
  qed
  have keep: "map (\<lambda>r. (pd_id r, pd_enabled r, pd_partner r, pd_tenant_id r, pd_version r))
          (take (length (db_playbooks d)) (db_playbooks (synced reg d))) =
        map (\<lambda>r. (pd_id r, pd_enabled r, pd_partner r, pd_tenant_id r, pd_version r)) (db_playbooks d)"
    by (simp add: synced_rows refreshed_def refresh_definition_def split: option.splits)
  have names: "map fst (new_entries d reg) =
      filter (\<lambda>n. n \<notin> pd_name ` set (db_playbooks d)) (map fst reg)"
    unfolding new_entries_def by (induction reg) auto
  show ?thesis using sync again ok cols keep synced_names[of reg d] names by simp
qed

theorem sync_to_db_spec_witness:
  "registry_ok example_registry \<and> sync_to_db example_registry empty_db \<noteq> Inr empty_db \<and>
   sync_to_db example_registry empty_db = Inr (synced example_registry empty_db)"
proof -
  have ok: "registry_ok example_registry"
    unfolding example_registry_def by (rule discover_ok) simp
  have "definitions_ok empty_db" by (simp add: definitions_ok_def empty_db_def)
  from sync_to_db_spec[OF this ok] have "sync_to_db example_registry empty_db =
    Inr (synced example_registry empty_db)" by blast
  moreover have "sync_to_db example_registry empty_db \<noteq> Inr empty_db"
    by code_simp
  ultimately show ?thesis using ok by blast
qed

section \<open>Where discovery can be cut short\<close>

text \<open>The \<open>except\<close> tuple of the import step is not exhaustive: a playbook file whose import ends
  in an ordinary exception it does not name (a \<open>KeyError\<close>, say) aborts discovery at that file, so
  that no file sorted after it is imported; the files before it stay registered.\<close>

theorem discovery_aborts:
  assumes "pf_module f \<notin> set (rt_modules rt)" and "\<not> startswith (pf_name f) ''_''"
    and "exec_module f (rt_registry rt) = (Some e, reg')" and "\<not> import_caught e"
  shows "import_files (f # fs) rt =
     (Some e, \<lparr>rt_modules = rt_modules rt @ [pf_module f], rt_registry = reg'\<rparr>)"
  using assms by (simp add: import_module_def)

theorem discovery_aborts_witness:
  "import_files [example_file\<lparr>pf_decls := [], pf_raises := Some (KeyError ''SECRET'')\<rparr>, example_file]
     \<lparr>rt_modules = [], rt_registry = []\<rparr> =
   (Some (KeyError ''SECRET''), \<lparr>rt_modules = [''playbooks.triage''], rt_registry = []\<rparr>)"
  using discovery_aborts[of "example_file\<lparr>pf_decls := [], pf_raises := Some (KeyError ''SECRET'')\<rparr>"
      "\<lparr>rt_modules = [], rt_registry = []\<rparr>" "KeyError ''SECRET''" "[]" "[example_file]"]
  by (simp add: example_file_def exec_module_def startswith_def)

end
