(* ===== verification/Executor.thy ===== *)
theory Executor
  imports Registry Observability
begin

text \<open>
  \<open>opensoar/worker/routing.py\<close>, \<open>opensoar/core/executor.py\<close> and \<open>opensoar/worker/tasks.py\<close>: which queue
  a playbook task goes to, the execution of one playbook with its run row, and the two Celery tasks.

  The worker process is a record: the registry and loaded modules, the database, the two context
  variables and the metrics. A playbook's coroutine is an oracle \<open>func ctx input d\<close> that may change
  the database and returns or raises; it gets at \<open>record_action\<close> through the context.
\<close>

section \<open>Queues\<close>

definition valid_priorities :: "string list" where
  "valid_priorities = [''high'', ''default'', ''low'']"

definition priority_rank :: "string \<Rightarrow> nat option" where
  "priority_rank = map_of [(''high'', 0), (''default'', 1), (''low'', 2)]"

definition queue_for_priority :: "string option \<Rightarrow> string" where
  "queue_for_priority p = (case p of
      Some q \<Rightarrow> (if q \<in> set valid_priorities then q else ''default'') | None \<Rightarrow> ''default'')"

definition queue_for_playbook :: "registry \<Rightarrow> string \<Rightarrow> string" where
  "queue_for_playbook reg name = (case map_of reg name of
      None \<Rightarrow> ''default''
    | Some pb \<Rightarrow> queue_for_priority (Some (pm_priority (rp_meta pb))))"

fun best_queue :: "registry \<Rightarrow> string list \<Rightarrow> string \<Rightarrow> nat \<Rightarrow> string" where
  "best_queue reg [] best best_rank = best"
| "best_queue reg (name # names) best best_rank =
     (let q = queue_for_playbook reg name;
          rank = (case priority_rank q of Some r \<Rightarrow> r | None \<Rightarrow> the (priority_rank ''default''))
      in if rank < best_rank then best_queue reg names q rank
         else best_queue reg names best best_rank)"

definition highest_priority_queue :: "registry \<Rightarrow> string list \<Rightarrow> string" where
  "highest_priority_queue reg names =
     (if names = [] then ''default''
      else best_queue reg names ''default'' (the (priority_rank ''default'')))"

text \<open>The first positional argument of a task: a name, a list of JSON values, or something else.\<close>

datatype task_arg = NameArg string | ListArg "json list" | OtherArg

fun str_values :: "json list \<Rightarrow> string list" where
  "str_values [] = []"
| "str_values (JStr s # vs) = s # str_values vs"
| "str_values (_ # vs) = str_values vs"

definition resolve_queue :: "registry \<Rightarrow> task_arg list \<Rightarrow> string option \<Rightarrow> string" where
  "resolve_queue reg args priority_override =
     (case priority_override of
        Some p \<Rightarrow> queue_for_priority (Some p)
      | None \<Rightarrow> (case args of
            [] \<Rightarrow> ''default''
          | NameArg name # _ \<Rightarrow> queue_for_playbook reg name
          | ListArg vs # _ \<Rightarrow> highest_priority_queue reg (str_values vs)
          | OtherArg # _ \<Rightarrow> ''default''))"

text \<open>\<open>delay\<close>: pops the override and sends the remaining arguments to the resolved queue.\<close>

record 'k queued_task =
  qt_args :: "task_arg list"
  qt_kwargs :: "(string \<times> 'k) list"
  qt_queue :: string

definition task_delay ::
  "registry \<Rightarrow> task_arg list \<Rightarrow> (string \<times> string) list \<Rightarrow> string queued_task" where
  "task_delay reg args kwargs =
     \<lparr>qt_args = args, qt_kwargs = AList.delete ''priority'' kwargs,
      qt_queue = resolve_queue reg args (map_of kwargs ''priority'')\<rparr>"

subsection \<open>Urgency as a linear order\<close>

datatype urgency = High | Default | Low

instantiation urgency :: linorder
begin

definition rank_of :: "urgency \<Rightarrow> nat" where
  "rank_of u = (case u of High \<Rightarrow> 0 | Default \<Rightarrow> 1 | Low \<Rightarrow> 2)"

definition less_eq_urgency :: "urgency \<Rightarrow> urgency \<Rightarrow> bool" where
  "less_eq_urgency u v \<longleftrightarrow> rank_of u \<le> rank_of v"

definition less_urgency :: "urgency \<Rightarrow> urgency \<Rightarrow> bool" where
  "less_urgency u v \<longleftrightarrow> rank_of u < rank_of v"

instance
  by standard (auto simp: less_eq_urgency_def less_urgency_def rank_of_def split: urgency.splits)

end

definition queue_name :: "urgency \<Rightarrow> string" where
  "queue_name u = (case u of High \<Rightarrow> ''high'' | Default \<Rightarrow> ''default'' | Low \<Rightarrow> ''low'')"

definition urgency_of :: "registry \<Rightarrow> string \<Rightarrow> urgency" where
  "urgency_of reg name = (case map_of reg name of
      None \<Rightarrow> Default
    | Some pb \<Rightarrow> (if pm_priority (rp_meta pb) = ''high'' then High
                 else if pm_priority (rp_meta pb) = ''low'' then Low else Default))"

lemma queue_for_playbook_eq: "queue_for_playbook reg name = queue_name (urgency_of reg name)"
  by (auto simp: queue_for_playbook_def urgency_of_def queue_for_priority_def queue_name_def
      valid_priorities_def split: option.splits)

lemma priority_rank_queue_name [simp]: "priority_rank (queue_name u) = Some (rank_of u)"
  by (cases u) (simp_all add: priority_rank_def queue_name_def rank_of_def)

lemma priority_rank_default [simp]: "priority_rank ''default'' = Some (rank_of Default)"
  using priority_rank_queue_name[of Default] by (simp add: queue_name_def)

lemma best_queue_eq:
  "best_queue reg names (queue_name b) (rank_of b) =
     queue_name (foldl min b (map (urgency_of reg) names))"
proof (induction names arbitrary: b)
  case (Cons n names)
  show ?case
    using Cons.IH[of "urgency_of reg n"] Cons.IH[of b]
    by (simp add: queue_for_playbook_eq Let_def min_def less_eq_urgency_def not_less)
qed simp

lemma foldl_min: "foldl min b xs = Min (insert b (set xs))" for b :: "'a::linorder"
  using Min.set_eq_fold[of b xs] by (simp add: foldl_conv_fold min.commute)

text \<open>The queue of a sequence is the most urgent of \<open>default\<close> and the queues of its playbooks: a
  high-priority member always lifts the batch to \<open>high\<close>, and \<open>low\<close> is never chosen, not even for a
  batch of low-priority playbooks only.\<close>

theorem highest_priority_queue_spec:
  "highest_priority_queue reg names = queue_name (Min (insert Default (urgency_of reg ` set names)))
   \<and> highest_priority_queue reg names \<noteq> ''low''
   \<and> (highest_priority_queue reg names = ''high'' \<longleftrightarrow>
        (\<exists>n \<in> set names. queue_for_playbook reg n = ''high''))"
proof -
  have eq: "highest_priority_queue reg names = queue_name (Min (insert Default (urgency_of reg ` set names)))"
    using best_queue_eq[of reg names Default] foldl_min[of Default "map (urgency_of reg) names"]
    by (simp add: highest_priority_queue_def queue_name_def)
  let ?m = "Min (insert Default (urgency_of reg ` set names))"
  have le: "?m \<le> Default" by simp
  have high: "?m = High \<longleftrightarrow> (\<exists>n \<in> set names. urgency_of reg n = High)"
  proof
    assume "?m = High"
    then have "High \<in> insert Default (urgency_of reg ` set names)"
      by (metis Min_in finite_imageI finite_insert finite_set insert_not_empty)
    then show "\<exists>n \<in> set names. urgency_of reg n = High" by (auto dest: sym)
  next
    assume "\<exists>n \<in> set names. urgency_of reg n = High"
    then have "High \<in> urgency_of reg ` set names" by force
    then have "?m \<le> High" by (intro Min_le) simp_all
    then show "?m = High" by (cases ?m) (simp_all add: less_eq_urgency_def rank_of_def)
  qed
  have "?m \<noteq> Low" using le by (auto simp: less_eq_urgency_def rank_of_def)
  then have low: "queue_name ?m \<noteq> ''low''" by (simp add: queue_name_def split: urgency.splits)
  have name_high: "queue_name u = ''high'' \<longleftrightarrow> u = High" for u
    by (simp add: queue_name_def split: urgency.splits)
  have "highest_priority_queue reg names = ''high'' \<longleftrightarrow>
      (\<exists>n \<in> set names. queue_for_playbook reg n = ''high'')"
    unfolding eq queue_for_playbook_eq name_high using high by simp
  with eq low show ?thesis by simp
qed

section \<open>Executing one playbook\<close>

record exec_context =
  ec_run_id :: uuid
  ec_alert_id :: "uuid option"
  ec_correlation_id :: uuid

record worker =
  wk_rt :: runtime
  wk_db :: db
  wk_ctx :: "exec_context option"
  wk_cid :: cid_ctx
  wk_metrics :: metrics

datatype pb_input = AlertInput alert | ManualInput jdict

type_synonym pb_func = "exec_context \<Rightarrow> pb_input \<Rightarrow> db \<Rightarrow> (exn + json) \<times> db"

text \<open>\<open>int((finished - started).total_seconds() * 1000)\<close>: truncation towards zero.\<close>

definition millis :: "time \<Rightarrow> int" where
  "millis t = (if 0 \<le> t then t div 1000 else - ((- t) div 1000))"

definition record_action :: "exec_context \<Rightarrow> action_record \<Rightarrow> db \<Rightarrow> db" where
  "record_action ctx r d =
     d\<lparr>db_next_id := Suc (db_next_id d),
       db_action_results := db_action_results d @
         [\<lparr>ar_id = db_next_id d, ar_run_id = ec_run_id ctx, ar_action_name = rc_action_name r,
           ar_status = rc_status r, ar_started_at = Some (rc_started_at r),
           ar_finished_at = Some (rc_finished_at r),
           ar_duration_ms = Some (millis (rc_finished_at r - rc_started_at r)),
           ar_output_data = rc_output_data r, ar_error = rc_error r, ar_attempt = rc_attempt r,
           ar_correlation_id = Some (ec_correlation_id ctx)\<rparr>]\<rparr>"

definition resolve_correlation :: "alert option \<Rightarrow> cid_ctx \<Rightarrow> uuid \<Rightarrow> uuid" where
  "resolve_correlation alert ctx fresh =
     (case Option.bind alert al_correlation_id of
        Some cid \<Rightarrow> cid
      | None \<Rightarrow> (case ctx of Some cid \<Rightarrow> cid | None \<Rightarrow> fresh))"

record seq_slot =
  sl_id :: "uuid option"
  sl_position :: "int option"
  sl_total :: "int option"

definition lookup_alert :: "uuid option \<Rightarrow> db \<Rightarrow> exn + alert option" where
  "lookup_alert alert_id d = (case alert_id of
      None \<Rightarrow> Inr None | Some i \<Rightarrow> fetch (\<lambda>a. al_id a = i) (db_alerts d))"

text \<open>Everything up to the flush of the new run row; an alert identifier without an alert violates
  the row's foreign key there.\<close>

definition begin_run ::
  "time \<Rightarrow> string \<Rightarrow> uuid option \<Rightarrow> seq_slot \<Rightarrow> worker \<Rightarrow> exn + (playbook_run \<times> alert option \<times> db)" where
  "begin_run now name alert_id slot w =
     (let d = wk_db w
      in ebind (fetch_or (ValueError (''Playbook '' @ name @ '' not found in database''))
                 (\<lambda>r. pd_name r = name) (db_playbooks d)) (\<lambda>pb_row.
         ebind (lookup_alert alert_id d) (\<lambda>alert.
         ebind (guard (alert_id = None \<or> alert \<noteq> None) (IntegrityError ''playbook_runs.alert_id'')) (\<lambda>_.
           let run = \<lparr>pr_id = Suc (db_next_id d), pr_created_at = now, pr_playbook_id = pd_id pb_row,
                 pr_alert_id = alert_id, pr_status = ''running'', pr_started_at = Some now,
                 pr_finished_at = None, pr_error = None, pr_result = None,
                 pr_sequence_id = sl_id slot, pr_sequence_position = sl_position slot,
                 pr_sequence_total = sl_total slot,
                 pr_correlation_id = Some (resolve_correlation alert (wk_cid w) (db_next_id d))\<rparr>
           in Inr (run, alert,
                d\<lparr>db_next_id := Suc (Suc (db_next_id d)), db_runs := db_runs d @ [run]\<rparr>)))))"

definition input_of :: "alert option \<Rightarrow> jdict option \<Rightarrow> pb_input" where
  "input_of alert manual = (case alert of
      Some a \<Rightarrow> AlertInput a
    | None \<Rightarrow> ManualInput (case manual of Some m \<Rightarrow> m | None \<Rightarrow> []))"

text \<open>The three \<open>except\<close> arms and \<open>finally\<close>, as far as they concern the run row.\<close>

fun close_status :: "exn + json \<Rightarrow> playbook_run \<Rightarrow> playbook_run" where
  "close_status (Inr result) run = run\<lparr>pr_status := ''success'', pr_result := Some (as_output result)\<rparr>"
| "close_status (Inl CancelledError) run = run\<lparr>pr_status := ''cancelled''\<rparr>"
| "close_status (Inl e) run =
     (if is_Exception e then run\<lparr>pr_status := ''failed'', pr_error := Some (exn_str e)\<rparr> else run)"

definition close_run :: "exn + json \<Rightarrow> time \<Rightarrow> playbook_run \<Rightarrow> playbook_run" where
  "close_run outcome now run = (close_status outcome run)\<lparr>pr_finished_at := Some now\<rparr>"

fun propagates :: "exn + json \<Rightarrow> bool" where
  "propagates (Inr _) = False"
| "propagates (Inl e) = (e \<noteq> CancelledError \<and> \<not> is_Exception e)"

definition execute ::
  "pb_func \<Rightarrow> registered_playbook \<Rightarrow> uuid option \<Rightarrow> jdict option \<Rightarrow> seq_slot \<Rightarrow> time \<times> time \<Rightarrow>
   worker \<Rightarrow> (exn + playbook_run) \<times> worker" where
  "execute func pb alert_id manual slot clk w =
     (case begin_run (fst clk) (pm_name (rp_meta pb)) alert_id slot w of
        Inl e \<Rightarrow> (Inl e, w)
      | Inr (run, alert, d1) \<Rightarrow>
          (let ctx = \<lparr>ec_run_id = pr_id run, ec_alert_id = alert_id,
                      ec_correlation_id = the (pr_correlation_id run)\<rparr>;
               (outcome, d2) = func ctx (input_of alert manual) d1;
               run' = close_run outcome (snd clk) run;
               d3 = d2\<lparr>db_runs := update_where (\<lambda>r. pr_id r = pr_id run)
                        (close_run outcome (snd clk)) (db_runs d2)\<rparr>;
               w' = w\<lparr>wk_db := d3, wk_ctx := None,
                      wk_metrics := record_playbook_run (pm_name (rp_meta pb)) (pr_status run')
                        (max (snd clk - fst clk) 0) (wk_metrics w)\<rparr>
           in (case outcome of
                 Inl e \<Rightarrow> (if propagates outcome then Inl e else Inr run')
               | Inr _ \<Rightarrow> Inr run', w')))"

section \<open>The tasks\<close>

record run_summary =
  rs_playbook :: string
  rs_run_id :: uuid
  rs_position :: int
  rs_status :: string
  rs_error :: "string option"

definition not_registered :: "string \<Rightarrow> exn" where
  "not_registered name = ValueError (''Playbook '' @ name @ '' not found in registry'')"

text \<open>Discovery and synchronisation, the first steps of both tasks.\<close>

definition load_playbooks :: "playbook_dir list \<Rightarrow> worker \<Rightarrow> exn option \<times> worker" where
  "load_playbooks ds w = (case discover ds (wk_rt w) of (err, rt') \<Rightarrow> (err, w\<lparr>wk_rt := rt'\<rparr>))"

definition sync_registry :: "worker \<Rightarrow> exn + worker" where
  "sync_registry w =
     ebind (sync_to_db (rt_registry (wk_rt w)) (wk_db w)) (\<lambda>d. Inr (w\<lparr>wk_db := d\<rparr>))"

definition execute_one ::
  "playbook_dir list \<Rightarrow> (string \<Rightarrow> pb_func) \<Rightarrow> string \<Rightarrow> uuid option \<Rightarrow> time \<times> time \<Rightarrow> worker \<Rightarrow>
   (exn + run_summary) \<times> worker" where
  "execute_one ds funcs name alert_id clk w =
     (case load_playbooks ds w of
        (Some e, w1) \<Rightarrow> (Inl e, w1)
      | (None, w1) \<Rightarrow>
          (case map_of (rt_registry (wk_rt w1)) name of
             None \<Rightarrow> (Inl (not_registered name), w1)
           | Some pb \<Rightarrow>
               (case sync_registry w1 of
                  Inl e \<Rightarrow> (Inl e, w1)
                | Inr w2 \<Rightarrow>
                    (case execute (funcs name) pb alert_id None
                            \<lparr>sl_id = None, sl_position = None, sl_total = None\<rparr> clk w2 of
                       (Inl e, w3) \<Rightarrow> (Inl e, w3)
                     | (Inr run, w3) \<Rightarrow>
                         (Inr \<lparr>rs_playbook = name, rs_run_id = pr_id run, rs_position = 1,
                               rs_status = pr_status run, rs_error = pr_error run\<rparr>, w3)))))"

text \<open>The loop over the names of a sequence; \<open>clk p\<close> is the clock at position \<open>p\<close>.\<close>

fun sequence_loop ::
  "(string \<Rightarrow> pb_func) \<Rightarrow> uuid option \<Rightarrow> uuid \<Rightarrow> nat \<Rightarrow> (int \<Rightarrow> time \<times> time) \<Rightarrow> string list \<Rightarrow>
   run_summary list \<Rightarrow> worker \<Rightarrow> (exn + run_summary list) \<times> worker" where
  "sequence_loop funcs alert_id seq_id seq_total clk [] results w = (Inr results, w)"
| "sequence_loop funcs alert_id seq_id seq_total clk (name # names) results w =
     (let position = int (length results) + 1
      in case map_of (rt_registry (wk_rt w)) name of
           None \<Rightarrow> (Inl (not_registered name), w)
         | Some pb \<Rightarrow>
             (case execute (funcs name) pb alert_id None
                     \<lparr>sl_id = Some seq_id, sl_position = Some position, sl_total = Some (int seq_total)\<rparr>
                     (clk position) w of
                (Inl e, w') \<Rightarrow> (Inl e, w')
              | (Inr run, w') \<Rightarrow>
                  sequence_loop funcs alert_id seq_id seq_total clk names
                    (results @ [\<lparr>rs_playbook = name, rs_run_id = pr_id run, rs_position = position,
                                 rs_status = pr_status run, rs_error = pr_error run\<rparr>]) w'))"

definition execute_sequence ::
  "playbook_dir list \<Rightarrow> (string \<Rightarrow> pb_func) \<Rightarrow> string list \<Rightarrow> uuid option \<Rightarrow> uuid \<Rightarrow>
   (int \<Rightarrow> time \<times> time) \<Rightarrow> worker \<Rightarrow> (exn + run_summary list) \<times> worker" where
  "execute_sequence ds funcs names alert_id seq_id clk w =
     (case load_playbooks ds w of
        (Some e, w1) \<Rightarrow> (Inl e, w1)
      | (None, w1) \<Rightarrow>
          (case sync_registry w1 of
             Inl e \<Rightarrow> (Inl e, w1)
           | Inr w2 \<Rightarrow> sequence_loop funcs alert_id seq_id (length names) clk names [] w2))"

text \<open>
  The retry arm of the tasks. \<open>self.retry\<close> schedules the task again while fewer than
  \<open>max_retries\<close> retries have been made and re-raises the exception otherwise; a retried task is
  taken to run in a worker that keeps its process state. The countdowns are returned.
\<close>

fun celery_task ::
  "nat \<Rightarrow> nat \<Rightarrow> (nat \<Rightarrow> 'w \<Rightarrow> (exn + 'a) \<times> 'w) \<Rightarrow> 'w \<Rightarrow> (exn + 'a) \<times> int list \<times> 'w" where
  "celery_task left retries body w =
     (case body retries w of
        (Inr v, w') \<Rightarrow> (Inr v, [], w')
      | (Inl e, w') \<Rightarrow>
          (if \<not> is_Exception e then (Inl e, [], w')
           else (case left of
                   0 \<Rightarrow> (Inl e, [], w')
                 | Suc left' \<Rightarrow>
                     (let (r, cs, w'') = celery_task left' (Suc retries) body w'
                      in (r, 2 ^ retries # cs, w'')))))"

declare celery_task.simps [simp del]

definition execute_playbook_task ::
  "playbook_dir list \<Rightarrow> (string \<Rightarrow> pb_func) \<Rightarrow> string \<Rightarrow> uuid option \<Rightarrow> (nat \<Rightarrow> time \<times> time) \<Rightarrow>
   worker \<Rightarrow> (exn + run_summary) \<times> int list \<times> worker" where
  "execute_playbook_task ds funcs name alert_id clk w =
     celery_task 3 0 (\<lambda>k. execute_one ds funcs name alert_id (clk k)) w"

definition execute_playbook_sequence_task ::
  "playbook_dir list \<Rightarrow> (string \<Rightarrow> pb_func) \<Rightarrow> string list \<Rightarrow> uuid option \<Rightarrow> (nat \<Rightarrow> uuid) \<Rightarrow>
   (nat \<Rightarrow> int \<Rightarrow> time \<times> time) \<Rightarrow> worker \<Rightarrow> (exn + run_summary list) \<times> int list \<times> worker" where
  "execute_playbook_sequence_task ds funcs names alert_id seq_ids clk w =
     celery_task 3 0 (\<lambda>k. execute_sequence ds funcs names alert_id (seq_ids k) (clk k)) w"

section \<open>What one execution leaves\<close>

text \<open>
  What is asked of a playbook's own code: it leaves the run, definition and alert tables alone, as
  everything that only records actions does, and never reuses an identifier.
\<close>

definition tame :: "pb_func \<Rightarrow> bool" where
  "tame func \<longleftrightarrow> (\<forall>ctx i d. let d' = snd (func ctx i d) in
     db_runs d' = db_runs d \<and> db_playbooks d' = db_playbooks d \<and> db_alerts d' = db_alerts d \<and>
     db_next_id d \<le> db_next_id d')"

definition run_db_ok :: "db \<Rightarrow> bool" where
  "run_db_ok d \<longleftrightarrow> definitions_ok d \<and> (\<forall>r \<in> set (db_runs d). pr_id r < db_next_id d)"

lemma record_action_frame [simp]:
  "db_runs (record_action c r d) = db_runs d" "db_playbooks (record_action c r d) = db_playbooks d"
  "db_alerts (record_action c r d) = db_alerts d"
  "db_next_id (record_action c r d) = Suc (db_next_id d)"
  by (simp_all add: record_action_def)

text \<open>A playbook that records the given actions and then ends with the given outcome is tame.\<close>

definition recording :: "action_record list \<Rightarrow> exn + json \<Rightarrow> pb_func" where
  "recording rs outcome = (\<lambda>ctx i d. (outcome, foldl (\<lambda>d r. record_action ctx r d) d rs))"

lemma record_actions_frame:
  "let d' = foldl (\<lambda>d r. record_action ctx r d) d rs in
     db_runs d' = db_runs d \<and> db_playbooks d' = db_playbooks d \<and> db_alerts d' = db_alerts d \<and>
     db_next_id d \<le> db_next_id d'"
proof (induction rs arbitrary: d)
  case (Cons r rs)
  from Cons[of "record_action ctx r d"] show ?case by (simp add: Let_def)
qed simp

lemma tame_recording: "tame (recording rs outcome)"
  using record_actions_frame by (simp add: tame_def recording_def)

lemma close_run_simps [simp]:
  "pr_id (close_run o' t r) = pr_id r" "pr_alert_id (close_run o' t r) = pr_alert_id r"
  "pr_sequence_id (close_run o' t r) = pr_sequence_id r"
  "pr_sequence_position (close_run o' t r) = pr_sequence_position r"
  "pr_sequence_total (close_run o' t r) = pr_sequence_total r"
  "pr_correlation_id (close_run o' t r) = pr_correlation_id r"
  "pr_started_at (close_run o' t r) = pr_started_at r"
  "pr_playbook_id (close_run o' t r) = pr_playbook_id r"
  "pr_finished_at (close_run o' t r) = Some t"
  by (cases "(o', r)" rule: close_status.cases; simp add: close_run_def)+

lemma close_run_status:
  "\<not> propagates outcome \<Longrightarrow> pr_status (close_run outcome t r) =
     (case outcome of Inr _ \<Rightarrow> ''success'' | Inl e \<Rightarrow> if e = CancelledError then ''cancelled'' else ''failed'')"
  by (cases "(outcome, r)" rule: close_status.cases) (auto simp: close_run_def)

lemma close_run_result:
  "\<not> propagates outcome \<Longrightarrow> (case outcome of
      Inr v \<Rightarrow> pr_result (close_run outcome t r) = Some (as_output v)
    | Inl e \<Rightarrow> e \<noteq> CancelledError \<longrightarrow> pr_error (close_run outcome t r) = Some (exn_str e))"
  by (cases "(outcome, r)" rule: close_status.cases) (auto simp: close_run_def)

lemma update_where_last:
  "(\<And>r. r \<in> set rows \<Longrightarrow> k r \<noteq> k x) \<Longrightarrow>
     update_where (\<lambda>r. k r = k x) f (rows @ [x]) = rows @ [f x]"
  by (simp add: update_where_def map_idI)

text \<open>The run row and the worker an execution ends with, given how it began.\<close>

lemma execute_eq:
  assumes b: "begin_run (fst clk) (pm_name (rp_meta pb)) alert_id slot w = Inr (run, alert, d1)"
    and t: "tame func" and ok: "run_db_ok (wk_db w)"
    and o: "func \<lparr>ec_run_id = pr_id run, ec_alert_id = alert_id,
        ec_correlation_id = the (pr_correlation_id run)\<rparr> (input_of alert manual) d1 = (outcome, d2)"
  shows "\<exists>w'. execute func pb alert_id manual slot clk w =
        (case outcome of Inl e \<Rightarrow> if propagates outcome then Inl e else Inr (close_run outcome (snd clk) run)
           | Inr _ \<Rightarrow> Inr (close_run outcome (snd clk) run), w')
    \<and> db_runs (wk_db w') = db_runs (wk_db w) @ [close_run outcome (snd clk) run]
    \<and> db_playbooks (wk_db w') = db_playbooks (wk_db w) \<and> db_alerts (wk_db w') = db_alerts (wk_db w)
    \<and> run_db_ok (wk_db w') \<and> wk_ctx w' = None \<and> wk_cid w' = wk_cid w \<and> wk_rt w' = wk_rt w
    \<and> wk_metrics w' = record_playbook_run (pm_name (rp_meta pb))
        (pr_status (close_run outcome (snd clk) run)) (max (snd clk - fst clk) 0) (wk_metrics w)"
proof -
  have d1: "d1 = (wk_db w)\<lparr>db_next_id := Suc (Suc (db_next_id (wk_db w))), db_runs := db_runs (wk_db w) @ [run]\<rparr>"
    and id: "pr_id run = Suc (db_next_id (wk_db w))"
    using b by (auto simp: begin_run_def res_simps Let_def split: if_splits)
  have frame: "db_runs d2 = db_runs d1" "db_playbooks d2 = db_playbooks d1" "db_alerts d2 = db_alerts d1"
    "db_next_id d1 \<le> db_next_id d2"
    using t o unfolding tame_def Let_def by (metis snd_conv)+
  have old: "pr_id r < db_next_id (wk_db w)" if "r \<in> set (db_runs (wk_db w))" for r
    using ok that by (simp add: run_db_ok_def)
  have upd: "update_where (\<lambda>r. pr_id r = pr_id run) (close_run outcome (snd clk)) (db_runs d2) =
      db_runs (wk_db w) @ [close_run outcome (snd clk) run]"
    using update_where_last[of "db_runs (wk_db w)" pr_id run] old frame(1) id
    by (fastforce simp: d1)
  have ok': "run_db_ok (d2\<lparr>db_runs := db_runs (wk_db w) @ [close_run outcome (snd clk) run]\<rparr>)"
    using ok old frame id by (fastforce simp: run_db_ok_def definitions_ok_def d1)
  define w' where "w' = w\<lparr>wk_db := d2\<lparr>db_runs := db_runs (wk_db w) @ [close_run outcome (snd clk) run]\<rparr>,
      wk_ctx := None, wk_metrics := record_playbook_run (pm_name (rp_meta pb))
        (pr_status (close_run outcome (snd clk) run)) (max (snd clk - fst clk) 0) (wk_metrics w)\<rparr>"
  have "execute func pb alert_id manual slot clk w =
      (case outcome of Inl e \<Rightarrow> if propagates outcome then Inl e else Inr (close_run outcome (snd clk) run)
         | Inr _ \<Rightarrow> Inr (close_run outcome (snd clk) run), w')"
    by (simp only: execute_def b o upd w'_def Let_def sum.case prod.case)
  moreover have "db_playbooks (wk_db w') = db_playbooks (wk_db w)" "db_alerts (wk_db w') = db_alerts (wk_db w)"
    using frame by (simp_all add: w'_def d1)
  ultimately show ?thesis using ok' by (intro exI[of _ w']) (simp add: w'_def)
qed

lemma begin_run_ok:
  assumes "definitions_ok (wk_db w)" and "name \<in> pd_name ` set (db_playbooks (wk_db w))"
    and "lookup_alert alert_id (wk_db w) = Inr alert" and "alert_id = None \<or> alert \<noteq> None"
  shows "\<exists>run d1. begin_run now name alert_id slot w = Inr (run, alert, d1) \<and>
    pr_status run = ''running'' \<and> pr_started_at run = Some now \<and> pr_alert_id run = alert_id \<and>
    pr_sequence_id run = sl_id slot \<and> pr_sequence_position run = sl_position slot \<and>
    pr_sequence_total run = sl_total slot \<and>
    pr_correlation_id run = Some (resolve_correlation alert (wk_cid w) (db_next_id (wk_db w)))"
proof -
  obtain row where row: "row \<in> set (db_playbooks (wk_db w))" "name = pd_name row"
    using assms(2) by auto
  have "fetch_or e (\<lambda>r. pd_name r = name) (db_playbooks (wk_db w)) = Inr row" for e
    using assms(1) row by (simp add: definitions_ok_def fetch_or_key)
  with assms(3,4) show ?thesis by (simp add: begin_run_def guard_def Let_def)
qed


definition example_worker :: worker where
  "example_worker = \<lparr>wk_rt = \<lparr>rt_modules = [''playbooks.triage''], rt_registry = example_registry\<rparr>,
     wk_db = synced example_registry empty_db, wk_ctx = None, wk_cid = None,
     wk_metrics = \<lparr>mx_http = [], mx_alerts = [], mx_runs = [], mx_durations = [], mx_skips = []\<rparr>\<rparr>"

definition triage_playbook :: registered_playbook where
  "triage_playbook = the (map_of example_registry ''triage'')"

lemma example_registry_ok: "registry_ok example_registry"
  unfolding example_registry_def by (rule discover_ok) simp

lemma example_worker_ok: "run_db_ok (wk_db example_worker)"
proof -
  have "definitions_ok (synced example_registry empty_db)"
    by (rule synced_definitions_ok)
       (use example_registry_ok in \<open>simp_all add: definitions_ok_def empty_db_def registry_ok_def\<close>)
  moreover have "db_runs (synced example_registry empty_db) = []"
    by (simp add: synced_def empty_db_def)
  ultimately show ?thesis by (simp add: run_db_ok_def example_worker_def)
qed

lemma triage_defined:
  "pm_name (rp_meta triage_playbook) \<in> pd_name ` set (db_playbooks (wk_db example_worker))"
  by code_simp


section \<open>Sequences and retries\<close>

text \<open>The summaries and rows of a sequence that ran the names from position \<open>p\<close> on.\<close>

definition rows_match :: "uuid \<Rightarrow> int \<Rightarrow> int \<Rightarrow> string list \<Rightarrow> playbook_run list \<Rightarrow> run_summary list \<Rightarrow> bool" where
  "rows_match seq_id seq_total p names runs outs \<longleftrightarrow>
     map rs_playbook outs = names \<and> map rs_run_id outs = map pr_id runs \<and>
     map rs_status outs = map pr_status runs \<and> map rs_position outs = map (\<lambda>i. p + int i) [0 ..< length names] \<and>
     map pr_sequence_position runs = map (\<lambda>i. Some (p + int i)) [0 ..< length names] \<and>
     (\<forall>r \<in> set runs. pr_sequence_id r = Some seq_id \<and> pr_sequence_total r = Some seq_total \<and>
        pr_finished_at r \<noteq> None \<and> pr_status r \<in> {''success'', ''failed'', ''cancelled''})"

lemma rows_match_Nil: "rows_match s t p [] [] []"
  by (simp add: rows_match_def)

lemma rows_match_Cons:
  assumes "rows_match s t (p + 1) names runs outs" and "pr_sequence_id r = Some s"
    and "pr_sequence_total r = Some t" and "pr_sequence_position r = Some p" and "pr_finished_at r \<noteq> None"
    and "pr_status r \<in> {''success'', ''failed'', ''cancelled''}"
  shows "rows_match s t p (n # names) (r # runs) (\<lparr>rs_playbook = n, rs_run_id = pr_id r, rs_position = p,
     rs_status = pr_status r, rs_error = pr_error r\<rparr> # outs)"
  using assms by (simp add: rows_match_def upt_conv_Cons map_Suc_upt[symmetric] comp_def add.assoc del: upt_Suc)

definition seq_ready :: "(string \<Rightarrow> pb_func) \<Rightarrow> uuid option \<Rightarrow> worker \<Rightarrow> string \<Rightarrow> bool" where
  "seq_ready funcs alert_id w n \<longleftrightarrow>
     (\<exists>pb. map_of (rt_registry (wk_rt w)) n = Some pb \<and> pm_name (rp_meta pb) = n) \<and>
     n \<in> pd_name ` set (db_playbooks (wk_db w)) \<and>
     (\<exists>alert. lookup_alert alert_id (wk_db w) = Inr alert \<and> (alert_id = None \<or> alert \<noteq> None)) \<and>
     tame (funcs n) \<and> (\<forall>ctx i d. \<not> propagates (fst (funcs n ctx i d)))"

lemma seq_ready_cong:
  "wk_rt w' = wk_rt w \<Longrightarrow> db_playbooks (wk_db w') = db_playbooks (wk_db w) \<Longrightarrow>
     db_alerts (wk_db w') = db_alerts (wk_db w) \<Longrightarrow> seq_ready funcs a w' n = seq_ready funcs a w n"
  by (simp add: seq_ready_def lookup_alert_def split: option.splits)

lemma execute_ready:
  assumes r: "seq_ready funcs alert_id w n" and ok: "run_db_ok (wk_db w)"
  shows "\<exists>pb run w'. map_of (rt_registry (wk_rt w)) n = Some pb \<and>
     execute (funcs n) pb alert_id None slot clk w = (Inr run, w') \<and>
     db_runs (wk_db w') = db_runs (wk_db w) @ [run] \<and> run_db_ok (wk_db w') \<and>
     db_playbooks (wk_db w') = db_playbooks (wk_db w) \<and> db_alerts (wk_db w') = db_alerts (wk_db w) \<and>
     wk_rt w' = wk_rt w \<and>
     pr_sequence_id run = sl_id slot \<and> pr_sequence_total run = sl_total slot \<and>
     pr_sequence_position run = sl_position slot \<and> pr_finished_at run \<noteq> None \<and>
     pr_status run \<in> {''success'', ''failed'', ''cancelled''}"
proof -
  from r obtain pb alert where pb: "map_of (rt_registry (wk_rt w)) n = Some pb" "pm_name (rp_meta pb) = n"
    and d: "n \<in> pd_name ` set (db_playbooks (wk_db w))"
    and al: "lookup_alert alert_id (wk_db w) = Inr alert" "alert_id = None \<or> alert \<noteq> None"
    and t: "tame (funcs n)" and np: "\<forall>ctx i d. \<not> propagates (fst (funcs n ctx i d))"
    unfolding seq_ready_def by blast
  have "definitions_ok (wk_db w)" using ok by (simp add: run_db_ok_def)
  from begin_run_ok[OF this d al, of "fst clk" slot] obtain run d1 where
    b: "begin_run (fst clk) n alert_id slot w = Inr (run, alert, d1)"
    and run: "pr_sequence_id run = sl_id slot" "pr_sequence_position run = sl_position slot"
      "pr_sequence_total run = sl_total slot"
    by blast
  define ctx where "ctx = \<lparr>ec_run_id = pr_id run, ec_alert_id = alert_id,
    ec_correlation_id = the (pr_correlation_id run)\<rparr>"
  obtain outcome d2 where o: "funcs n ctx (input_of alert None) d1 = (outcome, d2)" by fastforce
  have npo: "\<not> propagates outcome" using np o by (metis fst_conv)
  from execute_eq[OF b[folded pb(2)] t ok o[unfolded ctx_def]] npo obtain w' where
    "execute (funcs n) pb alert_id None slot clk w = (Inr (close_run outcome (snd clk) run), w')"
    "db_runs (wk_db w') = db_runs (wk_db w) @ [close_run outcome (snd clk) run]" "run_db_ok (wk_db w')"
    "db_playbooks (wk_db w') = db_playbooks (wk_db w)" "db_alerts (wk_db w') = db_alerts (wk_db w)"
    "wk_rt w' = wk_rt w"
    by (auto split: sum.splits)
  moreover have "pr_status (close_run outcome (snd clk) run) \<in> {''success'', ''failed'', ''cancelled''}"
    using close_run_status[OF npo] by (auto split: sum.splits)
  ultimately show ?thesis using pb run by (intro exI[of _ pb] exI[of _ "close_run outcome (snd clk) run"] exI[of _ w']) simp
qed

text \<open>A sequence up to the first unregistered name, if any: every name before it has one more run.\<close>

lemma sequence_loop_run:
  assumes "\<And>n. n \<in> set names \<Longrightarrow> seq_ready funcs alert_id w n" and "run_db_ok (wk_db w)"
  shows "\<exists>runs outs w'. rows_match seq_id (int seq_total) (int (length results) + 1) names runs outs \<and>
     sequence_loop funcs alert_id seq_id seq_total clk (names @ rest) results w =
       sequence_loop funcs alert_id seq_id seq_total clk rest (results @ outs) w' \<and>
     db_runs (wk_db w') = db_runs (wk_db w) @ runs \<and> run_db_ok (wk_db w') \<and>
     db_playbooks (wk_db w') = db_playbooks (wk_db w) \<and> db_alerts (wk_db w') = db_alerts (wk_db w) \<and>
     wk_rt w' = wk_rt w"
  using assms
proof (induction names arbitrary: results w)
  case Nil
  then show ?case
    by (intro exI[of _ "[]"] exI[of _ w]) (simp add: rows_match_Nil)
next
  case (Cons n names)
  define slot where "slot = \<lparr>sl_id = Some seq_id, sl_position = Some (int (length results) + 1),
    sl_total = Some (int seq_total)\<rparr>"
  from execute_ready[OF Cons.prems(1)[of n] Cons.prems(2), of slot "clk (int (length results) + 1)"]
  obtain pb run w1 where pb: "map_of (rt_registry (wk_rt w)) n = Some pb"
    and ex: "execute (funcs n) pb alert_id None slot (clk (int (length results) + 1)) w = (Inr run, w1)"
    and w1: "db_runs (wk_db w1) = db_runs (wk_db w) @ [run]" "run_db_ok (wk_db w1)"
      "db_playbooks (wk_db w1) = db_playbooks (wk_db w)" "db_alerts (wk_db w1) = db_alerts (wk_db w)"
      "wk_rt w1 = wk_rt w"
    and run: "pr_sequence_id run = sl_id slot" "pr_sequence_total run = sl_total slot"
      "pr_sequence_position run = sl_position slot" "pr_finished_at run \<noteq> None"
      "pr_status run \<in> {''success'', ''failed'', ''cancelled''}"
    by auto
  define s where "s = \<lparr>rs_playbook = n, rs_run_id = pr_id run, rs_position = int (length results) + 1,
    rs_status = pr_status run, rs_error = pr_error run\<rparr>"
  have "seq_ready funcs alert_id w1 m" if "m \<in> set names" for m
    using Cons.prems(1)[of m] that seq_ready_cong[OF w1(5,3,4)] by simp
  from Cons.IH[OF this w1(2), of "results @ [s]"] obtain runs outs w' where
    m: "rows_match seq_id (int seq_total) (int (length results) + 1 + 1) names runs outs"
    and l: "sequence_loop funcs alert_id seq_id seq_total clk (names @ rest) (results @ [s]) w1 =
       sequence_loop funcs alert_id seq_id seq_total clk rest ((results @ [s]) @ outs) w'"
    and w': "db_runs (wk_db w') = db_runs (wk_db w1) @ runs" "run_db_ok (wk_db w')"
      "db_playbooks (wk_db w') = db_playbooks (wk_db w1)" "db_alerts (wk_db w') = db_alerts (wk_db w1)"
      "wk_rt w' = wk_rt w1"
    by (auto simp: algebra_simps)
  have "rows_match seq_id (int seq_total) (int (length results) + 1) (n # names) (run # runs) (s # outs)"
    unfolding s_def using run by (intro rows_match_Cons[OF m]) (simp_all add: slot_def)
  moreover have "sequence_loop funcs alert_id seq_id seq_total clk ((n # names) @ rest) results w =
      sequence_loop funcs alert_id seq_id seq_total clk rest (results @ s # outs) w'"
    using pb ex l by (simp add: slot_def s_def Let_def)
  ultimately show ?case using w' w1 by (intro exI[of _ "run # runs"] exI[of _ "s # outs"] exI[of _ w']) simp
qed

lemma sync_registry_ready:
  assumes "definitions_ok (wk_db w)" and "registry_ok (rt_registry (wk_rt w))"
  shows "sync_registry w = Inr (w\<lparr>wk_db := synced (rt_registry (wk_rt w)) (wk_db w)\<rparr>)"
  using assms by (simp add: sync_registry_def sync_to_db_synced registry_ok_def)

lemma synced_frame [simp]:
  "db_runs (synced reg d) = db_runs d" "db_alerts (synced reg d) = db_alerts d"
  "db_next_id d \<le> db_next_id (synced reg d)"
  by (simp_all add: synced_def)

lemma synced_run_db_ok: "run_db_ok d \<Longrightarrow> registry_ok reg \<Longrightarrow> run_db_ok (synced reg d)"
  using synced_definitions_ok[of d reg]
  by (fastforce simp: run_db_ok_def registry_ok_def synced_def)

lemma synced_has: "(n, pb) \<in> set reg \<Longrightarrow> n \<in> pd_name ` set (db_playbooks (synced reg d))"
proof -
  assume "(n, pb) \<in> set reg"
  then have "n \<in> set (map pd_name (db_playbooks (synced reg d)))"
    unfolding synced_names by (auto simp: new_entries_def image_iff split_beta)
  then show ?thesis by simp
qed

text \<open>What a sequence needs of the worker: discovery is through, the tables are well-formed, the alert
  exists, and the playbooks' code is tame and raises nothing but ordinary exceptions.\<close>

definition task_ready :: "playbook_dir list \<Rightarrow> (string \<Rightarrow> pb_func) \<Rightarrow> uuid option \<Rightarrow> worker \<Rightarrow> bool" where
  "task_ready ds funcs alert_id w \<longleftrightarrow>
     discover ds (wk_rt w) = (None, wk_rt w) \<and> registry_ok (rt_registry (wk_rt w)) \<and>
     run_db_ok (wk_db w) \<and>
     (\<exists>alert. lookup_alert alert_id (wk_db w) = Inr alert \<and> (alert_id = None \<or> alert \<noteq> None)) \<and>
     (\<forall>n. tame (funcs n) \<and> (\<forall>ctx i d. \<not> propagates (fst (funcs n ctx i d))))"

lemma task_ready_seq_ready:
  assumes "task_ready ds funcs alert_id w" and "map_of (rt_registry (wk_rt w)) n \<noteq> None"
  shows "seq_ready funcs alert_id (w\<lparr>wk_db := synced (rt_registry (wk_rt w)) (wk_db w)\<rparr>) n"
proof -
  from assms(2) obtain pb where pb: "(n, pb) \<in> set (rt_registry (wk_rt w))"
    "map_of (rt_registry (wk_rt w)) n = Some pb" by (auto dest: map_of_SomeD)
  with assms(1) have "pm_name (rp_meta pb) = n" by (auto simp: task_ready_def registry_ok_def)
  with pb assms(1) synced_has[OF pb(1)] show ?thesis
    by (auto simp: task_ready_def seq_ready_def lookup_alert_def split: option.splits)
qed

lemma lookup_alert_cong: "db_alerts d' = db_alerts d \<Longrightarrow> lookup_alert a d' = lookup_alert a d"
  by (cases a) (simp_all add: lookup_alert_def)

lemma execute_sequence_run:
  assumes ready: "task_ready ds funcs alert_id w"
    and known: "\<And>n. n \<in> set names \<Longrightarrow> map_of (rt_registry (wk_rt w)) n \<noteq> None"
  shows "\<exists>runs outs w'. rows_match seq_id (int (length (names @ rest))) 1 names runs outs \<and>
     execute_sequence ds funcs (names @ rest) alert_id seq_id clk w =
       sequence_loop funcs alert_id seq_id (length (names @ rest)) clk rest outs w' \<and>
     db_runs (wk_db w') = db_runs (wk_db w) @ runs \<and> wk_rt w' = wk_rt w \<and> task_ready ds funcs alert_id w'"
proof -
  let ?reg = "rt_registry (wk_rt w)"
  let ?w = "w\<lparr>wk_db := synced ?reg (wk_db w)\<rparr>"
  have d: "discover ds (wk_rt w) = (None, wk_rt w)" and ok: "registry_ok ?reg" "run_db_ok (wk_db w)"
    using ready by (simp_all add: task_ready_def)
  have "definitions_ok (wk_db w)" using ok(2) by (simp add: run_db_ok_def)
  note sync = sync_registry_ready[OF this ok(1)]
  have "run_db_ok (wk_db ?w)" using synced_run_db_ok[OF ok(2,1)] by simp
  from sequence_loop_run[OF task_ready_seq_ready[OF ready known] this, where names = names
      and results = "[]" and seq_total = "length (names @ rest)" and seq_id = seq_id and clk = clk
      and rest = rest]
  obtain runs outs w' where m: "rows_match seq_id (int (length (names @ rest))) 1 names runs outs"
    and l: "sequence_loop funcs alert_id seq_id (length (names @ rest)) clk (names @ rest) [] ?w =
       sequence_loop funcs alert_id seq_id (length (names @ rest)) clk rest outs w'"
    and w': "db_runs (wk_db w') = db_runs (wk_db w) @ runs" "run_db_ok (wk_db w')" "wk_rt w' = wk_rt w"
      "db_alerts (wk_db w') = db_alerts (wk_db w)"
    by (auto simp del: length_append)
  have e: "execute_sequence ds funcs (names @ rest) alert_id seq_id clk w =
       sequence_loop funcs alert_id seq_id (length (names @ rest)) clk rest outs w'"
    using d sync l by (simp add: execute_sequence_def load_playbooks_def)
  have "task_ready ds funcs alert_id w'"
    using ready w'(2,3) lookup_alert_cong[OF w'(4)] by (simp add: task_ready_def)
  with m e w' show ?thesis by blast
qed


lemma example_registry_entry:
  "map_of example_registry ''triage'' \<noteq> None" "map fst example_registry = [''triage'']"
  by code_simp+

lemma example_task_ready:
  assumes "\<And>n. tame (funcs n)" and "\<And>n ctx i d. \<not> propagates (fst (funcs n ctx i d))"
  shows "task_ready example_dirs funcs None example_worker"
proof -
  have "discover example_dirs (wk_rt example_worker) = (None, wk_rt example_worker)"
    by code_simp
  moreover have "registry_ok (rt_registry (wk_rt example_worker))"
    using example_registry_ok by (simp add: example_worker_def)
  ultimately show ?thesis
    using assms example_worker_ok by (simp add: task_ready_def lookup_alert_def)
qed


text \<open>The retry arm makes at most \<open>left\<close> further attempts, counting down in powers of two.\<close>

lemma celery_task_countdowns:
  "celery_task left retries body w = (r, cs, w') \<Longrightarrow>
     length cs \<le> left \<and> cs = map (\<lambda>k. 2 ^ (retries + k)) [0 ..< length cs]"
proof (induction left arbitrary: retries w r cs w')
  case 0
  then show ?case by (subst (asm) celery_task.simps) (auto split: prod.splits sum.splits if_splits)
next
  case (Suc left)
  obtain r1 w1 where b: "body retries w = (r1, w1)" by fastforce
  obtain r2 cs2 w2 where rec: "celery_task left (Suc retries) body w1 = (r2, cs2, w2)"
    by (metis prod_cases3)
  from Suc.IH[OF rec] have "length cs2 \<le> left"
    and cs2: "cs2 = map (\<lambda>k. 2 ^ (Suc retries + k)) [0 ..< length cs2]" by blast+
  from cs2 have "2 ^ retries # cs2 = map (\<lambda>k. 2 ^ (retries + k)) [0 ..< Suc (length cs2)]"
    by (subst upt_conv_Cons) (simp_all add: map_Suc_upt[symmetric] comp_def del: upt_Suc)
  with \<open>length cs2 \<le> left\<close> Suc.prems b rec show ?case
    by (subst (asm) celery_task.simps)
       (auto simp del: upt_Suc split: sum.splits if_splits)
qed

lemma celery_task_fails:
  assumes "\<And>k w. P w \<Longrightarrow> \<exists>w'. body k w = (Inl e, w') \<and> P w' \<and> m w' = m w + (c::nat)"
    and "is_Exception e" and "P w"
  shows "\<exists>cs w'. celery_task left retries body w = (Inl e, cs, w') \<and> length cs = left \<and> P w' \<and>
    m w' = m w + (left + 1) * c"
  using assms(3)
proof (induction left arbitrary: retries w)
  case 0
  with assms(1)[of w retries] assms(2) show ?case
    by (subst celery_task.simps) auto
next
  case (Suc left)
  from assms(1)[OF Suc.prems, of retries] obtain w1 where
    b: "body retries w = (Inl e, w1)" "P w1" "m w1 = m w + c" by blast
  from Suc.IH[OF b(2), of "Suc retries"] obtain cs w' where
    "celery_task left (Suc retries) body w1 = (Inl e, cs, w')" "length cs = left" "P w'"
    "m w' = m w1 + (left + 1) * c" by blast
  with b assms(2) show ?case
    by (subst celery_task.simps) (simp add: algebra_simps)
qed

text \<open>When a sequence names an unregistered playbook after registered ones, the task fails with
  \<open>ValueError\<close> after three retries, and each of its four attempts ran the earlier playbooks again:
  the rows left are four times the length of the registered prefix.\<close>

theorem sequence_task_reruns_prefix:
  assumes "task_ready ds funcs alert_id w"
    and "\<forall>n \<in> set pre. map_of (rt_registry (wk_rt w)) n \<noteq> None"
    and "map_of (rt_registry (wk_rt w)) missing = None"
  shows "\<exists>cs w'. execute_playbook_sequence_task ds funcs (pre @ missing # post) alert_id seq_ids clk w =
      (Inl (not_registered missing), cs, w') \<and> cs = [1, 2, 4]
    \<and> length (db_runs (wk_db w')) = length (db_runs (wk_db w)) + 4 * length pre"
proof -
  define P where "P = (\<lambda>v. task_ready ds funcs alert_id v \<and> wk_rt v = wk_rt w)"
  define body where "body = (\<lambda>k. execute_sequence ds funcs (pre @ missing # post) alert_id (seq_ids k) (clk k))"
  have step: "\<exists>v'. body k v = (Inl (not_registered missing), v') \<and> P v' \<and>
      length (db_runs (wk_db v')) = length (db_runs (wk_db v)) + length pre" if "P v" for k v
  proof -
    have known: "n \<in> set pre \<Longrightarrow> map_of (rt_registry (wk_rt v)) n \<noteq> None" for n
      using that assms(2) by (simp add: P_def)
    have r: "task_ready ds funcs alert_id v" using that by (simp add: P_def)
    from execute_sequence_run[OF r known, where names = pre and rest = "missing # post"
        and seq_id = "seq_ids k" and clk = "clk k"]
    obtain runs outs v' where
      m: "rows_match (seq_ids k) (int (length (pre @ missing # post))) 1 pre runs outs"
      and e: "execute_sequence ds funcs (pre @ missing # post) alert_id (seq_ids k) (clk k) v =
        sequence_loop funcs alert_id (seq_ids k) (length (pre @ missing # post)) (clk k) (missing # post) outs v'"
      and v': "db_runs (wk_db v') = db_runs (wk_db v) @ runs" "wk_rt v' = wk_rt v"
        "task_ready ds funcs alert_id v'" by blast
    have "length runs = length pre" using m by (metis rows_match_def length_map)
    moreover have "map_of (rt_registry (wk_rt v')) missing = None"
      using assms(3) that v'(2) by (simp add: P_def)
    ultimately show ?thesis using e v' that by (simp add: body_def P_def Let_def)
  qed
  have "is_Exception (not_registered missing)" by (simp add: not_registered_def)
  from celery_task_fails[of P body _ "\<lambda>v. length (db_runs (wk_db v))", OF step this, of w 3 0]
  obtain cs w' where t: "celery_task 3 0 body w = (Inl (not_registered missing), cs, w')"
    "length cs = 3" "length (db_runs (wk_db w')) = length (db_runs (wk_db w)) + 4 * length pre"
    using assms(1) by (auto simp: P_def)
  from celery_task_countdowns[OF t(1)] t(2) have "cs = map (\<lambda>k. 2 ^ k) [0 ..< 3]" by simp
  then have "cs = [1, 2, 4]" by (simp add: eval_nat_numeral)
  with t show ?thesis unfolding execute_playbook_sequence_task_def body_def by blast
qed

theorem sequence_task_reruns_prefix_witness:
  "\<exists>cs w'. execute_playbook_sequence_task example_dirs (\<lambda>n. recording [] (Inr JNull))
       [''triage'', ''gone''] None (\<lambda>k. k) (\<lambda>k p. (p, p + 1)) example_worker =
     (Inl (not_registered ''gone''), cs, w') \<and> length (db_runs (wk_db w')) = 4"
proof -
  have r: "task_ready example_dirs (\<lambda>n. recording [] (Inr JNull)) None example_worker"
    by (intro example_task_ready tame_recording) (simp add: recording_def)
  have k: "\<forall>n \<in> set [''triage'']. map_of (rt_registry (wk_rt example_worker)) n \<noteq> None"
    using example_registry_entry by (simp add: example_worker_def)
  have "''gone'' \<notin> set (map fst example_registry)"
    unfolding example_registry_entry(2) by simp
  then have g: "map_of (rt_registry (wk_rt example_worker)) ''gone'' = None"
    by (simp add: example_worker_def map_of_eq_None_iff)
  have "db_runs (wk_db example_worker) = []" by (simp add: example_worker_def empty_db_def)
  with sequence_task_reruns_prefix[OF r k g, of "[]" "\<lambda>k. k" "\<lambda>k p. (p, p + 1)"] show ?thesis
    by auto
qed

end
