(* ===== verification/Cache.thy ===== *)
theory Cache
  imports Json
begin

text \<open>
  \<open>opensoar/integrations/cache.py\<close>: the enrichment cache. A backend is the record of the operations
  of the \<open>CacheBackend\<close> protocol over a state; \<open>memory_backend\<close> and \<open>redis_backend\<close> are the two the
  module defines (the Redis client is a parameter). \<open>EnrichmentCache\<close> is modelled over any backend.

  The locale \<open>cache_backend\<close> is the contract of the protocol: what a lookup returns after each
  operation, as a view of the state at a time. The facade's laws are proved from it once and the
  in-memory backend is shown to meet it. The digest of a value (\<open>hashlib\<close>) and the JSON codec
  (\<open>json\<close>) are parameters. Times are microseconds, a time to live is in seconds.
\<close>

section \<open>Backends\<close>

record 's backend =
  be_get :: "time \<Rightarrow> string \<Rightarrow> 's \<Rightarrow> string option \<times> 's"
  be_set :: "time \<Rightarrow> string \<Rightarrow> string \<Rightarrow> int \<Rightarrow> 's \<Rightarrow> 's"
  be_delete :: "string \<Rightarrow> 's \<Rightarrow> 's"
  be_delete_prefix :: "string \<Rightarrow> 's \<Rightarrow> nat \<times> 's"

definition seconds :: "int \<Rightarrow> time" where
  "seconds n = n * 1000000"

type_synonym memory_store = "(string \<times> (string \<times> time)) list"

definition memory_get :: "time \<Rightarrow> string \<Rightarrow> memory_store \<Rightarrow> string option \<times> memory_store" where
  "memory_get now key st = (case map_of st key of
      None \<Rightarrow> (None, st)
    | Some (value, expires_at) \<Rightarrow>
        (if now \<ge> expires_at then (None, AList.delete key st) else (Some value, st)))"

definition memory_set :: "time \<Rightarrow> string \<Rightarrow> string \<Rightarrow> int \<Rightarrow> memory_store \<Rightarrow> memory_store" where
  "memory_set now key value ttl st = AList.update key (value, now + seconds (max 0 ttl)) st"

definition memory_delete :: "string \<Rightarrow> memory_store \<Rightarrow> memory_store" where
  "memory_delete key st = AList.delete key st"

definition memory_delete_prefix :: "string \<Rightarrow> memory_store \<Rightarrow> nat \<times> memory_store" where
  "memory_delete_prefix p st =
     (let matching = filter (\<lambda>k. startswith k p) (map fst st)
      in (length matching, foldl (\<lambda>s k. AList.delete k s) st matching))"

definition memory_backend :: "memory_store backend" where
  "memory_backend = \<lparr>be_get = memory_get, be_set = memory_set, be_delete = memory_delete,
     be_delete_prefix = memory_delete_prefix\<rparr>"

text \<open>The Redis client: \<open>get\<close>, \<open>set(..., ex=)\<close>, \<open>delete\<close> and the keys \<open>scan_iter\<close> yields.\<close>

record 's redis_client =
  rc_get :: "time \<Rightarrow> string \<Rightarrow> 's \<Rightarrow> string option \<times> 's"
  rc_set :: "time \<Rightarrow> string \<Rightarrow> string \<Rightarrow> int \<Rightarrow> 's \<Rightarrow> 's"
  rc_delete :: "string \<Rightarrow> 's \<Rightarrow> 's"
  rc_scan :: "string \<Rightarrow> 's \<Rightarrow> string list"

definition redis_backend :: "'s redis_client \<Rightarrow> 's backend" where
  "redis_backend c = \<lparr>be_get = rc_get c,
     be_set = (\<lambda>now key value ttl. rc_set c now key value (max 1 ttl)),
     be_delete = rc_delete c,
     be_delete_prefix = (\<lambda>p st.
       foldl (\<lambda>(deleted, s) key. (Suc deleted, rc_delete c key s)) (0, st) (rc_scan c (p @ ''*'') st))\<rparr>"

section \<open>Counters\<close>

record bucket =
  bk_hits :: nat
  bk_misses :: nat
  bk_stores :: nat
  bk_invalidations :: nat

record cache_metrics =
  cm_hits :: nat
  cm_misses :: nat
  cm_stores :: nat
  cm_invalidations :: nat
  cm_by_source :: "(string \<times> bucket) list"

definition empty_bucket :: bucket where
  "empty_bucket = \<lparr>bk_hits = 0, bk_misses = 0, bk_stores = 0, bk_invalidations = 0\<rparr>"

definition bump :: "(bucket \<Rightarrow> bucket) \<Rightarrow> string \<Rightarrow> (string \<times> bucket) list \<Rightarrow> (string \<times> bucket) list" where
  "bump f source bs =
     AList.update source (f (case map_of bs source of None \<Rightarrow> empty_bucket | Some b \<Rightarrow> b)) bs"

definition metrics_hit :: "string \<Rightarrow> cache_metrics \<Rightarrow> cache_metrics" where
  "metrics_hit source m = m\<lparr>cm_hits := Suc (cm_hits m),
     cm_by_source := bump (\<lambda>b. b\<lparr>bk_hits := Suc (bk_hits b)\<rparr>) source (cm_by_source m)\<rparr>"

definition metrics_miss :: "string \<Rightarrow> cache_metrics \<Rightarrow> cache_metrics" where
  "metrics_miss source m = m\<lparr>cm_misses := Suc (cm_misses m),
     cm_by_source := bump (\<lambda>b. b\<lparr>bk_misses := Suc (bk_misses b)\<rparr>) source (cm_by_source m)\<rparr>"

definition metrics_store :: "string \<Rightarrow> cache_metrics \<Rightarrow> cache_metrics" where
  "metrics_store source m = m\<lparr>cm_stores := Suc (cm_stores m),
     cm_by_source := bump (\<lambda>b. b\<lparr>bk_stores := Suc (bk_stores b)\<rparr>) source (cm_by_source m)\<rparr>"

definition metrics_invalidate :: "string \<Rightarrow> nat \<Rightarrow> cache_metrics \<Rightarrow> cache_metrics" where
  "metrics_invalidate source n m = m\<lparr>cm_invalidations := cm_invalidations m + n,
     cm_by_source := bump (\<lambda>b. b\<lparr>bk_invalidations := Suc (bk_invalidations b)\<rparr>) source (cm_by_source m)\<rparr>"

definition no_metrics :: cache_metrics where
  "no_metrics = \<lparr>cm_hits = 0, cm_misses = 0, cm_stores = 0, cm_invalidations = 0, cm_by_source = []\<rparr>"

section \<open>The cache\<close>

record ttl_settings =
  ttl_virustotal :: int
  ttl_abuseipdb :: int
  ttl_greynoise :: int
  ttl_shodan :: int
  ttl_default :: int

definition default_ttl_for :: "ttl_settings \<Rightarrow> string \<Rightarrow> int" where
  "default_ttl_for cfg source =
     (case map_of [(''virustotal'', ttl_virustotal cfg), (''abuseipdb'', ttl_abuseipdb cfg),
                   (''greynoise'', ttl_greynoise cfg), (''shodan'', ttl_shodan cfg)] source of
        Some t \<Rightarrow> t | None \<Rightarrow> ttl_default cfg)"

record cache_env =
  ce_digest :: "string \<Rightarrow> string"
  ce_dumps :: "json \<Rightarrow> string option"
  ce_loads :: "string \<Rightarrow> json option"
  ce_ttls :: ttl_settings

record 's cache =
  ca_store :: 's
  ca_metrics :: cache_metrics

definition cache_key_prefix :: string where
  "cache_key_prefix = ''opensoar:enrichment:''"

definition source_prefix :: "string \<Rightarrow> string" where
  "source_prefix source = cache_key_prefix @ source @ '':''"

definition build_key :: "cache_env \<Rightarrow> string \<Rightarrow> string \<Rightarrow> string \<Rightarrow> string" where
  "build_key env source obs_type v =
     cache_key_prefix @ source @ '':'' @ obs_type @ '':'' @ take 32 (ce_digest env v)"

text \<open>\<open>None\<close> in Python is both the absent entry and a cached null.\<close>

definition cache_get ::
  "cache_env \<Rightarrow> 's backend \<Rightarrow> time \<Rightarrow> string \<Rightarrow> string \<Rightarrow> string \<Rightarrow> 's cache \<Rightarrow> json \<times> 's cache" where
  "cache_get env B now source obs_type v c =
     (let (raw, st) = be_get B now (build_key env source obs_type v) (ca_store c);
          c' = c\<lparr>ca_store := st\<rparr>
      in case raw of
           None \<Rightarrow> (JNull, c')
         | Some s \<Rightarrow> (case ce_loads env s of None \<Rightarrow> (JNull, c') | Some j \<Rightarrow> (j, c')))"

definition cache_set ::
  "cache_env \<Rightarrow> 's backend \<Rightarrow> time \<Rightarrow> string \<Rightarrow> string \<Rightarrow> string \<Rightarrow> json \<Rightarrow> int \<Rightarrow> 's cache \<Rightarrow> 's cache" where
  "cache_set env B now source obs_type v payload ttl c =
     (case ce_dumps env payload of
        None \<Rightarrow> c
      | Some encoded \<Rightarrow>
          c\<lparr>ca_store := be_set B now (build_key env source obs_type v) encoded ttl (ca_store c),
            ca_metrics := metrics_store source (ca_metrics c)\<rparr>)"

definition cache_invalidate ::
  "cache_env \<Rightarrow> 's backend \<Rightarrow> string \<Rightarrow> string \<Rightarrow> string \<Rightarrow> 's cache \<Rightarrow> nat \<times> 's cache" where
  "cache_invalidate env B source obs_type v c =
     (1, c\<lparr>ca_store := be_delete B (build_key env source obs_type v) (ca_store c),
           ca_metrics := metrics_invalidate source 1 (ca_metrics c)\<rparr>)"

definition invalidate_source :: "'s backend \<Rightarrow> string \<Rightarrow> 's cache \<Rightarrow> nat \<times> 's cache" where
  "invalidate_source B source c =
     (let (n, st) = be_delete_prefix B (source_prefix source) (ca_store c)
      in (n, c\<lparr>ca_store := st, ca_metrics := metrics_invalidate source n (ca_metrics c)\<rparr>))"

text \<open>\<open>get_or_fetch\<close>: the fetcher returns or raises; the third component says whether it ran.\<close>

definition get_or_fetch ::
  "cache_env \<Rightarrow> 's backend \<Rightarrow> time \<Rightarrow> string \<Rightarrow> string \<Rightarrow> string \<Rightarrow> (exn + json) \<Rightarrow> int option \<Rightarrow>
   's cache \<Rightarrow> (exn + json) \<times> bool \<times> 's cache" where
  "get_or_fetch env B now source obs_type v fetcher ttl_seconds c =
     (let (cached, c1) = cache_get env B now source obs_type v c
      in if cached \<noteq> JNull then
           (Inr cached, False, c1\<lparr>ca_metrics := metrics_hit source (ca_metrics c1)\<rparr>)
         else
           (let c2 = c1\<lparr>ca_metrics := metrics_miss source (ca_metrics c1)\<rparr>
            in case fetcher of
                 Inl e \<Rightarrow> (Inl e, True, c2)
               | Inr result \<Rightarrow>
                   (let ttl = (case ttl_seconds of Some t \<Rightarrow> t | None \<Rightarrow> default_ttl_for (ce_ttls env) source)
                    in (Inr result, True, cache_set env B now source obs_type v result ttl c2))))"

text \<open>The decorator: which argument keys the cache, if any; without one the function is called.\<close>

definition cached_value :: "string option \<Rightarrow> json list \<Rightarrow> jdict \<Rightarrow> json option" where
  "cached_value value_arg args kwargs =
     (case value_arg of
        Some a \<Rightarrow>
          (let v = dget kwargs a
           in Some (if v = JNull \<and> args \<noteq> [] then hd args else v))
      | None \<Rightarrow> (case args of [] \<Rightarrow> None | x # _ \<Rightarrow> Some x))"

definition cached_enrichment ::
  "cache_env \<Rightarrow> 's backend \<Rightarrow> time \<Rightarrow> string \<Rightarrow> string \<Rightarrow> int option \<Rightarrow> string option \<Rightarrow>
   (json list \<Rightarrow> jdict \<Rightarrow> exn + json) \<Rightarrow> json list \<Rightarrow> jdict \<Rightarrow> 's cache \<Rightarrow> (exn + json) \<times> bool \<times> 's cache" where
  "cached_enrichment env B now source obs_type ttl_seconds value_arg fn args kwargs c =
     (case cached_value value_arg args kwargs of
        None \<Rightarrow> (fn args kwargs, True, c)
      | Some v \<Rightarrow> get_or_fetch env B now source obs_type (py_str v) (fn args kwargs) ttl_seconds c)"

section \<open>The contract of a backend\<close>

locale cache_backend =
  fixes B :: "'s backend"
    and view :: "'s \<Rightarrow> time \<Rightarrow> string \<Rightarrow> string option"
    and eff :: "int \<Rightarrow> int"
  assumes get_result: "fst (be_get B t k s) = view s t k"
    and get_view: "t \<le> t' \<Longrightarrow> view (snd (be_get B t k s)) t' k' = view s t' k'"
    and set_view: "t \<le> t' \<Longrightarrow> view (be_set B t k v ttl s) t' k' =
      (if k' = k then (if t' < t + seconds (eff ttl) then Some v else None) else view s t' k')"
    and delete_view: "view (be_delete B k s) t k' = (if k' = k then None else view s t k')"
    and delete_prefix_view: "view (snd (be_delete_prefix B p s)) t k' =
      (if startswith k' p then None else view s t k')"
begin

text \<open>A key is fresh when its entry decodes to something other than null.\<close>

definition fresh :: "cache_env \<Rightarrow> 's \<Rightarrow> time \<Rightarrow> string \<Rightarrow> bool" where
  "fresh env s t k \<longleftrightarrow> (\<exists>raw j. view s t k = Some raw \<and> ce_loads env raw = Some j \<and> j \<noteq> JNull)"

lemma cache_get_result:
  "fst (cache_get env B t source ty v c) =
     (case view (ca_store c) t (build_key env source ty v) of
        None \<Rightarrow> JNull | Some raw \<Rightarrow> (case ce_loads env raw of None \<Rightarrow> JNull | Some j \<Rightarrow> j))"
  using get_result[of t "build_key env source ty v" "ca_store c"]
  by (auto simp: cache_get_def Let_def split: prod.splits option.splits)

lemma cache_get_view:
  "t \<le> t' \<Longrightarrow> view (ca_store (snd (cache_get env B t source ty v c))) t' k' = view (ca_store c) t' k'"
  using get_view[of t t' "build_key env source ty v" "ca_store c" k']
  by (auto simp: cache_get_def Let_def split: prod.splits option.splits)

lemma fresh_iff: "fresh env (ca_store c) t (build_key env source ty v) \<longleftrightarrow>
    fst (cache_get env B t source ty v c) \<noteq> JNull"
  by (auto simp: fresh_def cache_get_result split: option.splits)

lemma fetch_called: "fst (snd (get_or_fetch env B t source ty v f ttl c)) \<longleftrightarrow>
    \<not> fresh env (ca_store c) t (build_key env source ty v)"
  by (auto simp: get_or_fetch_def fresh_iff Let_def split: prod.splits sum.splits)

lemma fetch_hit:
  "fresh env (ca_store c) t (build_key env source ty v) \<Longrightarrow>
     \<exists>c'. get_or_fetch env B t source ty v f ttl c =
       (Inr (fst (cache_get env B t source ty v c)), False, c') \<and>
     (\<forall>t' \<ge> t. \<forall>k. view (ca_store c') t' k = view (ca_store c) t' k)"
  using cache_get_view[of t _ env source ty v c]
  by (auto simp: get_or_fetch_def fresh_iff Let_def split: prod.splits)

text \<open>A successful fetch of a value the codec can store leaves its key fresh for its time to live and
  changes no other key.\<close>

lemma fetch_stores:
  assumes "\<not> fresh env (ca_store c) t (build_key env source ty v)"
    and "ce_dumps env j = Some raw"
  shows "\<exists>c'. get_or_fetch env B t source ty v (Inr j) None c = (Inr j, True, c') \<and>
    (\<forall>t' \<ge> t. \<forall>k. view (ca_store c') t' k =
      (if k = build_key env source ty v
       then (if t' < t + seconds (eff (default_ttl_for (ce_ttls env) source)) then Some raw else None)
       else view (ca_store c) t' k))"
proof -
  obtain c1 where g: "cache_get env B t source ty v c = (JNull, c1)"
    using assms(1) by (metis fresh_iff prod.collapse)
  have "view (ca_store c1) t' k = view (ca_store c) t' k" if "t' \<ge> t" for t' k
    using cache_get_view[OF that, of env source ty v c k] g by simp
  with g assms(2) show ?thesis
    by (simp add: get_or_fetch_def cache_set_def set_view)
qed

lemma invalidate_not_fresh:
  "\<not> fresh env (ca_store (snd (cache_invalidate env B source ty v c))) t (build_key env source ty v)"
  by (simp add: cache_invalidate_def fresh_def delete_view)

lemma invalidate_source_view:
  "view (ca_store (snd (invalidate_source B source c))) t k =
     (if startswith k (source_prefix source) then None else view (ca_store c) t k)"
  using delete_prefix_view[of "source_prefix source" "ca_store c" t k]
  by (auto simp: invalidate_source_def Let_def split: prod.splits)

end

section \<open>Sequences of lookups\<close>

record fetch_op =
  fo_time :: time
  fo_source :: string
  fo_type :: string
  fo_value :: string
  fo_result :: "exn + json"

definition fo_key :: "cache_env \<Rightarrow> fetch_op \<Rightarrow> string" where
  "fo_key env op = build_key env (fo_source op) (fo_type op) (fo_value op)"

text \<open>A run of \<open>get_or_fetch\<close> calls with default time to live; whether each called upstream.\<close>

fun run_fetches :: "cache_env \<Rightarrow> 's backend \<Rightarrow> fetch_op list \<Rightarrow> 's cache \<Rightarrow> (fetch_op \<times> bool) list" where
  "run_fetches env B [] c = []"
| "run_fetches env B (op # ops) c =
     (let (r, called, c') = get_or_fetch env B (fo_time op) (fo_source op) (fo_type op) (fo_value op)
                              (fo_result op) None c
      in (op, called) # run_fetches env B ops c')"

text \<open>A payload the codec can store and that does not come back as null.\<close>

definition storable :: "cache_env \<Rightarrow> json \<Rightarrow> bool" where
  "storable env j \<longleftrightarrow>
     (case ce_dumps env j of None \<Rightarrow> False | Some raw \<Rightarrow> ce_loads env raw \<notin> {None, Some JNull})"

definition storable_op :: "cache_env \<Rightarrow> fetch_op \<Rightarrow> bool" where
  "storable_op env op \<longleftrightarrow> (case fo_result op of Inl _ \<Rightarrow> True | Inr j \<Rightarrow> storable env j)"

text \<open>Two successful upstream calls for one key are a time to live apart.\<close>

definition spaced :: "cache_env \<Rightarrow> (int \<Rightarrow> int) \<Rightarrow> fetch_op \<times> bool \<Rightarrow> fetch_op \<times> bool \<Rightarrow> bool" where
  "spaced env eff a b \<longleftrightarrow>
     (snd a \<and> snd b \<and> fo_key env (fst a) = fo_key env (fst b) \<and> \<not> isl (fo_result (fst a)) \<longrightarrow>
        fo_time (fst b) \<ge> fo_time (fst a) + seconds (eff (default_ttl_for (ce_ttls env) (fo_source (fst a)))))"

lemma spaced_uncalled: "spaced env eff (op, False) y"
  by (simp add: spaced_def)

lemma spaced_raised: "isl (fo_result op) \<Longrightarrow> spaced env eff (op, b) y"
  by (simp add: spaced_def)

context cache_backend
begin

lemma op_cases:
  fixes c :: "'s cache" and op :: fetch_op
  assumes "storable_op env op"
  obtains (hit) r c' where "fresh env (ca_store c) (fo_time op) (fo_key env op)"
      "get_or_fetch env B (fo_time op) (fo_source op) (fo_type op) (fo_value op) (fo_result op) None c = (r, False, c')"
      "\<And>t' k. t' \<ge> fo_time op \<Longrightarrow> view (ca_store c') t' k = view (ca_store c) t' k"
  | (raised) r c' where "\<not> fresh env (ca_store c) (fo_time op) (fo_key env op)" "isl (fo_result op)"
      "get_or_fetch env B (fo_time op) (fo_source op) (fo_type op) (fo_value op) (fo_result op) None c = (r, True, c')"
      "\<And>t' k. t' \<ge> fo_time op \<Longrightarrow> view (ca_store c') t' k = view (ca_store c) t' k"
  | (fetched) r c' where "\<not> fresh env (ca_store c) (fo_time op) (fo_key env op)"
      "get_or_fetch env B (fo_time op) (fo_source op) (fo_type op) (fo_value op) (fo_result op) None c = (r, True, c')"
      "\<And>t'. t' \<ge> fo_time op \<Longrightarrow>
         t' < fo_time op + seconds (eff (default_ttl_for (ce_ttls env) (fo_source op))) \<Longrightarrow>
         fresh env (ca_store c') t' (fo_key env op)"
      "\<And>t' k. t' \<ge> fo_time op \<Longrightarrow> k \<noteq> fo_key env op \<Longrightarrow> view (ca_store c') t' k = view (ca_store c) t' k"
proof -
  let ?k = "fo_key env op"
  show thesis
  proof (cases "fresh env (ca_store c) (fo_time op) ?k")
    case True
    from fetch_hit[OF True[unfolded fo_key_def], of "fo_result op" None] show ?thesis
      using hit[OF True] by blast
  next
    case False
    show ?thesis
    proof (cases "fo_result op")
      case (Inl e)
      obtain c1 where g: "cache_get env B (fo_time op) (fo_source op) (fo_type op) (fo_value op) c = (JNull, c1)"
        using False by (metis fresh_iff fo_key_def prod.collapse)
      have "view (ca_store c1) t' k = view (ca_store c) t' k" if "t' \<ge> fo_time op" for t' k
        using cache_get_view[OF that, of env "fo_source op" "fo_type op" "fo_value op" c k] g by simp
      with g Inl False show ?thesis
        by (intro raised[of "Inl e" "c1\<lparr>ca_metrics := metrics_miss (fo_source op) (ca_metrics c1)\<rparr>"])
           (simp_all add: get_or_fetch_def)
    next
      case (Inr j)
      from assms Inr obtain raw where raw: "ce_dumps env j = Some raw"
        "ce_loads env raw \<notin> {None, Some JNull}"
        by (auto simp: storable_op_def storable_def split: option.splits)
      from fetch_stores[OF False[unfolded fo_key_def] raw(1)] obtain c' where
        c': "get_or_fetch env B (fo_time op) (fo_source op) (fo_type op) (fo_value op) (Inr j) None c = (Inr j, True, c')"
        "\<And>t' k. t' \<ge> fo_time op \<Longrightarrow> view (ca_store c') t' k = (if k = ?k
           then (if t' < fo_time op + seconds (eff (default_ttl_for (ce_ttls env) (fo_source op))) then Some raw else None)
           else view (ca_store c) t' k)"
        unfolding fo_key_def by blast
      show ?thesis
        by (rule fetched[OF False, of "Inr j" c']) (use c' raw Inr in \<open>auto simp: fresh_def\<close>)
    qed
  qed
qed

text \<open>While a key is known to stay fresh until \<open>L\<close>, no lookup before \<open>L\<close> calls upstream for it.\<close>

lemma no_call_while_fresh:
  assumes "\<And>t'. now \<le> t' \<Longrightarrow> t' < L \<Longrightarrow> fresh env (ca_store c) t' k"
    and "sorted (now # map fo_time ops)" and "list_all (storable_op env) ops"
  shows "\<forall>(op, called) \<in> set (run_fetches env B ops c). fo_key env op = k \<and> called \<longrightarrow> L \<le> fo_time op"
  using assms
proof (induction ops arbitrary: c now)
  case (Cons op ops)
  have now: "now \<le> fo_time op" and srt: "sorted (fo_time op # map fo_time ops)"
    and st: "storable_op env op" "list_all (storable_op env) ops" using Cons.prems by auto
  have keep: "\<forall>(op', called) \<in> set (run_fetches env B ops c'). fo_key env op' = k \<and> called \<longrightarrow> L \<le> fo_time op'"
    if "\<And>t'. fo_time op \<le> t' \<Longrightarrow> t' < L \<Longrightarrow> fresh env (ca_store c') t' k" for c'
    using Cons.IH[OF that srt st(2)] by blast
  from st(1) show ?case
  proof (cases rule: op_cases[where c = c])
    case (hit r c')
    have "fresh env (ca_store c') t' k" if "fo_time op \<le> t'" "t' < L" for t'
      using Cons.prems(1)[of t'] now that hit(3) by (simp add: fresh_def)
    from keep[OF this] hit(2) show ?thesis by auto
  next
    case (raised r c')
    have "fresh env (ca_store c') t' k" if "fo_time op \<le> t'" "t' < L" for t'
      using Cons.prems(1)[of t'] now that raised(4) by (simp add: fresh_def)
    moreover have "fo_key env op = k \<Longrightarrow> L \<le> fo_time op"
      using Cons.prems(1)[of "fo_time op"] now raised(1) by force
    ultimately show ?thesis using keep[of c'] raised(3) by auto
  next
    case (fetched r c')
    have L: "fo_key env op = k \<Longrightarrow> L \<le> fo_time op"
      using Cons.prems(1)[of "fo_time op"] now fetched(1) by force
    have "fresh env (ca_store c') t' k" if "fo_time op \<le> t'" "t' < L" for t'
    proof (cases "fo_key env op = k")
      case True
      with L that show ?thesis by simp
    next
      case False
      then show ?thesis
        using Cons.prems(1)[of t'] now that fetched(4)[of t' k] by (simp add: fresh_def)
    qed
    from keep[OF this] fetched(2) L show ?thesis by auto
  qed
qed simp

lemma run_fetches_spaced:
  "sorted (map fo_time ops) \<Longrightarrow> list_all (storable_op env) ops \<Longrightarrow>
     sorted_wrt (spaced env eff) (run_fetches env B ops c)"
proof (induction ops arbitrary: c)
  case (Cons op ops)
  have srt: "sorted (fo_time op # map fo_time ops)" and st: "storable_op env op" "list_all (storable_op env) ops"
    using Cons.prems by auto
  have ih: "sorted_wrt (spaced env eff) (run_fetches env B ops c')" for c'
    using Cons.IH srt st by simp
  from st(1) show ?case
  proof (cases rule: op_cases[where c = c])
    case (fetched r c')
    have "\<forall>(op', called) \<in> set (run_fetches env B ops c'). fo_key env op' = fo_key env op \<and> called \<longrightarrow>
        fo_time op + seconds (eff (default_ttl_for (ce_ttls env) (fo_source op))) \<le> fo_time op'"
      by (rule no_call_while_fresh[OF fetched(3) srt st(2)])
    then have "\<forall>y \<in> set (run_fetches env B ops c'). spaced env eff (op, True) y"
      by (auto simp: spaced_def)
    with fetched(2) ih[of c'] show ?thesis by simp
  qed (simp_all add: ih spaced_uncalled spaced_raised)
qed simp

end

section \<open>The in-memory backend meets the contract\<close>

definition memory_view :: "memory_store \<Rightarrow> time \<Rightarrow> string \<Rightarrow> string option" where
  "memory_view st t k = (case map_of st k of
      None \<Rightarrow> None | Some (v, e) \<Rightarrow> (if t < e then Some v else None))"

lemma map_of_delete_many:
  "map_of (foldl (\<lambda>s k. AList.delete k s) st ks) k' = (if k' \<in> set ks then None else map_of st k')"
  by (induction ks arbitrary: st) auto

lemma memory_delete_prefix_map_of:
  "map_of (snd (memory_delete_prefix p st)) k = (if startswith k p then None else map_of st k)"
proof -
  have "map_of st k = None" if "k \<notin> set (map fst st)" using that by (simp add: map_of_eq_None_iff)
  then show ?thesis by (auto simp: memory_delete_prefix_def Let_def map_of_delete_many)
qed

interpretation memory: cache_backend memory_backend memory_view "max 0"
proof
  fix t t' k k' s v ttl p
  show "fst (be_get memory_backend t k s) = memory_view s t k"
    by (auto simp: memory_backend_def memory_get_def memory_view_def split: option.splits)
  show "t \<le> t' \<Longrightarrow> memory_view (snd (be_get memory_backend t k s)) t' k' = memory_view s t' k'"
    by (auto simp: memory_backend_def memory_get_def memory_view_def split: option.splits)
  show "t \<le> t' \<Longrightarrow> memory_view (be_set memory_backend t k v ttl s) t' k' =
      (if k' = k then (if t' < t + seconds (max 0 ttl) then Some v else None) else memory_view s t' k')"
    by (auto simp: memory_backend_def memory_set_def memory_view_def split: option.splits)
  show "memory_view (be_delete memory_backend k s) t k' = (if k' = k then None else memory_view s t k')"
    by (auto simp: memory_backend_def memory_delete_def memory_view_def split: option.splits)
  show "memory_view (snd (be_delete_prefix memory_backend p s)) t k' =
      (if startswith k' p then None else memory_view s t k')"
    by (auto simp: memory_backend_def memory_delete_prefix_map_of memory_view_def)
qed


definition example_env :: cache_env where
  "example_env = \<lparr>ce_digest = (\<lambda>v. v), ce_dumps = (\<lambda>j. case j of JStr s \<Rightarrow> Some s | _ \<Rightarrow> None),
     ce_loads = (\<lambda>s. Some (JStr s)),
     ce_ttls = \<lparr>ttl_virustotal = 86400, ttl_abuseipdb = 43200, ttl_greynoise = 21600,
                ttl_shodan = 86400, ttl_default = 3600\<rparr>\<rparr>"

definition example_op :: "time \<Rightarrow> fetch_op" where
  "example_op t = \<lparr>fo_time = t, fo_source = ''greynoise'', fo_type = ''ip'', fo_value = ''8.8.8.8'',
     fo_result = Inr (JStr ''benign'')\<rparr>"


text \<open>Invalidation is exact: after \<open>invalidate_source\<close> no key of that source is fresh at any time,
  and, for colon-free source names, every key of another source is looked up exactly as before.\<close>

theorem invalidate_source_exact:
  assumes "CHR '':'' \<notin> set source" and "CHR '':'' \<notin> set other"
  shows "memory_view (ca_store (snd (invalidate_source memory_backend source c))) t (build_key env other ty v) =
     (if other = source then None else memory_view (ca_store c) t (build_key env other ty v))"
proof -
  have "prefix (source @ '':'') (other @ '':'' @ rest) \<longleftrightarrow> other = source" for rest
    using assms
  proof (induction source arbitrary: other)
    case Nil
    then show ?case by (cases other) auto
  next
    case (Cons x xs)
    then show ?case by (cases other) auto
  qed
  then have "startswith (build_key env other ty v) (source_prefix source) \<longleftrightarrow> other = source"
    by (simp add: startswith_def build_key_def source_prefix_def)
  then show ?thesis by (simp add: memory.invalidate_source_view)
qed

theorem invalidate_source_exact_witness:
  "memory_view (ca_store (snd (invalidate_source memory_backend ''shodan''
      (\<lparr>ca_store = [(build_key example_env ''shodan'' ''ip'' ''1'', (''x'', 9)),
          (build_key example_env ''greynoise'' ''ip'' ''1'', (''y'', 9))], ca_metrics = no_metrics\<rparr>))))
      0 (build_key example_env ''greynoise'' ''ip'' ''1'') = Some ''y''"
  using invalidate_source_exact[of "''shodan''" "''greynoise''"
    "\<lparr>ca_store = [(build_key example_env ''shodan'' ''ip'' ''1'', (''x'', 9)),
          (build_key example_env ''greynoise'' ''ip'' ''1'', (''y'', 9))], ca_metrics = no_metrics\<rparr>"
    0 example_env "''ip''" "''1''"]
  by (simp add: memory_view_def build_key_def)

section \<open>The counters\<close>

definition by_source_total :: "(bucket \<Rightarrow> nat) \<Rightarrow> cache_metrics \<Rightarrow> nat" where
  "by_source_total f m = sum_list (map (f \<circ> snd) (cm_by_source m))"

lemma sum_update: "distinct (map fst bs) \<Longrightarrow>
    sum_list (map (f \<circ> snd) (AList.update k v bs)) + (case map_of bs k of None \<Rightarrow> 0 | Some b \<Rightarrow> f b) =
    sum_list (map (f \<circ> snd) bs) + (f v :: nat)"
  by (induction bs) (auto split: option.splits)

text \<open>Totals and per-source counters agree, except that the invalidation total may run ahead.\<close>

definition cache_metrics_ok :: "cache_metrics \<Rightarrow> bool" where
  "cache_metrics_ok m \<longleftrightarrow> distinct (map fst (cm_by_source m)) \<and>
     cm_hits m = by_source_total bk_hits m \<and> cm_misses m = by_source_total bk_misses m \<and>
     cm_stores m = by_source_total bk_stores m"

lemma sum_bump: "distinct (map fst bs) \<Longrightarrow> f empty_bucket = 0 \<Longrightarrow>
    (\<And>b. f (g b) = f b + d) \<Longrightarrow>
    sum_list (map (f \<circ> snd) (bump g k bs)) = sum_list (map (f \<circ> snd) bs) + (d :: nat)"
  using sum_update[of bs f k "g (case map_of bs k of None \<Rightarrow> empty_bucket | Some b \<Rightarrow> b)"]
  by (cases "map_of bs k") (simp_all add: bump_def)

lemma bump_distinct: "distinct (map fst bs) \<Longrightarrow> distinct (map fst (bump g k bs))"
  by (simp add: bump_def distinct_update)

lemma empty_bucket_simps [simp]: "bk_hits empty_bucket = 0" "bk_misses empty_bucket = 0"
  "bk_stores empty_bucket = 0" "bk_invalidations empty_bucket = 0"
  by (simp_all add: empty_bucket_def)

lemma metrics_ok_ops [simp]:
  assumes "cache_metrics_ok m"
  shows "cache_metrics_ok (metrics_hit s m)" "cache_metrics_ok (metrics_miss s m)"
    "cache_metrics_ok (metrics_store s m)" "cache_metrics_ok (metrics_invalidate s n m)"
  using assms unfolding cache_metrics_ok_def by_source_total_def
  by (simp_all add: metrics_hit_def metrics_miss_def metrics_store_def metrics_invalidate_def bump_distinct
      sum_bump[where d = 0] sum_bump[where d = 1])

datatype cache_call =
    Fetch fetch_op
  | SetTo time string string string json int
  | Invalidate string string string
  | InvalidateSource string

fun cache_step :: "cache_env \<Rightarrow> 's backend \<Rightarrow> cache_call \<Rightarrow> 's cache \<Rightarrow> 's cache" where
  "cache_step env B (Fetch op) c =
     snd (snd (get_or_fetch env B (fo_time op) (fo_source op) (fo_type op) (fo_value op) (fo_result op) None c))"
| "cache_step env B (SetTo t s ty v j ttl) c = cache_set env B t s ty v j ttl c"
| "cache_step env B (Invalidate s ty v) c = snd (cache_invalidate env B s ty v c)"
| "cache_step env B (InvalidateSource s) c = snd (invalidate_source B s c)"

lemma cache_get_metrics [simp]: "ca_metrics (snd (cache_get env B t s ty v c)) = ca_metrics c"
  by (auto simp: cache_get_def Let_def split: prod.splits option.splits)

lemma cache_set_metrics_ok:
  "cache_metrics_ok (ca_metrics c) \<Longrightarrow> cache_metrics_ok (ca_metrics (cache_set env B t s ty v j ttl c))"
  by (simp add: cache_set_def split: option.splits)

lemma cache_step_metrics_ok:
  assumes "cache_metrics_ok (ca_metrics c)"
  shows "cache_metrics_ok (ca_metrics (cache_step env B call c))"
proof (cases call)
  case (Fetch op)
  obtain j c1 where g: "cache_get env B (fo_time op) (fo_source op) (fo_type op) (fo_value op) c = (j, c1)"
    by fastforce
  then have "ca_metrics c1 = ca_metrics c" by (metis cache_get_metrics snd_conv)
  with g assms Fetch show ?thesis
    by (auto simp: get_or_fetch_def Let_def intro!: cache_set_metrics_ok split: sum.splits)
qed (use assms in \<open>auto simp: cache_set_metrics_ok cache_invalidate_def invalidate_source_def
       split: prod.splits\<close>)

text \<open>The counters of the cache stay consistent under every sequence of its operations on any
  backend: the totals of hits, misses and stores are the sums over the sources.\<close>

theorem cache_counters_consistent:
  "cache_metrics_ok (ca_metrics (fold (cache_step env B) calls \<lparr>ca_store = st, ca_metrics = no_metrics\<rparr>))"
proof -
  have "cache_metrics_ok (ca_metrics (fold (cache_step env B) calls c))"
    if "cache_metrics_ok (ca_metrics c)" for c
    using that by (induction calls arbitrary: c) (simp_all add: cache_step_metrics_ok)
  moreover have "cache_metrics_ok no_metrics"
    by (simp add: cache_metrics_ok_def no_metrics_def by_source_total_def)
  ultimately show ?thesis by simp
qed

text \<open>The invalidation total is the odd one out: per source one is counted, whatever was deleted.\<close>

lemma invalidate_counts:
  assumes "distinct (map fst (cm_by_source m))"
  shows "cm_invalidations (metrics_invalidate s n m) = cm_invalidations m + n \<and>
    by_source_total bk_invalidations (metrics_invalidate s n m) = by_source_total bk_invalidations m + 1"
  using sum_bump[OF assms, of bk_invalidations "\<lambda>b. b\<lparr>bk_invalidations := Suc (bk_invalidations b)\<rparr>" 1 s]
  by (simp add: metrics_invalidate_def by_source_total_def)

end
