(* ===== verification/Rate_Limit.thy ===== *)
theory Rate_Limit
  imports Prelude
begin

text \<open>
  \<open>opensoar/middleware/rate_limit.py\<close>: the limiter in front of the webhook endpoints. The buckets are
  the dictionary from client keys to the times of the requests let through; a request carries its
  path, the headers the limiter reads, the peer address and the monotonic clock.
\<close>

record request =
  rq_path :: string
  rq_api_key :: "string option"
  rq_forwarded :: "string option"
  rq_peer :: "string option"
  rq_now :: time

type_synonym buckets = "(string \<times> time list) list"

record limiter =
  lm_max_requests :: int
  lm_window :: time

definition client_key :: "request \<Rightarrow> string" where
  "client_key r =
     (if truthy_str (rq_api_key r) then ''key:'' @ take 12 (the (rq_api_key r))
      else if truthy_str (rq_forwarded r) then
        ''ip:'' @ strip (hd (split_on (CHR '','') (the (rq_forwarded r))))
      else (case rq_peer r of Some host \<Rightarrow> ''ip:'' @ host | None \<Rightarrow> ''ip:unknown''))"

definition is_limited_path :: "string \<Rightarrow> bool" where
  "is_limited_path p \<longleftrightarrow> startswith p ''/api/v1/webhooks/''"

definition bucket_of :: "buckets \<Rightarrow> string \<Rightarrow> time list" where
  "bucket_of bs k = (case map_of bs k of None \<Rightarrow> [] | Some ts \<Rightarrow> ts)"

datatype verdict = PassedOn | TooMany

definition rate_dispatch :: "limiter \<Rightarrow> request \<Rightarrow> buckets \<Rightarrow> verdict \<times> buckets" where
  "rate_dispatch lim r bs =
     (if \<not> is_limited_path (rq_path r) then (PassedOn, bs)
      else
        (let key = client_key r;
             cutoff = rq_now r - lm_window lim;
             kept = filter (\<lambda>t. t > cutoff) (bucket_of bs key);
             bs' = AList.update key kept bs
         in if int (length kept) \<ge> lm_max_requests lim then (TooMany, bs')
            else (PassedOn, AList.update key (kept @ [rq_now r]) bs')))"

definition reset_rate_limiter :: "buckets \<Rightarrow> buckets" where
  "reset_rate_limiter bs = []"

fun run_requests :: "limiter \<Rightarrow> request list \<Rightarrow> buckets \<Rightarrow> (request \<times> verdict) list" where
  "run_requests lim [] bs = []"
| "run_requests lim (r # rs) bs =
     (let (v, bs') = rate_dispatch lim r bs in (r, v) # run_requests lim rs bs')"

section \<open>The window bound\<close>

text \<open>The times of the limited requests of a client that were let through, in order.\<close>

definition admitted :: "string \<Rightarrow> (request \<times> verdict) list \<Rightarrow> time list" where
  "admitted k log = map (\<lambda>(r, v). rq_now r)
     (filter (\<lambda>(r, v). v = PassedOn \<and> is_limited_path (rq_path r) \<and> client_key r = k) log)"

definition in_window :: "time \<Rightarrow> time \<Rightarrow> time list \<Rightarrow> time list" where
  "in_window W t ts = filter (\<lambda>x. t - W < x \<and> x \<le> t) ts"

lemma admitted_Nil [simp]: "admitted k [] = []"
  by (simp add: admitted_def)

lemma admitted_Cons: "admitted k ((r, v) # log) =
    (if v = PassedOn \<and> is_limited_path (rq_path r) \<and> client_key r = k then rq_now r # admitted k log
     else admitted k log)"
  by (simp add: admitted_def)

lemma bucket_of_update [simp]: "bucket_of (AList.update k ts bs) k' = (if k' = k then ts else bucket_of bs k')"
  by (simp add: bucket_of_def)

text \<open>
  The buckets remember enough: from \<open>now\<close> on, filtering a bucket by a later cutoff gives the same
  as filtering the whole history \<open>h\<close> of admissions, which respects the bound in every window.
\<close>

definition limiter_inv :: "limiter \<Rightarrow> time \<Rightarrow> string \<Rightarrow> buckets \<Rightarrow> time list \<Rightarrow> bool" where
  "limiter_inv lim now k bs h \<longleftrightarrow>
     (\<forall>c \<ge> now - lm_window lim. filter (\<lambda>t. t > c) (bucket_of bs k) = filter (\<lambda>t. t > c) h) \<and>
     (\<forall>x \<in> set h. x \<le> now) \<and>
     (\<forall>t. int (length (in_window (lm_window lim) t h)) \<le> lm_max_requests lim)"

lemma rate_dispatch_inv:
  assumes inv: "limiter_inv lim now k bs h" and le: "now \<le> rq_now r"
    and d: "rate_dispatch lim r bs = (v, bs')"
  shows "limiter_inv lim (rq_now r) k bs' (h @ admitted k [(r, v)])"
proof (cases "is_limited_path (rq_path r) \<and> client_key r = k")
  case False
  then have "bucket_of bs' k = bucket_of bs k" "admitted k [(r, v)] = []"
    using d by (auto simp: rate_dispatch_def Let_def admitted_Cons split: if_splits)
  with inv le show ?thesis by (auto simp: limiter_inv_def)
next
  case True
  define kept where "kept = filter (\<lambda>t. t > rq_now r - lm_window lim) (bucket_of bs k)"
  have kept: "kept = filter (\<lambda>t. t > rq_now r - lm_window lim) h"
    using inv le by (simp add: kept_def limiter_inv_def)
  have deeper: "filter (\<lambda>t. t > c) kept = filter (\<lambda>t. t > c) h" if "c \<ge> rq_now r - lm_window lim" for c
    unfolding kept filter_filter using that by (intro filter_cong) auto
  have old: "x \<le> rq_now r" if "x \<in> set h" for x
    using inv le that by (force simp: limiter_inv_def)
  show ?thesis
  proof (cases "int (length kept) \<ge> lm_max_requests lim")
    case full: True
    then have "v = TooMany" "bucket_of bs' k = kept"
      using d True by (auto simp: rate_dispatch_def Let_def kept_def split: if_splits)
    with inv deeper old show ?thesis by (simp add: limiter_inv_def admitted_Cons)
  next
    case room: False
    then have v: "v = PassedOn" and b: "bucket_of bs' k = kept @ [rq_now r]"
      using d True by (auto simp: rate_dispatch_def Let_def kept_def split: if_splits)
    have "int (length (in_window (lm_window lim) t (h @ [rq_now r]))) \<le> lm_max_requests lim" for t
    proof (cases "rq_now r \<le> t")
      case True
      have "length (in_window (lm_window lim) t h) \<le> length kept"
        unfolding in_window_def kept using True by (intro length_filter_mono) auto
      with room show ?thesis by (simp add: in_window_def)
    next
      case False
      with inv show ?thesis by (simp add: in_window_def limiter_inv_def)
    qed
    with deeper old v b True show ?thesis by (simp add: limiter_inv_def admitted_Cons)
  qed
qed

lemma run_requests_inv:
  assumes "limiter_inv lim now k bs h" and "sorted (now # map rq_now rs)"
  shows "int (length (in_window (lm_window lim) t (h @ admitted k (run_requests lim rs bs)))) \<le> lm_max_requests lim"
  using assms
proof (induction rs arbitrary: bs h now)
  case Nil
  then show ?case by (simp add: limiter_inv_def)
next
  case (Cons r rs)
  obtain v bs' where d: "rate_dispatch lim r bs = (v, bs')" by fastforce
  have inv: "limiter_inv lim (rq_now r) k bs' (h @ admitted k [(r, v)])"
    by (rule rate_dispatch_inv[OF Cons.prems(1) _ d]) (use Cons.prems(2) in simp)
  have "sorted (rq_now r # map rq_now rs)" using Cons.prems(2) by simp
  from Cons.IH[OF inv this] d show ?case by (auto simp: admitted_Cons split: if_splits)
qed

text \<open>C24: The limiter is a sliding window: whatever requests arrive in clock order, from empty buckets,
  no half-open time window of the configured length ever holds more than \<open>max_requests\<close> admitted
  webhook requests of one client key.\<close>

theorem window_bound:
  assumes "sorted (map rq_now rs)" and "0 \<le> lm_max_requests lim"
  shows "int (length (in_window (lm_window lim) t (admitted k (run_requests lim rs [])))) \<le> lm_max_requests lim"
proof (cases rs)
  case Nil
  with assms(2) show ?thesis by (simp add: in_window_def)
next
  case (Cons r rs')
  have "limiter_inv lim (rq_now r) k [] []"
    using assms(2) by (simp add: limiter_inv_def bucket_of_def in_window_def)
  from run_requests_inv[OF this, of rs t] assms(1) Cons show ?thesis by simp
qed

definition hook :: "time \<Rightarrow> request" where
  "hook t = \<lparr>rq_path = ''/api/v1/webhooks/alerts'', rq_api_key = None,
     rq_forwarded = Some ''10.0.0.9, 10.0.0.1'', rq_peer = Some ''127.0.0.1'', rq_now = t\<rparr>"

theorem window_bound_witness:
  "length (in_window 60 61 (admitted ''ip:10.0.0.9''
     (run_requests \<lparr>lm_max_requests = 2, lm_window = 60\<rparr> (map hook [0, 1, 2, 60, 61]) []))) \<le> 2 \<and>
   map snd (run_requests \<lparr>lm_max_requests = 2, lm_window = 60\<rparr> (map hook [0, 1, 2, 60, 61]) []) =
     [PassedOn, PassedOn, TooMany, PassedOn, PassedOn]"
proof -
  have "sorted (map rq_now (map hook [0, 1, 2, 60, 61]))" by (simp add: hook_def)
  from window_bound[OF this, of "\<lparr>lm_max_requests = 2, lm_window = 60\<rparr>" 61 "''ip:10.0.0.9''"]
  have "length (in_window 60 61 (admitted ''ip:10.0.0.9''
     (run_requests \<lparr>lm_max_requests = 2, lm_window = 60\<rparr> (map hook [0, 1, 2, 60, 61]) []))) \<le> 2" by simp
  moreover have "map snd (run_requests \<lparr>lm_max_requests = 2, lm_window = 60\<rparr> (map hook [0, 1, 2, 60, 61]) []) =
     [PassedOn, PassedOn, TooMany, PassedOn, PassedOn]" by code_simp
  ultimately show ?thesis by blast
qed

text \<open>The limiter never refuses without cause: a refused key has its full quota in the window.\<close>

lemma refusal_has_cause:
  assumes "limiter_inv lim now k bs h" and "now \<le> rq_now r" and "client_key r = k"
    and "rate_dispatch lim r bs = (TooMany, bs')"
  shows "lm_max_requests lim \<le> int (length (in_window (lm_window lim) (rq_now r) h))"
proof -
  have "filter (\<lambda>t. t > rq_now r - lm_window lim) h = in_window (lm_window lim) (rq_now r) h"
    unfolding in_window_def using assms(1,2) by (intro filter_cong) (auto simp: limiter_inv_def)
  moreover have "filter (\<lambda>t. t > rq_now r - lm_window lim) (bucket_of bs k) =
      filter (\<lambda>t. t > rq_now r - lm_window lim) h"
    using assms(1,2) by (simp add: limiter_inv_def)
  ultimately show ?thesis
    using assms(3,4) by (auto simp: rate_dispatch_def Let_def split: if_splits)
qed

end
