(* ===== verification/Scheduler.thy ===== *)
theory Scheduler
  imports Prelude
begin

text \<open>
  \<open>opensoar/core/scheduler.py\<close>: the interval scheduler and its distributed lock. Several scheduler
  instances share one key-value server whose \<open>SET NX EX\<close> is a parameter; each instance keeps its own
  jobs. The server's keys and the lock's time to live are in seconds of the wall clock.
\<close>

section \<open>The lock\<close>

type_synonym 's nx_client = "string \<Rightarrow> int \<Rightarrow> int \<Rightarrow> 's \<Rightarrow> (exn + bool) \<times> 's"

definition default_lock_ttl_seconds :: int where
  "default_lock_ttl_seconds = 60"

definition key_prefix :: string where
  "key_prefix = ''opensoar:scheduler:''"

definition full_key :: "string \<Rightarrow> string" where
  "full_key key = (if startswith key key_prefix then key else key_prefix @ key)"

definition acquire :: "'s nx_client \<Rightarrow> string \<Rightarrow> int \<Rightarrow> int \<Rightarrow> 's \<Rightarrow> (exn + bool) \<times> 's" where
  "acquire client key ttl now s =
     (case client (full_key key) (max 1 ttl) now s of
        (Inl e, s') \<Rightarrow> (if is_Exception e then (Inr False, s') else (Inl e, s'))
      | (Inr result, s') \<Rightarrow> (Inr result, s'))"

section \<open>Jobs\<close>

record job =
  jb_interval :: int
  jb_last_run :: time
  jb_last_tick_id :: "string option"

type_synonym jobs = "(string \<times> job) list"

definition sched_register :: "string \<Rightarrow> int \<Rightarrow> jobs \<Rightarrow> jobs" where
  "sched_register name interval js =
     AList.update name \<lparr>jb_interval = interval, jb_last_run = 0, jb_last_tick_id = None\<rparr> js"

definition unregister :: "string \<Rightarrow> jobs \<Rightarrow> jobs" where
  "unregister name js = (if name \<in> fst ` set js then AList.delete name js else js)"

definition list_jobs :: "jobs \<Rightarrow> (string \<times> int \<times> time) list" where
  "list_jobs js = map (\<lambda>(name, j). (name, jb_interval j, jb_last_run j)) js"

definition tick_bucket :: "string \<Rightarrow> int \<Rightarrow> int \<Rightarrow> string" where
  "tick_bucket name interval wall = name @ '':'' @ show_int (wall div (max 1 interval))"

text \<open>
  The clocks of one tick: the wall clock in whole seconds, the monotonic clock in microseconds at
  its start and, per job, after the job. \<open>cb name\<close> is what the job's callback does.
\<close>

record tick_env =
  te_wall :: int
  te_now :: time
  te_after :: "string \<Rightarrow> time"
  te_cb :: "string \<Rightarrow> exn option"

definition micros :: "int \<Rightarrow> time" where
  "micros s = s * 1000000"

definition is_due :: "tick_env \<Rightarrow> job \<Rightarrow> bool" where
  "is_due te j \<longleftrightarrow> \<not> te_now te - jb_last_run j < micros (jb_interval j)"

definition advanced :: "tick_env \<Rightarrow> string \<Rightarrow> string \<Rightarrow> job \<Rightarrow> job" where
  "advanced te name tick_id j = j\<lparr>jb_last_run := te_after te name, jb_last_tick_id := Some tick_id\<rparr>"

text \<open>One job of a tick; the list says which ticks' callbacks were started. \<open>lock\<close> is \<open>None\<close> or the
  client with the time to live.\<close>

definition tick_job ::
  "('s nx_client \<times> int) option \<Rightarrow> tick_env \<Rightarrow> string \<Rightarrow> job \<Rightarrow> 's \<Rightarrow>
   exn option \<times> string list \<times> job \<times> 's" where
  "tick_job lock te name j s =
     (if \<not> is_due te j then (None, [], j, s)
      else
        (let tick_id = tick_bucket name (jb_interval j) (te_wall te);
             (acquired, s') = (case lock of
                None \<Rightarrow> (Inr True, s)
              | Some (client, ttl) \<Rightarrow> acquire client tick_id ttl (te_wall te) s)
         in case acquired of
              Inl e \<Rightarrow> (Some e, [], j, s')
            | Inr False \<Rightarrow> (None, [], advanced te name tick_id j, s')
            | Inr True \<Rightarrow>
                (case te_cb te name of
                   None \<Rightarrow> (None, [tick_id], advanced te name tick_id j, s')
                 | Some e \<Rightarrow> (if is_Exception e then None else Some e, [tick_id], j, s'))))"

fun tick ::
  "('s nx_client \<times> int) option \<Rightarrow> tick_env \<Rightarrow> jobs \<Rightarrow> 's \<Rightarrow> exn option \<times> string list \<times> jobs \<times> 's" where
  "tick lock te [] s = (None, [], [], s)"
| "tick lock te ((name, j) # js) s =
     (let (err, started, j', s') = tick_job lock te name j s
      in case err of
           Some e \<Rightarrow> (Some e, started, (name, j') # js, s')
         | None \<Rightarrow>
             (let (err', started', js', s'') = tick lock te js s'
              in (err', started @ started', (name, j') # js', s'')))"

section \<open>Several instances\<close>

text \<open>Instances tick in the order of the list; the log holds the wall time and identifier of every
  started callback.\<close>

fun run_ticks ::
  "('s nx_client \<times> int) \<Rightarrow> (nat \<times> tick_env) list \<Rightarrow> (nat \<Rightarrow> jobs) \<Rightarrow> 's \<Rightarrow> (int \<times> string) list" where
  "run_ticks lock [] insts s = []"
| "run_ticks lock ((i, te) # evs) insts s =
     (let (err, started, js', s') = tick (Some lock) te (insts i) s
      in map (Pair (te_wall te)) started @ run_ticks lock evs (insts(i := js')) s')"

text \<open>
  The documented meaning of \<open>SET key value NX EX ttl\<close>: it succeeds exactly when the key is not held,
  a success holds the key for \<open>ttl\<close> seconds, and no other key changes. A call that raises may or may
  not have been applied, and releases nothing.
\<close>

definition nx_ok :: "('s \<Rightarrow> string \<Rightarrow> int \<Rightarrow> bool) \<Rightarrow> 's nx_client \<Rightarrow> bool" where
  "nx_ok held client \<longleftrightarrow> (\<forall>k ttl now s.
     (case client k ttl now s of
        (Inr b, s') \<Rightarrow> b = (\<not> held s k now) \<and>
          (\<forall>k' t. now \<le> t \<longrightarrow> held s' k' t = (if b \<and> k' = k then t < now + ttl else held s k' t))
      | (Inl e, s') \<Rightarrow> (\<forall>k' t. now \<le> t \<longrightarrow> held s k' t \<longrightarrow> held s' k' t)))"

text \<open>Every logged start still holds its key for what is left of its time to live.\<close>

definition log_held ::
  "('s \<Rightarrow> string \<Rightarrow> int \<Rightarrow> bool) \<Rightarrow> int \<Rightarrow> int \<Rightarrow> (int \<times> string) list \<Rightarrow> 's \<Rightarrow> bool" where
  "log_held held ttl now log s \<longleftrightarrow>
     (\<forall>(t, k) \<in> set log. t \<le> now \<and> (\<forall>t' \<ge> now. t' < t + ttl \<longrightarrow> held s (full_key k) t'))"

definition apart :: "int \<Rightarrow> int \<times> string \<Rightarrow> int \<times> string \<Rightarrow> bool" where
  "apart ttl a b \<longleftrightarrow> (snd a = snd b \<longrightarrow> fst a + ttl \<le> fst b)"

lemma acquire_cases:
  assumes "nx_ok held client" and "acquire client k ttl now s = (r, s')"
  shows "(r = Inr True \<longrightarrow> \<not> held s (full_key k) now \<and>
      (\<forall>t. now \<le> t \<longrightarrow> t < now + max 1 ttl \<longrightarrow> held s' (full_key k) t)) \<and>
    (\<forall>k' t. now \<le> t \<longrightarrow> held s k' t \<longrightarrow> k' \<noteq> full_key k \<or> r \<noteq> Inr True \<longrightarrow> held s' k' t)"
proof -
  obtain q s1 where c: "client (full_key k) (max 1 ttl) now s = (q, s1)" by fastforce
  from assms(1) have "case client (full_key k) (max 1 ttl) now s of
        (Inr b, s') \<Rightarrow> b = (\<not> held s (full_key k) now) \<and>
          (\<forall>k' t. now \<le> t \<longrightarrow> held s' k' t = (if b \<and> k' = full_key k then t < now + max 1 ttl else held s k' t))
      | (Inl e, s') \<Rightarrow> (\<forall>k' t. now \<le> t \<longrightarrow> held s k' t \<longrightarrow> held s' k' t)"
    unfolding nx_ok_def by (elim allE) assumption
  note law = this[unfolded c]
  show ?thesis
  proof (cases q)
    case (Inl e)
    with law c assms(2) show ?thesis by (auto simp: acquire_def split: if_splits)
  next
    case (Inr b)
    with law have b: "b = (\<not> held s (full_key k) now)"
      and h: "\<And>k' t. now \<le> t \<Longrightarrow>
        held s1 k' t = (if b \<and> k' = full_key k then t < now + max 1 ttl else held s k' t)" by auto
    have r: "r = Inr b" "s' = s1" using Inr c assms(2) by (simp_all add: acquire_def)
    show ?thesis unfolding r using b h by simp
  qed
qed

definition log_ok ::
  "('s \<Rightarrow> string \<Rightarrow> int \<Rightarrow> bool) \<Rightarrow> int \<Rightarrow> int \<Rightarrow> (int \<times> string) list \<Rightarrow> 's \<Rightarrow> bool" where
  "log_ok held ttl now log s \<longleftrightarrow> log_held held ttl now log s \<and> sorted_wrt (apart ttl) log"

lemma log_ok_later: "log_ok held ttl now log s \<Longrightarrow> now \<le> now' \<Longrightarrow> log_ok held ttl now' log s"
  unfolding log_ok_def log_held_def by fastforce

lemma tick_job_log_ok:
  assumes nx: "nx_ok held client" and ok: "log_ok held (max 1 ttl) (te_wall te) log s"
    and t: "tick_job (Some (client, ttl)) te name j s = (err, started, j', s')"
  shows "log_ok held (max 1 ttl) (te_wall te) (log @ map (Pair (te_wall te)) started) s'"
proof -
  let ?id = "tick_bucket name (jb_interval j) (te_wall te)"
  let ?w = "te_wall te"
  obtain r s1 where a: "acquire client ?id ttl ?w s = (r, s1)" by fastforce
  note cs = acquire_cases[OF nx a]
  have s': "s' = (if is_due te j then s1 else s)"
    and st: "started = (if is_due te j \<and> r = Inr True then [?id] else [])"
    using t a by (auto simp: tick_job_def Let_def split: if_splits sum.splits bool.splits option.splits)
  show ?thesis
  proof (cases "is_due te j \<and> r = Inr True")
    case False
    with s' st cs ok show ?thesis by (auto simp: log_ok_def log_held_def)
  next
    case True
    with cs have free: "\<not> held s (full_key ?id) ?w"
      and now: "\<And>t. ?w \<le> t \<Longrightarrow> t < ?w + max 1 ttl \<Longrightarrow> held s1 (full_key ?id) t"
      and other: "\<And>k' t. ?w \<le> t \<Longrightarrow> held s k' t \<Longrightarrow> k' \<noteq> full_key ?id \<Longrightarrow> held s1 k' t"
      by blast+
    have past: "full_key k = full_key ?id \<Longrightarrow> t + max 1 ttl \<le> ?w" if "(t, k) \<in> set log" for t k
    proof (rule ccontr)
      assume "full_key k = full_key ?id" "\<not> t + max 1 ttl \<le> ?w"
      with ok that have "held s (full_key ?id) ?w" by (fastforce simp: log_ok_def log_held_def)
      with free show False by simp
    qed
    have held: "held s1 (full_key k) t'" if "(t, k) \<in> set log" "?w \<le> t'" "t' < t + max 1 ttl" for t k t'
    proof -
      have "full_key k \<noteq> full_key ?id" using past[OF that(1)] that(2,3) by force
      moreover have "held s (full_key k) t'"
        using ok that by (fastforce simp: log_ok_def log_held_def)
      ultimately show ?thesis using other that(2) by blast
    qed
    have "log_held held (max 1 ttl) ?w (log @ [(?w, ?id)]) s1"
      using held now ok unfolding log_ok_def log_held_def by auto
    moreover have "sorted_wrt (apart (max 1 ttl)) (log @ [(?w, ?id)])"
      using ok past by (auto simp: log_ok_def sorted_wrt_append apart_def)
    ultimately show ?thesis using s' st True by (simp add: log_ok_def)
  qed
qed

lemma tick_log_ok:
  assumes nx: "nx_ok held client"
  shows "log_ok held (max 1 ttl) (te_wall te) log s \<Longrightarrow>
    tick (Some (client, ttl)) te js s = (err, started, js', s') \<Longrightarrow>
    log_ok held (max 1 ttl) (te_wall te) (log @ map (Pair (te_wall te)) started) s'"
proof (induction js arbitrary: log s err started js' s')
  case (Cons nj js)
  obtain name j where nj: "nj = (name, j)" by fastforce
  obtain e st j1 s1 where t: "tick_job (Some (client, ttl)) te name j s = (e, st, j1, s1)"
    by (metis prod_cases4)
  note ok = tick_job_log_ok[OF nx Cons.prems(1) t]
  obtain e2 st2 js2 s2 where t2: "tick (Some (client, ttl)) te js s1 = (e2, st2, js2, s2)"
    by (metis prod_cases4)
  note ok2 = Cons.IH[OF ok t2]
  from Cons.prems(2) nj t t2 ok ok2 show ?case
    by (cases e) auto
qed simp

text \<open>C25: Between instances that share a lock server, no callback is started twice for one tick
  identifier within the lock's time to live: in every interleaving of ticks in wall-clock order the
  starts of one identifier are at least \<open>max 1 ttl\<close> seconds apart.\<close>

theorem ticks_exclusive:
  assumes "nx_ok held client" and "sorted (map (te_wall \<circ> snd) evs)"
  shows "sorted_wrt (apart (max 1 ttl)) (run_ticks (client, ttl) evs insts s)"
proof -
  have main: "sorted_wrt (apart (max 1 ttl)) (log @ run_ticks (client, ttl) evs insts s)"
    if "log_ok held (max 1 ttl) now log s" "sorted (now # map (te_wall \<circ> snd) evs)" for now log
    using that
  proof (induction evs arbitrary: now log insts s)
    case Nil
    then show ?case by (simp add: log_ok_def)
  next
    case (Cons ev evs)
    obtain i te where ev: "ev = (i, te)" by fastforce
    obtain e st js' s1 where t: "tick (Some (client, ttl)) te (insts i) s = (e, st, js', s1)"
      by (metis prod_cases4)
    have "log_ok held (max 1 ttl) (te_wall te) log s"
      using Cons.prems log_ok_later ev by auto
    from tick_log_ok[OF assms(1) this t]
    have ok: "log_ok held (max 1 ttl) (te_wall te) (log @ map (Pair (te_wall te)) st) s1" .
    have "sorted (te_wall te # map (te_wall \<circ> snd) evs)" using Cons.prems(2) ev by (simp add: comp_def)
    from Cons.IH[OF ok this, of "insts(i := js')"] t ev show ?case by (simp del: fun_upd_apply add: append_assoc[symmetric] del: append_assoc)
  qed
  show ?thesis
  proof (cases evs)
    case (Cons ev evs')
    have "log_ok held (max 1 ttl) (te_wall (snd ev)) [] s" by (simp add: log_ok_def log_held_def)
    from main[OF this] assms(2) Cons show ?thesis by simp
  qed simp
qed

text \<open>A server holding keys until a wall-clock second.\<close>

definition table_client :: "(string \<times> int) list nx_client" where
  "table_client k ttl now s =
     (if (case map_of s k of Some e \<Rightarrow> now < e | None \<Rightarrow> False) then (Inr False, s)
      else (Inr True, AList.update k (now + ttl) s))"

definition table_held :: "(string \<times> int) list \<Rightarrow> string \<Rightarrow> int \<Rightarrow> bool" where
  "table_held s k now = (case map_of s k of Some e \<Rightarrow> now < e | None \<Rightarrow> False)"

lemma table_nx_ok: "nx_ok table_held table_client"
  by (auto simp: nx_ok_def table_client_def table_held_def split: option.splits)

definition poll_env :: "int \<Rightarrow> tick_env" where
  "poll_env w = \<lparr>te_wall = w, te_now = micros w, te_after = (\<lambda>_. micros w), te_cb = (\<lambda>_. None)\<rparr>"

definition poll_jobs :: "int \<Rightarrow> nat \<Rightarrow> jobs" where
  "poll_jobs interval = (\<lambda>i. sched_register ''poll'' interval [])"

theorem ticks_exclusive_witness:
  "sorted_wrt (apart (max 1 60)) (run_ticks (table_client, 60)
     [(0, poll_env 6000), (1, poll_env 6000), (0, poll_env 6060)] (poll_jobs 60) []) \<and>
   run_ticks (table_client, 60)
     [(0, poll_env 6000), (1, poll_env 6000), (0, poll_env 6060)] (poll_jobs 60) [] =
     [(6000, ''poll:100''), (6060, ''poll:101'')]"
proof -
  have "sorted (map (te_wall \<circ> snd) [(0::nat, poll_env 6000), (1, poll_env 6000), (0, poll_env 6060)])"
    by (simp add: poll_env_def)
  moreover have "run_ticks (table_client, 60)
     [(0, poll_env 6000), (1, poll_env 6000), (0, poll_env 6060)] (poll_jobs 60) [] =
     [(6000, ''poll:100''), (6060, ''poll:101'')]"
    by code_simp
  ultimately show ?thesis using ticks_exclusive[OF table_nx_ok] by blast
qed

text \<open>The lock does not make a tick unique when the interval exceeds its time to live: for an hourly
  job and the default sixty seconds, a second instance whose tick comes a minute after the first
  one starts the same tick again.\<close>

theorem hourly_tick_runs_twice:
  "run_ticks (table_client, default_lock_ttl_seconds)
     [(0, poll_env 7200), (1, poll_env 7260)] (poll_jobs 3600) [] =
     [(7200, ''poll:2''), (7260, ''poll:2'')]"
  by code_simp

end
