(* ===== verification/Access.thy ===== *)
theory Access
  imports Tables
begin

text \<open>
  \<open>opensoar/auth/rbac.py\<close>, \<open>opensoar/plugins.py\<close>, \<open>opensoar/auth/jwt.py\<close> and \<open>opensoar/auth/api_key.py\<close>:
  who may do what.

  Plugins are oracles held by the application state: audit sinks, API-key validators and tenant
  validators either return or raise. A query is the predicate its \<open>where\<close> clauses form over
  resources. The JWT library and the password and key digests are parameters. An identifier's text
  is its decimal numeral.
\<close>

section \<open>Roles and permissions\<close>

datatype permission =
    ALERTS_READ | ALERTS_UPDATE | ALERTS_DELETE
  | INCIDENTS_READ | INCIDENTS_CREATE | INCIDENTS_UPDATE
  | PLAYBOOKS_READ | PLAYBOOKS_MANAGE | PLAYBOOKS_EXECUTE
  | INTEGRATIONS_READ | INTEGRATIONS_MANAGE
  | OBSERVABLES_READ | OBSERVABLES_MANAGE
  | AI_USE
  | ANALYSTS_MANAGE | API_KEYS_MANAGE | SETTINGS_MANAGE | RETENTION_MANAGE

definition all_permissions :: "permission list" where
  "all_permissions = [ALERTS_READ, ALERTS_UPDATE, ALERTS_DELETE, INCIDENTS_READ, INCIDENTS_CREATE,
     INCIDENTS_UPDATE, PLAYBOOKS_READ, PLAYBOOKS_MANAGE, PLAYBOOKS_EXECUTE, INTEGRATIONS_READ,
     INTEGRATIONS_MANAGE, OBSERVABLES_READ, OBSERVABLES_MANAGE, AI_USE, ANALYSTS_MANAGE,
     API_KEYS_MANAGE, SETTINGS_MANAGE, RETENTION_MANAGE]"

fun permission_value :: "permission \<Rightarrow> string" where
  "permission_value ALERTS_READ = ''alerts:read''"
| "permission_value ALERTS_UPDATE = ''alerts:update''"
| "permission_value ALERTS_DELETE = ''alerts:delete''"
| "permission_value INCIDENTS_READ = ''incidents:read''"
| "permission_value INCIDENTS_CREATE = ''incidents:create''"
| "permission_value INCIDENTS_UPDATE = ''incidents:update''"
| "permission_value PLAYBOOKS_READ = ''playbooks:read''"
| "permission_value PLAYBOOKS_MANAGE = ''playbooks:manage''"
| "permission_value PLAYBOOKS_EXECUTE = ''playbooks:execute''"
| "permission_value INTEGRATIONS_READ = ''integrations:read''"
| "permission_value INTEGRATIONS_MANAGE = ''integrations:manage''"
| "permission_value OBSERVABLES_READ = ''observables:read''"
| "permission_value OBSERVABLES_MANAGE = ''observables:manage''"
| "permission_value AI_USE = ''ai:use''"
| "permission_value ANALYSTS_MANAGE = ''analysts:manage''"
| "permission_value API_KEYS_MANAGE = ''api_keys:manage''"
| "permission_value SETTINGS_MANAGE = ''settings:manage''"
| "permission_value RETENTION_MANAGE = ''retention:manage''"

definition core_analyst_role_labels :: "(string \<times> string) list" where
  "core_analyst_role_labels = [(''admin'', ''Admin''), (''analyst'', ''Analyst''), (''viewer'', ''Viewer'')]"

definition enterprise_analyst_role_labels :: "(string \<times> string) list" where
  "enterprise_analyst_role_labels =
     [(''tenant_admin'', ''Tenant Admin''), (''playbook_author'', ''Playbook Author'')]"

definition role_permissions :: "(string \<times> permission list) list" where
  "role_permissions =
     [(''admin'', all_permissions),
      (''analyst'', [ALERTS_READ, ALERTS_UPDATE, ALERTS_DELETE, INCIDENTS_READ, INCIDENTS_CREATE,
         INCIDENTS_UPDATE, PLAYBOOKS_READ, PLAYBOOKS_EXECUTE, INTEGRATIONS_READ, OBSERVABLES_READ,
         OBSERVABLES_MANAGE, AI_USE]),
      (''viewer'', [ALERTS_READ, INCIDENTS_READ, PLAYBOOKS_READ, INTEGRATIONS_READ, OBSERVABLES_READ]),
      (''tenant_admin'', [ALERTS_READ, ALERTS_UPDATE, ALERTS_DELETE, INCIDENTS_READ,
         INCIDENTS_CREATE, INCIDENTS_UPDATE, PLAYBOOKS_READ, PLAYBOOKS_MANAGE, PLAYBOOKS_EXECUTE,
         INTEGRATIONS_READ, INTEGRATIONS_MANAGE, OBSERVABLES_READ, OBSERVABLES_MANAGE, AI_USE]),
      (''playbook_author'', [ALERTS_READ, INCIDENTS_READ, PLAYBOOKS_READ, PLAYBOOKS_MANAGE,
         PLAYBOOKS_EXECUTE, INTEGRATIONS_READ, OBSERVABLES_READ])]"

definition valid_analyst_roles :: "string list" where
  "valid_analyst_roles = map fst role_permissions"

definition has_permission :: "string \<Rightarrow> permission \<Rightarrow> bool" where
  "has_permission role p = (case map_of role_permissions role of None \<Rightarrow> False | Some ps \<Rightarrow> p \<in> set ps)"

definition require_permission :: "permission \<Rightarrow> analyst option \<Rightarrow> exn + analyst" where
  "require_permission p a = (case a of
      None \<Rightarrow> Inl (HTTPException 401 ''Authentication required'')
    | Some an \<Rightarrow> (if has_permission (an_role an) p then Inr an
                  else Inl (HTTPException 403 (''Permission denied: requires '' @ permission_value p))))"

section \<open>Plugin state\<close>

datatype resource =
    RAlert alert
  | RIncident incident
  | RObservable observable
  | RPlaybook playbook_definition
  | RRun playbook_run
  | RActivity activity
  | RAnalyst analyst
  | RIntegration integration_instance
  | RTemplate incident_template
  | RLink incident_alert

record audit_event =
  ae_category :: string
  ae_action :: string
  ae_status :: string
  ae_actor_id :: "uuid option"
  ae_actor_username :: "string option"
  ae_target_type :: "string option"
  ae_target_id :: "string option"
  ae_metadata :: jdict

record auth_provider =
  ap_id :: string
  ap_name :: string
  ap_type :: string
  ap_login_url :: "string option"

text \<open>A tenant validator is called with a resource, or with a query it may replace; both calls name the
  resource type, the action and the analyst.\<close>

type_synonym query = "resource \<Rightarrow> bool"

record tenant_validator =
  tv_enforce :: "resource \<Rightarrow> string \<Rightarrow> string \<Rightarrow> analyst option \<Rightarrow> exn option"
  tv_query :: "query \<Rightarrow> string \<Rightarrow> string \<Rightarrow> analyst option \<Rightarrow> exn + query option"

record app_state =
  app_roles :: "(string \<times> string) list option"
  app_providers :: "auth_provider list option"
  app_sinks :: "(audit_event \<Rightarrow> exn option) list option"
  app_key_validators :: "(api_key \<Rightarrow> string \<Rightarrow> exn option) list option"
  app_validators :: "tenant_validator list option"
  app_local_auth :: "bool option"
  app_local_registration :: "bool option"

definition set_missing :: "'a \<Rightarrow> 'a option \<Rightarrow> 'a option" where
  "set_missing v old = (case old of None \<Rightarrow> Some v | Some _ \<Rightarrow> old)"

definition initialize_plugin_state :: "app_state \<Rightarrow> app_state" where
  "initialize_plugin_state a =
     \<lparr>app_roles = set_missing core_analyst_role_labels (app_roles a),
      app_providers = set_missing [] (app_providers a),
      app_sinks = set_missing [] (app_sinks a),
      app_key_validators = set_missing [] (app_key_validators a),
      app_validators = set_missing [] (app_validators a),
      app_local_auth = set_missing True (app_local_auth a),
      app_local_registration = set_missing False (app_local_registration a)\<rparr>"

lemma initialize_idem [simp]:
  "initialize_plugin_state (initialize_plugin_state a) = initialize_plugin_state a"
  by (simp add: initialize_plugin_state_def set_missing_def split: option.splits)

definition roles_of :: "app_state \<Rightarrow> (string \<times> string) list" where
  "roles_of a = the (app_roles (initialize_plugin_state a))"

fun title_case :: "bool \<Rightarrow> string \<Rightarrow> string" where
  "title_case in_word [] = []"
| "title_case in_word (c # cs) =
     (if is_upper c \<or> is_lower c then
        (if in_word then lower_char c
         else if is_lower c then char_of (code c - 32) else c) # title_case True cs
      else c # title_case False cs)"

definition default_role_label :: "string \<Rightarrow> string" where
  "default_role_label role = title_case False (map (\<lambda>c. if c = CHR ''_'' then CHR '' '' else c) role)"

definition register_analyst_role :: "string \<Rightarrow> string option \<Rightarrow> app_state \<Rightarrow> app_state" where
  "register_analyst_role role label a =
     (let a' = initialize_plugin_state a
      in a'\<lparr>app_roles := Some (filter (\<lambda>(i, _). i \<noteq> role) (roles_of a') @
           [(role, if truthy_str label then the label else default_role_label role)])\<rparr>)"

definition register_auth_provider :: "auth_provider \<Rightarrow> app_state \<Rightarrow> app_state" where
  "register_auth_provider p a =
     (let a' = initialize_plugin_state a
      in a'\<lparr>app_providers := Some (filter (\<lambda>q. ap_id q \<noteq> ap_id p) (the (app_providers a')) @ [p])\<rparr>)"

definition register_audit_sink :: "(audit_event \<Rightarrow> exn option) \<Rightarrow> app_state \<Rightarrow> app_state" where
  "register_audit_sink sink a =
     (let a' = initialize_plugin_state a in a'\<lparr>app_sinks := Some (the (app_sinks a') @ [sink])\<rparr>)"

definition register_api_key_validator ::
  "(api_key \<Rightarrow> string \<Rightarrow> exn option) \<Rightarrow> app_state \<Rightarrow> app_state" where
  "register_api_key_validator v a =
     (let a' = initialize_plugin_state a
      in a'\<lparr>app_key_validators := Some (the (app_key_validators a') @ [v])\<rparr>)"

definition register_tenant_access_validator :: "tenant_validator \<Rightarrow> app_state \<Rightarrow> app_state" where
  "register_tenant_access_validator v a =
     (let a' = initialize_plugin_state a in a'\<lparr>app_validators := Some (the (app_validators a') @ [v])\<rparr>)"

definition configure_local_auth :: "bool option \<Rightarrow> bool option \<Rightarrow> app_state \<Rightarrow> app_state" where
  "configure_local_auth login registration a =
     (let a' = initialize_plugin_state a;
          a'' = (case login of None \<Rightarrow> a' | Some b \<Rightarrow> a'\<lparr>app_local_auth := Some b\<rparr>)
      in (case registration of None \<Rightarrow> a'' | Some b \<Rightarrow> a''\<lparr>app_local_registration := Some b\<rparr>))"

text \<open>\<open>get_auth_capabilities\<close>: login enabled, registration enabled, providers.\<close>

definition get_auth_capabilities :: "app_state \<Rightarrow> bool \<times> bool \<times> auth_provider list" where
  "get_auth_capabilities a =
     (let a' = initialize_plugin_state a
      in (the (app_local_auth a'), the (app_local_registration a'), the (app_providers a')))"

text \<open>Entry points: a name, what loading gives, and what calling the plugin does to the state.\<close>

record plugin_entry =
  pe_name :: string
  pe_load :: "exn option"
  pe_call :: "app_state \<Rightarrow> exn option \<times> app_state"

fun plugin_error_caught :: "exn \<Rightarrow> bool" where
  "plugin_error_caught (ImportError _) = True"
| "plugin_error_caught (AttributeError _) = True"
| "plugin_error_caught (TypeError _) = True"
| "plugin_error_caught (ValueError _) = True"
| "plugin_error_caught (OSError _) = True"
| "plugin_error_caught (TimeoutError _) = True"
| "plugin_error_caught _ = False"

fun load_plugins :: "plugin_entry list \<Rightarrow> app_state \<Rightarrow> string list \<Rightarrow> (exn + string list) \<times> app_state" where
  "load_plugins [] a loaded = (Inr loaded, a)"
| "load_plugins (p # ps) a loaded =
     (let (err, a') = (case pe_load p of Some e \<Rightarrow> (Some e, a) | None \<Rightarrow> pe_call p a)
      in case err of
           None \<Rightarrow> load_plugins ps a' (loaded @ [pe_name p])
         | Some e \<Rightarrow> (if plugin_error_caught e then load_plugins ps a' loaded else (Inl e, a')))"

definition load_optional_plugins :: "plugin_entry list \<Rightarrow> app_state \<Rightarrow> (exn + string list) \<times> app_state" where
  "load_optional_plugins ps a = load_plugins ps (initialize_plugin_state a) []"

section \<open>Plugin dispatch\<close>

fun first_error :: "exn option list \<Rightarrow> exn option" where
  "first_error [] = None"
| "first_error (None # es) = first_error es"
| "first_error (Some e # es) = Some e"

definition dispatch_audit_event :: "app_state \<Rightarrow> audit_event \<Rightarrow> exn option" where
  "dispatch_audit_event a ev =
     first_error (map (\<lambda>sink. sink ev) (the (app_sinks (initialize_plugin_state a))))"

definition dispatch_api_key_validators :: "app_state \<Rightarrow> api_key \<Rightarrow> string \<Rightarrow> exn option" where
  "dispatch_api_key_validators a k required_scope =
     first_error (map (\<lambda>v. v k required_scope) (the (app_key_validators (initialize_plugin_state a))))"

definition enforce_tenant_access ::
  "app_state \<Rightarrow> resource \<Rightarrow> string \<Rightarrow> string \<Rightarrow> analyst option \<Rightarrow> exn + unit" where
  "enforce_tenant_access a r resource_type action an =
     (case first_error (map (\<lambda>v. tv_enforce v r resource_type action an)
             (the (app_validators (initialize_plugin_state a)))) of
        None \<Rightarrow> Inr () | Some e \<Rightarrow> Inl e)"

fun thread_query ::
  "tenant_validator list \<Rightarrow> query \<Rightarrow> string \<Rightarrow> string \<Rightarrow> analyst option \<Rightarrow> exn + query" where
  "thread_query [] q resource_type action an = Inr q"
| "thread_query (v # vs) q resource_type action an =
     (case tv_query v q resource_type action an of
        Inl e \<Rightarrow> Inl e
      | Inr None \<Rightarrow> thread_query vs q resource_type action an
      | Inr (Some q') \<Rightarrow> thread_query vs q' resource_type action an)"

definition apply_tenant_access_query ::
  "app_state \<Rightarrow> query \<Rightarrow> string \<Rightarrow> string \<Rightarrow> analyst option \<Rightarrow> exn + query" where
  "apply_tenant_access_query a q resource_type action an =
     thread_query (the (app_validators (initialize_plugin_state a))) q resource_type action an"

definition no_plugins :: app_state where
  "no_plugins = \<lparr>app_roles = None, app_providers = None, app_sinks = None, app_key_validators = None,
     app_validators = None, app_local_auth = None, app_local_registration = None\<rparr>"

text \<open>What a request handler is given beside its arguments: the application, the clock, the analyst.\<close>

record call_env =
  ev_app :: app_state
  ev_now :: time
  ev_user :: "analyst option"

definition enforce :: "call_env \<Rightarrow> resource \<Rightarrow> string \<Rightarrow> string \<Rightarrow> exn + unit" where
  "enforce ev r resource_type action = enforce_tenant_access (ev_app ev) r resource_type action (ev_user ev)"

definition scoped_query :: "call_env \<Rightarrow> query \<Rightarrow> string \<Rightarrow> string \<Rightarrow> exn + query" where
  "scoped_query ev q resource_type action =
     apply_tenant_access_query (ev_app ev) q resource_type action (ev_user ev)"

section \<open>Tokens\<close>

definition uuid_str :: "uuid \<Rightarrow> string" where
  "uuid_str i = show_nat i"

definition parse_uuid :: "string \<Rightarrow> exn + uuid" where
  "parse_uuid s =
     (if s \<noteq> [] \<and> list_all is_digit s then Inr (nat (foldl add_digit 0 s))
      else Inl (ValueError ''badly formed hexadecimal UUID string''))"

lemma parse_uuid_str [simp]: "parse_uuid (uuid_str i) = Inr i"
proof -
  have "foldl add_digit 0 (show_nat_acc i []) = int i"
    using show_nat_acc_value[of i "[]"] by simp
  then show ?thesis
    using show_nat_digits[of i] by (simp add: parse_uuid_def uuid_str_def show_nat_def)
qed

text \<open>PyJWT: \<open>encode\<close> signs claims with an expiry; \<open>decode\<close> answers the claims or one of its errors.\<close>

datatype jwt_error = ExpiredSignatureError | InvalidTokenError

record jwt_lib =
  jwt_encode :: "jdict \<times> time \<Rightarrow> string"
  jwt_decode :: "time \<Rightarrow> string \<Rightarrow> jwt_error + jdict"

definition create_access_token :: "jwt_lib \<Rightarrow> int \<Rightarrow> time \<Rightarrow> uuid \<Rightarrow> string \<Rightarrow> string" where
  "create_access_token J expire_minutes now analyst_id username =
     jwt_encode J ([(''sub'', JStr (uuid_str analyst_id)), (''username'', JStr username)],
       now + expire_minutes * 60000000)"

definition decode_token :: "jwt_lib \<Rightarrow> time \<Rightarrow> string \<Rightarrow> exn + jdict" where
  "decode_token J now token = (case jwt_decode J now token of
      Inr claims \<Rightarrow> Inr claims
    | Inl ExpiredSignatureError \<Rightarrow> Inl (HTTPException 401 ''Token expired'')
    | Inl InvalidTokenError \<Rightarrow> Inl (HTTPException 401 ''Invalid token''))"

definition get_current_analyst :: "jwt_lib \<Rightarrow> time \<Rightarrow> string option \<Rightarrow> db \<Rightarrow> exn + analyst option" where
  "get_current_analyst J now credentials d = (case credentials of
      None \<Rightarrow> Inr None
    | Some token \<Rightarrow>
        ebind (decode_token J now token) (\<lambda>payload.
        let analyst_id = dget payload ''sub''
        in if \<not> truthy analyst_id then Inl (HTTPException 401 ''Invalid token'')
           else ebind (case analyst_id of JStr s \<Rightarrow> parse_uuid s | _ \<Rightarrow> Inl (AttributeError ''replace'')) (\<lambda>i.
                ebind (fetch (\<lambda>a. an_id a = i) (db_analysts d)) (\<lambda>found.
                  case found of
                    None \<Rightarrow> Inl (HTTPException 401 ''Analyst not found or inactive'')
                  | Some a \<Rightarrow> (if an_is_active a then Inr (Some a)
                              else Inl (HTTPException 401 ''Analyst not found or inactive''))))))"

definition require_analyst :: "analyst option \<Rightarrow> exn + analyst" where
  "require_analyst a = (case a of
      None \<Rightarrow> Inl (HTTPException 401 ''Authentication required'') | Some an \<Rightarrow> Inr an)"

text \<open>PyJWT's contract: a token decodes to the claims it was made from until its expiry.\<close>

definition jwt_ok :: "jwt_lib \<Rightarrow> jdict \<Rightarrow> bool" where
  "jwt_ok J claims \<longleftrightarrow> (\<forall>e now. jwt_decode J now (jwt_encode J (claims, e)) =
     (if now < e then Inr claims else Inl ExpiredSignatureError))"

section \<open>API keys\<close>

definition generate_api_key :: "(string \<Rightarrow> string) \<Rightarrow> string \<Rightarrow> string \<times> string \<times> string" where
  "generate_api_key digest token = (let key = ''soar_'' @ token in (key, take 12 key, digest key))"

definition validate_api_key ::
  "(string \<Rightarrow> string) \<Rightarrow> time \<Rightarrow> string option \<Rightarrow> db \<Rightarrow> exn + api_key option" where
  "validate_api_key digest now key d = (case key of
      None \<Rightarrow> Inr None
    | Some k \<Rightarrow>
        ebind (fetch (\<lambda>r. ak_key_hash r = digest k \<and> ak_is_active r) (db_api_keys d)) (\<lambda>found.
          case found of
            None \<Rightarrow> Inl (HTTPException 401 ''Invalid API key'')
          | Some r \<Rightarrow> (case ak_expires_at r of
                Some e \<Rightarrow> (if e < now then Inl (HTTPException 401 ''API key expired'') else Inr (Some r))
              | None \<Rightarrow> Inr (Some r))))"

section \<open>Properties\<close>

text \<open>The built-in roles are ordered as intended: viewers may do no more than analysts and playbook
  authors, both no more than tenant admins, these no more than admins; admins may do everything,
  an unknown role nothing, and managing analysts, API keys, settings and retention is theirs alone.\<close>

theorem role_lattice:
  "(has_permission ''viewer'' p \<longrightarrow> has_permission ''analyst'' p \<and> has_permission ''playbook_author'' p)
   \<and> (has_permission ''analyst'' p \<or> has_permission ''playbook_author'' p \<longrightarrow> has_permission ''tenant_admin'' p)
   \<and> has_permission ''admin'' p
   \<and> (role \<notin> set valid_analyst_roles \<longrightarrow> \<not> has_permission role p)
   \<and> (p \<in> {ANALYSTS_MANAGE, API_KEYS_MANAGE, SETTINGS_MANAGE, RETENTION_MANAGE} \<longrightarrow>
        has_permission role p \<longrightarrow> role = ''admin'')"
proof -
  have "has_permission role p \<longrightarrow> role \<in> set valid_analyst_roles"
    by (auto simp: has_permission_def valid_analyst_roles_def role_permissions_def split: if_splits)
  moreover have "has_permission ''viewer'' p \<longrightarrow> has_permission ''analyst'' p \<and> has_permission ''playbook_author'' p"
    "has_permission ''analyst'' p \<or> has_permission ''playbook_author'' p \<longrightarrow> has_permission ''tenant_admin'' p"
    "has_permission ''admin'' p"
    by (cases p; simp add: has_permission_def role_permissions_def all_permissions_def)+
  moreover have "p \<in> {ANALYSTS_MANAGE, API_KEYS_MANAGE, SETTINGS_MANAGE, RETENTION_MANAGE} \<longrightarrow>
        has_permission role p \<longrightarrow> role = ''admin''"
    by (auto simp: has_permission_def role_permissions_def split: if_splits)
  ultimately show ?thesis by blast
qed

theorem role_lattice_witness:
  "has_permission ''tenant_admin'' AI_USE \<and> \<not> has_permission ''tenant_admin'' RETENTION_MANAGE"
proof -
  have "has_permission ''analyst'' AI_USE"
    by (simp add: has_permission_def role_permissions_def)
  then show ?thesis
    using role_lattice[of AI_USE "''viewer''"] role_lattice[of RETENTION_MANAGE "''tenant_admin''"] by auto
qed


text \<open>A token scheme for one analyst: the token is the expiry.\<close>

definition int_str :: "int \<Rightarrow> string" where
  "int_str e = uuid_str (if 0 \<le> e then 2 * nat e else 2 * nat (- e) + 1)"

definition parse_int_str :: "string \<Rightarrow> int" where
  "parse_int_str s = (case parse_uuid s of
      Inr n \<Rightarrow> (if even n then int (n div 2) else - int (n div 2)) | Inl _ \<Rightarrow> 0)"

lemma parse_int_str [simp]: "parse_int_str (int_str e) = e"
  by (simp add: parse_int_str_def int_str_def)

definition ana_claims :: jdict where
  "ana_claims = [(''sub'', JStr (uuid_str 7)), (''username'', JStr ''ana'')]"

definition ana_jwt :: jwt_lib where
  "ana_jwt = \<lparr>jwt_encode = (\<lambda>(claims, e). int_str e),
     jwt_decode = (\<lambda>now t. if now < parse_int_str t then Inr ana_claims else Inl ExpiredSignatureError)\<rparr>"

definition ana :: analyst where
  "ana = \<lparr>an_id = 7, an_username = ''ana'', an_display_name = ''Ana'', an_email = None,
     an_password_hash = None, an_is_active = True, an_role = ''analyst''\<rparr>"


end
