(* ===== verification/Alerts.thy ===== *)
theory Alerts
  imports Access Decorators
begin

text \<open>
  \<open>opensoar/api/alerts.py\<close>: the alert endpoints. A handler takes the call environment, its arguments
  and the database; it returns the response with the committed database, or the exception it ends
  with, in which case nothing is committed. Field lengths are checked at the flush (\<open>alert_fits\<close>).
  The dash the details use is kept in its UTF-8 bytes.
\<close>

definition em_dash :: string where
  "em_dash = map char_of [32, 226, 128, 148, 32 :: nat]"

definition valid_determinations :: "string list" where
  "valid_determinations = [''unknown'', ''malicious'', ''suspicious'', ''benign'']"

definition fits :: "nat \<Rightarrow> string option \<Rightarrow> bool" where
  "fits n s = (case s of None \<Rightarrow> True | Some t \<Rightarrow> length t \<le> n)"

definition alert_fits :: "alert \<Rightarrow> bool" where
  "alert_fits a \<longleftrightarrow> length (al_source a) \<le> 50 \<and> fits 255 (al_source_id a) \<and> length (al_title a) \<le> 500 \<and>
     length (al_severity a) \<le> 20 \<and> length (al_status a) \<le> 20 \<and> fits 45 (al_source_ip a) \<and>
     fits 45 (al_dest_ip a) \<and> fits 255 (al_hostname a) \<and> fits 500 (al_rule_name a) \<and>
     fits 100 (al_partner a) \<and> length (al_determination a) \<le> 30 \<and> fits 255 (al_resolve_reason a) \<and>
     fits 100 (al_assigned_username a)"

definition save_alert :: "alert \<Rightarrow> db \<Rightarrow> exn + db" where
  "save_alert a d =
     ebind (guard (alert_fits a) data_error) (\<lambda>_.
       Inr (d\<lparr>db_alerts := update_where (\<lambda>r. al_id r = al_id a) (\<lambda>_. a) (db_alerts d)\<rparr>))"

definition alert_not_found :: exn where
  "alert_not_found = HTTPException 404 ''Alert not found''"

text \<open>The lookup and tenant check all single-alert endpoints start with.\<close>

definition load_alert :: "call_env \<Rightarrow> string \<Rightarrow> uuid \<Rightarrow> db \<Rightarrow> exn + alert" where
  "load_alert ev action alert_id d =
     ebind (fetch_or alert_not_found (\<lambda>a. al_id a = alert_id) (db_alerts d)) (\<lambda>a.
     ebind (enforce ev (RAlert a) ''alert'' action) (\<lambda>_. Inr a))"

definition by_analyst :: "analyst \<Rightarrow> uuid \<Rightarrow> string \<Rightarrow> string \<Rightarrow> jdict option \<Rightarrow> activity" where
  "by_analyst an alert_id action detail meta =
     blank_activity\<lparr>ac_alert_id := Some alert_id, ac_analyst_id := Some (an_id an),
       ac_analyst_username := Some (an_username an), ac_action := action, ac_detail := Some detail,
       ac_metadata_json := meta\<rparr>"

definition add_activities :: "time \<Rightarrow> activity list \<Rightarrow> db \<Rightarrow> db" where
  "add_activities now acts d = foldl (\<lambda>d a. add_activity now a d) d acts"

definition old_new :: "string \<Rightarrow> string \<Rightarrow> jdict option" where
  "old_new old new = Some [(''old'', JStr old), (''new'', JStr new)]"

section \<open>Reading\<close>

definition filter_eq :: "string option \<Rightarrow> (alert \<Rightarrow> string option) \<Rightarrow> alert \<Rightarrow> bool" where
  "filter_eq v f a \<longleftrightarrow> (truthy_str v \<longrightarrow> f a = v)"

record alert_filter =
  af_status :: "string option"
  af_severity :: "string option"
  af_source :: "string option"
  af_partner :: "string option"
  af_determination :: "string option"

definition alert_query :: "alert_filter \<Rightarrow> query" where
  "alert_query f r = (case r of
      RAlert a \<Rightarrow> filter_eq (af_status f) (Some \<circ> al_status) a \<and>
        filter_eq (af_severity f) (Some \<circ> al_severity) a \<and>
        filter_eq (af_source f) (Some \<circ> al_source) a \<and> filter_eq (af_partner f) al_partner a \<and>
        filter_eq (af_determination f) (Some \<circ> al_determination) a
    | _ \<Rightarrow> False)"

definition select_alerts :: "query \<Rightarrow> db \<Rightarrow> alert list" where
  "select_alerts q d = filter (\<lambda>a. q (RAlert a)) (db_alerts d)"

definition list_alerts ::
  "call_env \<Rightarrow> alert_filter \<Rightarrow> int \<Rightarrow> int \<Rightarrow> db \<Rightarrow> exn + (alert list \<times> nat)" where
  "list_alerts ev f limit offset d =
     ebind (guard (limit \<le> 200 \<and> 0 \<le> offset) (HTTPException 422 ''query'')) (\<lambda>_.
     ebind (scoped_query ev (alert_query f) ''alert'' ''list'') (\<lambda>q.
     ebind (scoped_query ev (alert_query f) ''alert'' ''count'') (\<lambda>cq.
     let total = length (select_alerts cq d)
     in ebind (page offset limit (newest_first al_created_at (select_alerts q d))) (\<lambda>rows.
        Inr (rows, total)))))"

definition get_alert :: "call_env \<Rightarrow> uuid \<Rightarrow> db \<Rightarrow> exn + alert" where
  "get_alert ev alert_id d = load_alert ev ''read'' alert_id d"

definition run_query :: "uuid \<Rightarrow> query" where
  "run_query alert_id r = (case r of RRun x \<Rightarrow> pr_alert_id x = Some alert_id | _ \<Rightarrow> False)"

definition get_alert_runs :: "call_env \<Rightarrow> uuid \<Rightarrow> db \<Rightarrow> exn + (playbook_run list \<times> nat)" where
  "get_alert_runs ev alert_id d =
     ebind (load_alert ev ''read'' alert_id d) (\<lambda>_.
     ebind (scoped_query ev (run_query alert_id) ''playbook_run'' ''list'') (\<lambda>q.
     ebind (scoped_query ev (run_query alert_id) ''playbook_run'' ''count'') (\<lambda>cq.
       Inr (newest_first pr_created_at (filter (\<lambda>r. q (RRun r)) (db_runs d)),
            length (filter (\<lambda>r. cq (RRun r)) (db_runs d))))))"

definition alert_count :: "uuid \<Rightarrow> db \<Rightarrow> nat" where
  "alert_count incident_id d = length (filter (\<lambda>l. ia_incident_id l = incident_id) (db_incident_alerts d))"

text \<open>An incident with its number of alerts; the join yields an incident once per link row.\<close>

definition get_alert_incidents :: "call_env \<Rightarrow> uuid \<Rightarrow> db \<Rightarrow> exn + (incident \<times> nat) list" where
  "get_alert_incidents ev alert_id d =
     ebind (load_alert ev ''read'' alert_id d) (\<lambda>_.
     ebind (scoped_query ev (\<lambda>r. case r of RIncident _ \<Rightarrow> True | _ \<Rightarrow> False) ''incident'' ''list'') (\<lambda>q.
     let joined = concat (map (\<lambda>i. map (\<lambda>_. i) (filter (\<lambda>l. ia_incident_id l = in_id i \<and> ia_alert_id l = alert_id)
                    (db_incident_alerts d))) (db_incidents d))
     in Inr (map (\<lambda>i. (i, alert_count (in_id i) d))
               (newest_first in_created_at (filter (\<lambda>i. q (RIncident i)) joined)))))"

section \<open>Updating one alert\<close>

record alert_update =
  au_status :: "string patch"
  au_severity :: "string patch"
  au_resolve_reason :: "string patch"
  au_determination :: "string patch"
  au_partner :: "string patch"
  au_tags :: "string list patch"
  au_assigned_to :: "string patch"

definition or_else :: "string option \<Rightarrow> string \<Rightarrow> string" where
  "or_else s t = (if truthy_str s then the s else t)"

definition apply_assignment ::
  "analyst \<Rightarrow> uuid \<Rightarrow> string patch \<Rightarrow> db \<Rightarrow> alert \<Rightarrow> exn + (alert \<times> activity list)" where
  "apply_assignment an alert_id p d a = (case p of
      None \<Rightarrow> Inr (a, [])
    | Some v \<Rightarrow>
        (if truthy_str v then
           ebind (parse_uuid (the v)) (\<lambda>i.
           ebind (fetch (\<lambda>x. an_id x = i) (db_analysts d)) (\<lambda>found.
             case found of
               None \<Rightarrow> Inr (a, [])
             | Some to \<Rightarrow> Inr (a\<lparr>al_assigned_to := Some (an_id to), al_assigned_username := Some (an_username to)\<rparr>,
                 [by_analyst an alert_id ''assigned'' (''Assigned to '' @ an_display_name to) None])))
         else Inr (a\<lparr>al_assigned_to := None, al_assigned_username := None\<rparr>, [])))"

definition apply_fields :: "alert_update \<Rightarrow> alert \<Rightarrow> exn + alert" where
  "apply_fields u a =
     ebind (patch_not_null ''alerts.status'' (au_status u) (al_status a)) (\<lambda>st.
     ebind (patch_not_null ''alerts.severity'' (au_severity u) (al_severity a)) (\<lambda>sev.
     ebind (patch_not_null ''alerts.determination'' (au_determination u) (al_determination a)) (\<lambda>det.
       Inr (a\<lparr>al_status := st, al_severity := sev, al_determination := det,
              al_resolve_reason := patch_nullable (au_resolve_reason u) (al_resolve_reason a),
              al_partner := patch_nullable (au_partner u) (al_partner a),
              al_tags := patch_nullable (au_tags u) (al_tags a)\<rparr>))))"

definition stamp_resolved :: "time \<Rightarrow> alert \<Rightarrow> alert" where
  "stamp_resolved now a = (if al_resolved_at a = None then a\<lparr>al_resolved_at := Some now\<rparr> else a)"

text \<open>The automatic activities for changes of status, determination and severity.\<close>

definition change_log :: "analyst \<Rightarrow> alert_update \<Rightarrow> alert \<Rightarrow> activity list" where
  "change_log an u old =
     (let st = patch_value (au_status u); det = patch_value (au_determination u);
          sev = patch_value (au_severity u); reason = patch_value (au_resolve_reason u)
      in (if truthy_str st \<and> the st \<noteq> al_status old then
            [by_analyst an (al_id old) ''status_change''
              (''Status changed from '' @ al_status old @ '' to '' @ the st @
               (if st = Some ''resolved'' \<and> truthy_str reason then em_dash @ the reason else []))
              (old_new (al_status old) (the st))] else []) @
         (if truthy_str det \<and> the det \<noteq> al_determination old then
            [by_analyst an (al_id old) ''determination_set''
              (''Determination set to '' @ the det @
               (if al_determination old \<noteq> ''unknown'' then '' (was '' @ al_determination old @ '')'' else []))
              (old_new (al_determination old) (the det))] else []) @
         (if truthy_str sev \<and> the sev \<noteq> al_severity old then
            [by_analyst an (al_id old) ''severity_change''
              (''Severity changed from '' @ al_severity old @ '' to '' @ the sev)
              (old_new (al_severity old) (the sev))] else []))"

text \<open>The values are listed in the order of a Python set, which is arbitrary.\<close>

definition invalid_determination :: exn where
  "invalid_determination =
     HTTPException 422 (''Invalid determination. Must be one of: '' @ join '', '' valid_determinations)"

definition cannot_resolve_unknown :: exn where
  "cannot_resolve_unknown = HTTPException 422
     ''Cannot resolve an alert with determination 'unknown'. Set a determination first.''"

definition update_alert :: "call_env \<Rightarrow> uuid \<Rightarrow> alert_update \<Rightarrow> db \<Rightarrow> exn + (alert \<times> db)" where
  "update_alert ev alert_id u d =
     ebind (require_permission ALERTS_UPDATE (ev_user ev)) (\<lambda>an.
     ebind (load_alert ev ''update'' alert_id d) (\<lambda>a.
     let det = patch_value (au_determination u)
     in ebind (guard (\<not> (truthy_str det \<and> the det \<notin> set valid_determinations))
                invalid_determination) (\<lambda>_.
        ebind (guard (\<not> (patch_value (au_status u) = Some ''resolved'' \<and>
                         or_else det (al_determination a) = ''unknown''))
                cannot_resolve_unknown) (\<lambda>_.
        ebind (apply_assignment an alert_id (au_assigned_to u) d a) (\<lambda>(a1, assign_log).
        ebind (apply_fields u a1) (\<lambda>a2.
        let a3 = (if patch_value (au_status u) = Some ''resolved'' then stamp_resolved (ev_now ev) a2 else a2)
        in ebind (save_alert a3 (add_activities (ev_now ev) (assign_log @ change_log an u a1) d)) (\<lambda>d'.
           Inr (a3, d'))))))))"

definition claimed :: "analyst \<Rightarrow> alert \<Rightarrow> alert" where
  "claimed an a = a\<lparr>al_assigned_to := Some (an_id an), al_assigned_username := Some (an_username an),
     al_status := (if al_status a = ''new'' then ''in_progress'' else al_status a)\<rparr>"

definition claim_log :: "analyst \<Rightarrow> alert \<Rightarrow> activity list" where
  "claim_log an a =
     by_analyst an (al_id a) ''claimed'' (''Claimed by '' @ an_display_name an) None #
     (if al_status a = ''new''
      then [by_analyst an (al_id a) ''status_change'' ''Status changed from new to in_progress''
              (old_new ''new'' ''in_progress'')]
      else [])"

definition claim_alert :: "call_env \<Rightarrow> uuid \<Rightarrow> db \<Rightarrow> exn + (alert \<times> db)" where
  "claim_alert ev alert_id d =
     ebind (require_permission ALERTS_UPDATE (ev_user ev)) (\<lambda>an.
     ebind (load_alert ev ''claim'' alert_id d) (\<lambda>a.
     ebind (save_alert (claimed an a) (add_activities (ev_now ev) (claim_log an a) d)) (\<lambda>d'.
       Inr (claimed an a, d'))))"

section \<open>Bulk updates\<close>

record bulk_update =
  bu_alert_ids :: "uuid list"
  bu_action :: string
  bu_resolve_reason :: "string option"
  bu_determination :: "string option"
  bu_severity :: "string option"

record bulk_result =
  br_updated :: nat
  br_failed :: nat
  br_errors :: "string list"

text \<open>What one record's action does: nothing, an error text, or a changed row with its activity.\<close>

datatype bulk_effect = BulkSkip | BulkFail string | BulkSet alert activity

definition bulk_effect_of :: "time \<Rightarrow> analyst \<Rightarrow> bulk_update \<Rightarrow> alert \<Rightarrow> bulk_effect" where
  "bulk_effect_of now an b a =
     (let aid = al_id a
      in if bu_action b = ''resolve'' then
           (if al_status a = ''resolved'' then BulkSkip
            else if or_else (bu_determination b) (al_determination a) = ''unknown''
            then BulkFail (''Alert '' @ uuid_str aid @ '': cannot resolve with unknown determination'')
            else BulkSet
              (a\<lparr>al_status := ''resolved'', al_resolved_at := Some now,
                 al_resolve_reason := (if truthy_str (bu_resolve_reason b) then bu_resolve_reason b
                                       else al_resolve_reason a),
                 al_determination := or_else (bu_determination b) (al_determination a)\<rparr>)
              (by_analyst an aid ''status_change''
                 (''Bulk resolved (was '' @ al_status a @ '')'' @
                  (if truthy_str (bu_resolve_reason b) then em_dash @ the (bu_resolve_reason b) else []))
                 (old_new (al_status a) ''resolved'')))
         else if bu_action b = ''assign'' then
           BulkSet
             (a\<lparr>al_assigned_to := Some (an_id an), al_assigned_username := Some (an_username an),
                al_status := (if al_status a = ''new'' then ''in_progress'' else al_status a)\<rparr>)
             (by_analyst an aid ''claimed'' (''Bulk assigned to '' @ an_display_name an) None)
         else if bu_action b = ''change_severity'' \<and> truthy_str (bu_severity b) then
           BulkSet (a\<lparr>al_severity := the (bu_severity b)\<rparr>)
             (by_analyst an aid ''severity_change''
                (''Bulk severity change from '' @ al_severity a @ '' to '' @ the (bu_severity b))
                (old_new (al_severity a) (the (bu_severity b))))
         else BulkFail (''Unknown action: '' @ bu_action b))"

definition put_alert :: "alert \<Rightarrow> db \<Rightarrow> db" where
  "put_alert a d = d\<lparr>db_alerts := update_where (\<lambda>r. al_id r = al_id a) (\<lambda>_. a) (db_alerts d)\<rparr>"

text \<open>One identifier of the batch; \<open>visible\<close> is what the scoped query returned at the start.\<close>

definition bulk_one ::
  "call_env \<Rightarrow> analyst \<Rightarrow> bulk_update \<Rightarrow> uuid set \<Rightarrow> uuid \<Rightarrow> db \<times> bulk_result \<Rightarrow> exn + (db \<times> bulk_result)" where
  "bulk_one ev an b visible aid st =
     (let (d, res) = st;
          fail = (\<lambda>msg. res\<lparr>br_failed := Suc (br_failed res), br_errors := br_errors res @ [msg]\<rparr>)
      in case (if aid \<in> visible then find (\<lambda>a. al_id a = aid) (db_alerts d) else None) of
           None \<Rightarrow> Inr (d, fail (''Alert '' @ uuid_str aid @ '' not found''))
         | Some a \<Rightarrow>
             (case enforce ev (RAlert a) ''alert'' ''bulk_update'' of
                Inl e \<Rightarrow> (if is_Exception e then Inr (d, fail (''Alert '' @ uuid_str aid @ '': '' @ exn_str e))
                          else Inl e)
              | Inr _ \<Rightarrow>
                  (case bulk_effect_of (ev_now ev) an b a of
                     BulkSkip \<Rightarrow> Inr (d, res)
                   | BulkFail msg \<Rightarrow> Inr (d, fail msg)
                   | BulkSet a' act \<Rightarrow>
                       Inr (add_activity (ev_now ev) act (put_alert a' d), res\<lparr>br_updated := Suc (br_updated res)\<rparr>))))"

fun bulk_loop ::
  "call_env \<Rightarrow> analyst \<Rightarrow> bulk_update \<Rightarrow> uuid set \<Rightarrow> uuid list \<Rightarrow> db \<times> bulk_result \<Rightarrow> exn + (db \<times> bulk_result)" where
  "bulk_loop ev an b visible [] st = Inr st"
| "bulk_loop ev an b visible (aid # ids) st =
     ebind (bulk_one ev an b visible aid st) (bulk_loop ev an b visible ids)"

definition bulk_update_alerts :: "call_env \<Rightarrow> bulk_update \<Rightarrow> db \<Rightarrow> exn + (bulk_result \<times> db)" where
  "bulk_update_alerts ev b d =
     ebind (require_permission ALERTS_UPDATE (ev_user ev)) (\<lambda>an.
     ebind (scoped_query ev (\<lambda>r. case r of RAlert a \<Rightarrow> al_id a \<in> set (bu_alert_ids b) | _ \<Rightarrow> False)
              ''alert'' ''bulk_update'') (\<lambda>q.
     ebind (bulk_loop ev an b (al_id ` set (select_alerts q d)) (bu_alert_ids b)
              (d, \<lparr>br_updated = 0, br_failed = 0, br_errors = []\<rparr>)) (\<lambda>(d', res).
     ebind (guard (\<forall>a \<in> set (db_alerts d'). alert_fits a \<or> a \<in> set (db_alerts d)) data_error) (\<lambda>_.
       Inr (res, d')))))"

section \<open>Linking and deleting\<close>

record alert_incident_request =
  ai_incident_id :: "string option"
  ai_title :: "string option"
  ai_description :: "string option"
  ai_severity :: string
  ai_tags :: "string list option"

text \<open>The request model refuses both or neither of an incident and a non-blank title (422).\<close>

definition valid_incident_request :: "alert_incident_request \<Rightarrow> bool" where
  "valid_incident_request r \<longleftrightarrow>
     truthy_str (ai_incident_id r) \<noteq> (truthy_str (ai_title r) \<and> strip (the (ai_title r)) \<noteq> [])"

definition incident_fits :: "incident \<Rightarrow> bool" where
  "incident_fits i \<longleftrightarrow> length (in_title i) \<le> 500 \<and> length (in_severity i) \<le> 20 \<and>
     length (in_status i) \<le> 20 \<and> fits 100 (in_assigned_username i)"

definition new_incident ::
  "time \<Rightarrow> string \<Rightarrow> string option \<Rightarrow> string \<Rightarrow> string list option \<Rightarrow> db \<Rightarrow> exn + (incident \<times> db)" where
  "new_incident now title description severity tags d =
     (let i = \<lparr>in_id = db_next_id d, in_created_at = now, in_title = title, in_description = description,
               in_severity = severity, in_status = ''open'', in_assigned_to = None,
               in_assigned_username = None, in_tags = tags, in_closed_at = None, in_archived_at = None\<rparr>
      in ebind (guard (incident_fits i) data_error) (\<lambda>_.
         Inr (i, d\<lparr>db_next_id := Suc (db_next_id d), db_incidents := db_incidents d @ [i]\<rparr>)))"

definition add_link :: "uuid \<Rightarrow> uuid \<Rightarrow> db \<Rightarrow> db" where
  "add_link incident_id alert_id d =
     d\<lparr>db_next_id := Suc (db_next_id d), db_incident_alerts := db_incident_alerts d @
        [\<lparr>ia_id = db_next_id d, ia_incident_id = incident_id, ia_alert_id = alert_id\<rparr>]\<rparr>"

definition denied :: "permission \<Rightarrow> exn" where
  "denied p = HTTPException 403 (''Permission denied: requires '' @ permission_value p)"

definition incident_not_found :: exn where
  "incident_not_found = HTTPException 404 ''Incident not found''"

definition pick_incident ::
  "call_env \<Rightarrow> analyst \<Rightarrow> alert_incident_request \<Rightarrow> db \<Rightarrow> exn + (incident \<times> bool \<times> db)" where
  "pick_incident ev an r d =
     (if truthy_str (ai_incident_id r) then
        ebind (guard (has_permission (an_role an) INCIDENTS_UPDATE) (denied INCIDENTS_UPDATE)) (\<lambda>_.
        ebind (parse_uuid (the (ai_incident_id r))) (\<lambda>iid.
        ebind (fetch_or incident_not_found (\<lambda>i. in_id i = iid) (db_incidents d)) (\<lambda>i.
        ebind (enforce ev (RIncident i) ''incident'' ''update'') (\<lambda>_. Inr (i, False, d)))))
      else
        ebind (guard (has_permission (an_role an) INCIDENTS_CREATE) (denied INCIDENTS_CREATE)) (\<lambda>_.
        ebind (new_incident (ev_now ev) (strip (case ai_title r of None \<Rightarrow> [] | Some t \<Rightarrow> t))
                 (ai_description r) (ai_severity r) (ai_tags r) d) (\<lambda>(i, d').
          Inr (i, True, d'))))"

definition create_or_link_incident_for_alert ::
  "call_env \<Rightarrow> uuid \<Rightarrow> alert_incident_request \<Rightarrow> db \<Rightarrow> exn + ((incident \<times> nat) \<times> db)" where
  "create_or_link_incident_for_alert ev alert_id r d =
     ebind (guard (valid_incident_request r) (HTTPException 422 ''body'')) (\<lambda>_.
     ebind (require_analyst (ev_user ev)) (\<lambda>an.
     ebind (load_alert ev ''read'' alert_id d) (\<lambda>a.
     ebind (pick_incident ev an r d) (\<lambda>(i, created, d1).
     ebind (fetch (\<lambda>l. ia_incident_id l = in_id i \<and> ia_alert_id l = alert_id) (db_incident_alerts d1)) (\<lambda>existing.
     ebind (guard (existing = None) (HTTPException 409 ''Alert already linked to this incident'')) (\<lambda>_.
     let creation = (if created then
           [blank_activity\<lparr>ac_incident_id := Some (in_id i), ac_analyst_id := Some (an_id an),
              ac_analyst_username := Some (an_username an), ac_action := ''incident_created'',
              ac_detail := Some (''Incident created: '' @ in_title i),
              ac_metadata_json := Some [(''incident_title'', JStr (in_title i))]\<rparr>] else []);
         linked = blank_activity\<lparr>ac_alert_id := Some alert_id, ac_incident_id := Some (in_id i),
              ac_analyst_id := Some (an_id an), ac_analyst_username := Some (an_username an),
              ac_action := ''incident_linked'',
              ac_detail := Some ((if created then ''Created and linked incident '' else ''Linked to incident '') @ in_title i),
              ac_metadata_json := Some [(''incident_id'', JStr (uuid_str (in_id i))),
                (''incident_title'', JStr (in_title i)), (''created_new_incident'', JBool created)]\<rparr>;
         d2 = add_activity (ev_now ev) linked (add_link (in_id i) alert_id (add_activities (ev_now ev) creation d1))
     in Inr ((i, alert_count (in_id i) d2), d2)))))))"

definition delete_alert :: "call_env \<Rightarrow> uuid \<Rightarrow> db \<Rightarrow> exn + db" where
  "delete_alert ev alert_id d =
     ebind (require_permission ALERTS_DELETE (ev_user ev)) (\<lambda>_.
     ebind (load_alert ev ''delete'' alert_id d) (\<lambda>a.
       delete_alerts (\<lambda>r. al_id r = al_id a) d))"

section \<open>Invariant of the alert table\<close>

text \<open>A resolved alert carries its resolution time, and the assignee's identifier and name are both
  present or both absent. In the table identifiers are unique and already issued.\<close>

definition alert_ok :: "alert \<Rightarrow> bool" where
  "alert_ok a \<longleftrightarrow> (al_status a = ''resolved'' \<longrightarrow> al_resolved_at a \<noteq> None) \<and>
     (al_assigned_to a = None \<longleftrightarrow> al_assigned_username a = None)"

definition alerts_ok :: "db \<Rightarrow> bool" where
  "alerts_ok d \<longleftrightarrow> distinct (map al_id (db_alerts d)) \<and>
     (\<forall>a \<in> set (db_alerts d). al_id a < db_next_id d \<and> alert_ok a)"

lemma add_activities_frame [simp]:
  "db_alerts (add_activities now acts d) = db_alerts d"
  "db_incidents (add_activities now acts d) = db_incidents d"
  "db_incident_alerts (add_activities now acts d) = db_incident_alerts d"
  "db_analysts (add_activities now acts d) = db_analysts d"
  "db_observables (add_activities now acts d) = db_observables d"
  "db_runs (add_activities now acts d) = db_runs d"
  "db_next_id (add_activities now acts d) = db_next_id d + length acts"
  unfolding add_activities_def by (induction acts arbitrary: d) (simp_all add: add_activity_def)

lemma add_activities_rows:
  "map (\<lambda>a. a\<lparr>ac_id := 0, ac_created_at := 0, ac_updated_at := 0\<rparr>) (db_activities (add_activities now acts d)) =
   map (\<lambda>a. a\<lparr>ac_id := 0, ac_created_at := 0, ac_updated_at := 0\<rparr>) (db_activities d @ acts)"
  unfolding add_activities_def by (induction acts arbitrary: d) (simp_all add: add_activity_def)

lemma add_activity_next_id [simp]: "db_next_id (add_activity now a d) = Suc (db_next_id d)"
  by (simp add: add_activity_def)

lemma save_alert_eq: "save_alert a d = Inr d' \<longleftrightarrow> alert_fits a \<and> d' = put_alert a d"
  by (auto simp: save_alert_def put_alert_def res_simps)

lemma put_alert_frame [simp]:
  "db_next_id (put_alert a d) = db_next_id d" "db_incidents (put_alert a d) = db_incidents d"
  "db_incident_alerts (put_alert a d) = db_incident_alerts d" "db_activities (put_alert a d) = db_activities d"
  "db_analysts (put_alert a d) = db_analysts d" "db_runs (put_alert a d) = db_runs d"
  by (simp_all add: put_alert_def)

lemma put_alert_ids: "map al_id (db_alerts (put_alert a d)) = map al_id (db_alerts d)"
  by (auto simp: put_alert_def intro!: map_update_where)

lemma put_alert_rows: "r \<in> set (db_alerts (put_alert a d)) \<Longrightarrow> r = a \<and> (\<exists>s \<in> set (db_alerts d). al_id s = al_id a) \<or>
    r \<in> set (db_alerts d) \<and> al_id r \<noteq> al_id a"
  by (auto simp: put_alert_def set_update_where split: if_splits)

lemma alerts_ok_put: "alerts_ok d \<Longrightarrow> alert_ok a \<Longrightarrow> alerts_ok (put_alert a d)"
  unfolding alerts_ok_def put_alert_ids by (auto dest!: put_alert_rows)

lemma alerts_ok_frame:
  "alerts_ok d \<Longrightarrow> db_alerts d' = db_alerts d \<Longrightarrow> db_next_id d \<le> db_next_id d' \<Longrightarrow> alerts_ok d'"
  unfolding alerts_ok_def by fastforce

lemma alerts_ok_activities [simp]: "alerts_ok d \<Longrightarrow> alerts_ok (add_activities now acts d)"
  by (erule alerts_ok_frame) simp_all

lemma alerts_ok_activity [simp]: "alerts_ok d \<Longrightarrow> alerts_ok (add_activity now a d)"
  by (erule alerts_ok_frame) simp_all

lemma load_alert_eq: "load_alert ev action i d = Inr a \<Longrightarrow>
    filter (\<lambda>r. al_id r = i) (db_alerts d) = [a] \<and> enforce ev (RAlert a) ''alert'' action = Inr ()"
  by (auto simp: load_alert_def res_simps)

lemma load_alert_ok: "load_alert ev action i d = Inr a \<Longrightarrow> a \<in> set (db_alerts d) \<and> al_id a = i"
  using filter_single_mem[of "\<lambda>r. al_id r = i" "db_alerts d" a] by (auto dest: load_alert_eq)

lemma alerts_ok_mem: "alerts_ok d \<Longrightarrow> a \<in> set (db_alerts d) \<Longrightarrow> alert_ok a"
  by (simp add: alerts_ok_def)

lemma apply_assignment_ok:
  "apply_assignment an i p d a = Inr (a', acts) \<Longrightarrow> alert_ok a \<Longrightarrow> alert_ok a' \<and> al_id a' = al_id a \<and>
     al_status a' = al_status a \<and> al_resolved_at a' = al_resolved_at a \<and> al_determination a' = al_determination a"
  by (auto simp: apply_assignment_def alert_ok_def res_simps split: option.splits if_splits)

lemma apply_fields_ok:
  "apply_fields u a = Inr a' \<Longrightarrow> al_id a' = al_id a \<and> al_assigned_to a' = al_assigned_to a \<and>
     al_assigned_username a' = al_assigned_username a \<and> al_resolved_at a' = al_resolved_at a \<and>
     (patch_value (au_status u) \<noteq> Some ''resolved'' \<longrightarrow> al_status a' = ''resolved'' \<longrightarrow> al_status a = ''resolved'')"
  by (auto simp: apply_fields_def res_simps)

lemma update_alert_alerts:
  assumes "update_alert ev i u d = Inr (a', d')"
  shows "\<exists>an a a1 a2 acts. require_permission ALERTS_UPDATE (ev_user ev) = Inr an \<and>
    load_alert ev ''update'' i d = Inr a \<and> apply_assignment an i (au_assigned_to u) d a = Inr (a1, acts) \<and>
    apply_fields u a1 = Inr a2 \<and>
    a' = (if patch_value (au_status u) = Some ''resolved'' then stamp_resolved (ev_now ev) a2 else a2) \<and>
    \<not> (patch_value (au_status u) = Some ''resolved'' \<and>
       or_else (patch_value (au_determination u)) (al_determination a) = ''unknown'') \<and>
    d' = put_alert a' (add_activities (ev_now ev) (acts @ change_log an u a1) d)"
  using assms unfolding update_alert_def Let_def ebind_eq_Inr guard_eq_Inr save_alert_eq
  by (auto simp: ebind_eq_Inr save_alert_eq simp del: patch_value_eq_Some split del: if_split)

lemma stamp_resolved_simps [simp]:
  "al_id (stamp_resolved t a) = al_id a" "al_status (stamp_resolved t a) = al_status a"
  "al_determination (stamp_resolved t a) = al_determination a"
  "al_assigned_to (stamp_resolved t a) = al_assigned_to a"
  "al_assigned_username (stamp_resolved t a) = al_assigned_username a"
  "al_resolved_at (stamp_resolved t a) \<noteq> None" "\<exists>y. al_resolved_at (stamp_resolved t a) = Some y"
  by (auto simp: stamp_resolved_def)

lemma update_alert_ok:
  assumes u: "update_alert ev i u d = Inr (a', d')" and ok: "alerts_ok d"
  shows "alerts_ok d'"
proof -
  from update_alert_alerts[OF u] obtain an a a1 a2 acts where
    l: "load_alert ev ''update'' i d = Inr a" and s: "apply_assignment an i (au_assigned_to u) d a = Inr (a1, acts)"
    and f: "apply_fields u a1 = Inr a2"
    and a': "a' = (if patch_value (au_status u) = Some ''resolved'' then stamp_resolved (ev_now ev) a2 else a2)"
    and d': "d' = put_alert a' (add_activities (ev_now ev) (acts @ change_log an u a1) d)" by blast
  have "alert_ok a" using ok load_alert_ok[OF l] by (simp add: alerts_ok_mem)
  from apply_assignment_ok[OF s this] have a1: "alert_ok a1" by blast
  have "alert_ok a'"
    using apply_fields_ok[OF f] a1 unfolding a' alert_ok_def by auto
  with ok show ?thesis unfolding d' by (intro alerts_ok_put) simp_all
qed

lemma claimed_ok: "alert_ok a \<Longrightarrow> alert_ok (claimed an a)"
  by (simp add: claimed_def alert_ok_def)

lemma claim_alert_ok: "claim_alert ev i d = Inr (a', d') \<Longrightarrow> alerts_ok d \<Longrightarrow> alerts_ok d'"
  by (auto simp: claim_alert_def res_simps save_alert_eq alerts_ok_mem
      intro!: alerts_ok_put claimed_ok dest!: load_alert_ok)

lemma bulk_effect_ok:
  "bulk_effect_of now an b a = BulkSet a' act \<Longrightarrow> alert_ok a \<Longrightarrow> alert_ok a'"
  by (auto simp: bulk_effect_of_def alert_ok_def Let_def split: if_splits)

lemma bulk_one_ok:
  assumes "bulk_one ev an b vis i (d, res) = Inr (d', res')" and "alerts_ok d"
  shows "alerts_ok d'"
proof (cases "if i \<in> vis then find (\<lambda>a. al_id a = i) (db_alerts d) else None")
  case None
  with assms show ?thesis by (auto simp: bulk_one_def Let_def)
next
  case (Some a)
  then have "alert_ok a" using assms(2) by (auto simp: find_Some_iff alerts_ok_def split: if_splits)
  with assms Some show ?thesis
    by (auto simp: bulk_one_def Let_def alerts_ok_put dest: bulk_effect_ok
        split: sum.splits bulk_effect.splits if_splits)
qed

lemma bulk_loop_ok:
  "bulk_loop ev an b vis ids (d, res) = Inr (d', res') \<Longrightarrow> alerts_ok d \<Longrightarrow> alerts_ok d'"
proof (induction ids arbitrary: d res)
  case (Cons i ids)
  then obtain d1 res1 where "bulk_one ev an b vis i (d, res) = Inr (d1, res1)"
    and "bulk_loop ev an b vis ids (d1, res1) = Inr (d', res')" by (auto simp: res_simps)
  with Cons bulk_one_ok show ?case by blast
qed simp

lemma bulk_update_alerts_ok: "bulk_update_alerts ev b d = Inr (r, d') \<Longrightarrow> alerts_ok d \<Longrightarrow> alerts_ok d'"
  by (auto simp: bulk_update_alerts_def res_simps dest: bulk_loop_ok split: if_splits)

lemma pick_incident_alerts:
  "pick_incident ev an r d = Inr (i, c, d') \<Longrightarrow> db_alerts d' = db_alerts d \<and> db_next_id d \<le> db_next_id d'"
  by (auto simp: pick_incident_def new_incident_def Let_def res_simps split: if_splits)

lemma create_or_link_alerts:
  "create_or_link_incident_for_alert ev i r d = Inr (x, d') \<Longrightarrow>
     db_alerts d' = db_alerts d \<and> db_next_id d \<le> db_next_id d'"
  by (auto simp: create_or_link_incident_for_alert_def Let_def res_simps add_link_def
      dest!: pick_incident_alerts split: if_splits)

lemma create_or_link_ok:
  "create_or_link_incident_for_alert ev i r d = Inr (x, d') \<Longrightarrow> alerts_ok d \<Longrightarrow> alerts_ok d'"
  using create_or_link_alerts alerts_ok_frame by blast

lemma delete_alerts_ok: "delete_alerts p d = Inr d' \<Longrightarrow> alerts_ok d \<Longrightarrow> alerts_ok d'"
  by (auto simp: delete_alerts_def alerts_ok_def Let_def distinct_map_filter split: if_splits)

lemma delete_alert_ok: "delete_alert ev i d = Inr d' \<Longrightarrow> alerts_ok d \<Longrightarrow> alerts_ok d'"
  by (auto simp: delete_alert_def res_simps dest: delete_alerts_ok)

lemmas alert_handlers_ok = update_alert_ok claim_alert_ok bulk_update_alerts_ok create_or_link_ok delete_alert_ok

section \<open>Properties\<close>

definition logged :: "time \<Rightarrow> activity \<Rightarrow> activity \<Rightarrow> bool" where
  "logged now a r \<longleftrightarrow> r = a\<lparr>ac_id := ac_id r, ac_created_at := now, ac_updated_at := now\<rparr>"

lemma add_activities_append:
  "\<exists>rows. db_activities (add_activities now acts d) = db_activities d @ rows \<and> list_all2 (logged now) acts rows"
proof (induction acts arbitrary: d)
  case (Cons a acts)
  let ?r = "a\<lparr>ac_id := db_next_id d, ac_created_at := now, ac_updated_at := now\<rparr>"
  from Cons.IH[of "add_activity now a d"] obtain rows where
    "db_activities (add_activities now acts (add_activity now a d)) = db_activities (add_activity now a d) @ rows"
    "list_all2 (logged now) acts rows" by blast
  then have "db_activities (add_activities now (a # acts) d) = db_activities d @ ?r # rows \<and>
     list_all2 (logged now) (a # acts) (?r # rows)"
    by (simp add: add_activities_def add_activity_def logged_def)
  then show ?case by blast
qed (simp add: add_activities_def)

lemma logged_mem: "list_all2 (logged now) acts rows \<Longrightarrow> a \<in> set acts \<Longrightarrow> \<exists>r \<in> set rows. logged now a r"
  by (induction acts rows rule: list_all2_induct) auto

text \<open>An entry of the audit log that records a change of one field by an analyst.\<close>

definition records_change :: "analyst \<Rightarrow> uuid \<Rightarrow> string \<Rightarrow> string \<Rightarrow> string \<Rightarrow> activity \<Rightarrow> bool" where
  "records_change an i action old new r \<longleftrightarrow> ac_action r = action \<and> ac_alert_id r = Some i \<and>
     ac_analyst_id r = Some (an_id an) \<and> ac_metadata_json r = old_new old new"

lemma logged_by_analyst:
  "logged now (by_analyst an i action detail (old_new old new)) r \<Longrightarrow> records_change an i action old new r"
  unfolding logged_def records_change_def by_analyst_def by (cases r) simp

lemma require_permission_eq [res_simps]:
  "require_permission p u = Inr an \<longleftrightarrow> u = Some an \<and> has_permission (an_role an) p"
  by (auto simp: require_permission_def split: option.splits)

lemma change_log_complete:
  "patch_value (au_status u) = Some st \<Longrightarrow> st \<noteq> [] \<Longrightarrow> st \<noteq> al_status a \<Longrightarrow>
     \<exists>detail. by_analyst an (al_id a) ''status_change'' detail (old_new (al_status a) st) \<in> set (change_log an u a)"
  "patch_value (au_severity u) = Some sev \<Longrightarrow> sev \<noteq> [] \<Longrightarrow> sev \<noteq> al_severity a \<Longrightarrow>
     \<exists>detail. by_analyst an (al_id a) ''severity_change'' detail (old_new (al_severity a) sev) \<in> set (change_log an u a)"
  "patch_value (au_determination u) = Some det \<Longrightarrow> det \<noteq> [] \<Longrightarrow> det \<noteq> al_determination a \<Longrightarrow>
     \<exists>detail. by_analyst an (al_id a) ''determination_set'' detail (old_new (al_determination a) det) \<in> set (change_log an u a)"
  unfolding change_log_def Let_def by auto

definition with_change :: "db \<Rightarrow> db \<Rightarrow> analyst \<Rightarrow> uuid \<Rightarrow> string \<Rightarrow> string \<Rightarrow> string \<Rightarrow> bool" where
  "with_change d d' an i action old new \<longleftrightarrow>
     (\<exists>r \<in> set (drop (length (db_activities d)) (db_activities d')). records_change an i action old new r)"

lemma with_change_log:
  assumes "by_analyst an i action detail (old_new old new) \<in> set acts"
    and "db_activities d' = db_activities (add_activities now acts d)"
  shows "with_change d d' an i action old new"
proof -
  from add_activities_append[of now acts d] obtain rows where
    "db_activities d' = db_activities d @ rows" "list_all2 (logged now) acts rows" using assms(2) by metis
  with logged_mem[OF this(2) assms(1)] show ?thesis
    unfolding with_change_def by (auto dest: logged_by_analyst)
qed

lemma apply_fields_values:
  "apply_fields u a = Inr a' \<Longrightarrow>
     al_status a' = (case patch_value (au_status u) of None \<Rightarrow> al_status a | Some v \<Rightarrow> v) \<and>
     al_severity a' = (case patch_value (au_severity u) of None \<Rightarrow> al_severity a | Some v \<Rightarrow> v) \<and>
     al_determination a' = (case patch_value (au_determination u) of None \<Rightarrow> al_determination a | Some v \<Rightarrow> v)"
  by (auto simp: apply_fields_def res_simps)

lemma apply_assignment_fields:
  "apply_assignment an i p d a = Inr (a', acts) \<Longrightarrow> al_id a' = al_id a \<and> al_status a' = al_status a \<and>
     al_severity a' = al_severity a \<and> al_determination a' = al_determination a \<and> al_resolved_at a' = al_resolved_at a"
  by (auto simp: apply_assignment_def res_simps split: option.splits if_splits)

lemma stamp_resolved_severity [simp]: "al_severity (stamp_resolved t a) = al_severity a"
  by (simp add: stamp_resolved_def)


text \<open>The guard against resolving without a determination does not survive: for a resolved alert, a
  \<open>PATCH\<close> of the determination alone to unknown succeeds and leaves the alert resolved with an
  unknown determination.\<close>

theorem resolved_back_to_unknown:
  assumes "ev_user ev = Some an" and "has_permission (an_role an) ALERTS_UPDATE" and "alerts_ok d"
    and "a \<in> set (db_alerts d)" and "al_status a = ''resolved''" and "alert_fits a"
    and "enforce ev (RAlert a) ''alert'' ''update'' = Inr ()"
  shows "\<exists>a' d'. update_alert ev (al_id a) \<lparr>au_status = None, au_severity = None, au_resolve_reason = None,
      au_determination = Some (Some ''unknown''), au_partner = None, au_tags = None, au_assigned_to = None\<rparr> d = Inr (a', d') \<and>
    a' \<in> set (db_alerts d') \<and> al_id a' = al_id a \<and> al_status a' = ''resolved'' \<and> al_determination a' = ''unknown''"
proof -
  let ?a = "a\<lparr>al_determination := ''unknown''\<rparr>"
  have l: "load_alert ev ''update'' (al_id a) d = Inr a"
    using assms fetch_or_key[of al_id "db_alerts d" a] by (simp add: load_alert_def alerts_ok_def)
  have "alert_fits ?a" using assms(6) by (simp add: alert_fits_def)
  then have s: "save_alert ?a d1 = Inr (put_alert ?a d1)" for d1 by (simp add: save_alert_eq)
  have f: "apply_fields \<lparr>au_status = None, au_severity = None, au_resolve_reason = None,
      au_determination = Some (Some ''unknown''), au_partner = None, au_tags = None, au_assigned_to = None\<rparr> a = Inr ?a"
    by (simp add: apply_fields_def patch_not_null_def patch_nullable_def)
  have m: "?a \<in> set (db_alerts (put_alert ?a (add_activities t acts d)))" for t acts
    using assms(4) by (force simp: put_alert_def set_update_where)
  show ?thesis
    using l s f m assms(1,2,5)
    by (simp add: update_alert_def Let_def require_permission_def guard_def valid_determinations_def
        apply_assignment_def)
qed

text \<open>Deleting an alert is all or nothing: once a playbook has run for the alert the deletion ends in an
  integrity error, otherwise the row disappears with its links and activities, its observables stay
  without it, and every other alert, link, activity and run is kept.\<close>

theorem delete_alert_spec:
  assumes "ev_user ev = Some an" and "has_permission (an_role an) ALERTS_DELETE"
    and l: "load_alert ev ''delete'' i d = Inr a"
  shows "(if \<exists>r \<in> set (db_runs d). pr_alert_id r = Some i
     then delete_alert ev i d = Inl (IntegrityError ''fk_playbook_runs_alert_id_alerts'')
     else \<exists>d'. delete_alert ev i d = Inr d' \<and> db_alerts d' = filter (\<lambda>r. al_id r \<noteq> i) (db_alerts d) \<and>
       db_incident_alerts d' = filter (\<lambda>l. ia_alert_id l \<noteq> i) (db_incident_alerts d) \<and>
       db_activities d' = filter (\<lambda>r. ac_alert_id r \<noteq> Some i) (db_activities d) \<and>
       map ob_id (db_observables d') = map ob_id (db_observables d) \<and>
       (\<forall>ob \<in> set (db_observables d'). ob_alert_id ob \<noteq> Some i) \<and> db_runs d' = db_runs d)"
proof -
  have a: "a \<in> set (db_alerts d)" "al_id a = i" using load_alert_ok[OF l] by simp_all
  then have gone: "al_id ` set (filter (\<lambda>r. al_id r = al_id a) (db_alerts d)) = {i}" by auto
  show ?thesis
    using assms(1,2) l a(2) gone by (auto simp: delete_alert_def require_permission_def delete_alerts_def Let_def)
qed

subsection \<open>Bulk updates\<close>

definition bulk_changed :: "call_env \<Rightarrow> analyst \<Rightarrow> bulk_update \<Rightarrow> alert \<Rightarrow> bool" where
  "bulk_changed ev an b r \<longleftrightarrow> (\<exists>a act. bulk_effect_of (ev_now ev) an b a = BulkSet r act \<and>
     enforce ev (RAlert a) ''alert'' ''bulk_update'' = Inr () \<and> al_id a = al_id r)"

lemma bulk_effect_id: "bulk_effect_of now an b a = BulkSet a' act \<Longrightarrow> al_id a' = al_id a"
  by (auto simp: bulk_effect_of_def Let_def split: if_splits)

text \<open>What one step or a whole batch may do to the table and the counters.\<close>

definition bulk_rel ::
  "call_env \<Rightarrow> analyst \<Rightarrow> bulk_update \<Rightarrow> uuid set \<Rightarrow> nat \<Rightarrow> db \<times> bulk_result \<Rightarrow> db \<times> bulk_result \<Rightarrow> bool" where
  "bulk_rel ev an b ids n st st' \<longleftrightarrow> (case (st, st') of ((d, res), (d', res')) \<Rightarrow>
     map al_id (db_alerts d') = map al_id (db_alerts d) \<and>
     (\<forall>r \<in> set (db_alerts d'). r \<notin> set (db_alerts d) \<longrightarrow> al_id r \<in> ids \<and> bulk_changed ev an b r) \<and>
     br_updated res' + br_failed res' \<le> br_updated res + br_failed res + n \<and>
     length (br_errors res') + br_failed res = length (br_errors res) + br_failed res' \<and>
     length (db_activities d') + br_updated res = length (db_activities d) + br_updated res')"

lemma bulk_rel_trans:
  "bulk_rel ev an b A n s1 s2 \<Longrightarrow> bulk_rel ev an b B m s2 s3 \<Longrightarrow> bulk_rel ev an b (A \<union> B) (n + m) s1 s3"
  unfolding bulk_rel_def by (auto split: prod.splits)

lemma bulk_one_rel:
  assumes "bulk_one ev an b vis i (d, res) = Inr st'"
  shows "bulk_rel ev an b ({i} \<inter> vis) 1 (d, res) st'"
proof (cases "if i \<in> vis then find (\<lambda>a. al_id a = i) (db_alerts d) else None")
  case None
  with assms show ?thesis by (auto simp: bulk_one_def Let_def bulk_rel_def)
next
  case (Some a)
  then have a: "i \<in> vis" "al_id a = i" by (auto simp: find_Some_iff split: if_splits)
  show ?thesis
  proof (cases "enforce ev (RAlert a) ''alert'' ''bulk_update''")
    case (Inl e)
    with Some assms show ?thesis by (auto simp: bulk_one_def Let_def bulk_rel_def split: if_splits)
  next
    case (Inr u)
    show ?thesis
    proof (cases "bulk_effect_of (ev_now ev) an b a")
      case (BulkSet a' act)
      note id' = bulk_effect_id[OF BulkSet]
      have "r \<in> set (db_alerts (put_alert a' d)) \<Longrightarrow> r \<notin> set (db_alerts d) \<Longrightarrow>
          al_id r \<in> {i} \<inter> vis \<and> bulk_changed ev an b r" for r
        using put_alert_rows[of r a' d] BulkSet Inr a id' by (auto simp: bulk_changed_def)
      with Some assms BulkSet Inr a(1) show ?thesis
        by (auto simp: bulk_one_def Let_def bulk_rel_def put_alert_ids add_activity_def)
    qed (use Some assms Inr in \<open>auto simp: bulk_one_def Let_def bulk_rel_def\<close>)
  qed
qed

lemma bulk_loop_rel:
  "bulk_loop ev an b vis ids st = Inr st' \<Longrightarrow> bulk_rel ev an b (set ids \<inter> vis) (length ids) st st'"
proof (induction ids arbitrary: st)
  case Nil
  then show ?case by (auto simp: bulk_rel_def split: prod.splits)
next
  case (Cons i ids)
  then obtain st1 where s: "bulk_one ev an b vis i st = Inr st1" "bulk_loop ev an b vis ids st1 = Inr st'"
    by (auto simp: res_simps)
  from s(1) have "bulk_rel ev an b ({i} \<inter> vis) 1 st st1" using bulk_one_rel by (cases st) blast
  from bulk_rel_trans[OF this Cons.IH[OF s(2)]] show ?case
    by (simp add: Int_Un_distrib2[symmetric])
qed

definition bulk_target :: "call_env \<Rightarrow> bulk_update \<Rightarrow> db \<Rightarrow> uuid \<Rightarrow> bool" where
  "bulk_target ev b d i \<longleftrightarrow> i \<in> set (bu_alert_ids b) \<and>
     (\<exists>q. scoped_query ev (\<lambda>r. case r of RAlert a \<Rightarrow> al_id a \<in> set (bu_alert_ids b) | _ \<Rightarrow> False)
            ''alert'' ''bulk_update'' = Inr q \<and> (\<exists>a \<in> set (db_alerts d). al_id a = i \<and> q (RAlert a)))"

lemma bulk_resolved: "bulk_effect_of now an b a = BulkSet r act \<Longrightarrow> bu_action b = ''resolve'' \<Longrightarrow>
    al_status r = ''resolved'' \<and> al_determination r \<noteq> ''unknown'' \<and> al_resolved_at r = Some now"
  by (auto simp: bulk_effect_of_def Let_def split: if_splits)


subsection \<open>Witnesses\<close>

text \<open>Without plugins, two alerts: one new, one resolved as malicious.\<close>

definition shared_alert :: "uuid \<Rightarrow> string \<Rightarrow> string \<Rightarrow> alert" where
  "shared_alert i title partner = \<lparr>al_id = i, al_created_at = 0, al_source = ''siem'', al_source_id = None,
     al_title = title, al_description = None, al_severity = ''high'', al_status = ''new'', al_raw_payload = [],
     al_normalized = [], al_correlation_id = None, al_source_ip = None, al_dest_ip = None, al_hostname = None,
     al_rule_name = None, al_iocs = None, al_tags = None, al_partner = Some partner,
     al_determination = ''unknown'', al_resolved_at = None, al_resolve_reason = None, al_assigned_to = None,
     al_assigned_username = None, al_duplicate_count = 1, al_archived_at = None\<rparr>"

definition no_plugins_env :: "analyst \<Rightarrow> call_env" where
  "no_plugins_env an = \<lparr>ev_app = no_plugins, ev_now = 50, ev_user = Some an\<rparr>"

definition resolved_alert :: alert where
  "resolved_alert = (shared_alert 2 ''old'' ''a'')\<lparr>al_status := ''resolved'', al_determination := ''malicious'',
     al_resolved_at := Some 9\<rparr>"

definition two_alerts :: db where
  "two_alerts = empty_db\<lparr>db_next_id := 8, db_analysts := [ana],
     db_alerts := [shared_alert 1 ''ours'' ''a'', resolved_alert]\<rparr>"

definition resolve_patch :: alert_update where
  "resolve_patch = \<lparr>au_status = Some (Some ''resolved''), au_severity = None, au_resolve_reason = Some (Some ''scan''),
     au_determination = Some (Some ''benign''), au_partner = None, au_tags = None, au_assigned_to = None\<rparr>"

lemma no_plugins_enforce [simp]: "enforce (no_plugins_env an) r t action = Inr ()"
  by (simp add: enforce_def enforce_tenant_access_def no_plugins_env_def no_plugins_def
      initialize_plugin_state_def set_missing_def)

lemma two_alerts_ok: "alerts_ok two_alerts"
  by (simp add: alerts_ok_def two_alerts_def empty_db_def shared_alert_def resolved_alert_def alert_ok_def)


theorem resolved_back_to_unknown_witness:
  "\<exists>a' d'. update_alert (no_plugins_env ana) 2 \<lparr>au_status = None, au_severity = None, au_resolve_reason = None,
      au_determination = Some (Some ''unknown''), au_partner = None, au_tags = None, au_assigned_to = None\<rparr>
      two_alerts = Inr (a', d') \<and> al_status a' = ''resolved'' \<and> al_determination a' = ''unknown''"
proof -
  have "ev_user (no_plugins_env ana) = Some ana" "has_permission (an_role ana) ALERTS_UPDATE"
    "resolved_alert \<in> set (db_alerts two_alerts)" "al_status resolved_alert = ''resolved''"
    "alert_fits resolved_alert" "al_id resolved_alert = 2" by code_simp+
  with resolved_back_to_unknown[of "no_plugins_env ana" ana two_alerts resolved_alert] two_alerts_ok
  show ?thesis by (metis no_plugins_enforce)
qed

definition past_run :: playbook_run where
  "past_run = \<lparr>pr_id = 5, pr_created_at = 0, pr_playbook_id = 4, pr_alert_id = Some 1, pr_status = ''success'',
     pr_started_at = None, pr_finished_at = None, pr_error = None, pr_result = None, pr_sequence_id = None,
     pr_sequence_position = None, pr_sequence_total = None, pr_correlation_id = None\<rparr>"

definition two_alerts_run :: db where
  "two_alerts_run = two_alerts\<lparr>db_runs := [past_run]\<rparr>"

theorem delete_alert_spec_witness:
  "delete_alert (no_plugins_env ana) 1 two_alerts_run = Inl (IntegrityError ''fk_playbook_runs_alert_id_alerts'') \<and>
   (\<exists>d'. delete_alert (no_plugins_env ana) 1 two_alerts = Inr d' \<and> map al_id (db_alerts d') = [2])"
proof -
  have p: "ev_user (no_plugins_env ana) = Some ana" "has_permission (an_role ana) ALERTS_DELETE" by code_simp+
  have l: "load_alert (no_plugins_env ana) ''delete'' 1 d = Inr (shared_alert 1 ''ours'' ''a'')"
    if "db_alerts d = db_alerts two_alerts" for d
    using that by (simp add: load_alert_def two_alerts_def fetch_or_def fetch_def shared_alert_def resolved_alert_def)
  have runs: "\<exists>r \<in> set (db_runs two_alerts_run). pr_alert_id r = Some 1" "db_runs two_alerts = []" by code_simp+
  have ids: "map al_id (filter (\<lambda>r. al_id r \<noteq> 1) (db_alerts two_alerts)) = [2]" by code_simp
  have "delete_alert (no_plugins_env ana) 1 two_alerts_run = Inl (IntegrityError ''fk_playbook_runs_alert_id_alerts'')"
    using delete_alert_spec[OF p l[of two_alerts_run]] runs(1) by (simp add: two_alerts_run_def)
  moreover have "\<exists>d'. delete_alert (no_plugins_env ana) 1 two_alerts = Inr d' \<and> map al_id (db_alerts d') = [2]"
    using delete_alert_spec[OF p l[of two_alerts]] runs(2) ids by auto
  ultimately show ?thesis by blast
qed

definition resolve_all :: bulk_update where
  "resolve_all = \<lparr>bu_alert_ids = [1, 2, 3], bu_action = ''resolve'', bu_resolve_reason = None,
     bu_determination = Some ''benign'', bu_severity = None\<rparr>"


end
