(* ===== verification/Mentions.thy ===== *)
theory Mentions
  imports Alerts
begin

text \<open>
  \<open>opensoar/comments/mentions.py\<close>, \<open>opensoar/comments/resolver.py\<close>, \<open>opensoar/notifications.py\<close> and
  \<open>opensoar/api/activities.py\<close>: mention tokens in comment text, their resolution to analysts, the
  notification hooks, and the comments of alerts.

  The regular expression is a left-to-right scan that carries the previous character and the number
  of characters the last match still consumes. Word characters are those of ASCII. Hooks are
  oracles that return or raise. The rendering of a time is a parameter.
\<close>

section \<open>Tokens\<close>

definition is_word :: "char \<Rightarrow> bool" where
  "is_word c \<longleftrightarrow> is_upper c \<or> is_lower c \<or> is_digit c \<or> c = CHR ''_''"

definition is_name_char :: "char \<Rightarrow> bool" where
  "is_name_char c \<longleftrightarrow> is_word c \<or> c = CHR ''.'' \<or> c = CHR ''-''"

definition glued :: "char option \<Rightarrow> bool" where
  "glued prev \<longleftrightarrow> (case prev of None \<Rightarrow> False | Some c \<Rightarrow> is_word c \<or> c = CHR ''@'' \<or> c = CHR ''.'')"

fun scan_mentions :: "char option \<Rightarrow> nat \<Rightarrow> string \<Rightarrow> string list" where
  "scan_mentions prev skip [] = []"
| "scan_mentions prev (Suc skip) (c # cs) = scan_mentions (Some c) skip cs"
| "scan_mentions prev 0 (c # cs) =
     (if c = CHR ''@'' \<and> \<not> glued prev \<and> cs \<noteq> [] \<and> is_word (hd cs) then
        (let tok = take 64 (takeWhile is_name_char cs)
         in tok # scan_mentions (Some c) (length tok) cs)
      else scan_mentions (Some c) 0 cs)"

definition is_trailing :: "char \<Rightarrow> bool" where
  "is_trailing c \<longleftrightarrow> c = CHR ''.'' \<or> c = CHR ''-'' \<or> c = CHR ''_''"

definition rstrip_name :: "string \<Rightarrow> string" where
  "rstrip_name s = rev (dropWhile is_trailing (rev s))"

fun collect_tokens :: "string list \<Rightarrow> string list \<Rightarrow> string list" where
  "collect_tokens seen [] = []"
| "collect_tokens seen (m # ms) =
     (let raw = rstrip_name m; token = lower raw
      in if raw = [] \<or> token \<in> set seen then collect_tokens seen ms
         else token # collect_tokens (token # seen) ms)"

definition parse_mention_tokens :: "string option \<Rightarrow> string list" where
  "parse_mention_tokens txt =
     (if truthy_str txt then collect_tokens [] (scan_mentions None 0 (the txt)) else [])"

section \<open>Resolution\<close>

record resolved_mention =
  rm_username :: string
  rm_analyst_id :: uuid

text \<open>The dictionary by lower-case name: of several rows the last one stays.\<close>

definition found_by_name :: "string list \<Rightarrow> db \<Rightarrow> (string \<times> analyst) list" where
  "found_by_name lowered d =
     map (\<lambda>a. (lower (an_username a), a))
       (rev (filter (\<lambda>a. lower (an_username a) \<in> set lowered \<and> an_is_active a) (db_analysts d)))"

fun resolve_loop ::
  "call_env \<Rightarrow> (string \<times> analyst) list \<Rightarrow> string list \<Rightarrow> string list \<Rightarrow> exn + resolved_mention list" where
  "resolve_loop ev found seen [] = Inr []"
| "resolve_loop ev found seen (token # tokens) =
     (if token \<in> set seen then resolve_loop ev found seen tokens
      else case map_of found token of
             None \<Rightarrow> resolve_loop ev found (token # seen) tokens
           | Some target \<Rightarrow>
               (case enforce ev (RAnalyst target) ''analyst'' ''mention'' of
                  Inl e \<Rightarrow> (if is_HTTPException e then resolve_loop ev found (token # seen) tokens else Inl e)
                | Inr _ \<Rightarrow>
                    ebind (resolve_loop ev found (token # seen) tokens) (\<lambda>rest.
                      Inr (\<lparr>rm_username = lower (an_username target), rm_analyst_id = an_id target\<rparr> # rest))))"

definition resolve_mentions :: "call_env \<Rightarrow> string list \<Rightarrow> db \<Rightarrow> exn + resolved_mention list" where
  "resolve_mentions ev usernames d =
     (if usernames = [] then Inr []
      else resolve_loop ev (found_by_name (map lower usernames) d) [] (map lower usernames))"

definition resolve_comment_mentions :: "call_env \<Rightarrow> string \<Rightarrow> db \<Rightarrow> exn + resolved_mention list" where
  "resolve_comment_mentions ev txt d =
     (let tokens = parse_mention_tokens (Some txt)
      in if tokens = [] then Inr [] else resolve_mentions ev tokens d)"

section \<open>Notifications\<close>

record mention_notification =
  mn_recipient_username :: string
  mn_recipient_id :: "uuid option"
  mn_actor_username :: "string option"
  mn_resource_type :: string
  mn_resource_id :: string
  mn_comment_id :: string
  mn_comment_text :: string

type_synonym hook = "mention_notification \<Rightarrow> exn option"

definition register_notification_hook :: "hook \<Rightarrow> hook list \<Rightarrow> hook list" where
  "register_notification_hook h hooks = hooks @ [h]"

definition clear_notification_hooks :: "hook list \<Rightarrow> hook list" where
  "clear_notification_hooks hooks = []"

text \<open>Every hook for every notification; what a hook raises is dropped unless it is no \<open>Exception\<close>.
  The list holds the deliveries made, as notification and hook number.\<close>

fun fire :: "mention_notification \<Rightarrow> nat \<Rightarrow> hook list \<Rightarrow> exn option \<times> (mention_notification \<times> nat) list" where
  "fire n i [] = (None, [])"
| "fire n i (h # hs) =
     (case h n of
        Some e \<Rightarrow> (if is_Exception e then (let (r, ds) = fire n (Suc i) hs in (r, (n, i) # ds))
                  else (Some e, [(n, i)]))
      | None \<Rightarrow> (let (r, ds) = fire n (Suc i) hs in (r, (n, i) # ds)))"

fun dispatch_mention_notifications ::
  "hook list \<Rightarrow> mention_notification list \<Rightarrow> exn option \<times> (mention_notification \<times> nat) list" where
  "dispatch_mention_notifications hooks [] = (None, [])"
| "dispatch_mention_notifications hooks (n # ns) =
     (let (r, ds) = fire n 0 hooks
      in case r of
           Some e \<Rightarrow> (Some e, ds)
         | None \<Rightarrow> (let (r', ds') = dispatch_mention_notifications hooks ns in (r', ds @ ds')))"

definition mention_notes ::
  "analyst \<Rightarrow> resolved_mention list \<Rightarrow> string \<Rightarrow> uuid \<Rightarrow> uuid \<Rightarrow> string \<Rightarrow> mention_notification list" where
  "mention_notes actor mentions resource_type resource_id comment_id txt =
     map (\<lambda>m. \<lparr>mn_recipient_username = rm_username m, mn_recipient_id = Some (rm_analyst_id m),
               mn_actor_username = Some (an_username actor), mn_resource_type = resource_type,
               mn_resource_id = uuid_str resource_id, mn_comment_id = uuid_str comment_id,
               mn_comment_text = txt\<rparr>) mentions"

text \<open>The notifications of a committed comment, and the answer.\<close>

definition notify_and_answer ::
  "hook list \<Rightarrow> activity \<times> mention_notification list \<Rightarrow> exn + (activity \<times> (mention_notification \<times> nat) list)" where
  "notify_and_answer hooks x =
     (let (act, notes) = x
      in case dispatch_mention_notifications hooks notes of
           (Some e, ds) \<Rightarrow> Inl e | (None, ds) \<Rightarrow> Inr (act, ds))"

section \<open>Comments\<close>

definition last_activity :: "db \<Rightarrow> activity" where
  "last_activity d = last (db_activities d)"

text \<open>A comment on an alert or an incident: the row with the resolved names, and whom to notify.\<close>

definition post_comment ::
  "call_env \<Rightarrow> analyst \<Rightarrow> string \<Rightarrow> uuid \<Rightarrow> (activity \<Rightarrow> activity) \<Rightarrow> string \<Rightarrow> db \<Rightarrow>
   exn + ((activity \<times> mention_notification list) \<times> db)" where
  "post_comment ev an kind rid attach txt d =
     ebind (resolve_comment_mentions ev txt d) (\<lambda>resolved.
     let d' = add_activity (ev_now ev) (attach (blank_activity\<lparr>ac_analyst_id := Some (an_id an),
                 ac_analyst_username := Some (an_username an), ac_action := ''comment'',
                 ac_detail := Some txt, ac_mentions := Some (map rm_username resolved)\<rparr>)) d;
         act = last_activity d'
     in Inr ((act, mention_notes an resolved kind rid (ac_id act) txt), d'))"

text \<open>
  The edit history in the metadata. \<open>history.append\<close> mutates the list inside the loaded value when
  there is one, so the value assigned afterwards equals the loaded one; the mapper sees no change
  and the stored column stays as it was. Only a first edit, which creates the key, is written.
\<close>

definition history_entry :: "(time \<Rightarrow> string) \<Rightarrow> activity \<Rightarrow> json" where
  "history_entry isoformat act = JObj [(''text'', case ac_detail act of None \<Rightarrow> JNull | Some s \<Rightarrow> JStr s),
     (''edited_at'', JStr (isoformat (ac_updated_at act)))]"

definition edited_metadata :: "(time \<Rightarrow> string) \<Rightarrow> activity \<Rightarrow> exn + jdict option" where
  "edited_metadata isoformat act =
     (let stored = (case ac_metadata_json act of None \<Rightarrow> [] | Some m \<Rightarrow> m)
      in case dget_default stored ''edit_history'' (JArr []) of
           JArr history \<Rightarrow>
             (let assigned = AList.update ''edit_history'' (JArr (history @ [history_entry isoformat act])) stored;
                  loaded = (if map_of stored ''edit_history'' = None then stored else assigned)
              in if ac_metadata_json act \<noteq> None \<and> loaded = assigned
                 then Inr (ac_metadata_json act) else Inr (Some assigned))
         | _ \<Rightarrow> Inl (AttributeError ''append''))"

definition edit_comment_row ::
  "(time \<Rightarrow> string) \<Rightarrow> call_env \<Rightarrow> analyst \<Rightarrow> string \<Rightarrow> uuid \<Rightarrow> (activity \<Rightarrow> bool) \<Rightarrow> uuid \<Rightarrow> string \<Rightarrow> db \<Rightarrow>
   exn + ((activity \<times> mention_notification list) \<times> db)" where
  "edit_comment_row isoformat ev an kind rid belongs comment_id txt d =
     ebind (fetch_or (HTTPException 404 ''Comment not found'')
              (\<lambda>a. ac_id a = comment_id \<and> belongs a \<and> ac_action a = ''comment'') (db_activities d)) (\<lambda>act.
     ebind (guard (ac_analyst_id act = Some (an_id an))
              (HTTPException 403 ''Can only edit your own comments'')) (\<lambda>_.
     ebind (edited_metadata isoformat act) (\<lambda>meta.
     ebind (resolve_comment_mentions ev txt d) (\<lambda>resolved.
     let previously = (case ac_mentions act of None \<Rightarrow> [] | Some ms \<Rightarrow> ms);
         act' = act\<lparr>ac_metadata_json := meta, ac_detail := Some txt,
                    ac_mentions := Some (map rm_username resolved), ac_updated_at := ev_now ev\<rparr>;
         d' = d\<lparr>db_activities := update_where (\<lambda>a. ac_id a = ac_id act) (\<lambda>_. act') (db_activities d)\<rparr>
     in Inr ((act', mention_notes an (filter (\<lambda>m. rm_username m \<notin> set previously) resolved)
                      kind rid (ac_id act) txt), d')))))"

section \<open>Comments of alerts\<close>

definition list_alert_activities :: "call_env \<Rightarrow> uuid \<Rightarrow> int \<Rightarrow> int \<Rightarrow> db \<Rightarrow> exn + (activity list \<times> nat)" where
  "list_alert_activities ev alert_id limit offset d =
     ebind (guard (limit \<le> 200 \<and> 0 \<le> offset) (HTTPException 422 ''query'')) (\<lambda>_.
     ebind (load_alert ev ''read'' alert_id d) (\<lambda>_.
     let rows = filter (\<lambda>a. ac_alert_id a = Some alert_id) (db_activities d)
     in ebind (page offset limit (newest_first ac_created_at rows)) (\<lambda>shown. Inr (shown, length rows))))"

definition add_comment ::
  "hook list \<Rightarrow> call_env \<Rightarrow> uuid \<Rightarrow> string \<Rightarrow> db \<Rightarrow> (activity \<times> (mention_notification \<times> nat) list) outcome" where
  "add_comment hooks ev alert_id txt d =
     after_commit d
       (ebind (require_analyst (ev_user ev)) (\<lambda>an.
        ebind (load_alert ev ''update'' alert_id d) (\<lambda>_.
          post_comment ev an ''alert'' alert_id (\<lambda>a. a\<lparr>ac_alert_id := Some alert_id\<rparr>) txt d)))
       (notify_and_answer hooks)"

definition edit_comment ::
  "(time \<Rightarrow> string) \<Rightarrow> hook list \<Rightarrow> call_env \<Rightarrow> uuid \<Rightarrow> uuid \<Rightarrow> string \<Rightarrow> db \<Rightarrow>
   (activity \<times> (mention_notification \<times> nat) list) outcome" where
  "edit_comment isoformat hooks ev alert_id comment_id txt d =
     after_commit d
       (ebind (require_analyst (ev_user ev)) (\<lambda>an.
        ebind (load_alert ev ''update'' alert_id d) (\<lambda>_.
          edit_comment_row isoformat ev an ''alert'' alert_id (\<lambda>a. ac_alert_id a = Some alert_id) comment_id txt d)))
       (notify_and_answer hooks)"

section \<open>Properties of the token parser\<close>

definition well_named :: "string \<Rightarrow> bool" where
  "well_named t \<longleftrightarrow> t \<noteq> [] \<and> list_all is_name_char t \<and> is_word (hd t) \<and> \<not> is_trailing (last t) \<and>
     lower t = t \<and> length t \<le> 64"

lemma is_word_lower [simp]: "is_word (lower_char c) = is_word c"
  by (auto simp: is_word_def lower_char_def is_upper_def is_lower_def is_digit_def)

lemma lower_char_other: "\<not> is_upper k \<Longrightarrow> \<not> is_lower k \<Longrightarrow> lower_char c = k \<longleftrightarrow> c = k"
  by (auto simp: lower_char_def is_upper_def is_lower_def)

lemma not_letters [simp]:
  "\<not> is_upper (CHR ''.'')" "\<not> is_lower (CHR ''.'')" "\<not> is_upper (CHR ''-'')" "\<not> is_lower (CHR ''-'')"
  "\<not> is_upper (CHR ''_'')" "\<not> is_lower (CHR ''_'')"
  by (simp_all add: is_upper_def is_lower_def)

lemma is_trailing_lower [simp]: "is_trailing (lower_char c) = is_trailing c"
  by (simp add: is_trailing_def lower_char_other)

lemma is_name_char_lower [simp]: "is_name_char (lower_char c) = is_name_char c"
  by (simp add: is_name_char_def lower_char_other)

lemma scan_mentions_raw:
  "m \<in> set (scan_mentions prev skip s) \<Longrightarrow> list_all is_name_char m \<and> m \<noteq> [] \<and> is_word (hd m) \<and> length m \<le> 64"
proof (induction prev skip s rule: scan_mentions.induct)
  case (3 prev c cs)
  show ?case
  proof (cases "c = CHR ''@'' \<and> \<not> glued prev \<and> cs \<noteq> [] \<and> is_word (hd cs)")
    case True
    then obtain x xs where cs: "cs = x # xs" "is_word x" by (cases cs) auto
    then have "is_name_char x" by (simp add: is_name_char_def)
    then have "take 64 (takeWhile is_name_char cs) = x # take 63 (takeWhile is_name_char xs)"
      using cs by simp
    moreover have "list_all is_name_char (take 64 (takeWhile is_name_char cs))"
      unfolding list_all_iff by (metis in_set_takeD set_takeWhileD)
    ultimately show ?thesis using 3 True cs by (auto simp: Let_def)
  next
    case False
    with 3 show ?thesis by (auto simp: Let_def split: if_splits)
  qed
qed auto

lemma rstrip_name_props:
  assumes "rstrip_name m \<noteq> []"
  shows "\<exists>sfx. m = rstrip_name m @ sfx \<and> \<not> is_trailing (last (rstrip_name m))"
proof -
  have "rev m = takeWhile is_trailing (rev m) @ dropWhile is_trailing (rev m)" by simp
  then have m: "m = rstrip_name m @ rev (takeWhile is_trailing (rev m))"
    unfolding rstrip_name_def by (metis rev_append rev_rev_ident)
  have "dropWhile is_trailing (rev m) \<noteq> []" using assms by (simp add: rstrip_name_def)
  then have "\<not> is_trailing (hd (dropWhile is_trailing (rev m)))" by (rule hd_dropWhile)
  with m show ?thesis using assms by (auto simp: rstrip_name_def last_rev)
qed

lemma collect_tokens_props:
  "(\<forall>m \<in> set ms. list_all is_name_char m \<and> m \<noteq> [] \<and> is_word (hd m) \<and> length m \<le> 64) \<Longrightarrow>
     (\<forall>t \<in> set (collect_tokens seen ms). well_named t \<and> t \<notin> set seen) \<and> distinct (collect_tokens seen ms)"
proof (induction ms arbitrary: seen)
  case (Cons m ms)
  define raw where "raw = rstrip_name m"
  show ?case
  proof (cases "raw = [] \<or> lower raw \<in> set seen")
    case True
    with Cons show ?thesis by (simp add: raw_def Let_def)
  next
    case False
    then obtain sfx where m: "m = raw @ sfx" "\<not> is_trailing (last raw)"
      using rstrip_name_props[of m] by (auto simp: raw_def)
    have "list_all is_name_char raw" "is_word (hd raw)" "length raw \<le> 64"
      using Cons.prems m False by auto
    then have "well_named (lower raw)"
      using False m(2) lower_idem[of raw]
      by (simp add: well_named_def lower_def list_all_iff hd_map last_map)
    with Cons.IH[of "lower raw # seen"] Cons.prems False show ?thesis
      by (auto simp: raw_def[symmetric] Let_def)
  qed
qed simp

text \<open>Every token \<open>parse_mention_tokens\<close> returns is a lower-case user name of at most 64 characters
  that starts with a letter, digit or underscore and does not end in a dot, dash or underscore, and
  no token is returned twice.\<close>

theorem mention_tokens_sound:
  "(\<forall>t \<in> set (parse_mention_tokens txt). well_named t) \<and> distinct (parse_mention_tokens txt)"
proof -
  have "\<forall>m \<in> set (scan_mentions None 0 (the txt)).
      list_all is_name_char m \<and> m \<noteq> [] \<and> is_word (hd m) \<and> length m \<le> 64"
    using scan_mentions_raw by blast
  from collect_tokens_props[OF this] show ?thesis
    by (simp add: parse_mention_tokens_def)
qed

theorem mention_tokens_sound_witness:
  "parse_mention_tokens (Some ''@Ana-B. cc @bob_, mail x@y.z and @ana-b'') = [''ana-b'', ''bob'']
   \<and> well_named ''bob''"
proof -
  have p: "parse_mention_tokens (Some ''@Ana-B. cc @bob_, mail x@y.z and @ana-b'') = [''ana-b'', ''bob'']"
    by code_simp
  with mention_tokens_sound[of "Some ''@Ana-B. cc @bob_, mail x@y.z and @ana-b''"] show ?thesis by simp
qed

lemma scan_no_at: "CHR ''@'' \<notin> set s \<Longrightarrow> scan_mentions prev skip s = []"
  by (induction prev skip s rule: scan_mentions.induct) auto

lemma rstrip_name_id: "t \<noteq> [] \<Longrightarrow> \<not> is_trailing (last t) \<Longrightarrow> rstrip_name t = t"
  by (cases t rule: rev_cases) (simp_all add: rstrip_name_def)

text \<open>A well-formed user name that is mentioned on its own is found, and an at sign glued to a word,
  as in a mail address, mentions nobody.\<close>

theorem mention_roundtrip:
  assumes "well_named t"
  shows "parse_mention_tokens (Some (CHR ''@'' # t)) = [t]
    \<and> (w \<noteq> [] \<and> list_all is_word w \<longrightarrow> parse_mention_tokens (Some (w @ CHR ''@'' # t)) = [])"
proof -
  have name: "list_all is_name_char t" "t \<noteq> []" "is_word (hd t)" "length t \<le> 64"
    using assms by (simp_all add: well_named_def)
  have no_at: "CHR ''@'' \<notin> set t"
    using name(1) by (auto simp: list_all_iff is_name_char_def is_word_def is_upper_def is_lower_def is_digit_def)
  have tw: "takeWhile is_name_char t = t" using name(1) by (simp add: list_all_iff)
  have "scan_mentions None 0 (CHR ''@'' # t) = [t]"
    using name(2-4) scan_no_at[OF no_at] by (simp add: glued_def tw)
  moreover have "rstrip_name t = t" "lower t = t"
    using assms rstrip_name_id by (simp_all add: well_named_def)
  ultimately have found: "parse_mention_tokens (Some (CHR ''@'' # t)) = [t]"
    using name(2) by (simp add: parse_mention_tokens_def)
  have glue: "scan_mentions prev 0 (w @ CHR ''@'' # t) = []"
    if "list_all is_word w" "glued prev" for w prev
    using that
  proof (induction w arbitrary: prev)
    case Nil
    then show ?case using scan_no_at[OF no_at] by simp
  next
    case (Cons x w)
    then have "glued (Some x)" "x \<noteq> CHR ''@''"
      by (auto simp: glued_def is_word_def is_upper_def is_lower_def is_digit_def)
    with Cons show ?case by simp
  qed
  have "parse_mention_tokens (Some (w @ CHR ''@'' # t)) = []" if w0: "w \<noteq> []" "list_all is_word w"
  proof -
    obtain x v where w: "w = x # v" using w0(1) by (cases w) auto
    with w0 have "glued (Some x)" "x \<noteq> CHR ''@''" "list_all is_word v"
      by (auto simp: glued_def is_word_def is_upper_def is_lower_def is_digit_def)
    with w glue[of v "Some x"] show ?thesis by (simp add: parse_mention_tokens_def)
  qed
  with found show ?thesis by blast
qed

theorem mention_roundtrip_witness:
  "parse_mention_tokens (Some ''@bob.k'') = [''bob.k''] \<and> parse_mention_tokens (Some ''alice@bob.k'') = []"
proof -
  have "well_named ''bob.k''" by code_simp
  moreover have "list_all is_word ''alice''" by code_simp
  ultimately show ?thesis using mention_roundtrip[of "''bob.k''" "''alice''"] by simp
qed

section \<open>Resolution and notification\<close>

lemma resolve_loop_props:
  assumes "resolve_loop ev found seen tokens = Inr ms" and "\<forall>(k, a) \<in> set found. lower (an_username a) = k"
  shows "subseq (map rm_username ms) (filter (\<lambda>t. t \<notin> set seen) tokens) \<and> distinct (map rm_username ms) \<and>
    (\<forall>m \<in> set ms. rm_username m \<notin> set seen \<and> (\<exists>a. (rm_username m, a) \<in> set found \<and> rm_analyst_id m = an_id a \<and>
       enforce ev (RAnalyst a) ''analyst'' ''mention'' = Inr ()))"
  using assms(1)
proof (induction tokens arbitrary: seen ms)
  case (Cons t ts)
  have wider: "subseq (filter (\<lambda>u. u \<notin> set (t # seen)) ts) (filter (\<lambda>u. u \<notin> set seen) ts)"
    by (induction ts) auto
  show ?case
  proof (cases "t \<in> set seen")
    case True
    with Cons show ?thesis by auto
  next
    case new: False
    show ?thesis
    proof (cases "map_of found t")
      case None
      with Cons.prems new have "resolve_loop ev found (t # seen) ts = Inr ms" by simp
      from Cons.IH[OF this] wider new show ?thesis
        by (auto intro: subseq_order.order_trans subseq_Cons')
    next
      case (Some a)
      have name: "lower (an_username a) = t" "(t, a) \<in> set found"
        using map_of_SomeD[OF Some] assms(2) by auto
      show ?thesis
      proof (cases "enforce ev (RAnalyst a) ''analyst'' ''mention''")
        case (Inl e)
        with Cons.prems new Some have "resolve_loop ev found (t # seen) ts = Inr ms"
          by (auto split: if_splits)
        from Cons.IH[OF this] wider new show ?thesis
          by (auto intro: subseq_order.order_trans subseq_Cons')
      next
        case (Inr u)
        with Cons.prems new Some obtain rest where r: "resolve_loop ev found (t # seen) ts = Inr rest"
          and ms: "ms = \<lparr>rm_username = lower (an_username a), rm_analyst_id = an_id a\<rparr> # rest"
          by (auto simp: res_simps)
        from Cons.IH[OF r] wider new name Inr show ?thesis
          unfolding ms by (auto intro: subseq_order.order_trans)
      qed
    qed
  qed
qed simp

text \<open>Mentions resolve within the caller's reach only: the names come in the order of the tokens and
  without repetition, and each belongs to an active analyst of the table, under that analyst's
  identifier, whom the tenant validators let the caller mention.\<close>

theorem resolve_mentions_sound:
  assumes "resolve_mentions ev tokens d = Inr ms"
  shows "subseq (map rm_username ms) (map lower tokens) \<and> distinct (map rm_username ms) \<and>
    (\<forall>m \<in> set ms. \<exists>a \<in> set (db_analysts d). an_is_active a \<and> lower (an_username a) = rm_username m \<and>
       an_id a = rm_analyst_id m \<and> enforce ev (RAnalyst a) ''analyst'' ''mention'' = Inr ())"
proof (cases "tokens = []")
  case True
  with assms show ?thesis by (simp add: resolve_mentions_def)
next
  case False
  let ?found = "found_by_name (map lower tokens) d"
  have f: "\<forall>(k, a) \<in> set ?found. lower (an_username a) = k" by (auto simp: found_by_name_def)
  have rows: "(k, a) \<in> set ?found \<Longrightarrow> a \<in> set (db_analysts d) \<and> an_is_active a \<and> lower (an_username a) = k" for k a
    by (auto simp: found_by_name_def)
  from False assms have "resolve_loop ev ?found [] (map lower tokens) = Inr ms"
    by (simp add: resolve_mentions_def)
  from resolve_loop_props[OF this f] have sub: "subseq (map rm_username ms) (map lower tokens)"
    and dist: "distinct (map rm_username ms)"
    and each: "\<And>m. m \<in> set ms \<Longrightarrow> \<exists>a. (rm_username m, a) \<in> set ?found \<and> rm_analyst_id m = an_id a \<and>
       enforce ev (RAnalyst a) ''analyst'' ''mention'' = Inr ()" by simp_all
  have "\<exists>a \<in> set (db_analysts d). an_is_active a \<and> lower (an_username a) = rm_username m \<and>
       an_id a = rm_analyst_id m \<and> enforce ev (RAnalyst a) ''analyst'' ''mention'' = Inr ()"
    if "m \<in> set ms" for m
  proof -
    from each[OF that] obtain a where "(rm_username m, a) \<in> set ?found" "rm_analyst_id m = an_id a"
      "enforce ev (RAnalyst a) ''analyst'' ''mention'' = Inr ()" by blast
    with rows show ?thesis by (intro bexI[of _ a]) auto
  qed
  with sub dist show ?thesis by blast
qed

theorem resolve_mentions_sound_witness:
  "\<exists>ms. resolve_mentions \<lparr>ev_app = no_plugins, ev_now = 0, ev_user = None\<rparr> [''ana'', ''ghost'', ''ana'']
      (empty_db\<lparr>db_analysts := [ana]\<rparr>) = Inr ms \<and> map rm_username ms = [''ana''] \<and>
    subseq (map rm_username ms) (map lower [''ana'', ''ghost'', ''ana''])"
proof -
  have r: "resolve_mentions \<lparr>ev_app = no_plugins, ev_now = 0, ev_user = None\<rparr> [''ana'', ''ghost'', ''ana'']
      (empty_db\<lparr>db_analysts := [ana]\<rparr>) = Inr [\<lparr>rm_username = ''ana'', rm_analyst_id = 7\<rparr>]"
    by code_simp
  show ?thesis
    by (intro exI conjI, rule r, simp, rule conjunct1[OF resolve_mentions_sound[OF r]])
qed

lemma fire_isolated: "\<forall>h \<in> set hs. \<forall>e. h n = Some e \<longrightarrow> is_Exception e \<Longrightarrow>
    fire n i hs = (None, map (Pair n) [i ..< i + length hs])"
proof (induction hs arbitrary: i)
  case (Cons h hs)
  have "fire n (Suc i) hs = (None, map (Pair n) [Suc i ..< Suc i + length hs])"
    using Cons.prems by (intro Cons.IH) simp
  moreover have "h n = None \<or> (\<exists>e. h n = Some e \<and> is_Exception e)"
    using Cons.prems by (cases "h n") simp_all
  ultimately show ?case by (auto simp: upt_conv_Cons simp del: upt_Suc)
qed simp

text \<open>One failing notification hook disturbs nobody: as long as hooks raise only ordinary
  exceptions, every hook is called once for every notification and nothing is raised.\<close>

theorem hooks_isolated:
  assumes "\<forall>h \<in> set hooks. \<forall>n e. h n = Some e \<longrightarrow> is_Exception e"
  shows "dispatch_mention_notifications hooks ns =
    (None, concat (map (\<lambda>n. map (Pair n) [0 ..< length hooks]) ns))"
proof -
  have "fire n 0 hooks = (None, map (Pair n) [0 ..< length hooks])" for n
    using assms fire_isolated[of hooks n 0] by simp
  then show ?thesis by (induction ns) simp_all
qed

definition note_to_ana :: mention_notification where
  "note_to_ana = \<lparr>mn_recipient_username = ''ana'', mn_recipient_id = Some 7, mn_actor_username = Some ''bob'',
     mn_resource_type = ''alert'', mn_resource_id = uuid_str 1, mn_comment_id = uuid_str 2, mn_comment_text = ''@ana''\<rparr>"

theorem hooks_isolated_witness:
  "dispatch_mention_notifications [\<lambda>_. Some (ValueError ''smtp''), \<lambda>_. None] [note_to_ana] =
     (None, [(note_to_ana, 0), (note_to_ana, 1)])"
  using hooks_isolated[of "[\<lambda>_. Some (ValueError ''smtp''), \<lambda>_. None]" "[note_to_ana]"] by simp

end
