(* ===== verification/Incidents.thy ===== *)
theory Incidents
  imports Mentions
begin

text \<open>
  \<open>opensoar/api/incidents.py\<close>: incidents, their links to alerts, observables, activities, timeline and
  comments. Handlers are as in theory \<open>Alerts\<close>; the Celery queue of template playbooks is a
  parameter that accepts a task or raises.
\<close>

section \<open>Common parts\<close>

definition load_incident :: "call_env \<Rightarrow> string \<Rightarrow> uuid \<Rightarrow> db \<Rightarrow> exn + incident" where
  "load_incident ev action incident_id d =
     ebind (fetch_or incident_not_found (\<lambda>i. in_id i = incident_id) (db_incidents d)) (\<lambda>i.
     ebind (enforce ev (RIncident i) ''incident'' action) (\<lambda>_. Inr i))"

definition incident_response :: "incident \<Rightarrow> db \<Rightarrow> incident \<times> nat" where
  "incident_response i d = (i, alert_count (in_id i) d)"

definition incident_activity_detail :: "string \<Rightarrow> string \<Rightarrow> string option \<Rightarrow> string" where
  "incident_activity_detail action incident_title alert_title =
     (if action = ''incident_created'' then ''Incident created: '' @ incident_title
      else if action = ''alert_linked'' \<and> truthy_str alert_title then ''Linked alert '' @ the alert_title
      else if action = ''alert_unlinked'' \<and> truthy_str alert_title then ''Unlinked alert '' @ the alert_title
      else incident_title)"

definition incident_activity ::
  "uuid \<Rightarrow> analyst \<Rightarrow> string \<Rightarrow> string \<Rightarrow> jdict option \<Rightarrow> uuid option \<Rightarrow> activity" where
  "incident_activity incident_id an action detail meta alert_id =
     blank_activity\<lparr>ac_alert_id := alert_id, ac_incident_id := Some incident_id,
       ac_analyst_id := Some (an_id an), ac_analyst_username := Some (an_username an),
       ac_action := action, ac_detail := Some detail, ac_metadata_json := meta\<rparr>"

definition opt_str :: "string option \<Rightarrow> json" where
  "opt_str s = (case s of None \<Rightarrow> JNull | Some t \<Rightarrow> JStr t)"

section \<open>Suggestions and lists\<close>

definition unlinked :: "db \<Rightarrow> alert \<Rightarrow> bool" where
  "unlinked d a \<longleftrightarrow> al_id a \<notin> ia_alert_id ` set (db_incident_alerts d)"

record suggestion =
  sg_source_ip :: string
  sg_alert_count :: nat
  sg_alerts :: "alert list"

definition suggestion_query :: "db \<Rightarrow> string option \<Rightarrow> query" where
  "suggestion_query d ip r = (case r of
      RAlert a \<Rightarrow> unlinked d a \<and> (case ip of None \<Rightarrow> al_source_ip a \<noteq> None | Some v \<Rightarrow> al_source_ip a = Some v)
    | _ \<Rightarrow> False)"

definition ip_group :: "db \<Rightarrow> query \<Rightarrow> string \<Rightarrow> alert list" where
  "ip_group d q ip = filter (\<lambda>a. al_source_ip a = Some ip) (select_alerts q d)"

definition suggestion_ips :: "db \<Rightarrow> query \<Rightarrow> string list" where
  "suggestion_ips d q = filter (\<lambda>ip. 2 \<le> length (ip_group d q ip))
     (remdups (map (\<lambda>a. the (al_source_ip a)) (filter (\<lambda>a. al_source_ip a \<noteq> None) (select_alerts q d))))"

fun suggestion_loop :: "call_env \<Rightarrow> db \<Rightarrow> query \<Rightarrow> string list \<Rightarrow> exn + suggestion list" where
  "suggestion_loop ev d q [] = Inr []"
| "suggestion_loop ev d q (ip # ips) =
     ebind (scoped_query ev (suggestion_query d (Some ip)) ''alert'' ''incident_suggestions'') (\<lambda>q'.
     ebind (suggestion_loop ev d q ips) (\<lambda>rest.
       Inr (\<lparr>sg_source_ip = ip, sg_alert_count = length (ip_group d q ip),
             sg_alerts = newest_first al_created_at (select_alerts q' d)\<rparr> # rest)))"

definition incident_suggestions :: "call_env \<Rightarrow> db \<Rightarrow> exn + suggestion list" where
  "incident_suggestions ev d =
     ebind (scoped_query ev (suggestion_query d None) ''alert'' ''incident_suggestions'') (\<lambda>q.
       suggestion_loop ev d q (suggestion_ips d q))"

definition incident_query :: "string option \<Rightarrow> string option \<Rightarrow> query" where
  "incident_query status severity r = (case r of
      RIncident i \<Rightarrow> (truthy_str status \<longrightarrow> Some (in_status i) = status) \<and>
        (truthy_str severity \<longrightarrow> Some (in_severity i) = severity)
    | _ \<Rightarrow> False)"

definition select_incidents :: "query \<Rightarrow> db \<Rightarrow> incident list" where
  "select_incidents q d = filter (\<lambda>i. q (RIncident i)) (db_incidents d)"

definition list_incidents ::
  "call_env \<Rightarrow> string option \<Rightarrow> string option \<Rightarrow> int \<Rightarrow> int \<Rightarrow> db \<Rightarrow> exn + ((incident \<times> nat) list \<times> nat)" where
  "list_incidents ev status severity limit offset d =
     ebind (guard (limit \<le> 200 \<and> 0 \<le> offset) (HTTPException 422 ''query'')) (\<lambda>_.
     ebind (scoped_query ev (incident_query status severity) ''incident'' ''list'') (\<lambda>q.
     ebind (scoped_query ev (incident_query status severity) ''incident'' ''count'') (\<lambda>cq.
     let total = length (select_incidents cq d)
     in ebind (page offset limit (newest_first in_created_at (select_incidents q d))) (\<lambda>rows.
        Inr (map (\<lambda>i. incident_response i d) rows, total)))))"

definition get_incident :: "call_env \<Rightarrow> uuid \<Rightarrow> db \<Rightarrow> exn + (incident \<times> nat)" where
  "get_incident ev incident_id d =
     ebind (load_incident ev ''read'' incident_id d) (\<lambda>i. Inr (incident_response i d))"

section \<open>Creation\<close>

record incident_create =
  ic_title :: string
  ic_description :: "string option"
  ic_severity :: "string option"
  ic_tags :: "string list option"
  ic_template_id :: "uuid option"

definition load_template :: "call_env \<Rightarrow> uuid option \<Rightarrow> db \<Rightarrow> exn + incident_template option" where
  "load_template ev template_id d = (case template_id of
      None \<Rightarrow> Inr None
    | Some tid \<Rightarrow>
        ebind (fetch_or (HTTPException 400 ''Incident template not found'') (\<lambda>t. it_id t = tid) (db_templates d)) (\<lambda>t.
        ebind (enforce ev (RTemplate t) ''incident_template'' ''read'') (\<lambda>_. Inr (Some t))))"

definition chosen_severity :: "incident_create \<Rightarrow> incident_template option \<Rightarrow> string" where
  "chosen_severity b t = (case ic_severity b of
      Some s \<Rightarrow> s | None \<Rightarrow> (case t of Some tt \<Rightarrow> it_default_severity tt | None \<Rightarrow> ''medium''))"

definition chosen_tags :: "incident_create \<Rightarrow> incident_template option \<Rightarrow> string list option" where
  "chosen_tags b t = (case ic_tags b of
      Some ts \<Rightarrow> Some ts | None \<Rightarrow> map_option (\<lambda>tt. case it_default_tags tt of None \<Rightarrow> [] | Some ts \<Rightarrow> ts) t)"

text \<open>The valid identifiers of the template's playbooks that exist, by name, in the template's order.\<close>

definition template_playbooks :: "incident_template \<Rightarrow> db \<Rightarrow> string list" where
  "template_playbooks t d =
     List.map_filter (\<lambda>raw. case parse_uuid raw of
         Inl _ \<Rightarrow> None
       | Inr i \<Rightarrow> map_option pd_name (find (\<lambda>p. pd_id p = i) (db_playbooks d))) (case it_playbook_ids t of None \<Rightarrow> [] | Some raws \<Rightarrow> raws)"

fun enqueue_all :: "(string \<Rightarrow> uuid option \<Rightarrow> exn option) \<Rightarrow> string list \<Rightarrow> exn + string list" where
  "enqueue_all delay [] = Inr []"
| "enqueue_all delay (n # ns) =
     (case delay n None of Some e \<Rightarrow> Inl e | None \<Rightarrow> ebind (enqueue_all delay ns) (\<lambda>r. Inr (n # r)))"

definition create_incident_core ::
  "call_env \<Rightarrow> incident_create \<Rightarrow> db \<Rightarrow> exn + ((incident \<times> incident_template option) \<times> db)" where
  "create_incident_core ev b d =
     ebind (require_permission INCIDENTS_CREATE (ev_user ev)) (\<lambda>an.
     ebind (load_template ev (ic_template_id b) d) (\<lambda>t.
     ebind (new_incident (ev_now ev) (ic_title b) (ic_description b) (chosen_severity b t) (chosen_tags b t) d) (\<lambda>(i, d1).
     let meta = [(''incident_title'', JStr (in_title i))] @
          (case t of None \<Rightarrow> [] | Some tt \<Rightarrow>
             [(''template_id'', JStr (uuid_str (it_id tt))), (''template_name'', JStr (it_name tt))])
     in Inr ((i, t), add_activity (ev_now ev)
          (incident_activity (in_id i) an ''incident_created''
             (incident_activity_detail ''incident_created'' (in_title i) None) (Some meta) None) d1))))"

text \<open>The answer: the incident with its count, and the playbooks that were queued.\<close>

definition create_incident ::
  "(string \<Rightarrow> uuid option \<Rightarrow> exn option) \<Rightarrow> call_env \<Rightarrow> incident_create \<Rightarrow> db \<Rightarrow>
   ((incident \<times> nat) \<times> string list) outcome" where
  "create_incident delay ev b d =
     (let m = create_incident_core ev b d
      in after_commit d m (\<lambda>(i, t).
           let d' = (case m of Inl _ \<Rightarrow> d | Inr (_, d1) \<Rightarrow> d1)
           in ebind (case t of None \<Rightarrow> Inr [] | Some tt \<Rightarrow> enqueue_all delay (template_playbooks tt d')) (\<lambda>queued.
              Inr (incident_response i d', queued))))"

section \<open>Update\<close>

record incident_update =
  iu_title :: "string patch"
  iu_description :: "string patch"
  iu_severity :: "string patch"
  iu_status :: "string patch"
  iu_assigned_to :: "string patch"
  iu_tags :: "string list patch"

definition assign_incident :: "string patch \<Rightarrow> db \<Rightarrow> incident \<Rightarrow> exn + incident" where
  "assign_incident p d i = (case p of
      None \<Rightarrow> Inr i
    | Some v \<Rightarrow>
        (if truthy_str v then
           ebind (parse_uuid (the v)) (\<lambda>k.
           ebind (fetch (\<lambda>x. an_id x = k) (db_analysts d)) (\<lambda>found.
             case found of
               None \<Rightarrow> Inr i
             | Some to \<Rightarrow> Inr (i\<lparr>in_assigned_to := Some (an_id to), in_assigned_username := Some (an_username to)\<rparr>)))
         else Inr (i\<lparr>in_assigned_to := None, in_assigned_username := None\<rparr>)))"

definition incident_fields :: "incident_update \<Rightarrow> incident \<Rightarrow> exn + incident" where
  "incident_fields u i =
     ebind (patch_not_null ''incidents.title'' (iu_title u) (in_title i)) (\<lambda>t.
     ebind (patch_not_null ''incidents.severity'' (iu_severity u) (in_severity i)) (\<lambda>sev.
     ebind (patch_not_null ''incidents.status'' (iu_status u) (in_status i)) (\<lambda>st.
       Inr (i\<lparr>in_title := t, in_severity := sev, in_status := st,
              in_description := patch_nullable (iu_description u) (in_description i),
              in_tags := patch_nullable (iu_tags u) (in_tags i)\<rparr>))))"

definition stamp_closed :: "time \<Rightarrow> string option \<Rightarrow> incident \<Rightarrow> incident" where
  "stamp_closed now st i =
     (if st = Some ''closed'' \<and> in_closed_at i = None then i\<lparr>in_closed_at := Some now\<rparr>
      else if truthy_str st \<and> st \<noteq> Some ''closed'' then i\<lparr>in_closed_at := None\<rparr>
      else i)"

definition incident_log :: "analyst \<Rightarrow> incident_update \<Rightarrow> incident \<Rightarrow> incident \<Rightarrow> activity list" where
  "incident_log an u old new =
     (let st = patch_value (iu_status u); sev = patch_value (iu_severity u); rec = incident_activity (in_id old) an
      in (if truthy_str st \<and> the st \<noteq> in_status old then
            [rec ''status_change'' (''Status changed from '' @ in_status old @ '' to '' @ the st)
               (old_new (in_status old) (the st)) None] else []) @
         (if truthy_str sev \<and> the sev \<noteq> in_severity old then
            [rec ''severity_change'' (''Severity changed from '' @ in_severity old @ '' to '' @ the sev)
               (old_new (in_severity old) (the sev)) None] else []) @
         (if (patch_value (iu_assigned_to u) \<noteq> None \<or> (iu_assigned_to u = Some None \<and> in_assigned_to old \<noteq> None)) \<and>
             in_assigned_to new \<noteq> in_assigned_to old then
            [rec ''assigned''
               (if in_assigned_to new \<noteq> None \<and> truthy_str (in_assigned_username new)
                then ''Assigned to '' @ the (in_assigned_username new)
                else if truthy_str (in_assigned_username old)
                then ''Unassigned from '' @ the (in_assigned_username old) else ''Unassigned'')
               (Some [(''old'', opt_str (map_option uuid_str (in_assigned_to old))),
                      (''new'', opt_str (map_option uuid_str (in_assigned_to new))),
                      (''old_username'', opt_str (in_assigned_username old)),
                      (''new_username'', opt_str (in_assigned_username new))]) None]
          else []))"

definition put_incident :: "incident \<Rightarrow> db \<Rightarrow> db" where
  "put_incident i d = d\<lparr>db_incidents := update_where (\<lambda>r. in_id r = in_id i) (\<lambda>_. i) (db_incidents d)\<rparr>"

definition update_incident ::
  "call_env \<Rightarrow> uuid \<Rightarrow> incident_update \<Rightarrow> db \<Rightarrow> exn + ((incident \<times> nat) \<times> db)" where
  "update_incident ev incident_id u d =
     ebind (require_permission INCIDENTS_UPDATE (ev_user ev)) (\<lambda>an.
     ebind (load_incident ev ''update'' incident_id d) (\<lambda>i.
     ebind (assign_incident (iu_assigned_to u) d i) (\<lambda>i1.
     ebind (incident_fields u i1) (\<lambda>i2.
     let i3 = stamp_closed (ev_now ev) (patch_value (iu_status u)) i2
     in ebind (guard (incident_fits i3) data_error) (\<lambda>_.
        let d' = put_incident i3 (add_activities (ev_now ev) (incident_log an u i i3) d)
        in Inr (incident_response i3 d', d'))))))"

section \<open>Links\<close>

definition link_alert :: "call_env \<Rightarrow> uuid \<Rightarrow> string \<Rightarrow> db \<Rightarrow> exn + db" where
  "link_alert ev incident_id alert_id d =
     ebind (require_permission INCIDENTS_UPDATE (ev_user ev)) (\<lambda>an.
     ebind (load_incident ev ''update'' incident_id d) (\<lambda>_.
     ebind (parse_uuid alert_id) (\<lambda>aid.
     ebind (load_alert ev ''read'' aid d) (\<lambda>a.
     ebind (fetch (\<lambda>l. ia_incident_id l = incident_id \<and> ia_alert_id l = aid) (db_incident_alerts d)) (\<lambda>existing.
     ebind (guard (existing = None) (HTTPException 409 ''Alert already linked to this incident'')) (\<lambda>_.
       Inr (add_activity (ev_now ev)
              (incident_activity incident_id an ''alert_linked'' (''Linked alert '' @ al_title a)
                 (Some [(''alert_id'', JStr (uuid_str (al_id a))), (''alert_title'', JStr (al_title a))]) (Some aid))
              (add_link incident_id aid d))))))))"

definition linked_query :: "db \<Rightarrow> uuid \<Rightarrow> query" where
  "linked_query d incident_id r = (case r of
      RAlert a \<Rightarrow> \<exists>l \<in> set (db_incident_alerts d). ia_incident_id l = incident_id \<and> ia_alert_id l = al_id a
    | _ \<Rightarrow> False)"

text \<open>The join with the link table yields an alert once per link row.\<close>

definition list_incident_alerts :: "call_env \<Rightarrow> uuid \<Rightarrow> db \<Rightarrow> exn + alert list" where
  "list_incident_alerts ev incident_id d =
     ebind (load_incident ev ''read'' incident_id d) (\<lambda>_.
     ebind (scoped_query ev (linked_query d incident_id) ''alert'' ''list'') (\<lambda>q.
     let joined = concat (map (\<lambda>a. map (\<lambda>_. a) (filter (\<lambda>l. ia_incident_id l = incident_id \<and> ia_alert_id l = al_id a)
                    (db_incident_alerts d))) (select_alerts q d))
     in Inr (newest_first al_created_at joined)))"

definition unlink_alert :: "call_env \<Rightarrow> uuid \<Rightarrow> uuid \<Rightarrow> db \<Rightarrow> exn + db" where
  "unlink_alert ev incident_id alert_id d =
     ebind (require_permission INCIDENTS_UPDATE (ev_user ev)) (\<lambda>an.
     ebind (fetch_or (HTTPException 404 ''Link not found'')
              (\<lambda>l. ia_incident_id l = incident_id \<and> ia_alert_id l = alert_id) (db_incident_alerts d)) (\<lambda>l.
     ebind (enforce ev (RLink l) ''incident_alert'' ''update'') (\<lambda>_.
     ebind (fetch (\<lambda>a. al_id a = alert_id) (db_alerts d)) (\<lambda>a.
     ebind (fetch (\<lambda>i. in_id i = incident_id) (db_incidents d)) (\<lambda>i.
     let d1 = (case (i, a) of
          (Some _, Some al) \<Rightarrow> add_activity (ev_now ev)
             (incident_activity incident_id an ''alert_unlinked'' (''Unlinked alert '' @ al_title al)
                (Some [(''alert_id'', JStr (uuid_str (al_id al))), (''alert_title'', JStr (al_title al))])
                (Some alert_id)) d
        | _ \<Rightarrow> d)
     in Inr (d1\<lparr>db_incident_alerts := filter (\<lambda>r. ia_id r \<noteq> ia_id l) (db_incident_alerts d1)\<rparr>))))))"

section \<open>Observables\<close>

definition observable_fits :: "observable \<Rightarrow> bool" where
  "observable_fits ob \<longleftrightarrow> length (ob_type ob) \<le> 50 \<and> length (ob_value ob) \<le> 1000 \<and> fits 100 (ob_source ob) \<and>
     length (ob_enrichment_status ob) \<le> 20"

definition new_observable ::
  "db \<Rightarrow> time \<Rightarrow> string \<Rightarrow> string \<Rightarrow> string option \<Rightarrow> uuid option \<Rightarrow> uuid option \<Rightarrow> observable" where
  "new_observable d now ty v src alert_id incident_id =
     \<lparr>ob_id = db_next_id d, ob_created_at = now, ob_type = ty, ob_value = v, ob_source = src,
      ob_enrichment_status = ''pending'', ob_enrichments = [], ob_tags = None,
      ob_alert_id = alert_id, ob_incident_id = incident_id\<rparr>"

definition add_observable :: "observable \<Rightarrow> db \<Rightarrow> exn + db" where
  "add_observable ob d =
     ebind (guard (observable_fits ob) data_error) (\<lambda>_.
       Inr (d\<lparr>db_next_id := Suc (db_next_id d), db_observables := db_observables d @ [ob]\<rparr>))"

definition list_incident_observables :: "call_env \<Rightarrow> uuid \<Rightarrow> db \<Rightarrow> exn + observable list" where
  "list_incident_observables ev incident_id d =
     ebind (load_incident ev ''read'' incident_id d) (\<lambda>_.
     ebind (scoped_query ev (\<lambda>r. case r of RObservable ob \<Rightarrow> ob_incident_id ob = Some incident_id | _ \<Rightarrow> False)
              ''observable'' ''list'') (\<lambda>q.
       Inr (newest_first ob_created_at (filter (\<lambda>ob. q (RObservable ob)) (db_observables d)))))"

definition create_incident_observable ::
  "call_env \<Rightarrow> uuid \<Rightarrow> string \<Rightarrow> string \<Rightarrow> string option \<Rightarrow> db \<Rightarrow> exn + (observable \<times> db)" where
  "create_incident_observable ev incident_id ty v src d =
     ebind (require_permission OBSERVABLES_MANAGE (ev_user ev)) (\<lambda>an.
     ebind (load_incident ev ''update'' incident_id d) (\<lambda>_.
     ebind (fetch (\<lambda>ob. ob_type ob = ty \<and> ob_value ob = v \<and> ob_incident_id ob = Some incident_id) (db_observables d)) (\<lambda>existing.
       case existing of
         Some ob \<Rightarrow> Inr (ob, d)
       | None \<Rightarrow>
           (let ob = new_observable d (ev_now ev) ty v src None (Some incident_id)
            in ebind (enforce ev (RObservable ob) ''observable'' ''create'') (\<lambda>_.
               ebind (add_observable ob d) (\<lambda>d1.
                 Inr (ob, add_activity (ev_now ev)
                   (incident_activity incident_id an ''observable_added'' (''Added observable '' @ ty @ '':'' @ v)
                      (Some [(''observable_type'', JStr ty), (''observable_value'', JStr v)]) None) d1)))))))"

section \<open>Activities, timeline and comments\<close>

definition referenced_alerts :: "uuid \<Rightarrow> db \<Rightarrow> uuid list" where
  "referenced_alerts incident_id d =
     remdups (List.map_filter (\<lambda>a. if ac_incident_id a = Some incident_id then ac_alert_id a else None) (db_activities d))"

definition alerts_by_id :: "uuid list \<Rightarrow> query" where
  "alerts_by_id ids r = (case r of RAlert a \<Rightarrow> al_id a \<in> set ids | _ \<Rightarrow> False)"

definition visible_ids :: "query \<Rightarrow> db \<Rightarrow> uuid list" where
  "visible_ids q d = map al_id (select_alerts q d)"

definition activity_page :: "int \<Rightarrow> int \<Rightarrow> activity list \<Rightarrow> exn + (activity list \<times> nat)" where
  "activity_page limit offset rows =
     ebind (page offset limit (newest_first ac_created_at rows)) (\<lambda>shown. Inr (shown, length rows))"

definition on_alert :: "uuid list \<Rightarrow> activity \<Rightarrow> bool" where
  "on_alert ids a \<longleftrightarrow> (\<exists>i \<in> set ids. ac_alert_id a = Some i)"

definition list_incident_activities ::
  "call_env \<Rightarrow> uuid \<Rightarrow> int \<Rightarrow> int \<Rightarrow> db \<Rightarrow> exn + (activity list \<times> nat)" where
  "list_incident_activities ev incident_id limit offset d =
     ebind (guard (limit \<le> 200 \<and> 0 \<le> offset) (HTTPException 422 ''query'')) (\<lambda>_.
     ebind (load_incident ev ''read'' incident_id d) (\<lambda>_.
     let referenced = referenced_alerts incident_id d
     in ebind (if referenced = [] then Inr []
               else ebind (scoped_query ev (alerts_by_id referenced) ''alert'' ''list'') (\<lambda>q. Inr (visible_ids q d)))
          (\<lambda>visible. activity_page limit offset
             (filter (\<lambda>a. (ac_incident_id a = Some incident_id \<and> ac_alert_id a = None) \<or> on_alert visible a)
                (db_activities d)))))"

text \<open>The event types of the timeline and the rows each keeps.\<close>

definition event_types :: "string list" where
  "event_types = [''all'', ''alert'', ''incident'', ''comment'']"

definition of_type :: "string \<Rightarrow> uuid \<Rightarrow> activity \<Rightarrow> bool" where
  "of_type event_type incident_id a \<longleftrightarrow>
     (if event_type = ''alert'' then ac_alert_id a \<noteq> None
      else if event_type = ''incident'' then ac_incident_id a = Some incident_id \<and> ac_alert_id a = None
      else if event_type = ''comment'' then ac_action a = ''comment''
      else True)"

definition list_incident_timeline ::
  "call_env \<Rightarrow> uuid \<Rightarrow> string \<Rightarrow> int \<Rightarrow> int \<Rightarrow> db \<Rightarrow> exn + ((string \<times> activity) list \<times> nat)" where
  "list_incident_timeline ev incident_id event_type limit offset d =
     ebind (guard (event_type \<in> set event_types \<and> limit \<le> 200 \<and> 0 \<le> offset) (HTTPException 422 ''query'')) (\<lambda>_.
     ebind (load_incident ev ''read'' incident_id d) (\<lambda>_.
     ebind (scoped_query ev (linked_query d incident_id) ''alert'' ''list'') (\<lambda>q.
     let visible = visible_ids q d
     in ebind (activity_page limit offset
               (filter (\<lambda>a. (ac_incident_id a = Some incident_id \<or> on_alert visible a) \<and> of_type event_type incident_id a)
                  (db_activities d))) (\<lambda>(rows, total).
        Inr (map (\<lambda>a. (if ac_alert_id a \<noteq> None then ''alert'' else ''incident'', a)) rows, total)))))"

definition add_incident_comment ::
  "hook list \<Rightarrow> call_env \<Rightarrow> uuid \<Rightarrow> string \<Rightarrow> db \<Rightarrow> (activity \<times> (mention_notification \<times> nat) list) outcome" where
  "add_incident_comment hooks ev incident_id txt d =
     after_commit d
       (ebind (require_permission INCIDENTS_UPDATE (ev_user ev)) (\<lambda>an.
        ebind (load_incident ev ''update'' incident_id d) (\<lambda>_.
          post_comment ev an ''incident'' incident_id (\<lambda>a. a\<lparr>ac_incident_id := Some incident_id\<rparr>) txt d)))
       (notify_and_answer hooks)"

definition edit_incident_comment ::
  "(time \<Rightarrow> string) \<Rightarrow> hook list \<Rightarrow> call_env \<Rightarrow> uuid \<Rightarrow> uuid \<Rightarrow> string \<Rightarrow> db \<Rightarrow>
   (activity \<times> (mention_notification \<times> nat) list) outcome" where
  "edit_incident_comment isoformat hooks ev incident_id comment_id txt d =
     after_commit d
       (ebind (require_permission INCIDENTS_UPDATE (ev_user ev)) (\<lambda>an.
        ebind (load_incident ev ''update'' incident_id d) (\<lambda>_.
          edit_comment_row isoformat ev an ''incident'' incident_id (\<lambda>a. ac_incident_id a = Some incident_id)
            comment_id txt d)))
       (notify_and_answer hooks)"

section \<open>Invariant of incidents and links\<close>

text \<open>A closed incident has its closing time, an incident with a closing time is closed (or was given
  the empty status), the assignee's identifier and name come together. Links are unique per
  incident and alert and both ends exist.\<close>

definition incident_ok :: "incident \<Rightarrow> bool" where
  "incident_ok i \<longleftrightarrow> (in_status i = ''closed'' \<longrightarrow> in_closed_at i \<noteq> None) \<and>
     (in_closed_at i \<noteq> None \<longrightarrow> in_status i = ''closed'' \<or> in_status i = []) \<and>
     (in_assigned_to i = None \<longleftrightarrow> in_assigned_username i = None)"

definition link_key :: "incident_alert \<Rightarrow> uuid \<times> uuid" where
  "link_key l = (ia_incident_id l, ia_alert_id l)"

definition links_ok :: "db \<Rightarrow> bool" where
  "links_ok d \<longleftrightarrow> distinct (map link_key (db_incident_alerts d)) \<and>
     (\<forall>l \<in> set (db_incident_alerts d). ia_id l < db_next_id d \<and>
        ia_incident_id l \<in> in_id ` set (db_incidents d) \<and> ia_alert_id l \<in> al_id ` set (db_alerts d))"

definition incidents_ok :: "db \<Rightarrow> bool" where
  "incidents_ok d \<longleftrightarrow> distinct (map in_id (db_incidents d)) \<and>
     (\<forall>i \<in> set (db_incidents d). in_id i < db_next_id d \<and> incident_ok i) \<and> links_ok d"

lemma incidents_ok_frame:
  "incidents_ok d \<Longrightarrow> db_incidents d' = db_incidents d \<Longrightarrow> db_incident_alerts d' = db_incident_alerts d \<Longrightarrow>
   al_id ` set (db_alerts d) \<subseteq> al_id ` set (db_alerts d') \<Longrightarrow> db_next_id d \<le> db_next_id d' \<Longrightarrow> incidents_ok d'"
  unfolding incidents_ok_def links_ok_def by (fastforce simp: subset_iff)

lemma incidents_ok_activity [simp]: "incidents_ok d \<Longrightarrow> incidents_ok (add_activity now a d)"
  by (erule incidents_ok_frame) simp_all

lemma incidents_ok_activities [simp]: "incidents_ok d \<Longrightarrow> incidents_ok (add_activities now acts d)"
  by (erule incidents_ok_frame) simp_all

lemma incidents_ok_put_alert [simp]: "incidents_ok d \<Longrightarrow> incidents_ok (put_alert a d)"
  using put_alert_ids[of a d, THEN arg_cong[of _ _ set]]
  by (erule_tac incidents_ok_frame) (simp_all only: set_map put_alert_frame order.refl)

lemma append_incident_ok:
  assumes ok: "incidents_ok d" and i: "incident_ok i" and k: "in_id i = db_next_id d"
  shows "incidents_ok (d\<lparr>db_next_id := Suc (db_next_id d), db_incidents := db_incidents d @ [i]\<rparr>)"
    and "in_id i \<notin> in_id ` set (db_incidents d)"
proof -
  have less: "\<forall>r \<in> set (db_incidents d). in_id r < db_next_id d" using ok by (simp add: incidents_ok_def)
  with k show new: "in_id i \<notin> in_id ` set (db_incidents d)" by auto
  have "in_id r < Suc (db_next_id d)" if "r \<in> set (db_incidents d)" for r
    using less that by (simp add: less_SucI)
  with ok i k new show "incidents_ok (d\<lparr>db_next_id := Suc (db_next_id d), db_incidents := db_incidents d @ [i]\<rparr>)"
    unfolding incidents_ok_def links_ok_def by (simp add: less_SucI)
qed

lemma new_incident_ok:
  assumes "new_incident now t ds sev tags d = Inr (i, d')" and ok: "incidents_ok d"
  shows "incidents_ok d' \<and> i \<in> set (db_incidents d') \<and> db_alerts d' = db_alerts d \<and>
     db_incident_alerts d' = db_incident_alerts d \<and> in_id i \<notin> in_id ` set (db_incidents d) \<and>
     db_next_id d' = Suc (db_next_id d)"
proof -
  from assms(1) have d': "d' = d\<lparr>db_next_id := Suc (db_next_id d), db_incidents := db_incidents d @ [i]\<rparr>"
    and i: "incident_ok i" "in_id i = db_next_id d"
    unfolding new_incident_def Let_def ebind_eq_Inr guard_eq_Inr by (auto simp: incident_ok_def)
  from append_incident_ok[OF ok i] show ?thesis unfolding d' by simp
qed

lemma add_link_ok:
  "incidents_ok d \<Longrightarrow> iid \<in> in_id ` set (db_incidents d) \<Longrightarrow> aid \<in> al_id ` set (db_alerts d) \<Longrightarrow>
   filter (\<lambda>l. ia_incident_id l = iid \<and> ia_alert_id l = aid) (db_incident_alerts d) = [] \<Longrightarrow>
   incidents_ok (add_link iid aid d)"
  unfolding incidents_ok_def links_ok_def add_link_def filter_empty_conv
  by (auto simp: link_key_def less_Suc_eq)

lemma put_incident_ok: "incidents_ok d \<Longrightarrow> incident_ok i \<Longrightarrow> incidents_ok (put_incident i d)"
proof -
  assume ok: "incidents_ok d" and i: "incident_ok i"
  have ids: "map in_id (db_incidents (put_incident i d)) = map in_id (db_incidents d)"
    by (auto simp: put_incident_def intro!: map_update_where)
  from ids have "in_id ` set (db_incidents (put_incident i d)) = in_id ` set (db_incidents d)"
    by (metis set_map)
  moreover have "\<forall>r \<in> set (db_incidents (put_incident i d)). in_id r < db_next_id d \<and> incident_ok r"
    using ok i unfolding put_incident_def incidents_ok_def
    by (auto simp: set_update_where dest: bspec split: if_splits) (metis)+
  ultimately show ?thesis
    using ok ids unfolding incidents_ok_def links_ok_def by (simp add: put_incident_def)
qed

lemma load_incident_ok: "load_incident ev action iid d = Inr i \<Longrightarrow> i \<in> set (db_incidents d) \<and> in_id i = iid"
  using filter_single_mem[of "\<lambda>r. in_id r = iid" "db_incidents d" i] by (auto simp: load_incident_def res_simps)

lemma load_alert_id: "load_alert ev action i d = Inr a \<Longrightarrow> i \<in> al_id ` set (db_alerts d)"
  using load_alert_ok by blast

lemma create_incident_core_ok:
  "create_incident_core ev b d = Inr (x, d') \<Longrightarrow> incidents_ok d \<Longrightarrow>
     incidents_ok d' \<and> db_alerts d' = db_alerts d \<and> db_next_id d \<le> db_next_id d'"
  unfolding create_incident_core_def Let_def ebind_eq_Inr
  by (auto dest!: new_incident_ok)

lemma assign_incident_same:
  "assign_incident p d i = Inr i' \<Longrightarrow> in_id i' = in_id i \<and> in_status i' = in_status i \<and> in_closed_at i' = in_closed_at i \<and>
     ((in_assigned_to i = None \<longleftrightarrow> in_assigned_username i = None) \<longrightarrow>
      (in_assigned_to i' = None \<longleftrightarrow> in_assigned_username i' = None))"
  by (auto simp: assign_incident_def res_simps split: option.splits if_splits)

lemma incident_fields_same:
  "incident_fields u i = Inr i' \<Longrightarrow> in_id i' = in_id i \<and> in_closed_at i' = in_closed_at i \<and>
     in_assigned_to i' = in_assigned_to i \<and> in_assigned_username i' = in_assigned_username i \<and>
     in_status i' = (case patch_value (iu_status u) of None \<Rightarrow> in_status i | Some st \<Rightarrow> st)"
  by (auto simp: incident_fields_def res_simps patch_value_def)

lemma stamp_closed_ok:
  assumes st: "in_status i = (case st of None \<Rightarrow> s | Some t \<Rightarrow> t)"
    and "s = ''closed'' \<longrightarrow> in_closed_at i \<noteq> None" "in_closed_at i \<noteq> None \<longrightarrow> s = ''closed'' \<or> s = []"
    and "in_assigned_to i = None \<longleftrightarrow> in_assigned_username i = None"
  shows "incident_ok (stamp_closed now st i)"
proof (cases st)
  case None
  with assms show ?thesis by (simp add: stamp_closed_def incident_ok_def)
next
  case (Some t)
  with st have "in_status i = t" by simp
  with Some assms(4) show ?thesis
    by (cases "t = ''closed''"; cases "in_closed_at i"; cases "t = []") (simp_all add: stamp_closed_def incident_ok_def)
qed

lemma update_incident_run: "update_incident ev iid u d = Inr (r, d') \<Longrightarrow>
    \<exists>an i i1 i2 i3. require_permission INCIDENTS_UPDATE (ev_user ev) = Inr an \<and> load_incident ev ''update'' iid d = Inr i \<and>
      assign_incident (iu_assigned_to u) d i = Inr i1 \<and> incident_fields u i1 = Inr i2 \<and>
      i3 = stamp_closed (ev_now ev) (patch_value (iu_status u)) i2 \<and>
      d' = put_incident i3 (add_activities (ev_now ev) (incident_log an u i i3) d)"
  unfolding update_incident_def Let_def ebind_eq_Inr guard_eq_Inr by blast

lemma update_incident_ok:
  assumes u: "update_incident ev iid u d = Inr (r, d')" and ok: "incidents_ok d"
  shows "incidents_ok d'"
proof -
  from update_incident_run[OF u] obtain an i i1 i2 i3 where l: "load_incident ev ''update'' iid d = Inr i"
    and a: "assign_incident (iu_assigned_to u) d i = Inr i1" and f: "incident_fields u i1 = Inr i2"
    and i3: "i3 = stamp_closed (ev_now ev) (patch_value (iu_status u)) i2"
    and d': "d' = put_incident i3 (add_activities (ev_now ev) (incident_log an u i i3) d)" by blast
  have "incident_ok i" using load_incident_ok[OF l] ok by (auto simp: incidents_ok_def)
  then have i: "in_status i = ''closed'' \<longrightarrow> in_closed_at i \<noteq> None"
    "in_closed_at i \<noteq> None \<longrightarrow> in_status i = ''closed'' \<or> in_status i = []"
    "in_assigned_to i = None \<longleftrightarrow> in_assigned_username i = None" unfolding incident_ok_def by blast+
  note same = assign_incident_same[OF a] incident_fields_same[OF f]
  have "in_status i2 = (case patch_value (iu_status u) of None \<Rightarrow> in_status i | Some t \<Rightarrow> t)"
    "in_closed_at i2 = in_closed_at i" "in_assigned_to i2 = None \<longleftrightarrow> in_assigned_username i2 = None"
    using same i(3) by (simp_all cong: option.case_cong)
  with i have "incident_ok i3"
    unfolding i3 by (intro stamp_closed_ok[where s = "in_status i"]) simp_all
  with ok show ?thesis unfolding d' by (intro put_incident_ok) simp_all
qed

lemma link_alert_ok: "link_alert ev iid aid d = Inr d' \<Longrightarrow> incidents_ok d \<Longrightarrow> incidents_ok d'"
  unfolding link_alert_def ebind_eq_Inr guard_eq_Inr
  by (auto simp: fetch_def res_simps dest!: load_incident_ok load_alert_id intro!: incidents_ok_activity add_link_ok)

lemma incidents_ok_unlink: "incidents_ok d1 \<Longrightarrow> db_incident_alerts d1 = links \<Longrightarrow>
    incidents_ok (d1\<lparr>db_incident_alerts := filter p links\<rparr>)"
  unfolding incidents_ok_def links_ok_def by (auto simp: distinct_map_filter)

lemma unlink_alert_ok: "unlink_alert ev iid aid d = Inr d' \<Longrightarrow> incidents_ok d \<Longrightarrow> incidents_ok d'"
  unfolding unlink_alert_def ebind_eq_Inr Let_def
  by (auto intro!: incidents_ok_unlink incidents_ok_activity split: option.splits)

lemma create_incident_observable_ok:
  "create_incident_observable ev iid ty v src d = Inr (ob, d') \<Longrightarrow> incidents_ok d \<Longrightarrow> incidents_ok d'"
  unfolding create_incident_observable_def ebind_eq_Inr Let_def
  by (auto simp: ebind_eq_Inr add_observable_def guard_eq_Inr split: option.splits
      intro!: incidents_ok_activity elim!: incidents_ok_frame)

section \<open>Properties\<close>

lemma fetch_key: "distinct (map k rows) \<Longrightarrow> x \<in> set rows \<Longrightarrow> fetch (\<lambda>r. k r = k x) rows = Inr (Some x)"
  by (simp add: fetch_def filter_key)

lemma link_alert_run: "link_alert ev iid (uuid_str aid) d = Inr d' \<Longrightarrow>
    \<exists>an i a. require_permission INCIDENTS_UPDATE (ev_user ev) = Inr an \<and> load_incident ev ''update'' iid d = Inr i \<and>
      load_alert ev ''read'' aid d = Inr a \<and>
      filter (\<lambda>l. ia_incident_id l = iid \<and> ia_alert_id l = aid) (db_incident_alerts d) = [] \<and>
      d' = add_activity (ev_now ev)
              (incident_activity iid an ''alert_linked'' (''Linked alert '' @ al_title a)
                 (Some [(''alert_id'', JStr (uuid_str (al_id a))), (''alert_title'', JStr (al_title a))]) (Some aid))
              (add_link iid aid d)"
  unfolding link_alert_def ebind_eq_Inr guard_eq_Inr by (auto simp: fetch_def res_simps)

lemma add_link_simps [simp]:
  "db_incidents (add_link iid aid d) = db_incidents d" "db_alerts (add_link iid aid d) = db_alerts d"
  "db_incident_alerts (add_link iid aid d) = db_incident_alerts d @
     [\<lparr>ia_id = db_next_id d, ia_incident_id = iid, ia_alert_id = aid\<rparr>]"
  by (simp_all add: add_link_def)

lemma load_alert_cong: "db_alerts d' = db_alerts d \<Longrightarrow> load_alert ev action i d' = load_alert ev action i d"
  by (simp add: load_alert_def)

lemma load_incident_cong: "db_incidents d' = db_incidents d \<Longrightarrow> load_incident ev action i d' = load_incident ev action i d"
  by (simp add: load_incident_def)

text \<open>C27: Linking an alert to an incident and unlinking it again restores the links: a second request to
  link the same pair is refused with 409, and unlinking leaves the link table as it was before, the
  alerts and incidents untouched and both steps in the activity log.\<close>

theorem link_unlink_roundtrip:
  assumes ok: "alerts_ok d" "incidents_ok d" and l: "link_alert ev iid (uuid_str aid) d = Inr d1"
    and v: "\<forall>l. enforce ev (RLink l) ''incident_alert'' ''update'' = Inr ()"
  shows "link_alert ev iid (uuid_str aid) d1 = Inl (HTTPException 409 ''Alert already linked to this incident'')
    \<and> (\<exists>d2. unlink_alert ev iid aid d1 = Inr d2 \<and> db_incident_alerts d2 = db_incident_alerts d \<and>
         db_alerts d2 = db_alerts d \<and> db_incidents d2 = db_incidents d \<and>
         (\<exists>r1 r2. db_activities d2 = db_activities d @ [r1, r2] \<and> ac_action r1 = ''alert_linked'' \<and>
            ac_action r2 = ''alert_unlinked'' \<and> ac_incident_id r2 = Some iid \<and> ac_alert_id r2 = Some aid))"
proof -
  let ?new = "\<lparr>ia_id = db_next_id d, ia_incident_id = iid, ia_alert_id = aid\<rparr>"
  from link_alert_run[OF l] obtain an i a where an: "require_permission INCIDENTS_UPDATE (ev_user ev) = Inr an"
    and i: "load_incident ev ''update'' iid d = Inr i" and a: "load_alert ev ''read'' aid d = Inr a"
    and none: "filter (\<lambda>l. ia_incident_id l = iid \<and> ia_alert_id l = aid) (db_incident_alerts d) = []"
    and d1: "d1 = add_activity (ev_now ev)
              (incident_activity iid an ''alert_linked'' (''Linked alert '' @ al_title a)
                 (Some [(''alert_id'', JStr (uuid_str (al_id a))), (''alert_title'', JStr (al_title a))]) (Some aid))
              (add_link iid aid d)" by blast
  have tables: "db_alerts d1 = db_alerts d" "db_incidents d1 = db_incidents d"
    "db_incident_alerts d1 = db_incident_alerts d @ [?new]"
    unfolding d1 by simp_all
  have one: "filter (\<lambda>l. ia_incident_id l = iid \<and> ia_alert_id l = aid) (db_incident_alerts d1) = [?new]"
    using none tables by simp
  have again: "link_alert ev iid (uuid_str aid) d1 = Inl (HTTPException 409 ''Alert already linked to this incident'')"
    using an i a one load_alert_cong[OF tables(1)] load_incident_cong[OF tables(2)]
    by (simp add: link_alert_def fetch_def guard_def)
  have rows: "fetch (\<lambda>x. al_id x = aid) (db_alerts d1) = Inr (Some a)"
    "fetch (\<lambda>x. in_id x = iid) (db_incidents d1) = Inr (Some i)"
    using load_alert_ok[OF a] load_incident_ok[OF i] ok tables
      fetch_key[of al_id "db_alerts d" a] fetch_key[of in_id "db_incidents d" i]
    by (simp_all add: alerts_ok_def incidents_ok_def)
  have "\<forall>r \<in> set (db_incident_alerts d). ia_id r \<noteq> db_next_id d"
    using ok(2) by (auto simp: incidents_ok_def links_ok_def)
  then have "filter (\<lambda>r. ia_id r \<noteq> db_next_id d) (db_incident_alerts d @ [?new]) = db_incident_alerts d"
    by simp
  moreover have "fetch_or (HTTPException 404 ''Link not found'')
      (\<lambda>l. ia_incident_id l = iid \<and> ia_alert_id l = aid) (db_incident_alerts d1) = Inr ?new"
    using one by (simp add: fetch_or_eq_Inr)
  ultimately have "\<exists>d2. unlink_alert ev iid aid d1 = Inr d2 \<and> db_incident_alerts d2 = db_incident_alerts d \<and>
         db_alerts d2 = db_alerts d \<and> db_incidents d2 = db_incidents d \<and>
         (\<exists>r1 r2. db_activities d2 = db_activities d @ [r1, r2] \<and> ac_action r1 = ''alert_linked'' \<and>
            ac_action r2 = ''alert_unlinked'' \<and> ac_incident_id r2 = Some iid \<and> ac_alert_id r2 = Some aid)"
    using an v rows tables
    by (simp add: unlink_alert_def Let_def) (simp add: d1 add_activity_def incident_activity_def add_link_def)
  with again show ?thesis by blast
qed

text \<open>C28: The activity list of an incident stays within the caller's reach: each row returned is about the
  incident alone or about an existing alert that the tenant-scoped query admits, the page is no
  longer than the limit, and the total counts at least the rows shown.\<close>

theorem incident_activities_confined:
  assumes "list_incident_activities ev iid limit offset d = Inr (rows, n)"
  shows "length rows \<le> nat limit \<and> length rows \<le> n \<and>
    (\<forall>r \<in> set rows. r \<in> set (db_activities d) \<and>
      (ac_incident_id r = Some iid \<and> ac_alert_id r = None \<or>
       (\<exists>q. scoped_query ev (alerts_by_id (referenced_alerts iid d)) ''alert'' ''list'' = Inr q \<and>
          (\<exists>a \<in> set (db_alerts d). ac_alert_id r = Some (al_id a) \<and> q (RAlert a)))))"
proof -
  from assms obtain visible where v: "(if referenced_alerts iid d = [] then Inr []
        else ebind (scoped_query ev (alerts_by_id (referenced_alerts iid d)) ''alert'' ''list'')
               (\<lambda>q. Inr (visible_ids q d))) = Inr visible"
    and p: "activity_page limit offset
             (filter (\<lambda>a. (ac_incident_id a = Some iid \<and> ac_alert_id a = None) \<or> on_alert visible a)
                (db_activities d)) = Inr (rows, n)"
    unfolding list_incident_activities_def Let_def ebind_eq_Inr guard_eq_Inr by blast
  from p have rows: "set rows \<subseteq> set (filter (\<lambda>a. (ac_incident_id a = Some iid \<and> ac_alert_id a = None) \<or> on_alert visible a)
                (db_activities d))" "length rows \<le> nat limit" "length rows \<le> n"
    by (auto simp: activity_page_def page_def res_simps newest_first_def split: if_splits
        dest!: in_set_takeD in_set_dropD)
  have reach: "\<exists>q. scoped_query ev (alerts_by_id (referenced_alerts iid d)) ''alert'' ''list'' = Inr q \<and>
          (\<exists>a \<in> set (db_alerts d). ac_alert_id r = Some (al_id a) \<and> q (RAlert a))"
    if h: "on_alert visible r" for r
    using h v by (auto simp: on_alert_def visible_ids_def select_alerts_def res_simps split: if_splits)
  have "r \<in> set (db_activities d) \<and> (ac_incident_id r = Some iid \<and> ac_alert_id r = None \<or> on_alert visible r)"
    if "r \<in> set rows" for r
    using subsetD[OF rows(1) that] by simp
  with rows(2,3) reach show ?thesis by blast
qed

text \<open>Two tenants share an incident: the caller's queries see the alerts of partner a only.\<close>

definition partner_a_only :: tenant_validator where
  "partner_a_only = \<lparr>tv_enforce = (\<lambda>r t action an. None),
     tv_query = (\<lambda>q t action an. Inr (Some (\<lambda>r. q r \<and> (case r of RAlert a \<Rightarrow> al_partner a = Some ''a'' | _ \<Rightarrow> True))))\<rparr>"

definition tenant_env :: "analyst \<Rightarrow> call_env" where
  "tenant_env an = \<lparr>ev_app = no_plugins\<lparr>app_validators := Some [partner_a_only]\<rparr>, ev_now = 100, ev_user = Some an\<rparr>"

definition shared_incident :: incident where
  "shared_incident = \<lparr>in_id = 3, in_created_at = 0, in_title = ''case'', in_description = None,
     in_severity = ''high'', in_status = ''open'', in_assigned_to = None, in_assigned_username = None,
     in_tags = None, in_closed_at = None, in_archived_at = None\<rparr>"

definition shared_db :: db where
  "shared_db = empty_db\<lparr>db_next_id := 8, db_analysts := [ana], db_incidents := [shared_incident],
     db_alerts := [shared_alert 1 ''ours'' ''a'', shared_alert 2 ''theirs'' ''b'']\<rparr>"

definition linked_db :: db where
  "linked_db = (case link_alert (no_plugins_env ana) 3 (uuid_str 2) shared_db of Inr d \<Rightarrow> d | Inl _ \<Rightarrow> shared_db)"

theorem link_unlink_roundtrip_witness:
  "link_alert (no_plugins_env ana) 3 (uuid_str 2) linked_db =
     Inl (HTTPException 409 ''Alert already linked to this incident'')
   \<and> (\<exists>d2. unlink_alert (no_plugins_env ana) 3 2 linked_db = Inr d2 \<and> db_incident_alerts d2 = [])"
proof -
  have d: "alerts_ok shared_db" "incidents_ok shared_db"
    by (simp_all add: alerts_ok_def incidents_ok_def links_ok_def shared_db_def empty_db_def shared_alert_def
        shared_incident_def alert_ok_def incident_ok_def)
  have l: "link_alert (no_plugins_env ana) 3 (uuid_str 2) shared_db = Inr linked_db" by code_simp
  have v: "\<forall>l. enforce (no_plugins_env ana) (RLink l) ''incident_alert'' ''update'' = Inr ()"
    by (simp add: enforce_def enforce_tenant_access_def no_plugins_env_def no_plugins_def
        initialize_plugin_state_def set_missing_def)
  have "db_incident_alerts shared_db = []" by (simp add: shared_db_def empty_db_def)
  with link_unlink_roundtrip[OF d l v] show ?thesis by metis
qed

theorem incident_activities_confined_witness:
  "list_incident_activities (tenant_env ana) 3 50 0 linked_db = Inr ([], 0) \<and> length ([] :: activity list) \<le> nat 50"
proof -
  have r: "list_incident_activities (tenant_env ana) 3 50 0 linked_db = Inr ([], 0)" by code_simp
  with incident_activities_confined[OF r] show ?thesis by blast
qed

text \<open>The timeline does not share that restriction: with the page large enough, every activity that
  carries the incident and some alert is an alert event of the timeline, whatever the tenant
  validators make of the alert, so a linked alert of another tenant shows its identifier and title.\<close>

theorem timeline_ignores_alert_scope:
  assumes "list_incident_timeline ev iid ''alert'' limit 0 d = Inr (rows, n)" and "n \<le> nat limit"
    and "r \<in> set (db_activities d)" and "ac_incident_id r = Some iid" and "ac_alert_id r \<noteq> None"
  shows "(''alert'', r) \<in> set rows"
proof -
  from assms(1) obtain visible xs where
    p: "activity_page limit 0 (filter (\<lambda>a. (ac_incident_id a = Some iid \<or> on_alert visible a) \<and>
          of_type ''alert'' iid a) (db_activities d)) = Inr (xs, n)"
    and rows: "rows = map (\<lambda>a. (if ac_alert_id a \<noteq> None then ''alert'' else ''incident'', a)) xs"
    unfolding list_incident_timeline_def Let_def ebind_eq_Inr guard_eq_Inr by (auto simp: ebind_eq_Inr)
  let ?all = "filter (\<lambda>a. (ac_incident_id a = Some iid \<or> on_alert visible a) \<and> of_type ''alert'' iid a) (db_activities d)"
  from p have "xs = take (nat limit) (newest_first ac_created_at ?all)" "n = length ?all"
    by (simp_all add: activity_page_def page_def res_simps split: if_splits)
  with assms(2) have "set xs = set ?all" by simp
  moreover have "r \<in> set ?all" using assms(3-5) by (simp add: of_type_def)
  ultimately show ?thesis using assms(5) unfolding rows by force
qed

theorem timeline_ignores_alert_scope_witness:
  "\<exists>rows r. list_incident_timeline (tenant_env ana) 3 ''alert'' 50 0 linked_db = Inr (rows, 1) \<and>
     (''alert'', r) \<in> set rows \<and> ac_detail r = Some ''Linked alert theirs'' \<and>
     list_incident_activities (tenant_env ana) 3 50 0 linked_db = Inr ([], 0)"
proof -
  let ?r = "hd (db_activities linked_db)"
  have t: "list_incident_timeline (tenant_env ana) 3 ''alert'' 50 0 linked_db = Inr ([(''alert'', ?r)], 1)"
    by code_simp
  have "?r \<in> set (db_activities linked_db) \<and> ac_incident_id ?r = Some 3 \<and> ac_alert_id ?r \<noteq> None" by code_simp
  then have "(''alert'', ?r) \<in> set [(''alert'', ?r)]" by (intro timeline_ignores_alert_scope[OF t]) simp_all
  moreover have "ac_detail ?r = Some ''Linked alert theirs''" by code_simp
  moreover have "list_incident_activities (tenant_env ana) 3 50 0 linked_db = Inr ([], 0)" by code_simp
  ultimately show ?thesis using t by blast
qed

end
