(* ===== verification/Enrichment.thy ===== *)
theory Enrichment
  imports Incidents Cache Observability
begin

text \<open>
  \<open>opensoar/worker/enrichment.py\<close>: automatic enrichment of observables. The in-flight tracker (Redis
  \<open>SET NX EX\<close> with an in-memory fallback), the decision whether to enrich, the task queue, the
  lookup in the configured integrations and the task body.

  The locale \<open>claim_store\<close> is the contract of a tracker: a claim is granted exactly when the key is
  not held, holds it for the time to live, and a release frees it. It is interpreted on the
  in-memory tracker. Redis, the broker, the connectors and the cache lookup are parameters that
  answer or raise; times are microseconds of the monotonic clock.
\<close>

section \<open>The in-flight tracker\<close>

definition inflight_ttl :: time where
  "inflight_ttl = seconds 300"

type_synonym inflight = "(string \<times> time) list"

definition inflight_key :: "string \<Rightarrow> string \<Rightarrow> string option \<Rightarrow> string" where
  "inflight_key ty v partner =
     ''opensoar:enrich:inflight:'' @ (if truthy_str partner then the partner else ''-'') @ '':'' @ ty @ '':'' @ v"

definition memory_claim :: "time \<Rightarrow> string \<Rightarrow> inflight \<Rightarrow> bool \<times> inflight" where
  "memory_claim now key m =
     (let live = filter (\<lambda>(k, expires). \<not> expires \<le> now) m
      in if key \<in> fst ` set live then (False, live) else (True, live @ [(key, now + inflight_ttl)]))"

definition memory_release :: "string \<Rightarrow> inflight \<Rightarrow> inflight" where
  "memory_release key m = AList.delete key m"

text \<open>The Redis client: \<open>set(nx=True, ex=...)\<close> at a time and \<open>delete\<close>.\<close>

record 'r nx_store =
  nx_set :: "time \<Rightarrow> string \<Rightarrow> 'r \<Rightarrow> (exn + bool) \<times> 'r"
  nx_delete :: "string \<Rightarrow> 'r \<Rightarrow> exn option \<times> 'r"

definition redis_error :: exn where
  "redis_error = OtherError ''RedisError''"

fun wire_error :: "exn \<Rightarrow> bool" where
  "wire_error (OSError _) = True"
| "wire_error (TimeoutError _) = True"
| "wire_error e = (e = redis_error)"

record enrich_task =
  et_id :: uuid
  et_type :: string
  et_value :: string
  et_partner :: "string option"

text \<open>The state enrichment shares: both trackers, the metrics and the tasks the broker took.\<close>

record 'r enrich_state =
  es_memory :: inflight
  es_redis :: 'r
  es_metrics :: metrics
  es_queue :: "enrich_task list"

definition claim_memory :: "time \<Rightarrow> string \<Rightarrow> 'r enrich_state \<Rightarrow> bool \<times> 'r enrich_state" where
  "claim_memory now key st =
     (let (granted, m) = memory_claim now key (es_memory st) in (granted, st\<lparr>es_memory := m\<rparr>))"

definition mark_inflight ::
  "'r nx_store option \<Rightarrow> time \<Rightarrow> string \<Rightarrow> 'r enrich_state \<Rightarrow> (exn + bool) \<times> 'r enrich_state" where
  "mark_inflight client now key st = (case client of
      None \<Rightarrow> (let (granted, st') = claim_memory now key st in (Inr granted, st'))
    | Some c \<Rightarrow>
        (case nx_set c now key (es_redis st) of
           (Inr granted, r) \<Rightarrow> (Inr granted, st\<lparr>es_redis := r\<rparr>)
         | (Inl e, r) \<Rightarrow>
             (if wire_error e
              then (let (granted, st') = claim_memory now key (st\<lparr>es_redis := r\<rparr>) in (Inr granted, st'))
              else (Inl e, st\<lparr>es_redis := r\<rparr>))))"

definition forget :: "string \<Rightarrow> 'r enrich_state \<Rightarrow> 'r enrich_state" where
  "forget key st = st\<lparr>es_memory := memory_release key (es_memory st)\<rparr>"

definition clear_inflight ::
  "'r nx_store option \<Rightarrow> string \<Rightarrow> 'r enrich_state \<Rightarrow> exn option \<times> 'r enrich_state" where
  "clear_inflight client key st = (case client of
      None \<Rightarrow> (None, forget key st)
    | Some c \<Rightarrow>
        (case nx_delete c key (es_redis st) of
           (None, r) \<Rightarrow> (None, forget key (st\<lparr>es_redis := r\<rparr>))
         | (Some e, r) \<Rightarrow>
             (if wire_error e then (None, forget key (st\<lparr>es_redis := r\<rparr>)) else (Some e, st\<lparr>es_redis := r\<rparr>))))"

section \<open>Whether to enrich\<close>

definition source_type_capabilities :: "(string \<times> string list) list" where
  "source_type_capabilities =
     [(''virustotal'', [''ip'', ''domain'', ''hash'', ''url'']), (''abuseipdb'', [''ip'']), (''greynoise'', [''ip''])]"

fun capable_sources :: "string \<Rightarrow> string list \<Rightarrow> string list \<Rightarrow> string list" where
  "capable_sources ty seen [] = []"
| "capable_sources ty seen (s # ss) =
     (if s \<in> set seen then capable_sources ty seen ss
      else if ty \<notin> set (case map_of source_type_capabilities s of None \<Rightarrow> [] | Some tys \<Rightarrow> tys)
      then capable_sources ty seen ss
      else s # capable_sources ty (s # seen) ss)"

definition serves_partner :: "string option \<Rightarrow> integration_instance \<Rightarrow> bool" where
  "serves_partner partner i \<longleftrightarrow> ii_partner i = None \<or> (partner \<noteq> None \<and> ii_partner i = partner)"

definition configured_sources_for :: "string \<Rightarrow> string option \<Rightarrow> db \<Rightarrow> string list" where
  "configured_sources_for ty partner d =
     capable_sources ty [] (map ii_integration_type (filter (\<lambda>i. ii_enabled i \<and>
       ii_integration_type i \<in> set (map fst source_type_capabilities) \<and> serves_partner partner i) (db_integrations d)))"

text \<open>What the enqueue path is given: the clock, Redis, the cache (which may fail to open) with its
  lookup by source, type and value, and the broker.\<close>

record 'r enrich_env =
  en_now :: time
  en_client :: "'r nx_store option"
  en_cache :: "exn option"
  en_lookup :: "string \<Rightarrow> string \<Rightarrow> string \<Rightarrow> exn + json"
  en_delay :: "enrich_task \<Rightarrow> exn option"

fun opening_caught :: "exn \<Rightarrow> bool" where
  "opening_caught (ValueError _) = True"
| "opening_caught e = wire_error e"

definition lookup_caught :: "exn \<Rightarrow> bool" where
  "lookup_caught e \<longleftrightarrow> wire_error e \<or> e = ValueError ''JSONDecodeError''"

fun any_stale :: "(string \<Rightarrow> exn + json) \<Rightarrow> string list \<Rightarrow> exn + bool" where
  "any_stale look [] = Inr False"
| "any_stale look (s # ss) =
     (case look s of
        Inl e \<Rightarrow> (if lookup_caught e then Inr True else Inl e)
      | Inr cached \<Rightarrow> (if cached = JNull then Inr True else any_stale look ss))"

definition should_enrich :: "('r, 'x) enrich_env_scheme \<Rightarrow> observable \<Rightarrow> string option \<Rightarrow> db \<Rightarrow> exn + bool" where
  "should_enrich en ob partner d =
     (let sources = configured_sources_for (ob_type ob) partner d
      in if sources = [] then Inr True
         else case en_cache en of
                Some e \<Rightarrow> (if opening_caught e then Inr True else Inl e)
              | None \<Rightarrow> any_stale (\<lambda>s. en_lookup en s (ob_type ob) (ob_value ob)) sources)"

section \<open>The queue\<close>

definition task_for :: "observable \<Rightarrow> string option \<Rightarrow> enrich_task" where
  "task_for ob partner = \<lparr>et_id = ob_id ob, et_type = ob_type ob, et_value = ob_value ob, et_partner = partner\<rparr>"

fun delay_caught :: "exn \<Rightarrow> bool" where
  "delay_caught (OSError _) = True"
| "delay_caught (TimeoutError _) = True"
| "delay_caught (KeyError _) = True"
| "delay_caught (ValueError _) = True"
| "delay_caught _ = False"

definition enqueue_enrichment ::
  "('r, 'x) enrich_env_scheme \<Rightarrow> observable \<Rightarrow> string option \<Rightarrow> db \<Rightarrow> 'r enrich_state \<Rightarrow> (exn + bool) \<times> 'r enrich_state" where
  "enqueue_enrichment en ob partner d st =
     (let key = inflight_key (ob_type ob) (ob_value ob) partner
      in case should_enrich en ob partner d of
           Inl e \<Rightarrow> (Inl e, st)
         | Inr False \<Rightarrow> (Inr False, st\<lparr>es_metrics := record_enrichment_cache_skip (ob_type ob) (es_metrics st)\<rparr>)
         | Inr True \<Rightarrow>
             (case mark_inflight (en_client en) (en_now en) key st of
                (Inl e, st') \<Rightarrow> (Inl e, st')
              | (Inr False, st') \<Rightarrow> (Inr False, st')
              | (Inr True, st') \<Rightarrow>
                  (case en_delay en (task_for ob partner) of
                     None \<Rightarrow> (Inr True, st'\<lparr>es_queue := es_queue st' @ [task_for ob partner]\<rparr>)
                   | Some e \<Rightarrow>
                       (if delay_caught e
                        then (case clear_inflight (en_client en) key st' of
                                (Some e', st'') \<Rightarrow> (Inl e', st'') | (None, st'') \<Rightarrow> (Inr False, st''))
                        else (Inl e, st')))))"

fun schedule_enrichment_for_alert ::
  "('r, 'x) enrich_env_scheme \<Rightarrow> string option \<Rightarrow> db \<Rightarrow> observable list \<Rightarrow> 'r enrich_state \<Rightarrow> exn option \<times> 'r enrich_state" where
  "schedule_enrichment_for_alert en partner d [] st = (None, st)"
| "schedule_enrichment_for_alert en partner d (ob # obs) st =
     (case enqueue_enrichment en ob partner d st of
        (Inl e, st') \<Rightarrow> (if is_Exception e then schedule_enrichment_for_alert en partner d obs st' else (Some e, st'))
      | (Inr _, st') \<Rightarrow> schedule_enrichment_for_alert en partner d obs st')"

section \<open>Lookups in the integrations\<close>

text \<open>A connector instance: what constructing it, connecting, each lookup method and disconnecting does.\<close>

record connector =
  cn_init :: "exn option"
  cn_connect :: "exn option"
  cn_methods :: "string list"
  cn_call :: "string \<Rightarrow> string \<Rightarrow> exn + json"
  cn_disconnect :: "exn option"

definition invoke_lookup :: "connector \<Rightarrow> observable \<Rightarrow> exn + json" where
  "invoke_lookup c ob =
     (let has = (\<lambda>m. m \<in> set (cn_methods c)); call = (\<lambda>m. cn_call c m (ob_value ob))
      in if ob_type ob = ''ip'' then
           (if has ''lookup_ip'' then call ''lookup_ip''
            else if has ''check_ip'' then call ''check_ip'' else Inr JNull)
         else if ob_type ob = ''domain'' \<and> has ''lookup_domain'' then call ''lookup_domain''
         else if ob_type ob = ''hash'' \<and> has ''lookup_hash'' then call ''lookup_hash''
         else if ob_type ob = ''url'' \<and> has ''lookup_url'' then call ''lookup_url''
         else Inr JNull)"

fun config_caught :: "exn \<Rightarrow> bool" where
  "config_caught (ValueError _) = True"
| "config_caught (TypeError _) = True"
| "config_caught (KeyError _) = True"
| "config_caught (AttributeError _) = True"
| "config_caught _ = False"

fun io_caught :: "exn \<Rightarrow> bool" where
  "io_caught (OSError _) = True"
| "io_caught (TimeoutError _) = True"
| "io_caught (ValueError _) = True"
| "io_caught (RuntimeError _) = True"
| "io_caught _ = False"

fun close_caught :: "exn \<Rightarrow> bool" where
  "close_caught (OSError _) = True"
| "close_caught (TimeoutError _) = True"
| "close_caught (RuntimeError _) = True"
| "close_caught _ = False"

definition enrichment_entry :: "string \<Rightarrow> json \<Rightarrow> jdict" where
  "enrichment_entry source v =
     [(''source'', JStr source), (''data'', v), (''malicious'', JBool False), (''score'', JNull)]"

text \<open>What \<open>disconnect\<close> raises in the \<open>finally\<close> block replaces the result unless it is caught there.\<close>

definition lookup_with_instance :: "connector \<Rightarrow> integration_instance \<Rightarrow> observable \<Rightarrow> exn + jdict option" where
  "lookup_with_instance c i ob =
     (case cn_init c of
        Some e \<Rightarrow> (if config_caught e then Inr None else Inl e)
      | None \<Rightarrow>
          (case cn_connect c of
             Some e \<Rightarrow> (if io_caught e then Inr None else Inl e)
           | None \<Rightarrow>
               (let result = (case invoke_lookup c ob of
                     Inr v \<Rightarrow> Inr (if v = JNull then None else Some (enrichment_entry (ii_integration_type i) v))
                   | Inl e \<Rightarrow> (if io_caught e then Inr None else Inl e))
                in case cn_disconnect c of
                     Some e \<Rightarrow> (if close_caught e then result else Inl e)
                   | None \<Rightarrow> result)))"

definition dispatch_sources :: "string list" where
  "dispatch_sources = [''virustotal'', ''abuseipdb'']"

text \<open>The instances asked: without an alert, or with an alert of no partner, those of every partner.\<close>

definition dispatch_partner :: "observable \<Rightarrow> db \<Rightarrow> string option" where
  "dispatch_partner ob d = (case ob_alert_id ob of
      None \<Rightarrow> None
    | Some i \<Rightarrow> (case find (\<lambda>a. al_id a = i) (db_alerts d) of None \<Rightarrow> None | Some a \<Rightarrow> al_partner a))"

definition dispatch_instances :: "observable \<Rightarrow> db \<Rightarrow> integration_instance list" where
  "dispatch_instances ob d =
     filter (\<lambda>i. ii_enabled i \<and> ii_integration_type i \<in> set dispatch_sources \<and>
       (dispatch_partner ob d = None \<or> serves_partner (dispatch_partner ob d) i)) (db_integrations d)"

fun dispatch_loop ::
  "(integration_instance \<Rightarrow> connector option) \<Rightarrow> observable \<Rightarrow> integration_instance list \<Rightarrow> exn + jdict list" where
  "dispatch_loop conn ob [] = Inr []"
| "dispatch_loop conn ob (i # is) =
     (case conn i of
        None \<Rightarrow> dispatch_loop conn ob is
      | Some c \<Rightarrow>
          ebind (lookup_with_instance c i ob) (\<lambda>entry.
          ebind (dispatch_loop conn ob is) (\<lambda>rest.
            Inr (case entry of None \<Rightarrow> rest | Some e \<Rightarrow> e # rest))))"

definition dispatch_enrichments ::
  "(integration_instance \<Rightarrow> connector option) \<Rightarrow> observable \<Rightarrow> db \<Rightarrow> exn + jdict list" where
  "dispatch_enrichments conn ob d = dispatch_loop conn ob (dispatch_instances ob d)"

section \<open>The task\<close>

datatype enrich_result = EnrichMissing | EnrichFailed | EnrichComplete nat

fun run_caught :: "exn \<Rightarrow> bool" where
  "run_caught (SQLAlchemyError _) = True"
| "run_caught (IntegrityError _) = True"
| "run_caught MultipleResultsFound = True"
| "run_caught e = io_caught e"

definition put_observable :: "observable \<Rightarrow> db \<Rightarrow> db" where
  "put_observable ob d =
     d\<lparr>db_observables := update_where (\<lambda>r. ob_id r = ob_id ob) (\<lambda>_. ob) (db_observables d)\<rparr>"

definition cleared ::
  "'r nx_store option \<Rightarrow> string \<Rightarrow> enrich_result \<Rightarrow> db \<Rightarrow> 'r enrich_state \<Rightarrow> (exn + enrich_result) \<times> db \<times> 'r enrich_state" where
  "cleared client key res d st =
     (case clear_inflight client key st of
        (Some e, st') \<Rightarrow> (Inl e, d, st') | (None, st') \<Rightarrow> (Inr res, d, st'))"

definition run_enrichment ::
  "(integration_instance \<Rightarrow> connector option) \<Rightarrow> 'r nx_store option \<Rightarrow> enrich_task \<Rightarrow> db \<Rightarrow> 'r enrich_state \<Rightarrow>
   (exn + enrich_result) \<times> db \<times> 'r enrich_state" where
  "run_enrichment conn client t d st =
     (let key = inflight_key (et_type t) (et_value t) (et_partner t)
      in case find (\<lambda>ob. ob_id ob = et_id t) (db_observables d) of
           None \<Rightarrow> cleared client key EnrichMissing d st
         | Some ob \<Rightarrow>
             (case dispatch_enrichments conn ob d of
                Inl e \<Rightarrow>
                  (if run_caught e
                   then cleared client key EnrichFailed (put_observable (ob\<lparr>ob_enrichment_status := ''failed''\<rparr>) d) st
                   else (Inl e, d, st))
              | Inr entries \<Rightarrow>
                  cleared client key (EnrichComplete (length entries))
                    (put_observable (ob\<lparr>ob_enrichments := ob_enrichments ob @ entries,
                       ob_enrichment_status := ''complete''\<rparr>) d) st))"

definition enrich_observable_task ::
  "(integration_instance \<Rightarrow> connector option) \<Rightarrow> 'r nx_store option \<Rightarrow> enrich_task \<Rightarrow> db \<Rightarrow> 'r enrich_state \<Rightarrow>
   (exn + enrich_result) \<times> db \<times> 'r enrich_state" where
  "enrich_observable_task conn client t d st =
     (case run_enrichment conn client t d st of
        (Inr r, d', st') \<Rightarrow> (Inr r, d', st')
      | (Inl e, d', st') \<Rightarrow>
          (if is_Exception e
           then cleared client (inflight_key (et_type t) (et_value t) (et_partner t)) EnrichFailed d' st'
           else (Inl e, d', st')))"

section \<open>Observables of an alert\<close>

definition ioc_types :: "(string \<times> string) list" where
  "ioc_types = [(''ips'', ''ip''), (''domains'', ''domain''), (''hashes'', ''hash''), (''urls'', ''url'')]"

text \<open>The pairs the generator yields, and what it raises at its end if anything.\<close>

fun pairs_of :: "string \<Rightarrow> json list \<Rightarrow> (string \<times> string) list \<Rightarrow> (string \<times> string) list" where
  "pairs_of ty [] seen = []"
| "pairs_of ty (v # vs) seen =
     (case v of
        JStr s \<Rightarrow> (if s = [] \<or> (ty, s) \<in> set seen then pairs_of ty vs seen
                   else (ty, s) # pairs_of ty vs ((ty, s) # seen))
      | _ \<Rightarrow> pairs_of ty vs seen)"

fun candidates :: "jdict \<Rightarrow> (string \<times> string) list \<Rightarrow> (string \<times> string) list \<times> exn option" where
  "candidates [] seen = ([], None)"
| "candidates ((key, values) # rest) seen =
     (case map_of ioc_types key of
        None \<Rightarrow> candidates rest seen
      | Some ty \<Rightarrow>
          (if \<not> truthy values then candidates rest seen
           else case py_iter values of
                  Inl e \<Rightarrow> ([], Some e)
                | Inr items \<Rightarrow>
                    (let ps = pairs_of ty items seen; (more, err) = candidates rest (ps @ seen)
                     in (ps @ more, err))))"

definition iter_observable_candidates :: "jdict option \<Rightarrow> (string \<times> string) list \<times> exn option" where
  "iter_observable_candidates iocs = (case iocs of None \<Rightarrow> ([], None) | Some d \<Rightarrow> candidates d [])"

text \<open>An open session: its database and whether a failed flush has deactivated its transaction, after
  which every use but a rollback raises.\<close>

record session =
  se_db :: db
  se_broken :: bool

fun materialise_loop ::
  "time \<Rightarrow> alert \<Rightarrow> (string \<times> string) list \<Rightarrow> observable list \<Rightarrow> session \<Rightarrow> (exn + observable list) \<times> session" where
  "materialise_loop now a [] rows se = (Inr rows, se)"
| "materialise_loop now a ((ty, v) # ps) rows se =
     (case fetch (\<lambda>ob. ob_type ob = ty \<and> ob_value ob = v) (db_observables (se_db se)) of
        Inl e \<Rightarrow> (Inl e, se)
      | Inr (Some ob) \<Rightarrow>
          materialise_loop now a ps rows
            (if ob_alert_id ob = None
             then se\<lparr>se_db := put_observable (ob\<lparr>ob_alert_id := Some (al_id a)\<rparr>) (se_db se)\<rparr> else se)
      | Inr None \<Rightarrow>
          (let ob = new_observable (se_db se) now ty v (Some (''alert:'' @ al_source a)) (Some (al_id a)) None
           in case add_observable ob (se_db se) of
                Inl e \<Rightarrow> (Inl e, se\<lparr>se_broken := True\<rparr>)
              | Inr d \<Rightarrow> materialise_loop now a ps (rows @ [ob]) (se\<lparr>se_db := d\<rparr>)))"

definition materialise_observables_for_alert ::
  "time \<Rightarrow> alert \<Rightarrow> session \<Rightarrow> (exn + observable list) \<times> session" where
  "materialise_observables_for_alert now a se =
     (let (ps, err) = iter_observable_candidates (al_iocs a);
          (res, se') = materialise_loop now a ps [] se
      in case res of Inl e \<Rightarrow> (Inl e, se')
         | Inr rows \<Rightarrow> (case err of None \<Rightarrow> Inr rows | Some e \<Rightarrow> Inl e, se'))"

section \<open>The contract of a tracker\<close>

datatype claim_op = Claim time string | Release string

fun op_before :: "time \<Rightarrow> claim_op \<Rightarrow> bool" where
  "op_before t (Claim now key) = (now < t)"
| "op_before t (Release key) = True"

fun in_order :: "time \<Rightarrow> claim_op list \<Rightarrow> bool" where
  "in_order t [] = True"
| "in_order t (Claim now key # ops) = (t \<le> now \<and> in_order now ops)"
| "in_order t (Release key # ops) = in_order t ops"

text \<open>A run of operations; the claims granted, in order.\<close>

fun run_claims ::
  "(time \<Rightarrow> string \<Rightarrow> 's \<Rightarrow> bool \<times> 's) \<Rightarrow> (string \<Rightarrow> 's \<Rightarrow> 's) \<Rightarrow> claim_op list \<Rightarrow> 's \<Rightarrow> (time \<times> string) list \<times> 's" where
  "run_claims claim release [] s = ([], s)"
| "run_claims claim release (Claim now key # ops) s =
     (let (granted, s1) = claim now key s; (rest, s2) = run_claims claim release ops s1
      in ((if granted then [(now, key)] else []) @ rest, s2))"
| "run_claims claim release (Release key # ops) s = run_claims claim release ops (release key s)"

locale claim_store =
  fixes claim :: "time \<Rightarrow> string \<Rightarrow> 's \<Rightarrow> bool \<times> 's"
    and release :: "string \<Rightarrow> 's \<Rightarrow> 's"
    and held :: "time \<Rightarrow> string \<Rightarrow> 's \<Rightarrow> bool"
    and ttl :: time
  assumes claim_result: "fst (claim t k s) \<longleftrightarrow> \<not> held t k s"
    and claim_held: "t \<le> t' \<Longrightarrow> held t' k' (snd (claim t k s)) \<longleftrightarrow>
      (if k' = k \<and> \<not> held t k s then t' < t + ttl else held t' k' s)"
    and release_held: "held t k' (release k s) \<longleftrightarrow> k' \<noteq> k \<and> held t k' s"
begin

lemma held_grants_none:
  assumes "\<forall>t. now \<le> t \<and> t < until \<longrightarrow> held t k s" and "Release k \<notin> set ops"
    and "in_order now ops" and "\<forall>p \<in> set ops. op_before until p"
  shows "k \<notin> snd ` set (fst (run_claims claim release ops s))"
  using assms
proof (induction ops arbitrary: now s)
  case (Cons p ops)
  show ?case
  proof (cases p)
    case (Claim t key)
    let ?s = "snd (claim t key s)"
    from Cons.prems Claim have t: "now \<le> t" "t < until" "in_order t ops" by auto
    have h: "held t' k s" if "t \<le> t'" "t' < until" for t' using Cons.prems(1) t(1) that by simp
    have "\<forall>t'. t \<le> t' \<and> t' < until \<longrightarrow> held t' k ?s"
      using h t(2) claim_held[of t _ k key s] by auto
    with Cons.IH[of t ?s] Cons.prems t(3) have "k \<notin> snd ` set (fst (run_claims claim release ops ?s))" by simp
    moreover have "fst (claim t key s) \<Longrightarrow> key \<noteq> k" using h[of t] t(2) claim_result by blast
    ultimately show ?thesis using Claim by (auto split: prod.splits if_splits)
  next
    case (Release key)
    with Cons.prems have "\<forall>t. now \<le> t \<and> t < until \<longrightarrow> held t k (release key s)" by (auto simp: release_held)
    with Cons Release show ?thesis by auto
  qed
qed simp

lemma claim_exclusive:
  assumes "fst (claim t k s)" and "Release k \<notin> set ops" and "in_order t ops" and "\<forall>p \<in> set ops. op_before (t + ttl) p"
  shows "k \<notin> snd ` set (fst (run_claims claim release ops (snd (claim t k s))))"
proof (rule held_grants_none[OF _ assms(2-4)])
  show "\<forall>t'. t \<le> t' \<and> t' < t + ttl \<longrightarrow> held t' k (snd (claim t k s))"
    using assms(1) claim_result claim_held[of t _ k k s] by auto
qed

lemma release_reclaims: "fst (claim t k (release k s))"
  by (simp add: claim_result release_held)

end

text \<open>The in-memory tracker.\<close>

definition memory_held :: "time \<Rightarrow> string \<Rightarrow> inflight \<Rightarrow> bool" where
  "memory_held t key m \<longleftrightarrow> (\<exists>expires. (key, expires) \<in> set m \<and> t < expires)"

lemma live_keys: "key \<in> fst ` set (filter (\<lambda>(k, expires). \<not> expires \<le> now) m) \<longleftrightarrow> memory_held now key m"
  unfolding memory_held_def by (auto simp: not_le intro!: rev_image_eqI)

lemma memory_claim_eq: "memory_claim now key m =
    (let live = filter (\<lambda>(k, expires). \<not> expires \<le> now) m
     in if memory_held now key m then (False, live) else (True, live @ [(key, now + inflight_ttl)]))"
  unfolding memory_claim_def Let_def live_keys ..

interpretation tracker: claim_store memory_claim memory_release memory_held inflight_ttl
proof
  show "fst (memory_claim t k s) \<longleftrightarrow> \<not> memory_held t k s" for t k s
    by (simp add: memory_claim_eq Let_def)
  show "memory_held t' k' (snd (memory_claim t k s)) \<longleftrightarrow>
      (if k' = k \<and> \<not> memory_held t k s then t' < t + inflight_ttl else memory_held t' k' s)" if "t \<le> t'" for t t' k k' s
  proof -
    have live: "memory_held t' k' (filter (\<lambda>(k, expires). \<not> expires \<le> t) s) = memory_held t' k' s" for k'
      using that by (auto simp: memory_held_def)
    have old: "memory_held t' k s \<Longrightarrow> memory_held t k s" using that by (auto simp: memory_held_def)
    show ?thesis
    proof (cases "memory_held t k s")
      case True
      with live show ?thesis by (simp add: memory_claim_eq Let_def)
    next
      case False
      have "memory_held t' k' (filter (\<lambda>(k, expires). \<not> expires \<le> t) s @ [(k, t + inflight_ttl)]) \<longleftrightarrow>
          memory_held t' k' s \<or> (k' = k \<and> t' < t + inflight_ttl)"
        using live[of k'] by (auto simp: memory_held_def)
      with False old show ?thesis by (auto simp: memory_claim_eq Let_def)
    qed
  qed
  show "memory_held t k' (memory_release k s) \<longleftrightarrow> k' \<noteq> k \<and> memory_held t k' s" for t k k' s
    by (auto simp: memory_held_def memory_release_def AList.delete_eq)
qed

section \<open>Properties of the queue\<close>

definition task_key :: "enrich_task \<Rightarrow> string" where
  "task_key t = inflight_key (et_type t) (et_value t) (et_partner t)"

record 'r attempt =
  at_env :: "'r enrich_env"
  at_observable :: observable
  at_partner :: "string option"
  at_db :: db

fun run_attempts :: "'r attempt list \<Rightarrow> 'r enrich_state \<Rightarrow> 'r enrich_state" where
  "run_attempts [] st = st"
| "run_attempts (a # as) st =
     run_attempts as (snd (enqueue_enrichment (at_env a) (at_observable a) (at_partner a) (at_db a) st))"

definition queued_for :: "string \<Rightarrow> 'r enrich_state \<Rightarrow> enrich_task list" where
  "queued_for key st = filter (\<lambda>t. task_key t = key) (es_queue st)"

lemma enqueue_memory:
  assumes "en_client en = None" and "should_enrich en ob partner d = Inr True"
  shows "enqueue_enrichment en ob partner d st =
    (let key = inflight_key (ob_type ob) (ob_value ob) partner;
         claim = memory_claim (en_now en) key (es_memory st);
         st' = st\<lparr>es_memory := snd claim\<rparr>
     in if \<not> fst claim then (Inr False, st')
        else case en_delay en (task_for ob partner) of
               None \<Rightarrow> (Inr True, st'\<lparr>es_queue := es_queue st @ [task_for ob partner]\<rparr>)
             | Some e \<Rightarrow> (if delay_caught e then (Inr False, forget key st') else (Inl e, st')))"
  using assms
  by (auto simp: enqueue_enrichment_def mark_inflight_def claim_memory_def clear_inflight_def Let_def
      split: prod.splits option.splits bool.splits)

text \<open>With the in-memory tracker, an attempt made while the key is held queues nothing for the key and
  leaves it held.\<close>

lemma enqueue_held:
  assumes "en_client en = None" and "\<forall>t. en_now en \<le> t \<and> t < until \<longrightarrow> memory_held t key (es_memory st)"
    and "en_now en < until"
  shows "queued_for key (snd (enqueue_enrichment en ob partner d st)) = queued_for key st \<and>
    (\<forall>t. en_now en \<le> t \<and> t < until \<longrightarrow>
       memory_held t key (es_memory (snd (enqueue_enrichment en ob partner d st))))"
proof (cases "should_enrich en ob partner d")
  case (Inl e)
  with assms show ?thesis by (simp add: enqueue_enrichment_def)
next
  case (Inr b)
  let ?k = "inflight_key (ob_type ob) (ob_value ob) partner" and ?m = "es_memory st"
  show ?thesis
  proof (cases b)
    case False
    with Inr assms show ?thesis by (simp add: enqueue_enrichment_def queued_for_def)
  next
    case True
    have other: "memory_held t key (snd (memory_claim (en_now en) ?k ?m))" if "en_now en \<le> t" "t < until" for t
      using assms(2,3) that tracker.claim_held[OF that(1), of key ?k ?m] by auto
    have busy: "?k = key \<Longrightarrow> \<not> fst (memory_claim (en_now en) ?k ?m)"
      using assms(2,3) tracker.claim_result by blast
    have k: "task_key (task_for ob partner) = ?k" by (simp add: task_key_def task_for_def)
    show ?thesis
      using Inr True assms(1) other busy k
      by (cases "fst (memory_claim (en_now en) ?k ?m)")
        (auto simp: enqueue_memory queued_for_def forget_def tracker.release_held Let_def split: option.split)
  qed
qed

lemma attempts_held:
  assumes "\<forall>a \<in> set as. en_client (at_env a) = None \<and> en_now (at_env a) < until"
    and "sorted (now # map (\<lambda>a. en_now (at_env a)) as)"
    and "\<forall>t. now \<le> t \<and> t < until \<longrightarrow> memory_held t key (es_memory st)"
  shows "queued_for key (run_attempts as st) = queued_for key st"
  using assms
proof (induction as arbitrary: now st)
  case (Cons a as)
  let ?st = "snd (enqueue_enrichment (at_env a) (at_observable a) (at_partner a) (at_db a) st)"
  from Cons.prems have "\<forall>t. en_now (at_env a) \<le> t \<and> t < until \<longrightarrow> memory_held t key (es_memory st)" by auto
  with Cons.prems enqueue_held[of "at_env a" until key st] have step: "queued_for key ?st = queued_for key st"
    "\<forall>t. en_now (at_env a) \<le> t \<and> t < until \<longrightarrow> memory_held t key (es_memory ?st)" by simp_all
  with Cons.IH[of "en_now (at_env a)" ?st] Cons.prems show ?case by simp
qed simp


definition sample_observable :: "uuid \<Rightarrow> observable" where
  "sample_observable i = \<lparr>ob_id = i, ob_created_at = 0, ob_type = ''ip'', ob_value = ''203.0.113.9'',
     ob_source = None, ob_enrichment_status = ''pending'', ob_enrichments = [], ob_tags = None,
     ob_alert_id = Some 1, ob_incident_id = None\<rparr>"

definition quiet_env :: "time \<Rightarrow> unit enrich_env" where
  "quiet_env now = \<lparr>en_now = now, en_client = None, en_cache = None, en_lookup = (\<lambda>s t v. Inr JNull),
     en_delay = (\<lambda>t. None)\<rparr>"

definition idle :: "unit enrich_state" where
  "idle = \<lparr>es_memory = [], es_redis = (), es_metrics = \<lparr>mx_http = [], mx_alerts = [], mx_runs = [],
     mx_durations = [], mx_skips = []\<rparr>, es_queue = []\<rparr>"

definition second_attempt :: "time \<Rightarrow> unit attempt" where
  "second_attempt t = \<lparr>at_env = quiet_env t, at_observable = sample_observable 6, at_partner = None, at_db = empty_db\<rparr>"


section \<open>Properties of the decision and the task\<close>

lemma any_stale_eq_False: "any_stale look ss = Inr False \<longleftrightarrow> (\<forall>s \<in> set ss. \<exists>j. look s = Inr j \<and> j \<noteq> JNull)"
  by (induction ss) (auto split: sum.splits)

lemma capable_sources_set:
  "s \<in> set (capable_sources ty seen ss) \<longleftrightarrow> s \<in> set ss \<and> s \<notin> set seen \<and>
     ty \<in> set (case map_of source_type_capabilities s of None \<Rightarrow> [] | Some tys \<Rightarrow> tys)"
  by (induction ty seen ss rule: capable_sources.induct) auto

text \<open>An integration that the freshness check takes into account for a type and partner.\<close>

definition covers :: "string \<Rightarrow> string option \<Rightarrow> integration_instance \<Rightarrow> bool" where
  "covers ty partner i \<longleftrightarrow> ii_enabled i \<and> serves_partner partner i \<and>
     ty \<in> set (case map_of source_type_capabilities (ii_integration_type i) of None \<Rightarrow> [] | Some tys \<Rightarrow> tys)"

lemma configured_sources_set:
  "set (configured_sources_for ty partner d) = ii_integration_type ` {i \<in> set (db_integrations d). covers ty partner i}"
proof -
  have known: "Some u = map_of source_type_capabilities s \<Longrightarrow> s \<in> fst ` set source_type_capabilities" for s u
    by (metis map_of_eq_None_iff option.distinct(1))
  show ?thesis
    unfolding configured_sources_for_def
    by (rule set_eqI) (auto simp: capable_sources_set covers_def known intro!: imageI)
qed

text \<open>Enrichment is skipped only on a fully fresh cache: with the cache of \<open>integrations/cache.py\<close> on its
  in-memory backend, \<open>should_enrich\<close> answers no exactly when at least one enabled integration of the
  partner covers the type and every such integration has a fresh entry for the observable.\<close>

theorem should_enrich_fresh:
  assumes "en_cache en = None"
    and "\<And>s t v. en_lookup en s t v = Inr (fst (cache_get env memory_backend (en_now en) s t v c))"
  shows "should_enrich en ob partner d = Inr False \<longleftrightarrow>
    (\<exists>i \<in> set (db_integrations d). covers (ob_type ob) partner i) \<and>
    (\<forall>i \<in> set (db_integrations d). covers (ob_type ob) partner i \<longrightarrow>
       memory.fresh env (ca_store c) (en_now en)
         (build_key env (ii_integration_type i) (ob_type ob) (ob_value ob)))"
proof -
  let ?src = "configured_sources_for (ob_type ob) partner d"
  have "?src = [] \<longleftrightarrow> \<not> (\<exists>i \<in> set (db_integrations d). covers (ob_type ob) partner i)"
    using configured_sources_set[of "ob_type ob" partner d] by (metis (mono_tags, lifting) empty_Collect_eq image_is_empty set_empty)
  moreover have "should_enrich en ob partner d = Inr False \<longleftrightarrow> ?src \<noteq> [] \<and>
      (\<forall>s \<in> set ?src. memory.fresh env (ca_store c) (en_now en) (build_key env s (ob_type ob) (ob_value ob)))"
    using assms by (simp add: should_enrich_def Let_def any_stale_eq_False memory.fresh_iff)
  ultimately show ?thesis by (auto simp: configured_sources_set)
qed

text \<open>What a lookup round adds is attributable: every entry names an enabled VirusTotal or AbuseIPDB
  integration with a connector, and one the alert's partner is served by whenever the observable's
  alert has a partner; there is at most one entry per instance asked.\<close>

theorem enrichment_entries_scoped:
  assumes "dispatch_enrichments conn ob d = Inr entries"
  shows "length entries \<le> length (dispatch_instances ob d) \<and>
    (\<forall>e \<in> set entries. \<exists>i \<in> set (db_integrations d). \<exists>v. e = enrichment_entry (ii_integration_type i) v \<and> v \<noteq> JNull \<and>
       ii_enabled i \<and> ii_integration_type i \<in> {''virustotal'', ''abuseipdb''} \<and> conn i \<noteq> None \<and>
       (\<forall>p. dispatch_partner ob d = Some p \<longrightarrow> ii_partner i = None \<or> ii_partner i = Some p))"
proof -
  have one: "lookup_with_instance c i ob = Inr (Some e) \<Longrightarrow>
      \<exists>v. e = enrichment_entry (ii_integration_type i) v \<and> v \<noteq> JNull" for c i e
    by (auto simp: lookup_with_instance_def Let_def split: option.splits sum.splits if_splits)
  have loop: "dispatch_loop conn ob is = Inr es \<Longrightarrow> length es \<le> length is \<and>
      (\<forall>e \<in> set es. \<exists>i \<in> set is. conn i \<noteq> None \<and> (\<exists>v. e = enrichment_entry (ii_integration_type i) v \<and> v \<noteq> JNull))" for "is" es
  proof (induction "is" arbitrary: es)
    case (Cons i "is")
    show ?case
    proof (cases "conn i")
      case None
      with Cons show ?thesis by fastforce
    next
      case (Some c)
      with Cons.prems obtain entry rest where
        e: "lookup_with_instance c i ob = Inr entry" "dispatch_loop conn ob is = Inr rest"
        "es = (case entry of None \<Rightarrow> rest | Some e \<Rightarrow> e # rest)" by (auto simp: res_simps)
      show ?thesis
      proof (cases entry)
        case None
        with e Cons.IH[OF e(2)] show ?thesis by auto
      next
        case (Some x)
        with one[of c i x] e Cons.IH[OF e(2)] \<open>conn i = Some c\<close> show ?thesis by auto
      qed
    qed
  qed simp
  have inst: "i \<in> set (db_integrations d) \<and> ii_enabled i \<and> ii_integration_type i \<in> {''virustotal'', ''abuseipdb''} \<and>
      (\<forall>p. dispatch_partner ob d = Some p \<longrightarrow> ii_partner i = None \<or> ii_partner i = Some p)"
    if "i \<in> set (dispatch_instances ob d)" for i
    using that by (auto simp: dispatch_instances_def dispatch_sources_def serves_partner_def)
  from loop[OF assms[unfolded dispatch_enrichments_def]] show ?thesis
    using inst by blast
qed

lemma release_frees: "\<not> memory_held t k (es_memory (forget k st))"
  by (simp add: forget_def tracker.release_held)

text \<open>Without Redis the task always returns, releases its in-flight key and touches no other state:
  a missing observable changes nothing, a finished round appends its entries and marks the row
  complete, and a failed round marks it failed, but only for the exceptions \<open>_run_enrichment\<close>
  names: for any other exception the answer is failed while the row stays as it was.\<close>

theorem enrich_task_spec:
  assumes "\<And>ob e. dispatch_enrichments conn ob d = Inl e \<Longrightarrow> is_Exception e"
  shows "\<exists>r d'. enrich_observable_task conn None t d st = (Inr r, d', forget (task_key t) st) \<and>
    \<not> memory_held now (task_key t) (es_memory (forget (task_key t) st)) \<and>
    (case find (\<lambda>ob. ob_id ob = et_id t) (db_observables d) of
       None \<Rightarrow> r = EnrichMissing \<and> d' = d
     | Some ob \<Rightarrow>
         (case dispatch_enrichments conn ob d of
            Inr entries \<Rightarrow> r = EnrichComplete (length entries) \<and>
              d' = put_observable (ob\<lparr>ob_enrichments := ob_enrichments ob @ entries,
                     ob_enrichment_status := ''complete''\<rparr>) d
          | Inl e \<Rightarrow> r = EnrichFailed \<and>
              d' = (if run_caught e then put_observable (ob\<lparr>ob_enrichment_status := ''failed''\<rparr>) d else d)))"
proof -
  have "cleared None (task_key t) r d' st = (Inr r, d', forget (task_key t) st)" for r d'
    by (simp add: cleared_def clear_inflight_def)
  then show ?thesis
    using assms
    by (auto simp: release_frees enrich_observable_task_def run_enrichment_def task_key_def[symmetric] Let_def
        split: option.split sum.split)
qed

text \<open>A VirusTotal integration whose answer lacks a key.\<close>

definition vt_instance :: integration_instance where
  "vt_instance = \<lparr>ii_id = 9, ii_integration_type = ''virustotal'', ii_name = ''vt'', ii_partner = None,
     ii_tenant_id = None, ii_config = [], ii_enabled = True, ii_health_status = None, ii_last_health_check = None\<rparr>"

definition vt_connector :: "(exn + json) \<Rightarrow> connector" where
  "vt_connector answer = \<lparr>cn_init = None, cn_connect = None, cn_methods = [''lookup_ip''],
     cn_call = (\<lambda>m v. answer), cn_disconnect = None\<rparr>"

definition vt_db :: db where
  "vt_db = empty_db\<lparr>db_next_id := 10, db_integrations := [vt_instance], db_observables := [sample_observable 5]\<rparr>"

definition vt_task :: enrich_task where
  "vt_task = task_for (sample_observable 5) None"

theorem enrich_task_spec_witness:
  "enrich_observable_task (\<lambda>i. Some (vt_connector (Inl (KeyError ''data'')))) None vt_task vt_db idle =
     (Inr EnrichFailed, vt_db, forget (task_key vt_task) idle)"
proof -
  let ?conn = "\<lambda>i. Some (vt_connector (Inl (KeyError ''data'')))"
  have loop: "dispatch_loop ?conn ob is = Inl e \<Longrightarrow> is_Exception e" for ob "is" e
  proof (induction "is" arbitrary: e)
    case (Cons i "is")
    then show ?case
      by (auto simp: res_simps vt_connector_def lookup_with_instance_def invoke_lookup_def Let_def split: if_splits)
  qed simp
  have f: "find (\<lambda>ob. ob_id ob = et_id vt_task) (db_observables vt_db) = Some (sample_observable 5)"
    "dispatch_enrichments ?conn (sample_observable 5) vt_db = Inl (KeyError ''data'')"
    "\<not> run_caught (KeyError ''data'')" by code_simp+
  show ?thesis
    using enrich_task_spec[of ?conn vt_db vt_task idle 0] loop f by (simp add: dispatch_enrichments_def)
qed

theorem should_enrich_fresh_witness:
  "should_enrich (quiet_env 0\<lparr>en_lookup := \<lambda>s t v. Inr (fst (cache_get example_env memory_backend 0 s t v
      \<lparr>ca_store = [], ca_metrics = no_metrics\<rparr>))\<rparr>) (sample_observable 5) None vt_db \<noteq> Inr False"
proof -
  let ?en = "quiet_env 0\<lparr>en_lookup := \<lambda>s t v. Inr (fst (cache_get example_env memory_backend 0 s t v
      \<lparr>ca_store = [], ca_metrics = no_metrics\<rparr>))\<rparr>"
  let ?c = "\<lparr>ca_store = [], ca_metrics = no_metrics\<rparr>"
  have e: "en_cache ?en = None"
    "\<And>s t v. en_lookup ?en s t v = Inr (fst (cache_get example_env memory_backend (en_now ?en) s t v ?c))"
    by (simp_all add: quiet_env_def)
  have "covers (ob_type (sample_observable 5)) None vt_instance" "vt_instance \<in> set (db_integrations vt_db)" by code_simp+
  moreover have "\<not> memory.fresh example_env (ca_store ?c) (en_now ?en)
      (build_key example_env (ii_integration_type vt_instance) (ob_type (sample_observable 5)) (ob_value (sample_observable 5)))"
    by (simp add: memory.fresh_def memory_view_def)
  ultimately show ?thesis using should_enrich_fresh[OF e, of "sample_observable 5" None vt_db] by blast
qed

theorem enrichment_entries_scoped_witness:
  "dispatch_enrichments (\<lambda>i. Some (vt_connector (Inr (JStr ''clean'')))) (sample_observable 5) vt_db =
     Inr [enrichment_entry ''virustotal'' (JStr ''clean'')]
   \<and> length [enrichment_entry ''virustotal'' (JStr ''clean'')] \<le> length (dispatch_instances (sample_observable 5) vt_db)"
proof -
  have r: "dispatch_enrichments (\<lambda>i. Some (vt_connector (Inr (JStr ''clean'')))) (sample_observable 5) vt_db =
     Inr [enrichment_entry ''virustotal'' (JStr ''clean'')]" by code_simp
  with enrichment_entries_scoped[OF r] show ?thesis by blast
qed

end
