(* ===== verification/Webhook.thy ===== *)
theory Webhook
  imports Enrichment Executor Normalize
begin

text \<open>
  \<open>opensoar/api/webhooks.py\<close> and \<open>opensoar/ingestion/webhook.py\<close>: authentication of webhook requests,
  deduplication, storage and automatic enrichment of an alert, and the hand-over of the matching
  playbooks to the worker.

  One request is one session. What lies outside the database (in-flight tracker, metrics, task
  queues, correlation variable) keeps its changes when the request fails. The key digest, the HMAC
  and the broker are parameters; JSON columns hold any value.
\<close>

section \<open>Authentication\<close>

record webhook_request =
  wr_key :: "string option"
  wr_signature :: "string option"
  wr_body :: string

record webhook_crypto =
  wc_digest :: "string \<Rightarrow> string"
  wc_hmac :: "string \<Rightarrow> string \<Rightarrow> string"

definition verify_hmac_signature :: "webhook_crypto \<Rightarrow> string \<Rightarrow> string \<Rightarrow> string \<Rightarrow> bool" where
  "verify_hmac_signature C body secret signature =
     (if \<not> startswith signature ''sha256='' then False
      else wc_hmac C secret body = drop 7 signature)"

definition key_required :: exn where
  "key_required = HTTPException 401 ''API key required''"

definition invalid_key :: exn where
  "invalid_key = HTTPException 401 ''Invalid or revoked API key''"

definition key_expired :: exn where
  "key_expired = HTTPException 401 ''API key expired''"

definition invalid_signature :: exn where
  "invalid_signature = HTTPException 401 ''Invalid webhook signature''"

definition touch_key :: "time \<Rightarrow> api_key \<Rightarrow> db \<Rightarrow> db" where
  "touch_key now k d =
     d\<lparr>db_api_keys := update_where (\<lambda>r. ak_id r = ak_id k) (\<lambda>r. r\<lparr>ak_last_used_at := Some now\<rparr>) (db_api_keys d)\<rparr>"

definition validate_webhook_key ::
  "webhook_crypto \<Rightarrow> app_state \<Rightarrow> time \<Rightarrow> string \<Rightarrow> webhook_request \<Rightarrow> db \<Rightarrow> exn + db" where
  "validate_webhook_key C app now required_scope req d = (case wr_key req of
      None \<Rightarrow> (if \<exists>k \<in> set (db_api_keys d). ak_is_active k then Inl key_required else Inr d)
    | Some key \<Rightarrow>
        ebind (fetch_or invalid_key (\<lambda>k. ak_key_hash k = wc_digest C key \<and> ak_is_active k) (db_api_keys d)) (\<lambda>k.
        ebind (guard (pred_option (\<lambda>e. \<not> e < now) (ak_expires_at k)) key_expired) (\<lambda>_.
        ebind (guard (pred_option (\<lambda>s. verify_hmac_signature C (wr_body req) key s) (wr_signature req))
                 invalid_signature) (\<lambda>_.
        case dispatch_api_key_validators app (k\<lparr>ak_last_used_at := Some now\<rparr>) required_scope of
          Some e \<Rightarrow> Inl e
        | None \<Rightarrow> Inr (touch_key now k d)))))"

section \<open>Storing the alert\<close>

definition col_required :: "nat \<Rightarrow> string \<Rightarrow> json \<Rightarrow> exn + string" where
  "col_required n col v =
     ebind (col_str n v) (\<lambda>s. case s of None \<Rightarrow> Inl (IntegrityError col) | Some t \<Rightarrow> Inr t)"

definition as_dict :: "json \<Rightarrow> jdict option" where
  "as_dict v = (case v of JObj d \<Rightarrow> Some d | _ \<Rightarrow> None)"

definition new_alert ::
  "uuid \<Rightarrow> time \<Rightarrow> uuid \<Rightarrow> jdict \<Rightarrow> jdict \<Rightarrow> exn + alert" where
  "new_alert i now cid payload n =
     ebind (col_required 50 ''alerts.source'' (dget n ''source'')) (\<lambda>src.
     ebind (col_str 255 (dget n ''source_id'')) (\<lambda>sid.
     ebind (col_required 500 ''alerts.title'' (dget n ''title'')) (\<lambda>title.
     ebind (col_text (dget n ''description'')) (\<lambda>description.
     ebind (col_required 20 ''alerts.severity'' (dget n ''severity'')) (\<lambda>severity.
     ebind (col_str 45 (dget n ''source_ip'')) (\<lambda>sip.
     ebind (col_str 45 (dget n ''dest_ip'')) (\<lambda>dip.
     ebind (col_str 255 (dget n ''hostname'')) (\<lambda>hostname.
     ebind (col_str 500 (dget n ''rule_name'')) (\<lambda>rule.
     ebind (col_tags (dget n ''tags'')) (\<lambda>tags.
     ebind (col_str 100 (dget n ''partner'')) (\<lambda>partner.
       Inr \<lparr>al_id = i, al_created_at = now, al_source = src, al_source_id = sid, al_title = title,
            al_description = description, al_severity = severity, al_status = ''new'',
            al_raw_payload = payload, al_normalized = n, al_correlation_id = Some cid,
            al_source_ip = sip, al_dest_ip = dip, al_hostname = hostname, al_rule_name = rule,
            al_iocs = as_dict (dget n ''iocs''), al_tags = tags, al_partner = partner,
            al_determination = ''unknown'', al_resolved_at = None, al_resolve_reason = None,
            al_assigned_to = None, al_assigned_username = None, al_duplicate_count = 1,
            al_archived_at = None\<rparr>)))))))))))"

text \<open>The alert with the same source and source identifier, looked for when there is an identifier.\<close>

definition find_duplicate :: "jdict \<Rightarrow> db \<Rightarrow> exn + alert option" where
  "find_duplicate n d =
     (let sid = dget n ''source_id''
      in if \<not> truthy sid then Inr None
         else case sid of
                JStr s \<Rightarrow> fetch (\<lambda>a. JStr (al_source a) = dget n ''source'' \<and> al_source_id a = Some s) (db_alerts d)
              | _ \<Rightarrow> Inl data_error)"

definition seen_again :: "uuid \<Rightarrow> jdict \<Rightarrow> jdict \<Rightarrow> alert \<Rightarrow> alert" where
  "seen_again cid payload n a =
     a\<lparr>al_duplicate_count := al_duplicate_count a + 1, al_raw_payload := payload, al_normalized := n,
       al_correlation_id := Some (case al_correlation_id a of None \<Rightarrow> cid | Some c \<Rightarrow> c)\<rparr>"

section \<open>Ingestion\<close>

record 'r webhook_env = "'r enrich_env" +
  we_crypto :: webhook_crypto
  we_app :: app_state
  we_registry :: registry
  we_ord :: "string list \<Rightarrow> string list"
  we_clock :: time
  we_cid :: uuid
  we_send :: "string list \<Rightarrow> uuid \<Rightarrow> exn option"

record 'r webhook_state =
  ws_db :: db
  ws_cid :: cid_ctx
  ws_enrich :: "'r enrich_state"
  ws_sequences :: "(string list \<times> uuid \<times> string) list"

text \<open>Everything an \<open>Exception\<close> in here stops is skipped; what the session holds by then stays.\<close>

definition auto_enrich ::
  "('r, 'x) webhook_env_scheme \<Rightarrow> alert \<Rightarrow> session \<Rightarrow> 'r enrich_state \<Rightarrow> exn option \<times> session \<times> 'r enrich_state" where
  "auto_enrich we a se st =
     (let (res, se') = materialise_observables_for_alert (we_clock we) a se
      in case res of
           Inl e \<Rightarrow> (if is_Exception e then None else Some e, se', st)
         | Inr rows \<Rightarrow>
             (let (err, st') = schedule_enrichment_for_alert we (al_partner a) (se_db se') rows st
              in (case err of Some e \<Rightarrow> (if is_Exception e then None else Some e) | None \<Rightarrow> None, se', st')))"

definition process_webhook ::
  "('r, 'x) webhook_env_scheme \<Rightarrow> jdict \<Rightarrow> string \<Rightarrow> session \<times> cid_ctx \<times> 'r enrich_state \<Rightarrow>
   (exn + alert) \<times> session \<times> cid_ctx \<times> 'r enrich_state" where
  "process_webhook we payload source w =
     (let (se, cid, st) = w; d = se_db se
      in case ebind (normalize_alert (we_ord we) payload source) (\<lambda>n.
                ebind (find_duplicate n d) (\<lambda>dup. Inr (n, dup))) of
           Inl e \<Rightarrow> (Inl e, w)
         | Inr (n, Some old) \<Rightarrow>
             (let a = seen_again (we_cid we) payload n old
              in (Inr a, se\<lparr>se_db := put_alert a d\<rparr>, snd (set_correlation_id (al_correlation_id a) cid), st))
         | Inr (n, None) \<Rightarrow>
             (let cid' = snd (set_correlation_id (Some (we_cid we)) cid)
              in case new_alert (db_next_id d) (we_clock we) (we_cid we) payload n of
                   Inl e \<Rightarrow> (Inl e, se\<lparr>se_broken := True\<rparr>, cid', st)
                 | Inr a \<Rightarrow>
                     (let d' = d\<lparr>db_next_id := Suc (db_next_id d), db_alerts := db_alerts d @ [a]\<rparr>;
                          (err, se', st') = auto_enrich we a (se\<lparr>se_db := d'\<rparr>) st
                      in (case err of Some e \<Rightarrow> Inl e | None \<Rightarrow> Inr a, se', cid', st'))))"

section \<open>The endpoints\<close>

record webhook_response =
  wp_alert_id :: uuid
  wp_correlation_id :: "uuid option"
  wp_title :: string
  wp_severity :: string
  wp_playbooks :: "string list"

definition pending_rollback :: exn where
  "pending_rollback = SQLAlchemyError ''PendingRollbackError''"

definition response_of :: "alert \<Rightarrow> string list \<Rightarrow> webhook_response" where
  "response_of a names = \<lparr>wp_alert_id = al_id a, wp_correlation_id = al_correlation_id a,
     wp_title = al_title a, wp_severity = al_severity a, wp_playbooks = names\<rparr>"

text \<open>After authentication: ingest, count, match, send the sequence, then commit. \<open>source_of\<close> is the
  source the playbooks are matched for.\<close>

definition ingest ::
  "('r, 'x) webhook_env_scheme \<Rightarrow> string \<Rightarrow> (alert \<Rightarrow> string) \<Rightarrow> jdict \<Rightarrow> 'r webhook_state \<Rightarrow>
   (exn + webhook_response) \<times> 'r webhook_state" where
  "ingest we source source_of payload ws =
     (let (res, se, cid, st) = process_webhook we payload source
            (\<lparr>se_db = ws_db ws, se_broken = False\<rparr>, ws_cid ws, ws_enrich ws);
          ws1 = ws\<lparr>ws_cid := cid, ws_enrich := st\<rparr>
      in case res of
           Inl e \<Rightarrow> (Inl e, ws1)
         | Inr a \<Rightarrow>
             (let ws2 = ws1\<lparr>ws_enrich := st\<lparr>es_metrics := record_alert_ingested source (es_metrics st)\<rparr>\<rparr>;
                  names = map (\<lambda>pb. pm_name (rp_meta pb)) (trigger_match (we_registry we) (source_of a) (al_normalized a));
                  sent = (if names = [] then None else we_send we names (al_id a));
                  ws3 = (if names = [] then ws2
                         else ws2\<lparr>ws_sequences := ws_sequences ws2 @
                           [(names, al_id a, qt_queue (task_delay (we_registry we) [ListArg (map JStr names), OtherArg] []))]\<rparr>)
              in case sent of
                   Some e \<Rightarrow> (Inl e, ws2)
                 | None \<Rightarrow>
                     (if se_broken se then (Inl pending_rollback, ws3)
                      else (Inr (response_of a names), ws3\<lparr>ws_db := se_db se\<rparr>))))"

definition receive ::
  "('r, 'x) webhook_env_scheme \<Rightarrow> string \<Rightarrow> string \<Rightarrow> (alert \<Rightarrow> string) \<Rightarrow> webhook_request \<Rightarrow> jdict \<Rightarrow>
   'r webhook_state \<Rightarrow> (exn + webhook_response) \<times> 'r webhook_state" where
  "receive we scope source source_of req payload ws =
     (case validate_webhook_key (we_crypto we) (we_app we) (we_clock we) scope req (ws_db ws) of
        Inl e \<Rightarrow> (Inl e, ws)
      | Inr d \<Rightarrow> ingest we source source_of payload (ws\<lparr>ws_db := d\<rparr>))"

definition receive_alert ::
  "('r, 'x) webhook_env_scheme \<Rightarrow> webhook_request \<Rightarrow> jdict \<Rightarrow> 'r webhook_state \<Rightarrow>
   (exn + webhook_response) \<times> 'r webhook_state" where
  "receive_alert we = receive we ''webhooks:ingest'' ''webhook'' al_source"

definition receive_elastic_alert ::
  "('r, 'x) webhook_env_scheme \<Rightarrow> webhook_request \<Rightarrow> jdict \<Rightarrow> 'r webhook_state \<Rightarrow>
   (exn + webhook_response) \<times> 'r webhook_state" where
  "receive_elastic_alert we = receive we ''webhooks:ingest:elastic'' ''elastic'' (\<lambda>a. ''elastic'')"

section \<open>What a request does to the tables\<close>

lemma put_observable_frame [simp]:
  "db_alerts (put_observable ob d) = db_alerts d" "db_incidents (put_observable ob d) = db_incidents d"
  "db_incident_alerts (put_observable ob d) = db_incident_alerts d" "db_next_id (put_observable ob d) = db_next_id d"
  "db_runs (put_observable ob d) = db_runs d" "db_activities (put_observable ob d) = db_activities d"
  by (simp_all add: put_observable_def)

lemma add_observable_frame: "add_observable ob d = Inr d' \<Longrightarrow> db_alerts d' = db_alerts d \<and> db_incidents d' = db_incidents d \<and>
    db_incident_alerts d' = db_incident_alerts d \<and> db_runs d' = db_runs d \<and> db_activities d' = db_activities d \<and>
    db_next_id d' = Suc (db_next_id d)"
  by (auto simp: add_observable_def res_simps split: if_splits)

definition same_cases :: "db \<Rightarrow> db \<Rightarrow> bool" where
  "same_cases d d' \<longleftrightarrow> db_alerts d' = db_alerts d \<and> db_incidents d' = db_incidents d \<and>
     db_incident_alerts d' = db_incident_alerts d \<and> db_activities d' = db_activities d \<and> db_next_id d \<le> db_next_id d'"

lemma materialise_loop_frame:
  "materialise_loop now a ps rows se = (res, se') \<Longrightarrow> same_cases (se_db se) (se_db se')"
proof (induction ps arbitrary: rows se)
  case (Cons p ps)
  obtain ty v where p: "p = (ty, v)" by (cases p)
  consider (err) e where "fetch (\<lambda>ob. ob_type ob = ty \<and> ob_value ob = v) (db_observables (se_db se)) = Inl e"
    | (old) ob where "fetch (\<lambda>ob. ob_type ob = ty \<and> ob_value ob = v) (db_observables (se_db se)) = Inr (Some ob)"
    | (new) "fetch (\<lambda>ob. ob_type ob = ty \<and> ob_value ob = v) (db_observables (se_db se)) = Inr None"
    by (metis not_Some_eq sum.exhaust)
  then show ?case
  proof cases
    case err
    with Cons.prems p show ?thesis by (auto simp: same_cases_def)
  next
    case (old ob)
    with Cons p have "same_cases (se_db (if ob_alert_id ob = None
        then se\<lparr>se_db := put_observable (ob\<lparr>ob_alert_id := Some (al_id a)\<rparr>) (se_db se)\<rparr> else se)) (se_db se')"
      by auto
    then show ?thesis by (auto simp: same_cases_def split: if_splits)
  next
    case new
    let ?ob = "new_observable (se_db se) now ty v (Some (''alert:'' @ al_source a)) (Some (al_id a)) None"
    show ?thesis
    proof (cases "add_observable ?ob (se_db se)")
      case (Inl e)
      with Cons.prems p new show ?thesis by (auto simp: same_cases_def Let_def)
    next
      case (Inr d)
      with Cons.prems p new have "materialise_loop now a ps (rows @ [?ob]) (se\<lparr>se_db := d\<rparr>) = (res, se')"
        by (simp add: Let_def)
      from Cons.IH[OF this] add_observable_frame[OF Inr] show ?thesis by (auto simp: same_cases_def)
    qed
  qed
qed (simp add: same_cases_def)

lemma auto_enrich_frame: "auto_enrich we a se st = (err, se', st') \<Longrightarrow> same_cases (se_db se) (se_db se')"
  by (auto simp: auto_enrich_def materialise_observables_for_alert_def Let_def dest: materialise_loop_frame
      split: prod.splits sum.splits)

text \<open>A successful request counts one more sighting of a known alert or appends one new alert.\<close>

definition counted :: "('r, 'x) webhook_env_scheme \<Rightarrow> string \<Rightarrow> jdict \<Rightarrow> alert \<Rightarrow> db \<Rightarrow> db \<Rightarrow> bool" where
  "counted we source payload a d d' \<longleftrightarrow> (\<exists>n old. normalize_alert (we_ord we) payload source = Inr n \<and>
     find_duplicate n d = Inr (Some old) \<and> a = seen_again (we_cid we) payload n old \<and> d' = put_alert a d)"

definition appended :: "('r, 'x) webhook_env_scheme \<Rightarrow> string \<Rightarrow> jdict \<Rightarrow> alert \<Rightarrow> db \<Rightarrow> db \<Rightarrow> bool" where
  "appended we source payload a d d' \<longleftrightarrow> (\<exists>n. normalize_alert (we_ord we) payload source = Inr n \<and>
     find_duplicate n d = Inr None \<and> new_alert (db_next_id d) (we_clock we) (we_cid we) payload n = Inr a \<and>
     db_alerts d' = db_alerts d @ [a] \<and> db_incidents d' = db_incidents d \<and>
     db_incident_alerts d' = db_incident_alerts d \<and> db_activities d' = db_activities d \<and>
     Suc (db_next_id d) \<le> db_next_id d')"

lemma process_webhook_cases:
  assumes "process_webhook we payload source (se, cid, st) = (Inr a, se', cid', st')" and "\<not> se_broken se"
  shows "counted we source payload a (se_db se) (se_db se') \<or> appended we source payload a (se_db se) (se_db se')"
proof (cases "ebind (normalize_alert (we_ord we) payload source) (\<lambda>n.
                ebind (find_duplicate n (se_db se)) (\<lambda>dup. Inr (n, dup)))")
  case (Inl e)
  with assms show ?thesis by (simp add: process_webhook_def)
next
  case (Inr r)
  obtain n dup where r: "r = (n, dup)" by (cases r)
  with Inr have n: "normalize_alert (we_ord we) payload source = Inr n" "find_duplicate n (se_db se) = Inr dup"
    by (auto simp: ebind_eq_Inr)
  show ?thesis
  proof (cases dup)
    case (Some old)
    with assms n show ?thesis by (auto simp: process_webhook_def Let_def counted_def)
  next
    case None
    with assms n obtain err where b: "new_alert (db_next_id (se_db se)) (we_clock we) (we_cid we) payload n = Inr a"
      and e: "auto_enrich we a (se\<lparr>se_db := (se_db se)\<lparr>db_next_id := Suc (db_next_id (se_db se)),
                 db_alerts := db_alerts (se_db se) @ [a]\<rparr>\<rparr>) st = (err, se', st')"
      by (auto simp: process_webhook_def Let_def split: sum.splits prod.splits option.splits)
    from auto_enrich_frame[OF e] n None b show ?thesis by (auto simp: appended_def same_cases_def)
  qed
qed

definition sequence_entry :: "registry \<Rightarrow> string list \<Rightarrow> uuid \<Rightarrow> string list \<times> uuid \<times> string" where
  "sequence_entry reg names i =
     (names, i, qt_queue (task_delay reg [ListArg (map JStr names), OtherArg] []))"

definition sequences_for :: "registry \<Rightarrow> string list \<Rightarrow> uuid \<Rightarrow> (string list \<times> uuid \<times> string) list" where
  "sequences_for reg names i = (if names = [] then [] else [sequence_entry reg names i])"

lemma ingest_tables:
  assumes "ingest we source source_of payload ws = (res, ws')"
  shows "case res of Inl e \<Rightarrow> ws_db ws' = ws_db ws
    | Inr r \<Rightarrow> \<exists>a. (counted we source payload a (ws_db ws) (ws_db ws') \<or> appended we source payload a (ws_db ws) (ws_db ws')) \<and>
        r = response_of a (map (\<lambda>pb. pm_name (rp_meta pb)) (trigger_match (we_registry we) (source_of a) (al_normalized a))) \<and>
        ws_sequences ws' = ws_sequences ws @ sequences_for (we_registry we) (wp_playbooks r) (al_id a)"
proof -
  obtain pres se cid st where p: "process_webhook we payload source
      (\<lparr>se_db = ws_db ws, se_broken = False\<rparr>, ws_cid ws, ws_enrich ws) = (pres, se, cid, st)"
    by (metis prod_cases4)
  show ?thesis
  proof (cases pres)
    case (Inl e)
    with assms p show ?thesis by (auto simp: ingest_def)
  next
    case (Inr a)
    with process_webhook_cases p have "counted we source payload a (ws_db ws) (se_db se) \<or>
        appended we source payload a (ws_db ws) (se_db se)" by fastforce
    with assms p Inr show ?thesis
      by (auto simp: ingest_def Let_def sequences_for_def sequence_entry_def response_of_def split: option.splits if_splits)
  qed
qed

section \<open>Invariants\<close>

text \<open>No two alerts share a source and a non-empty source identifier.\<close>

definition dedup_key :: "alert \<Rightarrow> string \<times> string option" where
  "dedup_key a = (al_source a, al_source_id a)"

definition dedup_ok :: "db \<Rightarrow> bool" where
  "dedup_ok d \<longleftrightarrow> distinct (filter (\<lambda>k. truthy_str (snd k)) (map dedup_key (db_alerts d)))"

lemma col_str_eq: "col_str n v = Inr r \<Longrightarrow> (case r of None \<Rightarrow> v = JNull | Some s \<Rightarrow> v = JStr s)"
  by (auto simp: col_str_def split: json.splits if_splits)

lemma col_required_eq:
  assumes "col_required n col v = Inr s"
  shows "v = JStr s"
proof -
  from assms obtain r where r: "col_str n v = Inr r" and s: "(case r of None \<Rightarrow> Inl (IntegrityError col) | Some t \<Rightarrow> Inr t) = Inr s"
    unfolding col_required_def ebind_eq_Inr by blast
  from s have "r = Some s" by (cases r) simp_all
  with col_str_eq[OF r] show ?thesis by simp
qed

lemma new_alert_fields:
  assumes "new_alert i now cid payload n = Inr a"
  shows "al_id a = i \<and> alert_ok a \<and> al_status a = ''new'' \<and> al_determination a = ''unknown'' \<and> al_duplicate_count a = 1 \<and>
    dget n ''source'' = JStr (al_source a) \<and>
    (case al_source_id a of None \<Rightarrow> dget n ''source_id'' = JNull | Some s \<Rightarrow> dget n ''source_id'' = JStr s)"
proof -
  from assms obtain src sid where src: "col_required 50 ''alerts.source'' (dget n ''source'') = Inr src"
    and sid: "col_str 255 (dget n ''source_id'') = Inr sid"
    and a: "al_id a = i" "al_source a = src" "al_source_id a = sid" "al_status a = ''new''" "al_determination a = ''unknown''"
      "al_duplicate_count a = 1" "al_assigned_to a = None" "al_assigned_username a = None"
    unfolding new_alert_def ebind_eq_Inr by clarsimp
  from a col_required_eq[OF src] col_str_eq[OF sid] show ?thesis by (simp add: alert_ok_def)
qed

lemma find_duplicate_str: "dget n ''source_id'' = JStr s \<Longrightarrow> s \<noteq> [] \<Longrightarrow>
    find_duplicate n d = fetch (\<lambda>a. JStr (al_source a) = dget n ''source'' \<and> al_source_id a = Some s) (db_alerts d)"
  by (simp add: find_duplicate_def)

lemma find_duplicate_eq:
  assumes "find_duplicate n d = Inr (Some old)"
  shows "\<exists>s. dget n ''source_id'' = JStr s \<and> s \<noteq> [] \<and> old \<in> set (db_alerts d) \<and>
      JStr (al_source old) = dget n ''source'' \<and> al_source_id old = Some s"
proof -
  from assms obtain s where s: "dget n ''source_id'' = JStr s" "s \<noteq> []"
    by (cases "dget n ''source_id''") (simp_all add: find_duplicate_def split: if_splits)
  with assms have "filter (\<lambda>a. JStr (al_source a) = dget n ''source'' \<and> al_source_id a = Some s) (db_alerts d) = [old]"
    by (simp add: find_duplicate_str fetch_def scalar_one_or_none_eq_Some)
  from filter_single_mem[OF this] s show ?thesis by blast
qed

lemma find_duplicate_None: "find_duplicate n d = Inr None \<Longrightarrow> dget n ''source_id'' = JStr s \<Longrightarrow> s \<noteq> [] \<Longrightarrow>
    a \<in> set (db_alerts d) \<Longrightarrow> JStr (al_source a) = dget n ''source'' \<Longrightarrow> al_source_id a \<noteq> Some s"
  by (simp add: find_duplicate_str fetch_def scalar_one_or_none_eq_None filter_empty_conv)

lemma seen_again_simps [simp]:
  "al_id (seen_again cid payload n a) = al_id a" "al_source (seen_again cid payload n a) = al_source a"
  "al_source_id (seen_again cid payload n a) = al_source_id a" "al_status (seen_again cid payload n a) = al_status a"
  "al_determination (seen_again cid payload n a) = al_determination a"
  "al_duplicate_count (seen_again cid payload n a) = al_duplicate_count a + 1"
  by (simp_all add: seen_again_def)

lemma seen_again_ok: "alert_ok a \<Longrightarrow> alert_ok (seen_again cid payload n a)"
  by (simp add: seen_again_def alert_ok_def)

lemma key_eq: "distinct (map k rows) \<Longrightarrow> x \<in> set rows \<Longrightarrow> y \<in> set rows \<Longrightarrow> k x = k y \<Longrightarrow> x = y"
  by (simp add: distinct_map inj_on_def)

lemma dedup_keys_put:
  assumes "distinct (map al_id (db_alerts d))" and "old \<in> set (db_alerts d)"
    and "al_id a = al_id old" and "dedup_key a = dedup_key old"
  shows "map dedup_key (db_alerts (put_alert a d)) = map dedup_key (db_alerts d)"
  unfolding put_alert_def using assms key_eq[OF assms(1) _ assms(2)]
  by (auto simp: update_where_def)

lemma counted_ok:
  assumes c: "counted we source payload a d d'" and ok: "alerts_ok d"
  shows "alerts_ok d'" and "dedup_ok d \<Longrightarrow> dedup_ok d'" and "incidents_ok d \<Longrightarrow> incidents_ok d'"
proof -
  from c obtain n old where f: "find_duplicate n d = Inr (Some old)"
    and d': "d' = put_alert (seen_again (we_cid we) payload n old) d" unfolding counted_def by blast
  from find_duplicate_eq[OF f] have old: "old \<in> set (db_alerts d)" by blast
  with ok show "alerts_ok d'" unfolding d' by (intro alerts_ok_put seen_again_ok) (auto simp: alerts_ok_def)
  have "map dedup_key (db_alerts d') = map dedup_key (db_alerts d)"
    unfolding d' using ok old by (intro dedup_keys_put) (auto simp: alerts_ok_def dedup_key_def)
  then show "dedup_ok d \<Longrightarrow> dedup_ok d'" by (simp add: dedup_ok_def)
  show "incidents_ok d \<Longrightarrow> incidents_ok d'" unfolding d' by simp
qed

lemma appended_ok:
  assumes c: "appended we source payload a d d'" and ok: "alerts_ok d"
  shows "alerts_ok d'" and "dedup_ok d \<Longrightarrow> dedup_ok d'" and "incidents_ok d \<Longrightarrow> incidents_ok d'"
proof -
  from c obtain n where f: "find_duplicate n d = Inr None"
    and a: "new_alert (db_next_id d) (we_clock we) (we_cid we) payload n = Inr a"
    and d': "db_alerts d' = db_alerts d @ [a]" "db_incidents d' = db_incidents d"
      "db_incident_alerts d' = db_incident_alerts d" "Suc (db_next_id d) \<le> db_next_id d'"
    by (auto simp: appended_def)
  note fields = new_alert_fields[OF a]
  have less: "al_id r < db_next_id d" if "r \<in> set (db_alerts d)" for r using ok that by (simp add: alerts_ok_def)
  then have "al_id a \<notin> al_id ` set (db_alerts d)" using fields by fastforce
  with ok fields d' show "alerts_ok d'" unfolding alerts_ok_def by (auto dest: less)
  have "dedup_key a \<notin> dedup_key ` set (db_alerts d)" if t: "truthy_str (al_source_id a)"
  proof
    assume "dedup_key a \<in> dedup_key ` set (db_alerts d)"
    then obtain b where b: "b \<in> set (db_alerts d)" "al_source b = al_source a" "al_source_id b = al_source_id a"
      by (auto simp: dedup_key_def)
    from t obtain s where "al_source_id a = Some s" "s \<noteq> []" by (cases "al_source_id a") auto
    with fields b find_duplicate_None[OF f, of s b] show False by simp
  qed
  then show "dedup_ok d \<Longrightarrow> dedup_ok d'" unfolding dedup_ok_def d' by (auto simp: dedup_key_def)
  show "incidents_ok d \<Longrightarrow> incidents_ok d'"
    by (rule incidents_ok_frame) (use d' in auto)
qed

lemma validate_tables: "validate_webhook_key C app now scope req d = Inr d' \<Longrightarrow>
    db_alerts d' = db_alerts d \<and> db_incidents d' = db_incidents d \<and> db_incident_alerts d' = db_incident_alerts d \<and>
    db_activities d' = db_activities d \<and> db_next_id d' = db_next_id d"
  by (auto simp: validate_webhook_key_def touch_key_def res_simps split: option.splits if_splits)

lemma receive_ok:
  assumes r: "receive we scope source source_of req payload ws = (res, ws')" and ok: "alerts_ok (ws_db ws)"
  shows "alerts_ok (ws_db ws') \<and> (dedup_ok (ws_db ws) \<longrightarrow> dedup_ok (ws_db ws')) \<and>
    (incidents_ok (ws_db ws) \<longrightarrow> incidents_ok (ws_db ws'))"
proof (cases "validate_webhook_key (we_crypto we) (we_app we) (we_clock we) scope req (ws_db ws)")
  case (Inl e)
  with r ok show ?thesis by (simp add: receive_def)
next
  case (Inr d)
  note v = validate_tables[OF Inr]
  have base: "alerts_ok d" "dedup_ok (ws_db ws) \<Longrightarrow> dedup_ok d" "incidents_ok (ws_db ws) \<Longrightarrow> incidents_ok d"
    using v alerts_ok_frame[OF ok, of d] incidents_ok_frame[of "ws_db ws" d] by (simp_all add: dedup_ok_def)
  from r Inr have i: "ingest we source source_of payload (ws\<lparr>ws_db := d\<rparr>) = (res, ws')" by (simp add: receive_def)
  show ?thesis
  proof (cases res)
    case (Inl e)
    with ingest_tables[OF i] base show ?thesis by simp
  next
    case (Inr x)
    with ingest_tables[OF i] obtain a where
      "counted we source payload a d (ws_db ws') \<or> appended we source payload a d (ws_db ws')" by auto
    then show ?thesis
    proof
      assume "counted we source payload a d (ws_db ws')"
      from counted_ok[OF this base(1)] base show ?thesis by blast
    next
      assume "appended we source payload a d (ws_db ws')"
      from appended_ok[OF this base(1)] base show ?thesis by blast
    qed
  qed
qed

section \<open>Properties\<close>

text \<open>C2: Only authenticated webhooks are accepted: an accepted request either carried no key while no
  active key exists, or carried a key whose digest belongs to an active, unexpired key, with a
  correct signature if it was signed and no objection from the key validators.\<close>

theorem webhook_authenticated:
  assumes "receive we scope source source_of req payload ws = (Inr r, ws')"
  shows "(wr_key req = None \<and> (\<forall>k \<in> set (db_api_keys (ws_db ws)). \<not> ak_is_active k)) \<or>
    (\<exists>key k. wr_key req = Some key \<and> k \<in> set (db_api_keys (ws_db ws)) \<and> ak_is_active k \<and>
       ak_key_hash k = wc_digest (we_crypto we) key \<and> (\<forall>e. ak_expires_at k = Some e \<longrightarrow> we_clock we \<le> e) \<and>
       (\<forall>s. wr_signature req = Some s \<longrightarrow> s = ''sha256='' @ wc_hmac (we_crypto we) key (wr_body req)) \<and>
       dispatch_api_key_validators (we_app we) (k\<lparr>ak_last_used_at := Some (we_clock we)\<rparr>) scope = None)"
proof -
  from assms obtain d where v: "validate_webhook_key (we_crypto we) (we_app we) (we_clock we) scope req (ws_db ws) = Inr d"
    by (auto simp: receive_def split: sum.splits)
  have sig: "verify_hmac_signature C body key s \<Longrightarrow> s = ''sha256='' @ wc_hmac C key body" for C body key s
    by (auto simp: verify_hmac_signature_def startswith_def prefix_def split: if_splits)
  show ?thesis
  proof (cases "wr_key req")
    case None
    with v show ?thesis by (auto simp: validate_webhook_key_def split: if_splits)
  next
    case (Some key)
    with v obtain k where f: "fetch_or invalid_key (\<lambda>k. ak_key_hash k = wc_digest (we_crypto we) key \<and> ak_is_active k)
          (db_api_keys (ws_db ws)) = Inr k"
      and k: "\<forall>e. ak_expires_at k = Some e \<longrightarrow> \<not> e < we_clock we"
        "\<forall>s. wr_signature req = Some s \<longrightarrow> verify_hmac_signature (we_crypto we) (wr_body req) key s"
        "dispatch_api_key_validators (we_app we) (k\<lparr>ak_last_used_at := Some (we_clock we)\<rparr>) scope = None"
      by (auto simp: validate_webhook_key_def ebind_eq_Inr guard_eq_Inr pred_option_iff split: option.splits)
    from f have "k \<in> set (db_api_keys (ws_db ws)) \<and> ak_key_hash k = wc_digest (we_crypto we) key \<and> ak_is_active k"
      using filter_single_mem by (fastforce simp: fetch_or_eq_Inr)
    with Some k sig show ?thesis by (metis not_less)
  qed
qed


section \<open>Losing an alert\<close>

definition phish_payload :: "string \<Rightarrow> jdict" where
  "phish_payload link = [(''title'', JStr ''phish''), (''url'', JStr link)]"

definition phish_alert_fields :: "string \<Rightarrow> jdict" where
  "phish_alert_fields link =
     [(''source'', JStr ''webhook''), (''source_id'', JNull), (''title'', JStr ''phish''), (''description'', JNull),
      (''severity'', JStr ''medium''), (''status'', JStr ''new''), (''source_ip'', JNull), (''dest_ip'', JNull),
      (''hostname'', JNull), (''rule_name'', JStr ''phish''), (''iocs'', JObj [(''urls'', JArr [JStr link])]),
      (''tags'', JArr []), (''partner'', JNull)]"

lemma contains_simps: "contains ''ip'' ''title'' = False" "contains ''hash'' ''title'' = False" "contains ''domain'' ''title'' = False"
  "contains ''host'' ''title'' = False" "contains ''url'' ''title'' = False" "contains ''ip'' ''url'' = False"
  "contains ''hash'' ''url'' = False" "contains ''domain'' ''url'' = False" "contains ''host'' ''url'' = False" "contains ''url'' ''url''"
  by code_simp+

lemma phish_iocs:
  assumes "ord [''https://'' @ rest] = [''https://'' @ rest]"
  shows "extract_iocs ord (phish_payload (''https://'' @ rest)) = Inr [(''urls'', JArr [JStr (''https://'' @ rest)])]"
proof -
  have l: "lower ''title'' = ''title''" "lower ''url'' = ''url''" by code_simp+
  have s: "startswith (''https://'' @ rest) ''https://''" by (simp add: startswith_def prefix_def)
  have "classify_str ''title'' (''phish'') empty_iocs = Inr empty_iocs"
    by (simp add: classify_str_def l contains_simps Let_def)
  moreover have "classify_str ''url'' (''https://'' @ rest) empty_iocs = Inr (empty_iocs\<lparr>ioc_urls := [''https://'' @ rest]\<rparr>)"
    using s by (simp add: classify_str_def l contains_simps Let_def empty_iocs_def)
  ultimately show ?thesis
    using assms by (simp add: extract_iocs_def phish_payload_def ioc_dict_def empty_iocs_def)
qed

lemma phish_normalized:
  assumes "extract_iocs ord (phish_payload link) = Inr [(''urls'', JArr [JStr link])]"
  shows "normalize_alert ord (phish_payload link) ''webhook'' = Inr (phish_alert_fields link)"
proof -
  have s: "normalize_severity JNull = ''medium''" by code_simp
  have i: "py_in (JStr []) (map JStr shell_names) = False" by (subst py_in_strs) (simp add: shell_names_def)
  have "raw_severity_of (phish_payload link) = JNull" "title_of (phish_payload link) = JStr ''phish''"
    by (simp_all add: raw_severity_of_def title_of_def i phish_payload_def Let_def dget_def)
  then show ?thesis using assms by (simp add: normalize_alert_def s phish_alert_fields_def phish_payload_def Let_def dget_def)
qed

lemma long_observable: "1000 < length v \<Longrightarrow> add_observable (new_observable d now ty v src al ic) d = Inl data_error"
  by (simp add: add_observable_def observable_fits_def new_observable_def res_simps)

lemma phish_process:
  assumes ord: "we_ord we [''https://'' @ rest] = [''https://'' @ rest]"
    and long: "1000 < length (''https://'' @ rest)"
    and new: "\<forall>ob \<in> set (db_observables d). ob_value ob \<noteq> ''https://'' @ rest"
  shows "\<exists>a cid' d'. process_webhook we (phish_payload (''https://'' @ rest)) ''webhook'' (\<lparr>se_db = d, se_broken = False\<rparr>, cid, st) =
      (Inr a, \<lparr>se_db = d', se_broken = True\<rparr>, cid', st) \<and> al_id a = db_next_id d \<and> al_source a = ''webhook'' \<and>
      al_normalized a = phish_alert_fields (''https://'' @ rest)"
proof -
  let ?v = "''https://'' @ rest" let ?n = "phish_alert_fields ?v"
  have n: "normalize_alert (we_ord we) (phish_payload ?v) ''webhook'' = Inr ?n"
    by (rule phish_normalized[OF phish_iocs[where ord = "we_ord we", OF ord]])
  have dup: "find_duplicate ?n d = Inr None"
    by (simp add: find_duplicate_def phish_alert_fields_def Let_def dget_def)
  obtain a where a: "new_alert (db_next_id d) (we_clock we) (we_cid we) (phish_payload ?v) ?n = Inr a"
    and af: "al_id a = db_next_id d" "al_source a = ''webhook''" "al_normalized a = ?n" "al_iocs a = Some [(''urls'', JArr [JStr ?v])]"
    by (simp add: new_alert_def phish_alert_fields_def col_required_def col_str_def col_text_def col_tags_def as_dict_def dget_def res_simps)
  have cand: "iter_observable_candidates (al_iocs a) = ([(''url'', ?v)], None)"
    by (simp add: af iter_observable_candidates_def ioc_types_def Let_def)
  let ?d = "d\<lparr>db_next_id := Suc (db_next_id d), db_alerts := db_alerts d @ [a]\<rparr>"
  have none: "fetch (\<lambda>ob. ob_type ob = ''url'' \<and> ob_value ob = ?v) (db_observables d) = Inr None"
    using new by (simp add: fetch_def scalar_one_or_none_eq_None filter_empty_conv)
  have "materialise_observables_for_alert (we_clock we) a \<lparr>se_db = ?d, se_broken = False\<rparr> =
      (Inl data_error, \<lparr>se_db = ?d, se_broken = True\<rparr>)"
    using none long by (simp add: materialise_observables_for_alert_def cand Let_def long_observable)
  then have "auto_enrich we a \<lparr>se_db = ?d, se_broken = False\<rparr> st = (None, \<lparr>se_db = ?d, se_broken = True\<rparr>, st)"
    by (simp add: auto_enrich_def data_error_def)
  then show ?thesis using af n dup a by (simp add: process_webhook_def Let_def)
qed

text \<open>A failure of the automatic enrichment loses the alert: for a payload whose only indicator is a new
  URL of more than 1000 characters the request fails at its commit, no alert, run or observable is
  stored, and yet the matching playbooks have been queued for the identifier of the lost alert.\<close>

theorem long_ioc_loses_alert:
  assumes "we_ord we [''https://'' @ rest] = [''https://'' @ rest]" and "1000 < length (''https://'' @ rest)"
    and "\<forall>ob \<in> set (db_observables (ws_db ws)). ob_value ob \<noteq> ''https://'' @ rest"
    and "validate_webhook_key (we_crypto we) (we_app we) (we_clock we) ''webhooks:ingest'' req (ws_db ws) = Inr d"
    and "\<And>names i. we_send we names i = None"
  shows "\<exists>ws'. receive_alert we req (phish_payload (''https://'' @ rest)) ws = (Inl pending_rollback, ws') \<and>
    db_alerts (ws_db ws') = db_alerts (ws_db ws) \<and> db_observables (ws_db ws') = db_observables (ws_db ws) \<and>
    ws_sequences ws' = ws_sequences ws @ sequences_for (we_registry we)
      (map (\<lambda>pb. pm_name (rp_meta pb)) (trigger_match (we_registry we) ''webhook'' (phish_alert_fields (''https://'' @ rest))))
      (db_next_id (ws_db ws))"
proof -
  have "db_observables d = db_observables (ws_db ws)" "db_next_id d = db_next_id (ws_db ws)" "db_alerts d = db_alerts (ws_db ws)"
    using assms(4) by (auto simp: validate_webhook_key_def touch_key_def res_simps split: option.splits if_splits)
  note d = this
  have new: "\<forall>ob \<in> set (db_observables d). ob_value ob \<noteq> ''https://'' @ rest" using d assms(3) by simp
  from phish_process[where we = we and d = d and cid = "ws_cid ws" and st = "ws_enrich ws", OF assms(1,2) new]
  show ?thesis using assms(4,5) d
    by (auto simp: receive_alert_def receive_def ingest_def Let_def sequences_for_def sequence_entry_def)
qed
definition toy_crypto :: webhook_crypto where
  "toy_crypto = \<lparr>wc_digest = rev, wc_hmac = (\<lambda>key body. key @ body)\<rparr>"

definition demo_env :: "time \<Rightarrow> unit webhook_env" where
  "demo_env now = \<lparr>en_now = now, en_client = None, en_cache = None, en_lookup = (\<lambda>s t v. Inr JNull),
     en_delay = (\<lambda>t. None), we_crypto = toy_crypto, we_app = no_plugins, we_registry = example_registry,
     we_ord = remdups, we_clock = now, we_cid = 77, we_send = (\<lambda>names i. None)\<rparr>"

definition demo_key :: api_key where
  "demo_key = \<lparr>ak_id = 1, ak_name = ''ci'', ak_key_hash = ''k'', ak_prefix = ''k'', ak_is_active = True,
     ak_last_used_at = None, ak_expires_at = Some 100\<rparr>"

definition demo_state :: "alert list \<Rightarrow> unit webhook_state" where
  "demo_state as = \<lparr>ws_db = empty_db\<lparr>db_next_id := 50, db_api_keys := [demo_key], db_alerts := as\<rparr>, ws_cid = None,
     ws_enrich = idle, ws_sequences = []\<rparr>"

definition demo_request :: webhook_request where
  "demo_request = \<lparr>wr_key = Some ''k'', wr_signature = Some ''sha256=kbody'', wr_body = ''body''\<rparr>"

definition demo_payload :: jdict where
  "demo_payload = [(''id'', JStr ''E1''), (''title'', JStr ''login''), (''severity'', JInt 4)]"

definition login_alert :: alert where
  "login_alert = \<lparr>al_id = 7, al_created_at = 5, al_source = ''webhook'', al_source_id = Some ''E1'', al_title = ''login'',
     al_description = None, al_severity = ''low'', al_status = ''in_progress'', al_raw_payload = [], al_normalized = [],
     al_correlation_id = None, al_source_ip = None, al_dest_ip = None, al_hostname = None, al_rule_name = None,
     al_iocs = None, al_tags = None, al_partner = None, al_determination = ''benign'', al_resolved_at = None,
     al_resolve_reason = None, al_assigned_to = None, al_assigned_username = None, al_duplicate_count = 1,
     al_archived_at = None\<rparr>"

abbreviation demo_run :: "alert list \<Rightarrow> (exn + webhook_response) \<times> unit webhook_state" where
  "demo_run as \<equiv> receive_alert (demo_env 100) demo_request demo_payload (demo_state as)"

abbreviation demo_response :: webhook_response where
  "demo_response \<equiv> \<lparr>wp_alert_id = 7, wp_correlation_id = Some 77, wp_title = ''login'', wp_severity = ''low'',
     wp_playbooks = [''triage'']\<rparr>"

lemma demo_accepted: "demo_run [login_alert] = (Inr demo_response, snd (demo_run [login_alert]))"
  by code_simp

theorem webhook_authenticated_witness:
  "\<exists>k \<in> set (db_api_keys (ws_db (demo_state [login_alert]))). ak_key_hash k = rev ''k'' \<and> ak_is_active k"
proof -
  have "set (db_api_keys (ws_db (demo_state [login_alert]))) = {demo_key}" "ak_is_active demo_key"
    by (simp_all add: demo_state_def demo_key_def)
  with webhook_authenticated[OF demo_accepted[unfolded receive_alert_def]]
  show ?thesis by (simp add: demo_request_def demo_env_def toy_crypto_def)
qed


lemma long_url: "1000 < length (''https://'' @ replicate 1000 CHR ''a'')"
  by simp

theorem long_ioc_loses_alert_witness:
  "\<exists>ws'. receive_alert (demo_env 100) demo_request (phish_payload (''https://'' @ replicate 1000 CHR ''a'')) (demo_state []) =
     (Inl pending_rollback, ws') \<and> db_alerts (ws_db ws') = []"
proof -
  have v: "validate_webhook_key toy_crypto no_plugins 100 ''webhooks:ingest'' demo_request (ws_db (demo_state [])) =
      Inr (touch_key 100 demo_key (ws_db (demo_state [])))" by code_simp
  have e: "we_ord (demo_env 100) [w] = [w]" "we_crypto (demo_env 100) = toy_crypto" "we_app (demo_env 100) = no_plugins"
    "we_clock (demo_env 100) = 100" "we_send (demo_env 100) names i = None" for w names i
    by (simp_all add: demo_env_def)
  have d: "db_observables (ws_db (demo_state [])) = []" "db_alerts (ws_db (demo_state [])) = []"
    by (simp_all add: demo_state_def empty_db_def)
  show ?thesis
    using long_ioc_loses_alert[where we = "demo_env 100" and ws = "demo_state []" and req = demo_request and
        rest = "replicate 1000 CHR ''a''"] v e d long_url by (auto simp del: append.simps)
qed

end
