(* ===== verification/Runtime.thy ===== *)
theory Runtime
  imports Alerts
begin

text \<open>
  \<open>opensoar/runtime.py\<close>: the helpers playbooks call to change the alert they run for. \<open>cur\<close> is the
  alert identifier of the execution context, if there is a context with one. With a session in the
  context the change is flushed into it, without one it is committed: both are the returned database.
\<close>

definition valid_alert_statuses :: "string list" where
  "valid_alert_statuses = [''in_progress'', ''new'', ''resolved'']"

definition sorted_determinations :: "string list" where
  "sorted_determinations = [''benign'', ''malicious'', ''suspicious'', ''unknown'']"

definition get_current_alert_id :: "uuid option \<Rightarrow> string option" where
  "get_current_alert_id cur = map_option uuid_str cur"

definition no_current_alert :: exn where
  "no_current_alert = RuntimeError ''No current alert is bound to this execution context''"

definition current_alert_missing :: exn where
  "current_alert_missing = RuntimeError ''Current alert not found''"

definition with_current_alert ::
  "uuid option \<Rightarrow> (alert \<Rightarrow> db \<Rightarrow> exn + ('r \<times> db)) \<Rightarrow> db \<Rightarrow> exn + ('r \<times> db)" where
  "with_current_alert cur handler d = (case cur of
      None \<Rightarrow> Inl no_current_alert
    | Some i \<Rightarrow>
        ebind (fetch_or current_alert_missing (\<lambda>a. al_id a = i) (db_alerts d)) (\<lambda>a. handler a d))"

definition by_playbook :: "uuid \<Rightarrow> string \<Rightarrow> string \<Rightarrow> jdict \<Rightarrow> activity" where
  "by_playbook alert_id action detail meta =
     blank_activity\<lparr>ac_alert_id := Some alert_id, ac_action := action, ac_detail := Some detail,
       ac_metadata_json := Some meta\<rparr>"

record runtime_update =
  ru_status :: "string option"
  ru_determination :: "string option"
  ru_reason :: "string option"
  ru_partner :: "string option"
  ru_activity_action :: "string option"
  ru_activity_detail :: "string option"
  ru_activity_metadata :: "jdict option"

definition or_old :: "'a option \<Rightarrow> 'a \<Rightarrow> 'a" where
  "or_old v old = (case v of None \<Rightarrow> old | Some x \<Rightarrow> x)"

text \<open>\<open>x or y\<close> for an optional dictionary.\<close>

definition meta_or :: "jdict option \<Rightarrow> jdict \<Rightarrow> jdict" where
  "meta_or m m0 = (case m of None \<Rightarrow> m0 | Some [] \<Rightarrow> m0 | Some kvs \<Rightarrow> kvs)"

definition from_playbook :: jdict where
  "from_playbook = [(''source'', JStr ''playbook'')]"

definition updated_row :: "time \<Rightarrow> runtime_update \<Rightarrow> alert \<Rightarrow> alert" where
  "updated_row now u a =
     (let st = or_old (ru_status u) (al_status a)
      in a\<lparr>al_status := st, al_determination := or_old (ru_determination u) (al_determination a),
           al_resolved_at := (if st = ''resolved'' \<and> al_resolved_at a = None then Some now else al_resolved_at a),
           al_resolve_reason := (case ru_reason u of None \<Rightarrow> al_resolve_reason a | Some r \<Rightarrow> Some r),
           al_partner := (case ru_partner u of None \<Rightarrow> al_partner a | Some p \<Rightarrow> Some p)\<rparr>)"

definition runtime_log :: "runtime_update \<Rightarrow> alert \<Rightarrow> alert \<Rightarrow> activity list" where
  "runtime_log u old new =
     (if al_status new \<noteq> al_status old then
        [by_playbook (al_id old) ''status_change''
          (''Status changed from '' @ al_status old @ '' to '' @ al_status new @
           (if truthy_str (ru_reason u) then em_dash @ the (ru_reason u) else []))
          [(''old'', JStr (al_status old)), (''new'', JStr (al_status new)), (''source'', JStr ''playbook'')]]
      else []) @
     (case ru_determination u of
        None \<Rightarrow> []
      | Some det \<Rightarrow>
          (if al_determination old \<noteq> det then
             [by_playbook (al_id old) ''determination_set''
               (''Determination set to '' @ det @
                (if al_determination old \<noteq> ''unknown'' then '' (was '' @ al_determination old @ '')'' else []))
               [(''old'', JStr (al_determination old)), (''new'', JStr det), (''source'', JStr ''playbook'')]]
           else [])) @
     (if truthy_str (ru_activity_action u) \<and> truthy_str (ru_activity_detail u) then
        [by_playbook (al_id old) (the (ru_activity_action u)) (the (ru_activity_detail u))
          (meta_or (ru_activity_metadata u) from_playbook)]
      else [])"

definition apply_alert_update :: "time \<Rightarrow> runtime_update \<Rightarrow> alert \<Rightarrow> db \<Rightarrow> exn + (alert \<times> db)" where
  "apply_alert_update now u a d =
     (let a' = updated_row now u a
      in ebind (save_alert a' (add_activities now (runtime_log u a a') d)) (\<lambda>d'. Inr (a', d')))"

definition nothing_to_update :: exn where
  "nothing_to_update = ValueError ''At least one alert field must be updated''"

definition bad_status :: exn where
  "bad_status = ValueError (''status must be one of: '' @ join '', '' valid_alert_statuses)"

definition bad_determination :: exn where
  "bad_determination = ValueError (''determination must be one of: '' @ join '', '' sorted_determinations)"

definition needs_determination :: exn where
  "needs_determination = ValueError (''resolving an alert requires a determination other than 'unknown'' @ [char_of (39 :: nat)])"

definition update_current_alert ::
  "time \<Rightarrow> uuid option \<Rightarrow> runtime_update \<Rightarrow> db \<Rightarrow> exn + (alert \<times> db)" where
  "update_current_alert now cur u d =
     ebind (guard (\<not> (ru_status u = None \<and> ru_determination u = None \<and> ru_reason u = None \<and> ru_partner u = None))
              nothing_to_update) (\<lambda>_.
     ebind (guard (pred_option (\<lambda>s. s \<in> set valid_alert_statuses) (ru_status u)) bad_status) (\<lambda>_.
     ebind (guard (pred_option (\<lambda>s. s \<in> set valid_determinations) (ru_determination u)) bad_determination) (\<lambda>_.
     let det = (if ru_status u = Some ''resolved'' \<and> ru_determination u = None
                then Some ''unknown'' else ru_determination u)
     in ebind (guard (\<not> (ru_status u = Some ''resolved'' \<and> det = Some ''unknown'')) needs_determination) (\<lambda>_.
        with_current_alert cur (\<lambda>a. apply_alert_update now (u\<lparr>ru_determination := det\<rparr>) a) d))))"

definition resolve_current_alert ::
  "time \<Rightarrow> uuid option \<Rightarrow> string \<Rightarrow> runtime_update \<Rightarrow> db \<Rightarrow> exn + (alert \<times> db)" where
  "resolve_current_alert now cur determination u d =
     ebind (guard (determination \<in> set valid_determinations - {''unknown''})
              (ValueError ''determination must be one of: benign, suspicious, malicious'')) (\<lambda>_.
       update_current_alert now cur
         (u\<lparr>ru_status := Some ''resolved'', ru_determination := Some determination\<rparr>) d)"

definition add_current_alert_comment ::
  "time \<Rightarrow> uuid option \<Rightarrow> string \<Rightarrow> jdict option \<Rightarrow> db \<Rightarrow> exn + ((uuid \<times> uuid) \<times> db)" where
  "add_current_alert_comment now cur txt meta d =
     ebind (guard (strip txt \<noteq> []) (ValueError ''comment text must not be empty'')) (\<lambda>_.
       with_current_alert cur (\<lambda>a d.
         Inr ((al_id a, db_next_id d),
              add_activity now (by_playbook (al_id a) ''comment'' (strip txt) (meta_or meta from_playbook)) d)) d)"

definition assignee_missing :: exn where
  "assignee_missing = RuntimeError ''Target analyst not found or inactive''"

text \<open>Which analyst an assignment names: by identifier when one is given, else by user name.\<close>

definition find_assignee :: "string option \<Rightarrow> string option \<Rightarrow> db \<Rightarrow> exn + analyst" where
  "find_assignee analyst_id username d =
     (if truthy_str analyst_id then
        ebind (parse_uuid (the analyst_id)) (\<lambda>i.
          fetch_or assignee_missing (\<lambda>x. an_is_active x \<and> an_id x = i) (db_analysts d))
      else fetch_or assignee_missing (\<lambda>x. an_is_active x \<and> Some (an_username x) = username) (db_analysts d))"

definition assigned_row :: "analyst \<Rightarrow> alert \<Rightarrow> alert" where
  "assigned_row to a = a\<lparr>al_assigned_to := Some (an_id to), al_assigned_username := Some (an_username to),
     al_status := (if al_status a = ''new'' then ''in_progress'' else al_status a)\<rparr>"

definition unassigned_row :: "alert \<Rightarrow> alert" where
  "unassigned_row a = a\<lparr>al_assigned_to := None, al_assigned_username := None\<rparr>"

definition assign_current_alert ::
  "time \<Rightarrow> uuid option \<Rightarrow> string option \<Rightarrow> string option \<Rightarrow> db \<Rightarrow> exn + (alert \<times> db)" where
  "assign_current_alert now cur analyst_id username d =
     ebind (guard (\<not> (truthy_str analyst_id \<and> truthy_str username))
              (ValueError ''Provide either analyst_id or username, not both'')) (\<lambda>_.
     with_current_alert cur (\<lambda>a d.
       if \<not> truthy_str analyst_id \<and> \<not> truthy_str username then
         ebind (save_alert (unassigned_row a) (add_activity now
             (by_playbook (al_id a) ''assigned'' ''Alert unassigned by playbook''
               [(''source'', JStr ''playbook''), (''assigned_to'', JNull)]) d)) (\<lambda>d'.
           Inr (unassigned_row a, d'))
       else
         ebind (find_assignee analyst_id username d) (\<lambda>to.
         ebind (save_alert (assigned_row to a) (add_activity now
             (by_playbook (al_id a) ''assigned'' (''Assigned to '' @ an_username to @ '' by playbook'')
               [(''source'', JStr ''playbook''), (''assigned_to'', JStr (uuid_str (an_id to))),
                (''assigned_username'', JStr (an_username to))]) d)) (\<lambda>d'.
           Inr (assigned_row to a, d')))) d)"

section \<open>The alert invariant\<close>

lemma with_current_alert_eq: "with_current_alert cur h d = Inr (r, d') \<longleftrightarrow>
    (\<exists>i a. cur = Some i \<and> filter (\<lambda>x. al_id x = i) (db_alerts d) = [a] \<and> h a d = Inr (r, d'))"
  by (auto simp: with_current_alert_def res_simps split: option.splits)

lemma updated_row_ok: "alert_ok a \<Longrightarrow> alert_ok (updated_row now u a)"
  by (simp add: updated_row_def alert_ok_def Let_def)

lemma apply_alert_update_ok:
  "apply_alert_update now u a d = Inr (a', d') \<Longrightarrow> alert_ok a \<Longrightarrow> alerts_ok d \<Longrightarrow> alerts_ok d'"
  by (auto simp: apply_alert_update_def Let_def res_simps save_alert_eq intro!: alerts_ok_put updated_row_ok)

lemma single_alert_ok: "filter p (db_alerts d) = [a] \<Longrightarrow> alerts_ok d \<Longrightarrow> alert_ok a"
  using filter_single_mem alerts_ok_mem by metis

lemma runtime_update_same: "ru_determination u = v \<Longrightarrow> u\<lparr>ru_determination := v\<rparr> = u"
  by (cases u) simp

lemma update_current_alert_run: "update_current_alert now cur u d = Inr (a', d') \<Longrightarrow>
    \<exists>i a. cur = Some i \<and> filter (\<lambda>x. al_id x = i) (db_alerts d) = [a] \<and>
      (\<forall>s. ru_status u = Some s \<longrightarrow> s \<in> set valid_alert_statuses) \<and>
      (\<forall>s. ru_determination u = Some s \<longrightarrow> s \<in> set valid_determinations) \<and>
      (ru_status u = Some ''resolved'' \<longrightarrow> ru_determination u \<notin> {None, Some ''unknown''}) \<and>
      apply_alert_update now u a d = Inr (a', d')"
  unfolding update_current_alert_def Let_def ebind_eq_Inr guard_eq_Inr with_current_alert_eq pred_option_iff
  by (auto simp: runtime_update_same split: if_splits)

lemma update_current_alert_ok:
  "update_current_alert now cur u d = Inr (a', d') \<Longrightarrow> alerts_ok d \<Longrightarrow> alerts_ok d'"
  by (metis update_current_alert_run apply_alert_update_ok single_alert_ok)

lemma resolve_current_alert_ok:
  "resolve_current_alert now cur det u d = Inr (a', d') \<Longrightarrow> alerts_ok d \<Longrightarrow> alerts_ok d'"
  unfolding resolve_current_alert_def ebind_eq_Inr using update_current_alert_ok by blast

lemma add_current_alert_comment_ok:
  "add_current_alert_comment now cur txt meta d = Inr (r, d') \<Longrightarrow> alerts_ok d \<Longrightarrow> alerts_ok d'"
  unfolding add_current_alert_comment_def ebind_eq_Inr by (auto simp: with_current_alert_eq)

lemma assigned_row_ok: "alert_ok a \<Longrightarrow> alert_ok (assigned_row to a)" "alert_ok a \<Longrightarrow> alert_ok (unassigned_row a)"
  by (simp_all add: assigned_row_def unassigned_row_def alert_ok_def)

lemma assign_current_alert_ok:
  "assign_current_alert now cur i n d = Inr (a', d') \<Longrightarrow> alerts_ok d \<Longrightarrow> alerts_ok d'"
  unfolding assign_current_alert_def ebind_eq_Inr
  by (auto simp: with_current_alert_eq ebind_eq_Inr save_alert_eq split: if_splits
      intro!: alerts_ok_put assigned_row_ok dest: single_alert_ok)

lemmas runtime_ok = update_current_alert_ok resolve_current_alert_ok add_current_alert_comment_ok
  assign_current_alert_ok

end
