(* ===== verification/Lifecycle.thy ===== *)
theory Lifecycle
  imports Webhook Runtime
begin

text \<open>
  The alert life cycle across the components: a step relation over every handler that changes alerts,
  incidents, links or the audit log (the webhook endpoints, the alert and incident APIs, what a
  playbook does to its current alert, the enrichment task), the invariants every reachable state
  has, and an abstract ledger of alert identities the whole system refines.

  A handler that fails leaves the database as it was, so only successful outcomes are steps; a
  webhook is a step either way, because a refused request may have spent effects outside it.
\<close>

section \<open>Steps\<close>

text \<open>What a handler does to the rows: identities and links aside, it may only append to the log.\<close>

inductive case_step :: "db \<Rightarrow> db \<Rightarrow> bool" where
  update_alert: "update_alert ev i u d = Inr (a, d') \<Longrightarrow> case_step d d'"
| claim_alert: "claim_alert ev i d = Inr (a, d') \<Longrightarrow> case_step d d'"
| bulk_update: "bulk_update_alerts ev b d = Inr (r, d') \<Longrightarrow> case_step d d'"
| link_or_create: "create_or_link_incident_for_alert ev i q d = Inr (x, d') \<Longrightarrow> case_step d d'"
| runtime_update: "update_current_alert now cur ru d = Inr (a, d') \<Longrightarrow> case_step d d'"
| runtime_resolve: "resolve_current_alert now cur det ru d = Inr (a, d') \<Longrightarrow> case_step d d'"
| runtime_comment: "add_current_alert_comment now cur txt meta d = Inr (c, d') \<Longrightarrow> case_step d d'"
| runtime_assign: "assign_current_alert now cur who name d = Inr (a, d') \<Longrightarrow> case_step d d'"
| create_incident: "create_incident delay ev b d = (res, d') \<Longrightarrow> case_step d d'"
| update_incident: "update_incident ev i v d = Inr (r, d') \<Longrightarrow> case_step d d'"
| link_alert: "link_alert ev i raw d = Inr d' \<Longrightarrow> case_step d d'"
| unlink_alert: "unlink_alert ev i j d = Inr d' \<Longrightarrow> case_step d d'"
| incident_observable: "create_incident_observable ev i ty v src d = Inr (ob, d') \<Longrightarrow> case_step d d'"
| add_comment: "add_comment hooks ev i txt d = (res, d') \<Longrightarrow> case_step d d'"
| add_incident_comment: "add_incident_comment hooks ev i txt d = (res, d') \<Longrightarrow> case_step d d'"

inductive step :: "'r webhook_state \<Rightarrow> 'r webhook_state \<Rightarrow> bool" where
  webhook: "receive (we :: 'r webhook_env) scope source source_of req payload ws = (res, ws') \<Longrightarrow> step ws ws'"
| handler: "case_step (ws_db ws) d' \<Longrightarrow> step ws (ws\<lparr>ws_db := d'\<rparr>)"
| edit_comment: "edit_comment isoformat hooks ev i c txt (ws_db ws) = (out, d') \<Longrightarrow> step ws (ws\<lparr>ws_db := d'\<rparr>)"
| edit_incident_comment: "edit_incident_comment isoformat hooks ev i c txt (ws_db ws) = (out, d') \<Longrightarrow>
    step ws (ws\<lparr>ws_db := d'\<rparr>)"
| delete_alert: "delete_alert ev i (ws_db ws) = Inr d' \<Longrightarrow> step ws (ws\<lparr>ws_db := d'\<rparr>)"
| enrichment: "enrich_observable_task conn client t (ws_db ws) (ws_enrich ws) = (done, d', st') \<Longrightarrow>
    step ws (ws\<lparr>ws_db := d', ws_enrich := st'\<rparr>)"

inductive_cases stepE: "step ws ws'"

section \<open>Identities and the audit log\<close>

definition keyed :: "db \<Rightarrow> (uuid \<times> string \<times> string option) list" where
  "keyed d = map (\<lambda>a. (al_id a, dedup_key a)) (db_alerts d)"

definition log_ids_ok :: "db \<Rightarrow> bool" where
  "log_ids_ok d \<longleftrightarrow> distinct (map ac_id (db_activities d)) \<and> (\<forall>r \<in> set (db_activities d). ac_id r < db_next_id d)"

text \<open>The alerts keep their identities and the log only grows, by rows with fresh identifiers.\<close>

definition extends :: "db \<Rightarrow> db \<Rightarrow> bool" where
  "extends d d' \<longleftrightarrow> keyed d' = keyed d \<and> db_next_id d \<le> db_next_id d' \<and>
     (\<exists>rows. db_activities d' = db_activities d @ rows \<and> distinct (map ac_id rows) \<and>
        (\<forall>r \<in> set rows. db_next_id d \<le> ac_id r \<and> ac_id r < db_next_id d'))"

lemma extendsI: "db_alerts d' = db_alerts d \<Longrightarrow> db_next_id d \<le> db_next_id d' \<Longrightarrow> db_activities d' = db_activities d \<Longrightarrow>
    extends d d'"
  by (simp add: extends_def keyed_def)

lemma extends_refl [simp]: "extends d d"
  by (simp add: extendsI)

lemma extends_trans:
  assumes "extends d d1" and "extends d1 d2"
  shows "extends d d2"
proof -
  from assms obtain r1 r2 where r: "db_activities d1 = db_activities d @ r1" "db_activities d2 = db_activities d1 @ r2"
    "distinct (map ac_id r1)" "distinct (map ac_id r2)"
    and b1: "\<And>r. r \<in> set r1 \<Longrightarrow> db_next_id d \<le> ac_id r \<and> ac_id r < db_next_id d1"
    and b2: "\<And>r. r \<in> set r2 \<Longrightarrow> db_next_id d1 \<le> ac_id r \<and> ac_id r < db_next_id d2"
    and n: "db_next_id d \<le> db_next_id d1" "db_next_id d1 \<le> db_next_id d2" "keyed d2 = keyed d"
    unfolding extends_def by metis
  have "ac_id r \<noteq> ac_id s" if "r \<in> set r1" "s \<in> set r2" for r s using b1[OF that(1)] b2[OF that(2)] by simp
  then have "distinct (map ac_id (r1 @ r2))" using r by auto
  moreover have "db_next_id d \<le> ac_id r \<and> ac_id r < db_next_id d2" if "r \<in> set (r1 @ r2)" for r
    using that b1[of r] b2[of r] n by auto
  ultimately show ?thesis unfolding extends_def using r n by (auto intro!: exI[of _ "r1 @ r2"])
qed

lemma extends_activity [simp]: "extends d (add_activity now a d)"
  by (auto simp: extends_def keyed_def add_activity_def)

lemma extends_then_activity [simp]: "extends d d' \<Longrightarrow> extends d (add_activity now a d')"
  using extends_trans extends_activity by blast

lemma extends_activities [simp]: "extends d (add_activities now acts d)"
  unfolding add_activities_def
proof (induction acts arbitrary: d)
  case (Cons a acts)
  show ?case using extends_trans[OF extends_activity Cons] by simp
qed simp

lemma keyed_put:
  assumes "distinct (map al_id (db_alerts d))" and "old \<in> set (db_alerts d)"
    and "al_id a = al_id old" and "dedup_key a = dedup_key old"
  shows "keyed (put_alert a d) = keyed d"
  unfolding keyed_def put_alert_def using assms key_eq[OF assms(1) _ assms(2)]
  by (auto simp: update_where_def)

text \<open>Storing a changed alert that keeps its identity.\<close>

lemma extends_put:
  assumes "alerts_ok d" and "old \<in> set (db_alerts d)" and "al_id a = al_id old" and "dedup_key a = dedup_key old"
  shows "extends d (put_alert a d)" "extends d (put_alert a (add_activities now acts d))"
    "extends d (put_alert a (add_activity now act d))"
proof -
  have k: "keyed (put_alert a d') = keyed d" if "db_alerts d' = db_alerts d" for d'
    using that keyed_put[of d' old a] assms by (simp add: alerts_ok_def keyed_def)
  have put: "extends d' (put_alert a d')" if "db_alerts d' = db_alerts d" for d'
    using k[OF that] that by (simp add: extends_def keyed_def)
  show "extends d (put_alert a d)" "extends d (put_alert a (add_activities now acts d))"
    "extends d (put_alert a (add_activity now act d))"
    using put[of d] extends_trans[OF extends_activities put] extends_trans[OF extends_activity put] by simp_all
qed

lemma apply_assignment_key: "apply_assignment an i p d a = Inr (a', acts) \<Longrightarrow> dedup_key a' = dedup_key a"
  by (auto simp: apply_assignment_def dedup_key_def res_simps split: option.splits if_splits)

lemma apply_fields_key: "apply_fields u a = Inr a' \<Longrightarrow> dedup_key a' = dedup_key a"
  by (auto simp: apply_fields_def dedup_key_def res_simps)

lemma stamp_resolved_key [simp]: "dedup_key (stamp_resolved now a) = dedup_key a"
  by (simp add: stamp_resolved_def dedup_key_def)

lemma key_simps [simp]:
  "dedup_key (claimed an a) = dedup_key a" "al_id (claimed an a) = al_id a"
  "dedup_key (updated_row now ru a) = dedup_key a" "al_id (updated_row now ru a) = al_id a"
  "dedup_key (assigned_row to a) = dedup_key a" "al_id (assigned_row to a) = al_id a"
  "dedup_key (unassigned_row a) = dedup_key a" "al_id (unassigned_row a) = al_id a"
  by (simp_all add: claimed_def updated_row_def assigned_row_def unassigned_row_def dedup_key_def Let_def)

lemma update_alert_extends:
  assumes u: "update_alert ev i u d = Inr (a', d')" and ok: "alerts_ok d"
  shows "extends d d' \<and> (incidents_ok d \<longrightarrow> incidents_ok d')"
proof -
  from update_alert_alerts[OF u] obtain an a a1 a2 acts where
    l: "load_alert ev ''update'' i d = Inr a" and s: "apply_assignment an i (au_assigned_to u) d a = Inr (a1, acts)"
    and f: "apply_fields u a1 = Inr a2"
    and a': "a' = (if patch_value (au_status u) = Some ''resolved'' then stamp_resolved (ev_now ev) a2 else a2)"
    and d': "d' = put_alert a' (add_activities (ev_now ev) (acts @ change_log an u a1) d)" by blast
  have "a \<in> set (db_alerts d)" using load_alert_ok[OF l] by blast
  moreover have "al_id a' = al_id a" "dedup_key a' = dedup_key a"
    using apply_assignment_fields[OF s] apply_fields_ok[OF f] apply_assignment_key[OF s] apply_fields_key[OF f]
    unfolding a' by auto
  ultimately show ?thesis unfolding d' using extends_put(2)[OF ok] by simp
qed

lemma claim_alert_extends:
  "claim_alert ev i d = Inr (a', d') \<Longrightarrow> alerts_ok d \<Longrightarrow> extends d d' \<and> (incidents_ok d \<longrightarrow> incidents_ok d')"
  by (auto simp: claim_alert_def res_simps save_alert_eq intro!: extends_put(2) dest!: load_alert_ok)

lemma bulk_effect_key: "bulk_effect_of now an b a = BulkSet a' act \<Longrightarrow> dedup_key a' = dedup_key a"
  by (auto simp: bulk_effect_of_def dedup_key_def Let_def split: if_splits)

lemma bulk_one_extends:
  assumes one: "bulk_one ev an b vis i (d, res) = Inr (d', res')" and ok: "alerts_ok d"
  shows "extends d d' \<and> (incidents_ok d \<longrightarrow> incidents_ok d')"
proof (cases "if i \<in> vis then find (\<lambda>a. al_id a = i) (db_alerts d) else None")
  case None
  with one show ?thesis by (auto simp: bulk_one_def Let_def)
next
  case (Some a)
  then have a: "a \<in> set (db_alerts d)" by (auto simp: find_Some_iff split: if_splits)
  show ?thesis
  proof (cases "enforce ev (RAlert a) ''alert'' ''bulk_update''")
    case (Inl e)
    with one Some show ?thesis by (auto simp: bulk_one_def Let_def split: if_splits)
  next
    case (Inr u)
    show ?thesis
    proof (cases "bulk_effect_of (ev_now ev) an b a")
      case (BulkSet a' act)
      with extends_put(1)[OF ok a] have "extends d (put_alert a' d)"
        by (auto dest: bulk_effect_key bulk_effect_id)
      with one Some Inr BulkSet show ?thesis by (auto simp: bulk_one_def Let_def)
    qed (use one Some Inr in \<open>auto simp: bulk_one_def Let_def\<close>)
  qed
qed

lemma bulk_loop_extends:
  "bulk_loop ev an b vis ids (d, res) = Inr (d', res') \<Longrightarrow> alerts_ok d \<Longrightarrow>
     extends d d' \<and> (incidents_ok d \<longrightarrow> incidents_ok d')"
proof (induction ids arbitrary: d res)
  case (Cons i ids)
  then obtain d1 res1 where one: "bulk_one ev an b vis i (d, res) = Inr (d1, res1)"
    and more: "bulk_loop ev an b vis ids (d1, res1) = Inr (d', res')" by (auto simp: res_simps)
  from bulk_one_extends[OF one Cons.prems(2)] Cons.IH[OF more bulk_one_ok[OF one Cons.prems(2)]]
  show ?case using extends_trans by blast
qed simp

lemma bulk_update_extends:
  "bulk_update_alerts ev b d = Inr (r, d') \<Longrightarrow> alerts_ok d \<Longrightarrow> extends d d' \<and> (incidents_ok d \<longrightarrow> incidents_ok d')"
  by (auto simp: bulk_update_alerts_def res_simps dest: bulk_loop_extends split: if_splits)


lemma extends_link [simp]: "extends d (add_link i j d)"
  by (simp add: extendsI add_link_def)

lemma extends_new_incident: "new_incident now t ds sev tags d = Inr (i, d') \<Longrightarrow> extends d d'"
  unfolding new_incident_def Let_def ebind_eq_Inr guard_eq_Inr by (auto intro: extendsI)

lemma extends_put_incident [simp]: "extends d d' \<Longrightarrow> extends d (put_incident i d')"
  by (simp add: extends_def keyed_def put_incident_def)

lemma extends_links [simp]: "extends d d' \<Longrightarrow> extends d (d'\<lparr>db_incident_alerts := ls\<rparr>)"
  by (simp add: extends_def keyed_def)

lemma pick_incident_extends:
  assumes "pick_incident ev an q d = Inr (i, c, d')"
  shows "extends d d' \<and> (incidents_ok d \<longrightarrow> incidents_ok d' \<and> i \<in> set (db_incidents d'))"
proof (cases "truthy_str (ai_incident_id q)")
  case True
  with assms show ?thesis
    by (auto simp: pick_incident_def ebind_eq_Inr fetch_or_eq_Inr dest!: filter_single_mem)
next
  case False
  with assms show ?thesis
    by (auto simp: pick_incident_def ebind_eq_Inr dest: extends_new_incident new_incident_ok)
qed

lemma link_or_create_extends:
  assumes s: "create_or_link_incident_for_alert ev i q d = Inr (x, d')"
  shows "extends d d' \<and> (incidents_ok d \<longrightarrow> incidents_ok d')"
proof -
  from s obtain an a inc created d1 acts act where a: "load_alert ev ''read'' i d = Inr a"
    and p: "pick_incident ev an q d = Inr (inc, created, d1)"
    and none: "fetch (\<lambda>l. ia_incident_id l = in_id inc \<and> ia_alert_id l = i) (db_incident_alerts d1) = Inr None"
    and d': "d' = add_activity (ev_now ev) act (add_link (in_id inc) i (add_activities (ev_now ev) acts d1))"
    unfolding create_or_link_incident_for_alert_def Let_def by (auto simp: ebind_eq_Inr guard_eq_Inr)
  note picked = pick_incident_extends[OF p]
  have "extends d1 (add_link (in_id inc) i (add_activities (ev_now ev) acts d1))"
    using extends_trans[OF extends_activities extends_link] .
  then have "extends d d'" unfolding d' using picked extends_trans by (blast intro: extends_then_activity)
  moreover have "incidents_ok d'" if "incidents_ok d"
  proof -
    have "db_alerts d1 = db_alerts d" using pick_incident_alerts[OF p] by blast
    with load_alert_id[OF a] have "i \<in> al_id ` set (db_alerts d1)" by simp
    with that picked none show ?thesis unfolding d'
      by (intro incidents_ok_activity add_link_ok) (auto simp: fetch_def scalar_one_or_none_eq_None)
  qed
  ultimately show ?thesis by blast
qed

lemma update_current_alert_extends:
  assumes "update_current_alert now cur u d = Inr (a', d')" and "alerts_ok d"
  shows "extends d d' \<and> (incidents_ok d \<longrightarrow> incidents_ok d')"
proof -
  from update_current_alert_run[OF assms(1)] obtain i a where "filter (\<lambda>x. al_id x = i) (db_alerts d) = [a]"
    and "apply_alert_update now u a d = Inr (a', d')" by blast
  then show ?thesis using filter_single_mem[of "\<lambda>x. al_id x = i" "db_alerts d" a] extends_put(2)[OF assms(2), of a]
    by (auto simp: apply_alert_update_def Let_def res_simps save_alert_eq)
qed

lemma assign_current_alert_extends:
  assumes "assign_current_alert now cur who name d = Inr (a', d')" and "alerts_ok d"
  shows "extends d d' \<and> (incidents_ok d \<longrightarrow> incidents_ok d')"
proof -
  from assms(1) obtain a acts to where a: "a \<in> set (db_alerts d)" and a': "a' = unassigned_row a \<or> a' = assigned_row to a"
    and d': "d' = put_alert a' (add_activity now acts d)"
    unfolding assign_current_alert_def ebind_eq_Inr with_current_alert_eq save_alert_eq
    by (auto simp: ebind_eq_Inr save_alert_eq dest!: filter_single_mem split: if_splits)
  have "al_id a' = al_id a" "dedup_key a' = dedup_key a" using a' by auto
  then show ?thesis unfolding d' using extends_put(3)[OF assms(2) a] by simp
qed

lemma runtime_comment_extends:
  "add_current_alert_comment now cur txt meta d = Inr (r, d') \<Longrightarrow> extends d d' \<and> (incidents_ok d \<longrightarrow> incidents_ok d')"
  unfolding add_current_alert_comment_def ebind_eq_Inr by (auto simp: with_current_alert_eq)

lemma create_incident_run:
  "create_incident delay ev b d = (res, d') \<Longrightarrow> d' = d \<or> (\<exists>x. create_incident_core ev b d = Inr (x, d'))"
  by (cases "create_incident_core ev b d") (auto simp: create_incident_def Let_def after_commit_def)

lemma create_incident_core_frame: "create_incident_core ev b d = Inr (x, d') \<Longrightarrow> db_alerts d' = db_alerts d \<and> extends d d'"
  by (auto simp: create_incident_core_def new_incident_def Let_def ebind_eq_Inr guard_eq_Inr intro!: extends_then_activity extendsI)

lemma create_incident_extends:
  "create_incident delay ev b d = (res, d') \<Longrightarrow> db_alerts d' = db_alerts d \<and> extends d d' \<and> (incidents_ok d \<longrightarrow> incidents_ok d')"
  using create_incident_run[of delay ev b d res d'] create_incident_core_frame[of ev b d _ d'] create_incident_core_ok[of ev b d _ d']
  by fastforce

lemma update_incident_extends: "update_incident ev i u d = Inr (r, d') \<Longrightarrow> extends d d'"
  by (auto dest!: update_incident_run)

lemma link_alert_extends: "link_alert ev i raw d = Inr d' \<Longrightarrow> extends d d'"
  unfolding link_alert_def ebind_eq_Inr guard_eq_Inr by auto

lemma unlink_alert_extends: "unlink_alert ev i j d = Inr d' \<Longrightarrow> extends d d'"
  unfolding unlink_alert_def ebind_eq_Inr Let_def
  by (auto split: option.splits intro!: extends_links extends_then_activity)

lemma incident_observable_extends: "create_incident_observable ev i ty v src d = Inr (ob, d') \<Longrightarrow> extends d d'"
  unfolding create_incident_observable_def ebind_eq_Inr Let_def
  by (auto simp: ebind_eq_Inr add_observable_def guard_eq_Inr split: option.splits
      intro!: extends_then_activity extendsI)

lemma post_comment_extends:
  "post_comment ev an kind rid attach txt d = Inr (x, d') \<Longrightarrow> extends d d' \<and> (incidents_ok d \<longrightarrow> incidents_ok d')"
  by (auto simp: post_comment_def Let_def ebind_eq_Inr)

lemma comment_extends:
  "add_comment hooks ev i txt d = (res, d') \<Longrightarrow> extends d d' \<and> (incidents_ok d \<longrightarrow> incidents_ok d')"
  "add_incident_comment hooks ev i txt d = (res, d') \<Longrightarrow> extends d d' \<and> (incidents_ok d \<longrightarrow> incidents_ok d')"
  unfolding add_comment_def add_incident_comment_def after_commit_def
  by (auto simp: ebind_eq_Inr dest!: post_comment_extends split: sum.splits)

lemma case_step_extends: "case_step d d' \<Longrightarrow> alerts_ok d \<Longrightarrow> extends d d' \<and> (incidents_ok d \<longrightarrow> incidents_ok d')"
proof (induction rule: case_step.induct)
  case (runtime_resolve now cur det ru d a d')
  then show ?case unfolding resolve_current_alert_def ebind_eq_Inr using update_current_alert_extends by blast
qed (blast dest: update_alert_extends claim_alert_extends bulk_update_extends link_or_create_extends
      update_current_alert_extends runtime_comment_extends assign_current_alert_extends create_incident_extends
      update_incident_extends link_alert_extends unlink_alert_extends incident_observable_extends comment_extends
      update_incident_ok link_alert_ok unlink_alert_ok create_incident_observable_ok)+


section \<open>The invariant\<close>

definition system_ok :: "db \<Rightarrow> bool" where
  "system_ok d \<longleftrightarrow> alerts_ok d \<and> incidents_ok d \<and> dedup_ok d \<and> log_ids_ok d"

lemma dedup_ok_keyed: "dedup_ok d \<longleftrightarrow> distinct (filter (\<lambda>k. truthy_str (snd k)) (map snd (keyed d)))"
  by (simp add: dedup_ok_def keyed_def comp_def)

lemma extends_log: "extends d d' \<Longrightarrow> log_ids_ok d \<Longrightarrow> log_ids_ok d'"
  unfolding extends_def log_ids_ok_def by (fastforce simp: disjoint_iff)

lemma extends_dedup: "extends d d' \<Longrightarrow> dedup_ok d \<Longrightarrow> dedup_ok d'"
  by (simp add: dedup_ok_keyed extends_def)

lemma case_step_alerts_ok: "case_step d d' \<Longrightarrow> alerts_ok d \<Longrightarrow> alerts_ok d'"
proof (induction rule: case_step.induct)
  case (create_incident delay ev b d res d')
  with create_incident_extends have "db_alerts d' = db_alerts d" "db_next_id d \<le> db_next_id d'"
    by (auto simp: extends_def)
  with create_incident.prems show ?case using alerts_ok_frame by blast
next
  case (update_incident ev i v d r d')
  then show ?case by (auto dest!: update_incident_run simp: put_incident_def elim!: alerts_ok_frame)
next
  case (link_alert ev i raw d d')
  then show ?case unfolding link_alert_def ebind_eq_Inr guard_eq_Inr
    by (auto simp: add_link_def elim!: alerts_ok_frame)
next
  case (unlink_alert ev i j d d')
  then show ?case unfolding unlink_alert_def ebind_eq_Inr Let_def
    by (auto elim!: alerts_ok_frame split: option.splits)
next
  case (incident_observable ev i ty v src d ob d')
  then show ?case unfolding create_incident_observable_def ebind_eq_Inr Let_def
    by (auto simp: ebind_eq_Inr add_observable_def guard_eq_Inr elim!: alerts_ok_frame split: option.splits)
next
  case (add_comment hooks ev i t d res d')
  then show ?case unfolding add_comment_def after_commit_def
    by (auto simp: post_comment_def Let_def ebind_eq_Inr split: sum.splits)
next
  case (add_incident_comment hooks ev i t d res d')
  then show ?case unfolding add_incident_comment_def after_commit_def
    by (auto simp: post_comment_def Let_def ebind_eq_Inr split: sum.splits)
qed (blast intro: alert_handlers_ok runtime_ok)+

lemma case_step_ok: "case_step d d' \<Longrightarrow> system_ok d \<Longrightarrow> system_ok d'"
  using case_step_extends case_step_alerts_ok extends_log extends_dedup unfolding system_ok_def by blast

text \<open>Editing a comment rewrites one row of the log in place.\<close>

definition edited :: "db \<Rightarrow> db \<Rightarrow> bool" where
  "edited d d' \<longleftrightarrow> d' = d \<or> (\<exists>old new. old \<in> set (db_activities d) \<and> ac_action old = ''comment'' \<and>
     ac_id new = ac_id old \<and> ac_action new = ac_action old \<and> ac_alert_id new = ac_alert_id old \<and>
     d' = d\<lparr>db_activities := update_where (\<lambda>a. ac_id a = ac_id old) (\<lambda>_. new) (db_activities d)\<rparr>)"

lemma edited_refl [simp]: "edited d d"
  by (simp add: edited_def)

lemma edit_comment_row_edited:
  assumes "edit_comment_row isoformat ev an kind rid belongs c txt d = Inr (x, d')"
  shows "edited d d'"
proof -
  from assms obtain act meta names where f: "filter (\<lambda>a. ac_id a = c \<and> belongs a \<and> ac_action a = ''comment'') (db_activities d) = [act]"
    and d': "d' = d\<lparr>db_activities := update_where (\<lambda>a. ac_id a = ac_id act)
       (\<lambda>_. act\<lparr>ac_metadata_json := meta, ac_detail := Some txt, ac_mentions := Some names, ac_updated_at := ev_now ev\<rparr>)
       (db_activities d)\<rparr>"
    unfolding edit_comment_row_def ebind_eq_Inr Let_def fetch_or_eq_Inr by blast
  show ?thesis
    unfolding edited_def d' using filter_single_mem[OF f]
    by (intro disjI2 exI[of _ act] exI[of _ "act\<lparr>ac_metadata_json := meta, ac_detail := Some txt,
        ac_mentions := Some names, ac_updated_at := ev_now ev\<rparr>"]) simp
qed

lemma edit_edited:
  "edit_comment isoformat hooks ev i c txt d = (res, d') \<Longrightarrow> edited d d'"
  "edit_incident_comment isoformat hooks ev i c txt d = (res, d') \<Longrightarrow> edited d d'"
  unfolding edit_comment_def edit_incident_comment_def after_commit_def
  by (auto simp: ebind_eq_Inr dest: edit_comment_row_edited split: sum.splits)

lemma log_ids_rows: "log_ids_ok d \<longleftrightarrow> distinct (map ac_id (db_activities d)) \<and>
    (\<forall>k \<in> set (map ac_id (db_activities d)). k < db_next_id d)"
  by (simp add: log_ids_ok_def)

lemma edited_ok: "edited d d' \<Longrightarrow> system_ok d \<Longrightarrow> system_ok d'"
proof -
  assume e: "edited d d'" and ok: "system_ok d"
  have tables: "db_alerts d' = db_alerts d" "db_incidents d' = db_incidents d"
    "db_incident_alerts d' = db_incident_alerts d" "db_next_id d' = db_next_id d"
    using e by (auto simp: edited_def)
  have ids: "map ac_id (db_activities d') = map ac_id (db_activities d)"
    using e by (auto simp: edited_def update_where_def)
  have "log_ids_ok d'" using ok unfolding system_ok_def log_ids_rows ids tables by blast
  with ok tables show "system_ok d'"
    using alerts_ok_frame[of d d'] incidents_ok_frame[of d d'] by (simp add: system_ok_def dedup_ok_def)
qed

lemma delete_alert_run: "delete_alert ev i d = Inr d' \<Longrightarrow> delete_alerts (\<lambda>r. al_id r = i) d = Inr d'"
  by (auto simp: delete_alert_def res_simps dest: load_alert_ok)

lemma delete_alerts_tables: "delete_alerts p d = Inr d' \<Longrightarrow>
    db_alerts d' = filter (\<lambda>a. \<not> p a) (db_alerts d) \<and> db_incidents d' = db_incidents d \<and> db_next_id d' = db_next_id d \<and>
    db_incident_alerts d' = filter (\<lambda>l. ia_alert_id l \<notin> al_id ` set (filter p (db_alerts d))) (db_incident_alerts d) \<and>
    db_activities d' = filter (\<lambda>a. \<forall>i \<in> al_id ` set (filter p (db_alerts d)). ac_alert_id a \<noteq> Some i) (db_activities d)"
  by (auto simp: delete_alerts_def Let_def split: if_splits)

lemma delete_alerts_system_ok:
  assumes del: "delete_alerts p d = Inr d'" and ok: "system_ok d"
  shows "system_ok d'"
proof -
  note t = delete_alerts_tables[OF del]
  have sub: "distinct (map f (filter Q xs)) \<Longrightarrow> distinct (map f (filter Q (filter R xs)))"
    for f :: "alert \<Rightarrow> string \<times> string option" and Q R xs
  proof -
    have "filter Q (filter R xs) = filter R (filter Q xs)" by (simp add: conj_commute)
    then show "distinct (map f (filter Q xs)) \<Longrightarrow> distinct (map f (filter Q (filter R xs)))"
      by (simp only: distinct_map_filter)
  qed
  have "ia_alert_id l \<in> al_id ` set (db_alerts d')" if "l \<in> set (db_incident_alerts d')" for l
    using that ok t by (fastforce simp: system_ok_def incidents_ok_def links_ok_def image_iff)
  moreover have "distinct (map link_key (db_incident_alerts d'))"
    using t ok by (simp add: system_ok_def incidents_ok_def links_ok_def distinct_map_filter)
  ultimately have "incidents_ok d'"
    using t ok by (auto simp: system_ok_def incidents_ok_def links_ok_def)
  moreover have "dedup_ok d'"
    using t ok sub[of dedup_key "\<lambda>a. truthy_str (snd (dedup_key a))"] by (simp add: system_ok_def dedup_ok_def filter_map comp_def)
  moreover have "log_ids_ok d'"
    using t ok by (auto simp: system_ok_def log_ids_ok_def distinct_map_filter)
  ultimately show ?thesis using delete_alerts_ok[OF del] ok by (simp add: system_ok_def)
qed

text \<open>A webhook leaves the log alone; what it stores is counted or appended.\<close>

lemma receive_run:
  fixes we :: "'r webhook_env"
  assumes "receive we scope source source_of req payload ws = (res, ws')"
  shows "\<exists>d. db_alerts d = db_alerts (ws_db ws) \<and> db_incidents d = db_incidents (ws_db ws) \<and>
      db_incident_alerts d = db_incident_alerts (ws_db ws) \<and> db_activities d = db_activities (ws_db ws) \<and>
      db_next_id d = db_next_id (ws_db ws) \<and>
      (ws_db ws' = d \<or> (\<exists>a. counted we source payload a d (ws_db ws') \<or> appended we source payload a d (ws_db ws')))"
proof (cases "validate_webhook_key (we_crypto we) (we_app we) (we_clock we) scope req (ws_db ws)")
  case (Inl e)
  with assms show ?thesis by (auto simp: receive_def)
next
  case (Inr d)
  with assms have i: "ingest we source source_of payload (ws\<lparr>ws_db := d\<rparr>) = (res, ws')" by (simp add: receive_def)
  with validate_tables[OF Inr] ingest_tables[OF i] show ?thesis by (auto split: sum.splits)
qed

lemma receive_log:
  fixes we :: "'r webhook_env"
  assumes "receive we scope source source_of req payload ws = (res, ws')"
  shows "db_activities (ws_db ws') = db_activities (ws_db ws) \<and> db_next_id (ws_db ws) \<le> db_next_id (ws_db ws')"
  using receive_run[OF assms] by (auto simp: counted_def appended_def)

lemma receive_system_ok:
  fixes we :: "'r webhook_env"
  assumes r: "receive we scope source source_of req payload ws = (res, ws')" and ok: "system_ok (ws_db ws)"
  shows "system_ok (ws_db ws')"
  using receive_ok[OF r] receive_log[OF r] ok by (auto simp: system_ok_def log_ids_ok_def)

lemma enrichment_tables:
  assumes "enrich_observable_task conn client t d st = (res, d', st')"
  shows "d' = d \<or> (\<exists>ob. d' = put_observable ob d)"
proof -
  have "d1 = d \<or> (\<exists>ob. d1 = put_observable ob d)" if "run_enrichment conn client t d st = (r, d1, s1)" for r d1 s1
    using that by (auto simp: run_enrichment_def cleared_def Let_def split: option.splits sum.splits prod.splits if_splits)
  with assms show ?thesis
    by (auto simp: enrich_observable_task_def cleared_def split: option.splits sum.splits prod.splits if_splits)
qed

lemma enrichment_extends: "enrich_observable_task conn client t d st = (res, d', st') \<Longrightarrow>
    extends d d' \<and> (alerts_ok d \<longrightarrow> alerts_ok d') \<and> (incidents_ok d \<longrightarrow> incidents_ok d')"
  by (auto dest!: enrichment_tables intro!: extendsI elim!: alerts_ok_frame incidents_ok_frame)

lemma step_ok: "step ws ws' \<Longrightarrow> system_ok (ws_db ws) \<Longrightarrow> system_ok (ws_db ws')"
proof (induction rule: step.induct)
  case (enrichment conn client t ws res d' st')
  then show ?case using enrichment_extends extends_log extends_dedup by (fastforce simp: system_ok_def)
qed (auto intro: receive_system_ok case_step_ok edited_ok delete_alerts_system_ok dest: edit_edited delete_alert_run)

lemma step_steps: "step ws ws' \<Longrightarrow> step\<^sup>*\<^sup>* ws ws'"
  by (rule r_into_rtranclp)

lemma steps_ok: "step\<^sup>*\<^sup>* ws ws' \<Longrightarrow> system_ok (ws_db ws) \<Longrightarrow> system_ok (ws_db ws')"
  by (induction rule: rtranclp_induct) (auto intro: step_ok)


section \<open>An abstract ledger of identities\<close>

text \<open>The identifiers ever issued, and the identity (source and source identifier) of each stored alert.\<close>

type_synonym ledger = "uuid set \<times> (uuid \<rightharpoonup> string \<times> string option)"

definition ledger_of :: "db \<Rightarrow> ledger" where
  "ledger_of d = ({..<db_next_id d}, map_of (keyed d))"

inductive ledger_step :: "ledger \<Rightarrow> ledger \<Rightarrow> bool" where
  idle: "U \<subseteq> U' \<Longrightarrow> ledger_step (U, m) (U', m)"
| register: "i \<notin> U \<Longrightarrow> i \<in> U' \<Longrightarrow> U \<subseteq> U' \<Longrightarrow> (truthy_str (snd k) \<Longrightarrow> k \<notin> ran m) \<Longrightarrow> ledger_step (U, m) (U', m(i \<mapsto> k))"
| remove: "ledger_step (U, m) (U, m(i := None))"

inductive_simps ledger_step_simps: "ledger_step (U, m) (U', m')"

lemma ledger_idle: "keyed d' = keyed d \<Longrightarrow> db_next_id d \<le> db_next_id d' \<Longrightarrow> ledger_step (ledger_of d) (ledger_of d')"
  unfolding ledger_of_def by (simp add: ledger_step.idle)

lemma map_of_without: "map_of (filter (\<lambda>p. fst p \<noteq> i) ps) = (map_of ps)(i := None)"
  by (induction ps) (auto simp: fun_eq_iff)

lemma map_of_snoc: "i \<notin> fst ` set ps \<Longrightarrow> map_of (ps @ [(i, k)]) = (map_of ps)(i \<mapsto> k)"
  by (induction ps) (auto simp: fun_eq_iff)

lemma ledger_delete: "delete_alerts (\<lambda>r. al_id r = i) d = Inr d' \<Longrightarrow> ledger_step (ledger_of d) (ledger_of d')"
proof -
  assume "delete_alerts (\<lambda>r. al_id r = i) d = Inr d'"
  note t = delete_alerts_tables[OF this]
  then have "keyed d' = filter (\<lambda>p. fst p \<noteq> i) (keyed d)" by (simp add: keyed_def filter_map comp_def)
  with t show ?thesis unfolding ledger_of_def by (simp add: map_of_without ledger_step.remove)
qed

lemma ledger_append:
  assumes rows: "db_alerts d' = db_alerts d @ [a]" and ok: "system_ok d'" and id: "al_id a = db_next_id d"
    and n: "Suc (db_next_id d) \<le> db_next_id d'"
  shows "ledger_step (ledger_of d) (ledger_of d')"
proof -
  have k: "keyed d' = keyed d @ [(al_id a, dedup_key a)]" using rows by (simp add: keyed_def)
  have "al_id a \<notin> fst ` set (keyed d)" using ok rows by (force simp: system_ok_def alerts_ok_def keyed_def)
  then have m: "map_of (keyed d') = (map_of (keyed d))(al_id a \<mapsto> dedup_key a)"
    unfolding k by (rule map_of_snoc)
  have "dedup_key a \<notin> snd ` set (keyed d)" if "truthy_str (snd (dedup_key a))"
    using ok that unfolding system_ok_def dedup_ok_keyed k by auto
  then have "truthy_str (snd (dedup_key a)) \<Longrightarrow> dedup_key a \<notin> ran (map_of (keyed d))"
    by (auto simp: ran_def image_iff dest!: map_of_SomeD)
  then show ?thesis unfolding ledger_of_def m using id n by (intro ledger_step.register) auto
qed

lemma ledger_receive:
  fixes we :: "'r webhook_env"
  assumes r: "receive we scope source source_of req payload ws = (res, ws')" and ok: "system_ok (ws_db ws)"
  shows "ledger_step (ledger_of (ws_db ws)) (ledger_of (ws_db ws'))"
proof -
  from receive_run[OF r] obtain d where d: "db_alerts d = db_alerts (ws_db ws)" "db_next_id d = db_next_id (ws_db ws)"
    and cases: "ws_db ws' = d \<or> (\<exists>a. counted we source payload a d (ws_db ws')) \<or> (\<exists>a. appended we source payload a d (ws_db ws'))"
    by blast
  have l: "ledger_of d = ledger_of (ws_db ws)" using d by (simp add: ledger_of_def keyed_def)
  from cases show ?thesis
  proof (elim disjE exE)
    fix a assume "counted we source payload a d (ws_db ws')"
    then obtain n old where f: "find_duplicate n d = Inr (Some old)"
      and d': "ws_db ws' = put_alert (seen_again (we_cid we) payload n old) d" unfolding counted_def by blast
    from find_duplicate_eq[OF f] have "old \<in> set (db_alerts d)" by blast
    then have "keyed (ws_db ws') = keyed d"
      unfolding d' using ok d by (intro keyed_put) (auto simp: system_ok_def alerts_ok_def dedup_key_def)
    then show ?thesis unfolding l[symmetric] by (intro ledger_idle) (simp_all add: d')
  next
    fix a assume ap: "appended we source payload a d (ws_db ws')"
    then have "al_id a = db_next_id d" by (auto simp: appended_def dest: new_alert_fields)
    with ap receive_system_ok[OF r ok] show ?thesis
      unfolding l[symmetric] by (intro ledger_append) (auto simp: appended_def)
  qed (simp add: l ledger_idle)
qed

lemma step_ledger: "step ws ws' \<Longrightarrow> system_ok (ws_db ws) \<Longrightarrow> ledger_step (ledger_of (ws_db ws)) (ledger_of (ws_db ws'))"
proof (induction rule: step.induct)
  case (handler ws d')
  then have "extends (ws_db ws) d'" using case_step_extends by (auto simp: system_ok_def)
  then show ?case by (simp add: ledger_idle extends_def)
next
  case (enrichment conn client t ws res d' st')
  then show ?case using enrichment_extends by (fastforce simp: ledger_idle extends_def)
next
  case (edit_comment isoformat hooks ev i c t ws res d')
  from edit_edited(1)[OF this(1)] show ?case by (auto simp: edited_def keyed_def intro!: ledger_idle)
next
  case (edit_incident_comment isoformat hooks ev i c t ws res d')
  from edit_edited(2)[OF this(1)] show ?case by (auto simp: edited_def keyed_def intro!: ledger_idle)
qed (auto intro: ledger_receive ledger_delete dest: delete_alert_run)

lemma ledger_step_mono: "ledger_step L L' \<Longrightarrow> fst L \<subseteq> fst L' \<and> (\<forall>i \<in> fst L. snd L' i = snd L i \<or> snd L' i = None)"
  by (induction rule: ledger_step.induct) auto

lemma steps_ledger: "step\<^sup>*\<^sup>* ws ws' \<Longrightarrow> system_ok (ws_db ws) \<Longrightarrow> fst (ledger_of (ws_db ws)) \<subseteq> fst (ledger_of (ws_db ws')) \<and>
    (\<forall>i \<in> fst (ledger_of (ws_db ws)). snd (ledger_of (ws_db ws')) i = snd (ledger_of (ws_db ws)) i \<or>
       snd (ledger_of (ws_db ws')) i = None)"
proof (induction rule: rtranclp_induct)
  case (step ws1 ws2)
  from ledger_step_mono[OF step_ledger[OF step.hyps(2) steps_ok[OF step.hyps(1) step.prems]]] step.IH[OF step.prems]
  show ?case by (metis (no_types, lifting) subset_iff)
qed simp

section \<open>The audit log\<close>

text \<open>A row of the log stays as it is, except that comments can be edited and that the rows of a deleted
  alert go with it.\<close>

definition log_kept :: "db \<Rightarrow> db \<Rightarrow> bool" where
  "log_kept d d' \<longleftrightarrow> (\<forall>r \<in> set (db_activities d).
     (\<exists>s \<in> set (db_activities d'). ac_id s = ac_id r \<and> ac_action s = ac_action r \<and> ac_alert_id s = ac_alert_id r \<and>
        (ac_action r \<noteq> ''comment'' \<longrightarrow> s = r)) \<or>
     (\<exists>i < db_next_id d'. ac_alert_id r = Some i \<and> map_of (keyed d') i = None))"

lemma log_kept_rows: "set (db_activities d) \<subseteq> set (db_activities d') \<Longrightarrow> log_kept d d'"
  unfolding log_kept_def by blast

lemma log_kept_edited: "edited d d' \<Longrightarrow> log_ids_ok d \<Longrightarrow> log_kept d d'"
proof -
  assume e: "edited d d'" and ok: "log_ids_ok d"
  show "log_kept d d'"
  proof (cases "d' = d")
    case True
    then show ?thesis by (simp add: log_kept_rows)
  next
    case False
    with e obtain old new where o: "old \<in> set (db_activities d)" "ac_action old = ''comment''"
      "ac_id new = ac_id old" "ac_action new = ac_action old" "ac_alert_id new = ac_alert_id old"
      and d': "d' = d\<lparr>db_activities := update_where (\<lambda>a. ac_id a = ac_id old) (\<lambda>_. new) (db_activities d)\<rparr>"
      unfolding edited_def by blast
    have one: "r = old" if "r \<in> set (db_activities d)" "ac_id r = ac_id old" for r
      using key_eq[OF _ that(1) o(1) that(2)] ok by (simp add: log_ids_ok_def)
    have rows: "set (db_activities d') = insert new (set (db_activities d) - {old})" if "new \<noteq> old"
      unfolding d' using o(1,3) one by (auto simp: update_where_def image_iff)
    show ?thesis
    proof (cases "new = old")
      case True
      have "(if ac_id r = ac_id old then new else r) = r" if "r \<in> set (db_activities d)" for r
        using one[OF that] True by auto
      then have "db_activities d' = db_activities d" unfolding d' update_where_def by (simp add: map_idI)
      then show ?thesis by (simp add: log_kept_rows)
    next
      case False
      from rows[OF False] o show ?thesis unfolding log_kept_def by auto
    qed
  qed
qed

lemma log_kept_delete:
  assumes del: "delete_alerts (\<lambda>r. al_id r = i) d = Inr d'" and ok: "system_ok d"
  shows "log_kept d d'"
proof -
  note t = delete_alerts_tables[OF del]
  have gone: "map_of (keyed d') i = None" using t by (auto simp: keyed_def map_of_eq_None_iff)
  have "r \<in> set (db_activities d') \<or> ac_alert_id r = Some i \<and> i < db_next_id d'" if "r \<in> set (db_activities d)" for r
    using that t ok by (auto simp: system_ok_def alerts_ok_def)
  with gone show ?thesis unfolding log_kept_def by blast
qed

lemma step_log_kept: "step ws ws' \<Longrightarrow> system_ok (ws_db ws) \<Longrightarrow> log_kept (ws_db ws) (ws_db ws')"
proof (induction rule: step.induct)
  case (webhook we scope source source_of req payload ws res ws')
  then show ?case using receive_log by (fastforce intro: log_kept_rows)
next
  case (handler ws d')
  then have "extends (ws_db ws) d'" using case_step_extends by (auto simp: system_ok_def)
  then show ?case by (auto simp: extends_def intro!: log_kept_rows)
next
  case (enrichment conn client t ws res d' st')
  then show ?case using enrichment_extends by (fastforce simp: extends_def intro!: log_kept_rows)
next
  case (edit_comment isoformat hooks ev i c t ws res d')
  then show ?case using edit_edited(1) log_kept_edited by (fastforce simp: system_ok_def)
next
  case (edit_incident_comment isoformat hooks ev i c t ws res d')
  then show ?case using edit_edited(2) log_kept_edited by (fastforce simp: system_ok_def)
next
  case (delete_alert ev i ws d')
  then show ?case using log_kept_delete[OF delete_alert_run] by simp
qed

lemma log_kept_trans:
  assumes "log_kept d d1" and "log_kept d1 d2"
    and stay: "\<And>i. i < db_next_id d1 \<Longrightarrow> map_of (keyed d1) i = None \<Longrightarrow> i < db_next_id d2 \<and> map_of (keyed d2) i = None"
  shows "log_kept d d2"
  unfolding log_kept_def
proof
  fix r assume r: "r \<in> set (db_activities d)"
  show "(\<exists>s \<in> set (db_activities d2). ac_id s = ac_id r \<and> ac_action s = ac_action r \<and> ac_alert_id s = ac_alert_id r \<and>
        (ac_action r \<noteq> ''comment'' \<longrightarrow> s = r)) \<or> (\<exists>i < db_next_id d2. ac_alert_id r = Some i \<and> map_of (keyed d2) i = None)"
  proof (cases "\<exists>i < db_next_id d1. ac_alert_id r = Some i \<and> map_of (keyed d1) i = None")
    case True
    with stay show ?thesis by blast
  next
    case False
    with assms(1) r obtain s where s: "s \<in> set (db_activities d1)" "ac_id s = ac_id r" "ac_action s = ac_action r"
      "ac_alert_id s = ac_alert_id r" "ac_action r \<noteq> ''comment'' \<longrightarrow> s = r" unfolding log_kept_def by blast
    with assms(2) show ?thesis unfolding log_kept_def by fastforce
  qed
qed

lemma steps_log_kept: "step\<^sup>*\<^sup>* ws ws' \<Longrightarrow> system_ok (ws_db ws) \<Longrightarrow> log_kept (ws_db ws) (ws_db ws')"
proof (induction rule: rtranclp_induct)
  case (step ws1 ws2)
  note ok = steps_ok[OF step.hyps(1) step.prems]
  have "i < db_next_id (ws_db ws2) \<and> map_of (keyed (ws_db ws2)) i = None"
    if "i < db_next_id (ws_db ws1)" "map_of (keyed (ws_db ws1)) i = None" for i
    using ledger_step_mono[OF step_ledger[OF step.hyps(2) ok]] that by (force simp: ledger_of_def)
  with step.IH[OF step.prems] step_log_kept[OF step.hyps(2) ok] show ?case by (rule log_kept_trans)
qed (simp add: log_kept_rows)

section \<open>Properties\<close>


text \<open>C7: The system refines the ledger: seen through identifiers and identities alone, whatever step it
  takes either leaves the ledger alone, registers an identity no stored alert has under an
  identifier never issued before, or removes one entry.\<close>

theorem step_refines_ledger:
  "step ws ws' \<Longrightarrow> system_ok (ws_db ws) \<Longrightarrow> ledger_step (ledger_of (ws_db ws)) (ledger_of (ws_db ws'))"
  by (rule step_ledger)

text \<open>An identifier names one alert for good: through any sequence of steps, an identifier issued before
  still stands for the same source and source identifier, or for nothing; what was deleted or
  never stored does not come back.\<close>

theorem identity_permanent:
  assumes "step\<^sup>*\<^sup>* ws ws'" and "system_ok (ws_db ws)" and "i < db_next_id (ws_db ws)"
  shows "map_of (keyed (ws_db ws')) i \<in> {None, map_of (keyed (ws_db ws)) i}"
  using steps_ledger[OF assms(1,2)] assms(3) by (auto simp: ledger_of_def)


lemma demo_ok: "system_ok (ws_db (demo_state [login_alert]))"
  by (simp add: demo_state_def login_alert_def system_ok_def alerts_ok_def alert_ok_def incidents_ok_def links_ok_def
      dedup_ok_def log_ids_ok_def empty_db_def)

lemma demo_step: "step (demo_state [login_alert]) (snd (demo_run [login_alert]))"
  unfolding receive_alert_def by (rule step.webhook[OF surjective_pairing])


theorem step_refines_ledger_witness:
  "ledger_step (ledger_of (ws_db (demo_state [login_alert]))) (ledger_of (ws_db (snd (demo_run [login_alert]))))"
  by (rule step_refines_ledger[OF demo_step demo_ok])

theorem identity_permanent_witness:
  "map_of (keyed (ws_db (snd (demo_run [login_alert])))) 7 \<in> {None, Some (''webhook'', Some ''E1'')}"
proof -
  have "7 < db_next_id (ws_db (demo_state [login_alert]))"
    "map_of (keyed (ws_db (demo_state [login_alert]))) 7 = Some (''webhook'', Some ''E1'')"
    by (simp_all add: demo_state_def login_alert_def keyed_def dedup_key_def)
  then show ?thesis using identity_permanent[OF step_steps[OF demo_step] demo_ok, of 7] by simp
qed

definition claimed_db :: db where
  "claimed_db = (case claim_alert (no_plugins_env ana) 7 (ws_db (demo_state [login_alert])) of
     Inr (a, d) \<Rightarrow> d | Inl e \<Rightarrow> empty_db)"

definition claimed_state :: "unit webhook_state" where
  "claimed_state = (demo_state [login_alert])\<lparr>ws_db := claimed_db\<rparr>"


end
