(* ===== verification/Accounts.thy ===== *)
theory Accounts
  imports Webhook
begin

text \<open>
  \<open>opensoar/api/auth.py\<close>, \<open>opensoar/api/api_keys.py\<close> and \<open>opensoar/bootstrap_admin.py\<close>: accounts, passwords,
  sign-in and API keys.

  bcrypt, PyJWT, the key digest, the random token of a new key and the database's collation are
  parameters of the environment. A handler commits before it calls the audit sinks, so its outcome
  pairs the answer with the database. \<open>update_analyst\<close> is split into what it checks and what it
  writes, because two requests may check before either writes.
\<close>

section \<open>Environment and rows\<close>

record account_env = call_env +
  acc_hash :: "string \<Rightarrow> exn + string"
  acc_verify :: "string \<Rightarrow> string \<Rightarrow> exn + bool"
  acc_jwt :: jwt_lib
  acc_minutes :: int
  acc_order :: "analyst list \<Rightarrow> analyst list"
  acc_digest :: "string \<Rightarrow> string"

definition analyst_fits :: "analyst \<Rightarrow> bool" where
  "analyst_fits a \<longleftrightarrow> length (an_username a) \<le> 100 \<and> length (an_display_name a) \<le> 255 \<and> fits 255 (an_email a) \<and>
     fits 255 (an_password_hash a) \<and> length (an_role a) \<le> 50"

text \<open>\<open>session.add(Analyst(...))\<close> and the commit: the user name is unique.\<close>

definition add_analyst :: "analyst \<Rightarrow> db \<Rightarrow> exn + db" where
  "add_analyst a d =
     ebind (guard (analyst_fits a) data_error) (\<lambda>_.
     ebind (guard (an_username a \<notin> an_username ` set (db_analysts d)) (IntegrityError ''analysts.username'')) (\<lambda>_.
       Inr (d\<lparr>db_next_id := Suc (db_next_id d), db_analysts := db_analysts d @ [a]\<rparr>)))"

definition put_analyst :: "analyst \<Rightarrow> db \<Rightarrow> db" where
  "put_analyst a d = d\<lparr>db_analysts := update_where (\<lambda>r. an_id r = an_id a) (\<lambda>_. a) (db_analysts d)\<rparr>"

definition save_analyst :: "analyst \<Rightarrow> db \<Rightarrow> exn + db" where
  "save_analyst a d = ebind (guard (analyst_fits a) data_error) (\<lambda>_. Inr (put_analyst a d))"

definition account_event :: "string \<Rightarrow> string \<Rightarrow> analyst \<Rightarrow> string \<Rightarrow> uuid \<Rightarrow> jdict \<Rightarrow> audit_event" where
  "account_event category action actor kind target meta =
     \<lparr>ae_category = category, ae_action = action, ae_status = ''success'', ae_actor_id = Some (an_id actor),
      ae_actor_username = Some (an_username actor), ae_target_type = Some kind,
      ae_target_id = Some (uuid_str target), ae_metadata = meta\<rparr>"

text \<open>The audit event after the commit: a sink that raises fails the request, not the change.\<close>

definition audited :: "('x) account_env_scheme \<Rightarrow> audit_event \<Rightarrow> 'r \<Rightarrow> exn + 'r" where
  "audited env ev r = (case dispatch_audit_event (ev_app env) ev of Some e \<Rightarrow> Inl e | None \<Rightarrow> Inr r)"

section \<open>Sign-up and sign-in\<close>

definition validate_role :: "string \<Rightarrow> exn + string" where
  "validate_role role = ebind (guard (role \<in> set valid_analyst_roles)
     (HTTPException 422 (''Invalid role. Must be one of: '' @ join '', '' valid_analyst_roles))) (\<lambda>_. Inr role)"

definition validate_assignable_role :: "app_state \<Rightarrow> string \<Rightarrow> exn + string" where
  "validate_assignable_role app role =
     ebind (validate_role role) (\<lambda>role.
     ebind (guard (role \<in> fst ` set (roles_of app))
              (HTTPException 422 (''Role '' @ quoted role @ '' is not available in this deployment''))) (\<lambda>_. Inr role))"

definition require_local_password :: "analyst \<Rightarrow> exn + string" where
  "require_local_password a = (case an_password_hash a of
      Some (c # cs) \<Rightarrow> Inr (c # cs)
    | _ \<Rightarrow> Inl (HTTPException 400 ''Local password is not configured for this account''))"

record analyst_create =
  bd_username :: string
  bd_display_name :: string
  bd_email :: "string option"
  bd_password :: string
  bd_role :: string

definition username_free :: "string \<Rightarrow> db \<Rightarrow> exn + unit" where
  "username_free name d =
     ebind (fetch (\<lambda>a. an_username a = name) (db_analysts d)) (\<lambda>existing.
       guard (existing = None) (HTTPException 409 ''Username already taken''))"

definition new_analyst :: "db \<Rightarrow> analyst_create \<Rightarrow> string \<Rightarrow> string \<Rightarrow> analyst" where
  "new_analyst d b h role = \<lparr>an_id = db_next_id d, an_username = bd_username b, an_display_name = bd_display_name b,
     an_email = bd_email b, an_password_hash = Some h, an_is_active = True, an_role = role\<rparr>"

definition token_for :: "('x) account_env_scheme \<Rightarrow> analyst \<Rightarrow> string" where
  "token_for env a = create_access_token (acc_jwt env) (acc_minutes env) (ev_now env) (an_id a) (an_username a)"

definition register :: "('x) account_env_scheme \<Rightarrow> analyst_create \<Rightarrow> db \<Rightarrow> (string \<times> analyst) outcome" where
  "register env b d =
     after_commit d
       (ebind (guard (fst (snd (get_auth_capabilities (ev_app env)))) (HTTPException 403 ''Local registration is disabled'')) (\<lambda>_.
        ebind (username_free (bd_username b) d) (\<lambda>_.
        ebind (acc_hash env (bd_password b)) (\<lambda>h.
        let a = new_analyst d b h ''analyst''
        in ebind (add_analyst a d) (\<lambda>d'. Inr (a, d'))))))
       (\<lambda>a. audited env (account_event ''auth'' ''analyst.registered'' a ''analyst'' (an_id a) [(''role'', JStr (an_role a))])
              (token_for env a, a))"

definition invalid_credentials :: exn where
  "invalid_credentials = HTTPException 401 ''Invalid credentials''"

definition login :: "('x) account_env_scheme \<Rightarrow> string \<Rightarrow> string \<Rightarrow> db \<Rightarrow> exn + (string \<times> analyst)" where
  "login env name password d =
     ebind (guard (fst (get_auth_capabilities (ev_app env))) (HTTPException 403 ''Local login is disabled'')) (\<lambda>_.
     ebind (fetch (\<lambda>a. an_username a = name) (db_analysts d)) (\<lambda>found.
     case found of
       None \<Rightarrow> Inl invalid_credentials
     | Some a \<Rightarrow>
         ebind (if truthy_str (an_password_hash a) then acc_verify env password (the (an_password_hash a)) else Inr False) (\<lambda>ok.
         ebind (guard ok invalid_credentials) (\<lambda>_.
         ebind (guard (an_is_active a) (HTTPException 403 ''Account is deactivated'')) (\<lambda>_.
           audited env (account_event ''auth'' ''analyst.logged_in'' a ''analyst'' (an_id a) []) (token_for env a, a))))))"

definition change_password :: "('x) account_env_scheme \<Rightarrow> string \<Rightarrow> string \<Rightarrow> db \<Rightarrow> unit outcome" where
  "change_password env current_pw new_pw d =
     after_commit d
       (ebind (require_analyst (ev_user env)) (\<lambda>a.
        ebind (require_local_password a) (\<lambda>h.
        ebind (acc_verify env current_pw h) (\<lambda>ok.
        ebind (guard ok (HTTPException 401 ''Current password is incorrect'')) (\<lambda>_.
        ebind (acc_hash env new_pw) (\<lambda>h'.
        ebind (save_analyst (a\<lparr>an_password_hash := Some h'\<rparr>) d) (\<lambda>d'. Inr (a, d'))))))))
       (\<lambda>a. audited env (account_event ''auth'' ''analyst.password_changed'' a ''analyst'' (an_id a) []) ())"

section \<open>Administration\<close>

definition require_admin :: "analyst option \<Rightarrow> exn + analyst" where
  "require_admin user =
     ebind (require_analyst user) (\<lambda>a.
     ebind (guard (an_role a = ''admin'') (HTTPException 403 ''Admin access required'')) (\<lambda>_. Inr a))"

definition list_roles :: "call_env \<Rightarrow> exn + (string \<times> string) list" where
  "list_roles ev = ebind (require_admin (ev_user ev)) (\<lambda>_. Inr (roles_of (ev_app ev)))"

definition create_analyst :: "('x) account_env_scheme \<Rightarrow> analyst_create \<Rightarrow> db \<Rightarrow> analyst outcome" where
  "create_analyst env b d =
     after_commit d
       (ebind (require_admin (ev_user env)) (\<lambda>admin.
        ebind (username_free (bd_username b) d) (\<lambda>_.
        ebind (acc_hash env (bd_password b)) (\<lambda>h.
        ebind (validate_assignable_role (ev_app env) (bd_role b)) (\<lambda>role.
        let a = new_analyst d b h role
        in ebind (add_analyst a d) (\<lambda>d'. Inr ((admin, a), d')))))))
       (\<lambda>(admin, a). audited env
          (account_event ''admin'' ''analyst.created'' admin ''analyst'' (an_id a) [(''role'', JStr (an_role a))]) a)"

definition list_analysts :: "('x) account_env_scheme \<Rightarrow> db \<Rightarrow> exn + analyst list" where
  "list_analysts env d = ebind (require_admin (ev_user env)) (\<lambda>_. Inr (acc_order env (db_analysts d)))"

text \<open>The fields of a \<open>PATCH\<close>; \<open>role\<close> goes through \<open>str()\<close>, so null becomes the text \<open>None\<close>.\<close>

record analyst_update =
  pu_display_name :: "string patch"
  pu_email :: "string patch"
  pu_is_active :: "bool patch"
  pu_role :: "string patch"

definition patched_role :: "analyst_update \<Rightarrow> string option" where
  "patched_role u = (case pu_role u of None \<Rightarrow> None | Some None \<Rightarrow> Some ''None'' | Some (Some r) \<Rightarrow> Some r)"

definition assert_not_last_active_admin :: "db \<Rightarrow> analyst \<Rightarrow> string option \<Rightarrow> bool patch \<Rightarrow> exn + unit" where
  "assert_not_last_active_admin d a role active =
     (let role_after = (case role of None \<Rightarrow> an_role a | Some r \<Rightarrow> r);
          active_after = (case active of None \<Rightarrow> an_is_active a | Some None \<Rightarrow> False | Some (Some b) \<Rightarrow> b)
      in if an_role a \<noteq> ''admin'' \<or> (role_after = ''admin'' \<and> active_after) then Inr ()
         else guard (\<exists>r \<in> set (db_analysts d). an_role r = ''admin'' \<and> an_is_active r \<and> an_id r \<noteq> an_id a)
                (HTTPException 400 ''Cannot remove the last active admin''))"

text \<open>What the request reads and checks, and the changed row it will write.\<close>

definition prepare_update ::
  "('x) account_env_scheme \<Rightarrow> string \<Rightarrow> analyst_update \<Rightarrow> db \<Rightarrow> exn + (analyst \<times> analyst)" where
  "prepare_update env analyst_id u d =
     ebind (require_admin (ev_user env)) (\<lambda>admin.
     ebind (parse_uuid analyst_id) (\<lambda>i.
     ebind (fetch_or (HTTPException 404 ''Analyst not found'') (\<lambda>a. an_id a = i) (db_analysts d)) (\<lambda>a.
     ebind (case patched_role u of None \<Rightarrow> Inr None
            | Some r \<Rightarrow> ebind (validate_assignable_role (ev_app env) r) (\<lambda>r. Inr (Some r))) (\<lambda>role.
     ebind (assert_not_last_active_admin d a role (pu_is_active u)) (\<lambda>_.
     ebind (patch_not_null ''analysts.display_name'' (pu_display_name u) (an_display_name a)) (\<lambda>display.
     ebind (patch_not_null ''analysts.is_active'' (pu_is_active u) (an_is_active a)) (\<lambda>active.
       Inr (admin, a\<lparr>an_display_name := display, an_email := patch_nullable (pu_email u) (an_email a),
                     an_is_active := active, an_role := (case role of None \<Rightarrow> an_role a | Some r \<Rightarrow> r)\<rparr>))))))))"

text \<open>The names of the fields set, in alphabetical order.\<close>

definition updated_fields :: "analyst_update \<Rightarrow> string list" where
  "updated_fields u = (if pu_display_name u = None then [] else [''display_name'']) @
     (if pu_email u = None then [] else [''email'']) @ (if pu_is_active u = None then [] else [''is_active'']) @
     (if pu_role u = None then [] else [''role''])"

definition update_analyst :: "('x) account_env_scheme \<Rightarrow> string \<Rightarrow> analyst_update \<Rightarrow> db \<Rightarrow> analyst outcome" where
  "update_analyst env analyst_id u d =
     after_commit d
       (ebind (prepare_update env analyst_id u d) (\<lambda>(admin, a).
        ebind (save_analyst a d) (\<lambda>d'. Inr ((admin, a), d'))))
       (\<lambda>(admin, a). audited env (account_event ''admin'' ''analyst.updated'' admin ''analyst'' (an_id a)
          [(''updated_fields'', JArr (map JStr (updated_fields u)))]) a)"

definition reset_analyst_password :: "('x) account_env_scheme \<Rightarrow> string \<Rightarrow> string \<Rightarrow> db \<Rightarrow> unit outcome" where
  "reset_analyst_password env analyst_id new_pw d =
     after_commit d
       (ebind (require_admin (ev_user env)) (\<lambda>admin.
        ebind (parse_uuid analyst_id) (\<lambda>i.
        ebind (fetch_or (HTTPException 404 ''Analyst not found'') (\<lambda>a. an_id a = i) (db_analysts d)) (\<lambda>a.
        ebind (require_local_password a) (\<lambda>_.
        ebind (acc_hash env new_pw) (\<lambda>h.
        ebind (save_analyst (a\<lparr>an_password_hash := Some h\<rparr>) d) (\<lambda>d'. Inr ((admin, a), d'))))))))
       (\<lambda>(admin, a). audited env (account_event ''admin'' ''analyst.password_reset'' admin ''analyst'' (an_id a) []) ())"

definition bootstrap_local_admin ::
  "('x) account_env_scheme \<Rightarrow> string \<Rightarrow> string \<Rightarrow> string option \<Rightarrow> string option \<Rightarrow> db \<Rightarrow> exn + (analyst \<times> db)" where
  "bootstrap_local_admin env name password display email d =
     ebind (guard (\<not> (\<exists>r \<in> set (db_analysts d). an_role r = ''admin'' \<and> an_is_active r))
              (RuntimeError ''An active admin already exists; use the admin account-management flow instead.'')) (\<lambda>_.
     ebind (guard (\<not> (\<exists>r \<in> set (db_analysts d). an_username r = name))
              (RuntimeError (''Username '' @ quoted name @ '' is already taken.''))) (\<lambda>_.
     ebind (acc_hash env password) (\<lambda>h.
     let a = \<lparr>an_id = db_next_id d, an_username = name,
              an_display_name = (if truthy_str display then the display else name), an_email = email,
              an_password_hash = Some h, an_is_active = True, an_role = ''admin''\<rparr>
     in ebind (add_analyst a d) (\<lambda>d'. Inr (a, d')))))"

section \<open>Who can be mentioned\<close>

text \<open>SQL \<open>LIKE\<close>: percent stands for any text, underscore for one character, a backslash escapes.\<close>

fun like :: "string \<Rightarrow> string \<Rightarrow> bool" where
  "like [] s = (s = [])"
| "like (p # ps) [] = (p = CHR ''%'' \<and> like ps [])"
| "like (p # ps) (c # cs) =
     (if p = CHR ''%'' then like ps (c # cs) \<or> like (p # ps) cs
      else if p = CHR ''_'' then like ps cs
      else if p = CHR 0x5C then (case ps of [] \<Rightarrow> False | q # qs \<Rightarrow> q = c \<and> like qs cs)
      else p = c \<and> like ps cs)"

definition mention_candidate :: "string option \<Rightarrow> analyst \<Rightarrow> bool" where
  "mention_candidate q a \<longleftrightarrow> an_is_active a \<and>
     (truthy_str q \<longrightarrow> (let pattern = lower (the q) @ ''%''
                        in like pattern (lower (an_username a)) \<or> like pattern (lower (an_display_name a))))"

fun mention_loop :: "call_env \<Rightarrow> nat \<Rightarrow> analyst list \<Rightarrow> exn + analyst list" where
  "mention_loop ev 0 rows = Inr []"
| "mention_loop ev (Suc n) [] = Inr []"
| "mention_loop ev (Suc n) (a # rows) =
     (case enforce ev (RAnalyst a) ''analyst'' ''mention'' of
        Inl e \<Rightarrow> (if is_HTTPException e then mention_loop ev (Suc n) rows else Inl e)
      | Inr _ \<Rightarrow> ebind (mention_loop ev n rows) (\<lambda>more. Inr (a # more)))"

definition list_mentionable_analysts ::
  "account_env \<Rightarrow> string option \<Rightarrow> int \<Rightarrow> db \<Rightarrow> exn + analyst list" where
  "list_mentionable_analysts env q limit d =
     ebind (guard (fits 100 q \<and> 1 \<le> limit \<and> limit \<le> 50) (HTTPException 422 ''query'')) (\<lambda>_.
     ebind (require_analyst (ev_user env)) (\<lambda>_.
       mention_loop (call_env.truncate env) (nat limit)
         (take (nat (limit * 4)) (acc_order env (filter (mention_candidate q) (db_analysts d))))))"

section \<open>API keys\<close>

definition list_api_keys :: "call_env \<Rightarrow> db \<Rightarrow> exn + api_key list" where
  "list_api_keys ev d = ebind (require_admin (ev_user ev)) (\<lambda>_. Inr (rev (db_api_keys d)))"

definition create_api_key ::
  "('x) account_env_scheme \<Rightarrow> string \<Rightarrow> string \<Rightarrow> db \<Rightarrow> (string \<times> api_key) outcome" where
  "create_api_key env random name d =
     after_commit d
       (ebind (require_admin (ev_user env)) (\<lambda>admin.
        let (key, prefix, h) = generate_api_key (acc_digest env) random;
            k = \<lparr>ak_id = db_next_id d, ak_name = name, ak_key_hash = h, ak_prefix = prefix, ak_is_active = True,
                 ak_last_used_at = None, ak_expires_at = None\<rparr>
        in ebind (guard (length name \<le> 255 \<and> length h \<le> 64 \<and> length prefix \<le> 16) data_error) (\<lambda>_.
           Inr ((admin, key, k), d\<lparr>db_next_id := Suc (db_next_id d), db_api_keys := db_api_keys d @ [k]\<rparr>))))
       (\<lambda>(admin, key, k). audited env (account_event ''admin'' ''api_key.created'' admin ''api_key'' (ak_id k)
          [(''name'', JStr (ak_name k)), (''prefix'', JStr (ak_prefix k))]) (key, k))"

definition revoke_api_key :: "('x) account_env_scheme \<Rightarrow> uuid \<Rightarrow> db \<Rightarrow> unit outcome" where
  "revoke_api_key env key_id d =
     after_commit d
       (ebind (require_admin (ev_user env)) (\<lambda>admin.
        ebind (fetch_or (HTTPException 404 ''API key not found'') (\<lambda>k. ak_id k = key_id) (db_api_keys d)) (\<lambda>k.
          Inr ((admin, k), d\<lparr>db_api_keys := update_where (\<lambda>r. ak_id r = ak_id k) (\<lambda>r. r\<lparr>ak_is_active := False\<rparr>)
                 (db_api_keys d)\<rparr>))))
       (\<lambda>(admin, k). audited env (account_event ''admin'' ''api_key.revoked'' admin ''api_key'' (ak_id k)
          [(''name'', JStr (ak_name k)), (''prefix'', JStr (ak_prefix k))]) ())"


section \<open>The account table\<close>

definition accounts_ok :: "db \<Rightarrow> bool" where
  "accounts_ok d \<longleftrightarrow> distinct (map an_id (db_analysts d)) \<and> distinct (map an_username (db_analysts d)) \<and>
     (\<forall>a \<in> set (db_analysts d). an_id a < db_next_id d)"

definition active_admin :: "analyst \<Rightarrow> bool" where
  "active_admin a \<longleftrightarrow> an_role a = ''admin'' \<and> an_is_active a"

definition has_admin :: "db \<Rightarrow> bool" where
  "has_admin d \<longleftrightarrow> (\<exists>a \<in> set (db_analysts d). active_admin a)"

lemma save_analyst_eq: "save_analyst a d = Inr d' \<longleftrightarrow> analyst_fits a \<and> d' = put_analyst a d"
  by (auto simp: save_analyst_def res_simps)

lemma put_analyst_rows: "r \<in> set (db_analysts (put_analyst a d)) \<longleftrightarrow>
    (r = a \<and> an_id a \<in> an_id ` set (db_analysts d)) \<or> (r \<in> set (db_analysts d) \<and> an_id r \<noteq> an_id a)"
  by (auto simp: put_analyst_def update_where_def image_iff) metis+

lemma put_analyst_keys:
  assumes "accounts_ok d" and "old \<in> set (db_analysts d)" and "an_id a = an_id old" and "an_username a = an_username old"
  shows "map an_id (db_analysts (put_analyst a d)) = map an_id (db_analysts d)"
    and "map an_username (db_analysts (put_analyst a d)) = map an_username (db_analysts d)"
  using assms key_eq[of an_id "db_analysts d" _ old]
  by (auto simp: put_analyst_def update_where_def accounts_ok_def)

lemma put_analyst_ok:
  assumes "accounts_ok d" and "old \<in> set (db_analysts d)" and "an_id a = an_id old" and "an_username a = an_username old"
  shows "accounts_ok (put_analyst a d)"
  using assms put_analyst_keys[OF assms] by (auto simp: accounts_ok_def put_analyst_rows) (simp_all add: put_analyst_def)

lemma put_analyst_admin:
  assumes ok: "accounts_ok d" and old: "old \<in> set (db_analysts d)" and same: "an_id a = an_id old"
    and keep: "active_admin old \<Longrightarrow> active_admin a \<or> (\<exists>r \<in> set (db_analysts d). active_admin r \<and> an_id r \<noteq> an_id old)"
    and some: "has_admin d"
  shows "has_admin (put_analyst a d)"
proof -
  from some obtain r where r: "r \<in> set (db_analysts d)" "active_admin r" by (auto simp: has_admin_def)
  have "active_admin a \<or> (\<exists>r \<in> set (db_analysts d). active_admin r \<and> an_id r \<noteq> an_id a)"
  proof (cases "an_id r = an_id old")
    case True
    then have "r = old" using key_eq[of an_id, OF _ r(1) old] ok by (simp add: accounts_ok_def)
    with keep r same show ?thesis by auto
  qed (use r same in auto)
  then show ?thesis using old same by (auto simp: has_admin_def put_analyst_rows)
qed

lemma put_analyst_kept:
  assumes "accounts_ok d" and "old \<in> set (db_analysts d)" and "an_id a = an_id old" and "an_username a = an_username old"
    and "active_admin old \<Longrightarrow> active_admin a \<or> (\<exists>r \<in> set (db_analysts d). active_admin r \<and> an_id r \<noteq> an_id old)"
  shows "accounts_ok (put_analyst a d) \<and> (has_admin d \<longrightarrow> has_admin (put_analyst a d))"
  using put_analyst_ok[OF assms(1-4)] put_analyst_admin[OF assms(1-3,5)] by blast

lemma add_analyst_ok:
  assumes "add_analyst a d = Inr d'" and "accounts_ok d" and "an_id a = db_next_id d"
  shows "accounts_ok d' \<and> (has_admin d \<longrightarrow> has_admin d')"
proof -
  from assms(1) have d': "d' = d\<lparr>db_next_id := Suc (db_next_id d), db_analysts := db_analysts d @ [a]\<rparr>"
    and name: "an_username a \<notin> an_username ` set (db_analysts d)"
    unfolding add_analyst_def ebind_eq_Inr guard_eq_Inr by auto
  have "an_id r \<noteq> an_id a \<and> an_id r < Suc (db_next_id d)" if "r \<in> set (db_analysts d)" for r
    using that assms(2,3) by (auto simp: accounts_ok_def dest!: bspec)
  with name assms(2,3) show ?thesis unfolding d' by (auto simp: accounts_ok_def has_admin_def)
qed

lemma after_commit_db: "after_commit d m k = (res, d') \<Longrightarrow> d' = d \<or> (\<exists>x. m = Inr (x, d'))"
  by (cases m) (auto simp: after_commit_def)

inductive account_step :: "('x) account_env_scheme \<Rightarrow> db \<Rightarrow> db \<Rightarrow> bool" for env where
  registered: "register env b d = (r1, d') \<Longrightarrow> account_step env d d'"
| password_changed: "change_password env old_pw new_pw d = (r2, d') \<Longrightarrow> account_step env d d'"
| created: "create_analyst env b d = (r3, d') \<Longrightarrow> account_step env d d'"
| updated: "update_analyst env i u d = (r3, d') \<Longrightarrow> account_step env d d'"
| password_reset: "reset_analyst_password env i new_pw d = (r2, d') \<Longrightarrow> account_step env d d'"
| bootstrapped: "bootstrap_local_admin env name pw display email d = Inr (a, d') \<Longrightarrow> account_step env d d'"

lemma assert_admin_keeps:
  assumes "assert_not_last_active_admin d a role active = Inr ()" and "active_admin a"
    and "a' = a\<lparr>an_display_name := x, an_email := y, an_is_active := b,
      an_role := (case role of None \<Rightarrow> an_role a | Some r \<Rightarrow> r)\<rparr>"
    and "(active = None \<and> b = an_is_active a) \<or> active = Some (Some b)"
  shows "active_admin a' \<or> (\<exists>r \<in> set (db_analysts d). active_admin r \<and> an_id r \<noteq> an_id a)"
  using assms by (auto simp: assert_not_last_active_admin_def active_admin_def Let_def guard_eq_Inr
      split: if_splits option.splits)

lemma prepare_update_run:
  assumes "prepare_update env i u d = Inr (admin, a')"
  shows "\<exists>a \<in> set (db_analysts d). an_id a' = an_id a \<and> an_username a' = an_username a \<and>
     (active_admin a \<longrightarrow> active_admin a' \<or> (\<exists>r \<in> set (db_analysts d). active_admin r \<and> an_id r \<noteq> an_id a))"
proof -
  from assms obtain k a role display b where
    f: "filter (\<lambda>r. an_id r = k) (db_analysts d) = [a]"
    and chk: "assert_not_last_active_admin d a role (pu_is_active u) = Inr ()"
    and act: "patch_not_null ''analysts.is_active'' (pu_is_active u) (an_is_active a) = Inr b"
    and a': "a' = a\<lparr>an_display_name := display, an_email := patch_nullable (pu_email u) (an_email a),
        an_is_active := b, an_role := (case role of None \<Rightarrow> an_role a | Some r \<Rightarrow> r)\<rparr>"
    unfolding prepare_update_def ebind_eq_Inr fetch_or_eq_Inr by (elim exE conjE) (simp, blast)
  have "a \<in> set (db_analysts d)" using filter_single_mem[OF f] by blast
  moreover note assert_admin_keeps[OF chk _ a' act[unfolded patch_not_null_eq_Inr]]
  ultimately show ?thesis unfolding a' by (intro bexI[of _ a]) simp_all
qed

lemma account_step_ok:
  assumes st: "account_step env d d'" and ok: "accounts_ok d"
    and user: "\<And>a. ev_user env = Some a \<Longrightarrow> a \<in> set (db_analysts d)"
  shows "accounts_ok d' \<and> (has_admin d \<longrightarrow> has_admin d')"
  using st
proof cases
  case (registered b r1)
  from after_commit_db[OF this[unfolded register_def]] show ?thesis
    using ok by (auto simp: ebind_eq_Inr Let_def new_analyst_def dest!: add_analyst_ok[OF _ ok])
next
  case (password_changed old_pw new_pw r2)
  from after_commit_db[OF this[unfolded change_password_def]] show ?thesis
  proof
    assume "\<exists>x. ebind (require_analyst (ev_user env)) (\<lambda>a. ebind (require_local_password a) (\<lambda>h.
        ebind (acc_verify env old_pw h) (\<lambda>ok. ebind (guard ok (HTTPException 401 ''Current password is incorrect'')) (\<lambda>_.
        ebind (acc_hash env new_pw) (\<lambda>h'. ebind (save_analyst (a\<lparr>an_password_hash := Some h'\<rparr>) d) (\<lambda>d'. Inr (a, d'))))))) = Inr (x, d')"
    then obtain a h where a: "ev_user env = Some a" and d': "d' = put_analyst (a\<lparr>an_password_hash := Some h\<rparr>) d"
      by (auto simp: ebind_eq_Inr save_analyst_eq require_analyst_def split: option.splits)
    show ?thesis unfolding d' by (rule put_analyst_kept[OF ok user[OF a]]) (simp_all add: active_admin_def)
  qed (use ok in simp)
next
  case (created b r3)
  from after_commit_db[OF this[unfolded create_analyst_def]] show ?thesis
    using ok by (auto simp: ebind_eq_Inr Let_def new_analyst_def dest!: add_analyst_ok[OF _ ok])
next
  case (updated i u r3)
  from after_commit_db[OF this[unfolded update_analyst_def]] show ?thesis
  proof
    assume "\<exists>x. ebind (prepare_update env i u d) (\<lambda>(admin, a). ebind (save_analyst a d) (\<lambda>d'. Inr ((admin, a), d'))) = Inr (x, d')"
    then obtain admin a' where p: "prepare_update env i u d = Inr (admin, a')" and d': "d' = put_analyst a' d"
      by (auto simp: ebind_eq_Inr save_analyst_eq)
    from prepare_update_run[OF p] obtain a where a: "a \<in> set (db_analysts d)" "an_id a' = an_id a" "an_username a' = an_username a"
      "active_admin a \<longrightarrow> active_admin a' \<or> (\<exists>r \<in> set (db_analysts d). active_admin r \<and> an_id r \<noteq> an_id a)" by blast
    then show ?thesis unfolding d' by (intro put_analyst_kept[OF ok a(1,2,3)]) blast
  qed (use ok in simp)
next
  case (password_reset i new_pw r2)
  from after_commit_db[OF this[unfolded reset_analyst_password_def]] show ?thesis
  proof
    assume "\<exists>x. ebind (require_admin (ev_user env)) (\<lambda>admin. ebind (parse_uuid i) (\<lambda>i.
        ebind (fetch_or (HTTPException 404 ''Analyst not found'') (\<lambda>a. an_id a = i) (db_analysts d)) (\<lambda>a.
        ebind (require_local_password a) (\<lambda>_. ebind (acc_hash env new_pw) (\<lambda>h.
        ebind (save_analyst (a\<lparr>an_password_hash := Some h\<rparr>) d) (\<lambda>d'. Inr ((admin, a), d'))))))) = Inr (x, d')"
    then obtain a h where a: "a \<in> set (db_analysts d)" and d': "d' = put_analyst (a\<lparr>an_password_hash := Some h\<rparr>) d"
      by (auto simp: ebind_eq_Inr save_analyst_eq fetch_or_eq_Inr dest!: filter_single_mem)
    show ?thesis unfolding d' by (rule put_analyst_kept[OF ok a]) (simp_all add: active_admin_def)
  qed (use ok in simp)
next
  case (bootstrapped name pw display email a)
  then show ?thesis unfolding bootstrap_local_admin_def ebind_eq_Inr guard_eq_Inr Let_def
    by (auto simp: ebind_eq_Inr dest!: add_analyst_ok[OF _ ok])
qed


section \<open>Concurrent updates\<close>

text \<open>Two requests that both read and check before either commits (the default isolation lets them), then
  write one after the other.\<close>

definition racing_updates ::
  "('x) account_env_scheme \<Rightarrow> string \<times> analyst_update \<Rightarrow> string \<times> analyst_update \<Rightarrow> db \<Rightarrow> exn + db" where
  "racing_updates env one two d =
     ebind (prepare_update env (fst one) (snd one) d) (\<lambda>(_, a).
     ebind (prepare_update env (fst two) (snd two) d) (\<lambda>(_, b).
     ebind (save_analyst a d) (save_analyst b)))"

definition deactivate :: analyst_update where
  "deactivate = \<lparr>pu_display_name = None, pu_email = None, pu_is_active = Some (Some False), pu_role = None\<rparr>"

lemma fetch_by_id: "accounts_ok d \<Longrightarrow> a \<in> set (db_analysts d) \<Longrightarrow> fetch_or e (\<lambda>r. an_id r = an_id a) (db_analysts d) = Inr a"
  by (intro fetch_or_key) (simp_all add: accounts_ok_def)

lemma prepare_deactivate:
  assumes "accounts_ok d" and "ev_user env = Some u" and "an_role u = ''admin''" and "a \<in> set (db_analysts d)"
    and "active_admin a" and "\<exists>r \<in> set (db_analysts d). active_admin r \<and> an_id r \<noteq> an_id a"
  shows "prepare_update env (uuid_str (an_id a)) deactivate d = Inr (u, a\<lparr>an_is_active := False\<rparr>)"
  using assms fetch_by_id[OF assms(1,4)]
  by (auto simp: prepare_update_def require_admin_def require_analyst_def deactivate_def patched_role_def
      assert_not_last_active_admin_def active_admin_def guard_def patch_not_null_def patch_nullable_def Let_def)

section \<open>Passwords and keys\<close>

text \<open>bcrypt's contract: a hash is not empty and verifies exactly the password it was made from.\<close>

definition hash_ok :: "('x) account_env_scheme \<Rightarrow> string \<Rightarrow> bool" where
  "hash_ok env p \<longleftrightarrow> (case acc_hash env p of Inl e \<Rightarrow> True
     | Inr h \<Rightarrow> h \<noteq> [] \<and> (\<forall>q. acc_verify env q h = Inr (q = p)))"

lemma save_analyst_fetch:
  assumes "accounts_ok d" and "old \<in> set (db_analysts d)" and "an_id a = an_id old" and "an_username a = an_username old"
  shows "fetch (\<lambda>r. an_username r = an_username a) (db_analysts (put_analyst a d)) = Inr (Some a)"
proof -
  have "a \<in> set (db_analysts (put_analyst a d))" using assms by (auto simp: put_analyst_rows)
  then show ?thesis using put_analyst_ok[OF assms] filter_key[of an_username "db_analysts (put_analyst a d)" a]
    by (simp add: accounts_ok_def fetch_def)
qed

section \<open>Literal patterns\<close>

definition literal :: "string \<Rightarrow> bool" where
  "literal p \<longleftrightarrow> CHR ''%'' \<notin> set p \<and> CHR ''_'' \<notin> set p \<and> CHR 0x5C \<notin> set p"

lemma like_percent: "like ''%'' s"
  by (induction s) auto

lemma like_prefix: "literal p \<Longrightarrow> like (p @ ''%'') s \<longleftrightarrow> prefix p s"
proof (induction p arbitrary: s)
  case Nil
  then show ?case using like_percent by simp
next
  case (Cons c p)
  then show ?case by (cases s) (auto simp: literal_def)
qed

lemma subseq_mem: "subseq xs ys \<Longrightarrow> x \<in> set xs \<Longrightarrow> x \<in> set ys"
  using list_emb_set[of "(=)" xs ys x] by auto

lemma mention_loop_sound: "mention_loop ev n rows = Inr res \<Longrightarrow>
    subseq res rows \<and> length res \<le> n \<and> (\<forall>a \<in> set res. enforce ev (RAnalyst a) ''analyst'' ''mention'' = Inr ())"
proof (induction ev n rows arbitrary: res rule: mention_loop.induct)
  case (3 ev n a rows)
  show ?case
  proof (cases "enforce ev (RAnalyst a) ''analyst'' ''mention''")
    case (Inl e)
    with 3 show ?thesis by (auto split: if_splits)
  next
    case (Inr u)
    with 3 show ?thesis by (auto simp: ebind_eq_Inr)
  qed
qed auto

section \<open>Properties\<close>

text \<open>C8: An administrator always remains: no account operation, carried out on its own, removes or
  deactivates the last active administrator, and user names and identifiers stay unique.\<close>

theorem admin_always_remains:
  assumes "account_step env d d'" and "accounts_ok d" and "has_admin d"
    and "\<forall>a. ev_user env = Some a \<longrightarrow> a \<in> set (db_analysts d)"
  shows "accounts_ok d' \<and> has_admin d'"
  using account_step_ok[OF assms(1,2)] assms(3,4) by blast

text \<open>C40: Two concurrent requests can remove both last administrators: when an administrator's requests to
  deactivate each of the only two active administrators are checked before either is written, both
  succeed and no active administrator is left; carried out one after the other, the second fails.\<close>

theorem last_admins_race:
  assumes ok: "accounts_ok d" and a: "a \<in> set (db_analysts d)" "active_admin a" and b: "b \<in> set (db_analysts d)" "active_admin b"
    and ab: "an_id a \<noteq> an_id b" and only: "\<forall>r \<in> set (db_analysts d). active_admin r \<longrightarrow> r = a \<or> r = b"
    and fits: "analyst_fits a" "analyst_fits b" and u: "ev_user env = Some a"
  shows "(\<exists>d'. racing_updates env (uuid_str (an_id b), deactivate) (uuid_str (an_id a), deactivate) d = Inr d' \<and> \<not> has_admin d')
    \<and> fst (update_analyst env (uuid_str (an_id a)) deactivate (snd (update_analyst env (uuid_str (an_id b)) deactivate d))) =
        Inl (HTTPException 400 ''Cannot remove the last active admin'')"
proof -
  let ?a = "a\<lparr>an_is_active := False\<rparr>" let ?b = "b\<lparr>an_is_active := False\<rparr>"
  have u': "an_role a = ''admin''" using a by (simp add: active_admin_def)
  have pa: "prepare_update env (uuid_str (an_id a)) deactivate d = Inr (a, ?a)"
    by (rule prepare_deactivate[OF ok u u' a]) (use b ab in auto)
  have pb: "prepare_update env (uuid_str (an_id b)) deactivate d = Inr (a, ?b)"
    by (rule prepare_deactivate[OF ok u u' b]) (use a ab in auto)
  have fit: "analyst_fits ?a" "analyst_fits ?b" using fits by (simp_all add: analyst_fits_def)
  have sb: "save_analyst ?b d = Inr (put_analyst ?b d)" "save_analyst ?a (put_analyst ?b d) = Inr (put_analyst ?a (put_analyst ?b d))"
    using fit by (simp_all add: save_analyst_eq)
  have none: "\<not> has_admin (put_analyst ?a (put_analyst ?b d))"
    using only by (auto simp: has_admin_def put_analyst_rows active_admin_def)
  have race: "racing_updates env (uuid_str (an_id b), deactivate) (uuid_str (an_id a), deactivate) d =
      Inr (put_analyst ?a (put_analyst ?b d))"
    using pa pb sb by (simp add: racing_updates_def)
  have d1: "snd (update_analyst env (uuid_str (an_id b)) deactivate d) = put_analyst ?b d"
    using pb sb by (simp add: update_analyst_def)
  have ok1: "accounts_ok (put_analyst ?b d)" by (rule put_analyst_ok[OF ok b(1)]) simp_all
  have a1: "a \<in> set (db_analysts (put_analyst ?b d))" using a ab by (simp add: put_analyst_rows)
  have "\<not> (\<exists>r \<in> set (db_analysts (put_analyst ?b d)). an_role r = ''admin'' \<and> an_is_active r \<and> an_id r \<noteq> an_id a)"
    using only by (auto simp: put_analyst_rows active_admin_def)
  then have "prepare_update env (uuid_str (an_id a)) deactivate (put_analyst ?b d) =
      Inl (HTTPException 400 ''Cannot remove the last active admin'')"
    using fetch_by_id[OF ok1 a1] u u' a
    by (simp add: prepare_update_def require_admin_def require_analyst_def deactivate_def patched_role_def
        assert_not_last_active_admin_def active_admin_def guard_def Let_def) blast
  then have "fst (update_analyst env (uuid_str (an_id a)) deactivate (put_analyst ?b d)) =
      Inl (HTTPException 400 ''Cannot remove the last active admin'')" by (simp add: update_analyst_def)
  with race none show ?thesis unfolding d1 by simp
qed

text \<open>A changed password takes effect: after a successful change, signing in by that user name succeeds
  with the new password exactly, is refused with any other, and the issued token authenticates that
  analyst until it expires.\<close>

theorem password_change_takes_effect:
  assumes c: "change_password env old_pw new_pw d = (Inr (), d')" and ok: "accounts_ok d"
    and u: "ev_user env = Some a" "a \<in> set (db_analysts d)" "an_is_active a"
    and lib: "hash_ok env new_pw" "jwt_ok (acc_jwt env) [(''sub'', JStr (uuid_str (an_id a))), (''username'', JStr (an_username a))]"
    and app: "fst (get_auth_capabilities (ev_app env))" "\<forall>e. dispatch_audit_event (ev_app env) e = None"
  shows "(\<exists>a'. an_id a' = an_id a \<and> login env (an_username a) new_pw d' = Inr (token_for env a', a') \<and>
      (\<forall>t < ev_now env + acc_minutes env * 60000000.
         get_current_analyst (acc_jwt env) t (Some (token_for env a')) d' = Inr (Some a'))) \<and>
    (\<forall>q. q \<noteq> new_pw \<longrightarrow> login env (an_username a) q d' = Inl invalid_credentials)"
proof -
  from c u obtain h where h: "acc_hash env new_pw = Inr h" and d': "d' = put_analyst (a\<lparr>an_password_hash := Some h\<rparr>) d"
    unfolding change_password_def after_commit_def
    by (auto simp: ebind_eq_Inr save_analyst_eq require_analyst_def split: sum.splits)
  let ?a = "a\<lparr>an_password_hash := Some h\<rparr>"
  have law: "h \<noteq> []" "acc_verify env q h = Inr (q = new_pw)" for q using lib(1) h by (simp_all add: hash_ok_def)
  have f: "fetch (\<lambda>r. an_username r = an_username a) (db_analysts d') = Inr (Some ?a)"
    using save_analyst_fetch[OF ok u(2), of ?a] unfolding d' by simp
  have l: "login env (an_username a) q d' = (if q = new_pw then Inr (token_for env ?a, ?a) else Inl invalid_credentials)" for q
    using app f law u(3) by (simp add: login_def guard_def audited_def truthy_str_def)
  have ne: "uuid_str (an_id a) \<noteq> []" by (simp add: uuid_str_def show_nat_def)
  have "?a \<in> set (db_analysts d')" using u(2) unfolding d' by (auto simp: put_analyst_rows)
  then have "fetch (\<lambda>r. an_id r = an_id a) (db_analysts d') = Inr (Some ?a)"
    using put_analyst_ok[OF ok u(2), of ?a] filter_key[of an_id "db_analysts d'" ?a] unfolding d'
    by (simp add: accounts_ok_def fetch_def)
  then have "get_current_analyst (acc_jwt env) t (Some (token_for env ?a)) d' = Inr (Some ?a)"
    if "t < ev_now env + acc_minutes env * 60000000" for t
    using lib(2) that u(3) ne
    by (simp add: get_current_analyst_def token_for_def create_access_token_def decode_token_def jwt_ok_def dget_def)
  then show ?thesis using l by (intro conjI exI[of _ ?a]) simp_all
qed

text \<open>C16: A revoked key opens nothing: a key just created is accepted by the webhooks, and once it is revoked
  every webhook request that carries it is refused with 401, whatever its signature.\<close>

theorem revoked_key_refused:
  assumes c: "create_api_key env random name d = (Inr (key, k), d1)" and r: "revoke_api_key env (ak_id k) d1 = (Inr (), d2)"
    and fresh: "\<forall>x \<in> set (db_api_keys d). ak_key_hash x \<noteq> acc_digest env key \<and> ak_id x < db_next_id d"
    and same: "wc_digest C = acc_digest env" and req: "wr_key req = Some key"
  shows "(wr_signature req = None \<longrightarrow> dispatch_api_key_validators app (k\<lparr>ak_last_used_at := Some now\<rparr>) scope = None \<longrightarrow>
      validate_webhook_key C app now scope req d1 = Inr (touch_key now k d1)) \<and>
    validate_webhook_key C app now scope req d2 = Inl invalid_key"
proof -
  from c have k: "ak_key_hash k = acc_digest env key" "ak_is_active k" "ak_expires_at k = None" "ak_id k = db_next_id d"
    and d1: "db_api_keys d1 = db_api_keys d @ [k]"
    by (auto simp: create_api_key_def after_commit_def generate_api_key_def ebind_eq_Inr guard_eq_Inr Let_def audited_def
        split: sum.splits option.splits)
  have "filter (\<lambda>x. ak_id x = ak_id k) (db_api_keys d1) = [k]"
    using fresh k d1 by (auto simp: filter_empty_conv)
  with r have d2: "db_api_keys d2 = update_where (\<lambda>x. ak_id x = ak_id k) (\<lambda>x. x\<lparr>ak_is_active := False\<rparr>) (db_api_keys d1)"
    by (auto simp: revoke_api_key_def after_commit_def ebind_eq_Inr fetch_or_eq_Inr split: sum.splits)
  have one: "filter (\<lambda>x. ak_key_hash x = acc_digest env key \<and> ak_is_active x) (db_api_keys d1) = [k]"
    using fresh k d1 by (auto simp: filter_empty_conv)
  have none: "filter (\<lambda>x. ak_key_hash x = acc_digest env key \<and> ak_is_active x) (db_api_keys d2) = []"
    using fresh k unfolding d2 d1 by (auto simp: filter_empty_conv update_where_def)
  show ?thesis
    using one none req k same
    by (simp add: validate_webhook_key_def fetch_or_def fetch_def guard_def)
qed

text \<open>Completing a mention stays within bounds: at most \<open>limit\<close> analysts are offered, all active, all
  admitted by the tenant validators, and for a query without wildcards each has a user or display
  name that begins with it, ignoring case.\<close>

theorem mentionable_sound:
  assumes r: "list_mentionable_analysts env q limit d = Inr res" and perm: "\<And>xs. mset (acc_order env xs) = mset xs"
  shows "int (length res) \<le> limit \<and> (\<forall>a \<in> set res. a \<in> set (db_analysts d) \<and> an_is_active a \<and>
      enforce (call_env.truncate env) (RAnalyst a) ''analyst'' ''mention'' = Inr () \<and>
      (\<forall>p. q = Some p \<longrightarrow> literal (lower p) \<longrightarrow> prefix (lower p) (lower (an_username a)) \<or> prefix (lower p) (lower (an_display_name a))))"
proof -
  let ?rows = "acc_order env (filter (mention_candidate q) (db_analysts d))"
  from r have lim: "1 \<le> limit" and l: "mention_loop (call_env.truncate env) (nat limit) (take (nat (limit * 4)) ?rows) = Inr res"
    by (auto simp: list_mentionable_analysts_def ebind_eq_Inr guard_eq_Inr)
  note s = mention_loop_sound[OF l]
  have rows: "set ?rows = set (filter (mention_candidate q) (db_analysts d))" using perm by (metis mset_eq_setD)
  have mem: "a \<in> set (db_analysts d) \<and> mention_candidate q a" if "a \<in> set res" for a
  proof -
    from s have "subseq res (take (nat (limit * 4)) ?rows)" by (rule conjunct1)
    then have "a \<in> set (take (nat (limit * 4)) ?rows)" using that by (rule subseq_mem)
    then have "a \<in> set ?rows" by (rule in_set_takeD)
    then show ?thesis unfolding rows by simp
  qed
  have pre: "prefix (lower p) (lower (an_username a)) \<or> prefix (lower p) (lower (an_display_name a))"
    if "mention_candidate (Some p) a" "literal (lower p)" for p a
    using that like_prefix[OF that(2)] by (cases p) (auto simp: mention_candidate_def Let_def truthy_str_def lower_def)
  have act: "mention_candidate q a \<Longrightarrow> an_is_active a" for a by (simp add: mention_candidate_def)
  have "int (length res) \<le> limit" using s lim by (simp add: le_nat_iff)
  then show ?thesis using s mem pre act by blast
qed

section \<open>Instances\<close>

definition boss :: analyst where
  "boss = ana\<lparr>an_role := ''admin'', an_password_hash := Some ''hpw''\<rparr>"

definition deputy :: analyst where
  "deputy = boss\<lparr>an_id := 8, an_username := ''bob''\<rparr>"

definition office :: db where
  "office = empty_db\<lparr>db_next_id := 9, db_analysts := [boss, deputy]\<rparr>"

definition office_env :: account_env where
  "office_env = \<lparr>ev_app = no_plugins, ev_now = 0, ev_user = Some boss, acc_hash = (\<lambda>p. Inr (CHR ''h'' # p)),
     acc_verify = (\<lambda>p h. Inr (h = CHR ''h'' # p)), acc_jwt = ana_jwt, acc_minutes = 1, acc_order = (\<lambda>xs. xs),
     acc_digest = rev\<rparr>"

lemma office_ok: "accounts_ok office" "has_admin office" "boss \<in> set (db_analysts office)"
  by (auto simp: office_def boss_def deputy_def ana_def accounts_ok_def has_admin_def active_admin_def)

lemma office_env_simps [simp]: "ev_user office_env = Some boss" "ev_app office_env = no_plugins" "acc_order office_env xs = xs"
  "acc_digest office_env = rev" "acc_jwt office_env = ana_jwt" "acc_minutes office_env = 1" "ev_now office_env = 0"
  by (simp_all add: office_env_def)

theorem admin_always_remains_witness: "has_admin (snd (update_analyst office_env ''7'' deactivate office))"
proof -
  have "account_step office_env office (snd (update_analyst office_env ''7'' deactivate office))"
    by (rule account_step.updated[OF surjective_pairing])
  from admin_always_remains[OF this office_ok(1,2)] office_ok(3) show ?thesis by simp
qed

theorem last_admins_race_witness:
  "\<exists>d'. racing_updates office_env (uuid_str 8, deactivate) (uuid_str 7, deactivate) office = Inr d' \<and> \<not> has_admin d'"
proof -
  have "deputy \<in> set (db_analysts office)" "active_admin boss" "active_admin deputy" "an_id boss = 7" "an_id deputy = 8"
    "\<forall>r \<in> set (db_analysts office). active_admin r \<longrightarrow> r = boss \<or> r = deputy" "analyst_fits boss" "analyst_fits deputy"
    by (auto simp: office_def boss_def deputy_def ana_def active_admin_def analyst_fits_def fits_def)
  with last_admins_race[of office boss deputy office_env] office_ok show ?thesis by simp
qed

theorem password_change_takes_effect_witness:
  "login office_env ''ana'' ''pw'' (snd (change_password office_env ''pw'' ''new'' office)) = Inl invalid_credentials"
proof -
  have c: "change_password office_env ''pw'' ''new'' office = (Inr (), snd (change_password office_env ''pw'' ''new'' office))"
    by code_simp
  have "hash_ok office_env ''new''" by (auto simp: hash_ok_def office_env_def)
  moreover have "jwt_ok (acc_jwt office_env) [(''sub'', JStr (uuid_str (an_id boss))), (''username'', JStr (an_username boss))]"
    by (simp add: jwt_ok_def ana_jwt_def ana_claims_def boss_def ana_def)
  moreover have "fst (get_auth_capabilities no_plugins)" "dispatch_audit_event no_plugins e = None" for e
    by (simp_all add: get_auth_capabilities_def dispatch_audit_event_def no_plugins_def initialize_plugin_state_def set_missing_def)
  moreover have "an_is_active boss" "an_username boss = ''ana''" by (simp_all add: boss_def ana_def)
  ultimately show ?thesis
    using password_change_takes_effect[OF c office_ok(1) _ office_ok(3)] by auto
qed

definition issued :: "(exn + (string \<times> api_key)) \<times> db" where
  "issued = create_api_key office_env ''abc'' ''ci'' office"

theorem revoked_key_refused_witness:
  "validate_webhook_key \<lparr>wc_digest = rev, wc_hmac = (\<lambda>k b. k)\<rparr> no_plugins 5 ''webhooks:ingest''
     \<lparr>wr_key = Some ''soar_abc'', wr_signature = None, wr_body = []\<rparr> (snd (revoke_api_key office_env 9 (snd issued))) = Inl invalid_key"
proof -
  let ?k = "\<lparr>ak_id = 9, ak_name = ''ci'', ak_key_hash = rev ''soar_abc'', ak_prefix = ''soar_abc'', ak_is_active = True,
    ak_last_used_at = None, ak_expires_at = None\<rparr>"
  have c: "create_api_key office_env ''abc'' ''ci'' office = (Inr (''soar_abc'', ?k), snd issued)"
    and r: "revoke_api_key office_env (ak_id ?k) (snd issued) = (Inr (), snd (revoke_api_key office_env 9 (snd issued)))"
    by code_simp+
  from revoked_key_refused[OF c r] show ?thesis by (simp add: office_def empty_db_def)
qed

theorem mentionable_sound_witness:
  "list_mentionable_analysts office_env (Some ''B'') 1 office = Inr [deputy] \<and> prefix ''b'' (lower (an_username deputy))"
proof -
  have r: "list_mentionable_analysts office_env (Some ''B'') 1 office = Inr [deputy]" by code_simp
  have "literal (lower ''B'')" "lower ''B'' = ''b''" "\<not> prefix ''b'' (lower (an_display_name deputy))" by code_simp+
  with r mentionable_sound[OF r] show ?thesis by auto
qed

end
