(* ===== verification/Retention.thy ===== *)
theory Retention
  imports Lifecycle Executor
begin

text \<open>
  \<open>opensoar/retention/service.py\<close>, \<open>opensoar/worker/retention.py\<close> and \<open>opensoar/api/admin_retention.py\<close>:
  the two-phase purge. Records past their retention threshold are archived, archived records past the
  grace period are deleted, and the purge records itself in the audit log.

  Every call of \<open>_now()\<close> reads the clock: \<open>clk n\<close> is the reading of the \<open>n\<close>-th call of a run. The row the
  purge adds is stamped by the database with the start of its transaction, \<open>clk 0\<close> here.
\<close>

section \<open>Cutoffs\<close>

record retention_settings =
  alerts_retention_days :: int
  incidents_retention_days :: int
  activities_retention_days :: int
  retention_grace_days :: int

definition days :: "int \<Rightarrow> time" where
  "days n = n * (24 * 60 * 60 * 1000000)"

definition alert_retention_cutoff :: "retention_settings \<Rightarrow> time \<Rightarrow> time" where
  "alert_retention_cutoff s now = now - days (alerts_retention_days s)"

definition incident_retention_cutoff :: "retention_settings \<Rightarrow> time \<Rightarrow> time" where
  "incident_retention_cutoff s now = now - days (incidents_retention_days s)"

definition activity_retention_cutoff :: "retention_settings \<Rightarrow> time \<Rightarrow> time" where
  "activity_retention_cutoff s now = now - days (activities_retention_days s)"

definition grace_cutoff :: "retention_settings \<Rightarrow> time \<Rightarrow> time" where
  "grace_cutoff s now = now - days (retention_grace_days s)"

definition resolved_alert_statuses :: "string list" where
  "resolved_alert_statuses = [''resolved'', ''closed'']"

definition closed_incident_statuses :: "string list" where
  "closed_incident_statuses = [''closed'', ''resolved'']"

section \<open>Which rows\<close>

text \<open>The \<open>where\<close> clauses. The two cutoffs of a disjunction are two readings \<open>t\<close> and \<open>u\<close> of the clock.\<close>

definition older :: "time option \<Rightarrow> time \<Rightarrow> bool" where
  "older x cutoff \<longleftrightarrow> (case x of None \<Rightarrow> False | Some y \<Rightarrow> y < cutoff)"

definition alert_due :: "retention_settings \<Rightarrow> time \<Rightarrow> time \<Rightarrow> alert \<Rightarrow> bool" where
  "alert_due s t u a \<longleftrightarrow> al_archived_at a = None \<and> al_status a \<in> set resolved_alert_statuses \<and>
     (older (al_resolved_at a) (alert_retention_cutoff s t) \<or>
      al_resolved_at a = None \<and> al_created_at a < alert_retention_cutoff s u)"

definition incident_due :: "retention_settings \<Rightarrow> time \<Rightarrow> time \<Rightarrow> incident \<Rightarrow> bool" where
  "incident_due s t u i \<longleftrightarrow> in_archived_at i = None \<and> in_status i \<in> set closed_incident_statuses \<and>
     (older (in_closed_at i) (incident_retention_cutoff s t) \<or>
      in_closed_at i = None \<and> in_created_at i < incident_retention_cutoff s u)"

definition activity_old :: "retention_settings \<Rightarrow> time \<Rightarrow> activity \<Rightarrow> bool" where
  "activity_old s t a \<longleftrightarrow> ac_archived_at a = None \<and> ac_created_at a < activity_retention_cutoff s t"

definition is_purge_row :: "activity \<Rightarrow> bool" where
  "is_purge_row a \<longleftrightarrow> ac_action a = ''retention_purge''"

section \<open>Counting\<close>

definition count_rows :: "('a \<Rightarrow> bool) \<Rightarrow> 'a list \<Rightarrow> int" where
  "count_rows p rows = int (length (filter p rows))"

definition alert_counts :: "retention_settings \<Rightarrow> time \<Rightarrow> time \<Rightarrow> time \<Rightarrow> db \<Rightarrow> int \<times> int" where
  "alert_counts s t u g d = (count_rows (alert_due s t u) (db_alerts d),
     count_rows (\<lambda>a. older (al_archived_at a) (grace_cutoff s g)) (db_alerts d))"

definition incident_counts :: "retention_settings \<Rightarrow> time \<Rightarrow> time \<Rightarrow> time \<Rightarrow> db \<Rightarrow> int \<times> int" where
  "incident_counts s t u g d = (count_rows (incident_due s t u) (db_incidents d),
     count_rows (\<lambda>i. older (in_archived_at i) (grace_cutoff s g)) (db_incidents d))"

definition activity_counts :: "retention_settings \<Rightarrow> time \<Rightarrow> time \<Rightarrow> db \<Rightarrow> int \<times> int" where
  "activity_counts s t g d = (count_rows (activity_old s t) (db_activities d),
     count_rows (\<lambda>a. older (ac_archived_at a) (grace_cutoff s g)) (db_activities d))"

section \<open>Archiving and deleting\<close>

text \<open>Each statement returns \<open>rowcount\<close>, the rows it matched, and the changed database.\<close>

definition soft_delete_alerts :: "retention_settings \<Rightarrow> time \<Rightarrow> time \<Rightarrow> time \<Rightarrow> db \<Rightarrow> int \<times> db" where
  "soft_delete_alerts s t u now d = (count_rows (alert_due s t u) (db_alerts d),
     d\<lparr>db_alerts := update_where (alert_due s t u) (\<lambda>a. a\<lparr>al_archived_at := Some now\<rparr>) (db_alerts d)\<rparr>)"

definition soft_delete_incidents :: "retention_settings \<Rightarrow> time \<Rightarrow> time \<Rightarrow> time \<Rightarrow> db \<Rightarrow> int \<times> db" where
  "soft_delete_incidents s t u now d = (count_rows (incident_due s t u) (db_incidents d),
     d\<lparr>db_incidents := update_where (incident_due s t u) (\<lambda>i. i\<lparr>in_archived_at := Some now\<rparr>) (db_incidents d)\<rparr>)"

definition soft_delete_activities :: "retention_settings \<Rightarrow> time \<Rightarrow> time \<Rightarrow> db \<Rightarrow> int \<times> db" where
  "soft_delete_activities s t now d =
     (let due = (\<lambda>a. activity_old s t a \<and> \<not> is_purge_row a)
      in (count_rows due (db_activities d),
          d\<lparr>db_activities := update_where due (\<lambda>a. a\<lparr>ac_archived_at := Some now\<rparr>) (db_activities d)\<rparr>))"

definition hard_delete_alerts :: "retention_settings \<Rightarrow> time \<Rightarrow> db \<Rightarrow> exn + (int \<times> db)" where
  "hard_delete_alerts s g d =
     (let p = (\<lambda>a. older (al_archived_at a) (grace_cutoff s g))
      in ebind (delete_alerts p d) (\<lambda>d'. Inr (count_rows p (db_alerts d), d')))"

definition hard_delete_incidents :: "retention_settings \<Rightarrow> time \<Rightarrow> db \<Rightarrow> int \<times> db" where
  "hard_delete_incidents s g d =
     (let p = (\<lambda>i. older (in_archived_at i) (grace_cutoff s g))
      in (count_rows p (db_incidents d), delete_incidents p d))"

definition hard_delete_activities :: "retention_settings \<Rightarrow> time \<Rightarrow> db \<Rightarrow> int \<times> db" where
  "hard_delete_activities s g d =
     (let p = (\<lambda>a. older (ac_archived_at a) (grace_cutoff s g) \<and> \<not> is_purge_row a)
      in (count_rows p (db_activities d), d\<lparr>db_activities := filter (\<lambda>a. \<not> p a) (db_activities d)\<rparr>))"

section \<open>The purge\<close>

text \<open>Per resource: the candidates counted beforehand and, after a real run, what was archived and deleted.\<close>

record purge_counts =
  pc_candidates :: "int \<times> int"
  pc_done :: "(int \<times> int) option"

record purge_result =
  pu_dry_run :: bool
  pu_grace_days :: int
  pu_alerts :: purge_counts
  pu_incidents :: purge_counts
  pu_activities :: purge_counts

definition counts_json :: "purge_counts \<Rightarrow> json" where
  "counts_json c = JObj ([(''soft_delete_candidates'', JInt (fst (pc_candidates c))),
       (''hard_delete_candidates'', JInt (snd (pc_candidates c)))] @
     (case pc_done c of None \<Rightarrow> []
      | Some (soft, hard) \<Rightarrow> [(''soft_deleted'', JInt soft), (''hard_deleted'', JInt hard)]))"

definition result_json :: "purge_result \<Rightarrow> jdict" where
  "result_json r = [(''dry_run'', JBool (pu_dry_run r)), (''grace_days'', JInt (pu_grace_days r)),
     (''alerts'', counts_json (pu_alerts r)), (''incidents'', counts_json (pu_incidents r)),
     (''activities'', counts_json (pu_activities r))]"

definition done_text :: "string \<Rightarrow> int \<times> int \<Rightarrow> string" where
  "done_text name c = name @ '' soft='' @ show_int (fst c) @ '' hard='' @ show_int (snd c)"

definition purge_activity :: "purge_result \<Rightarrow> string option \<Rightarrow> uuid option \<Rightarrow> activity" where
  "purge_activity r actor_username actor_id =
     (let n = (\<lambda>c. case pc_done c of None \<Rightarrow> (0, 0) | Some p \<Rightarrow> p)
      in blank_activity\<lparr>ac_action := ''retention_purge'',
           ac_detail := Some (''Retention purge: '' @ done_text ''alerts'' (n (pu_alerts r)) @ '', '' @
             done_text ''incidents'' (n (pu_incidents r)) @ '', '' @ done_text ''activities'' (n (pu_activities r))),
           ac_analyst_id := actor_id, ac_analyst_username := actor_username,
           ac_metadata_json := Some [(''alerts'', counts_json (pu_alerts r)), (''incidents'', counts_json (pu_incidents r)),
             (''activities'', counts_json (pu_activities r)), (''grace_days'', JInt (pu_grace_days r))]\<rparr>)"

definition run_retention_purge ::
  "retention_settings \<Rightarrow> (nat \<Rightarrow> time) \<Rightarrow> bool \<Rightarrow> string option \<Rightarrow> uuid option \<Rightarrow> db \<Rightarrow> exn + (purge_result \<times> db)" where
  "run_retention_purge s clk dry_run actor_username actor_id d =
     (let result = \<lparr>pu_dry_run = dry_run, pu_grace_days = retention_grace_days s,
            pu_alerts = \<lparr>pc_candidates = alert_counts s (clk 0) (clk 1) (clk 2) d, pc_done = None\<rparr>,
            pu_incidents = \<lparr>pc_candidates = incident_counts s (clk 3) (clk 4) (clk 5) d, pc_done = None\<rparr>,
            pu_activities = \<lparr>pc_candidates = activity_counts s (clk 6) (clk 7) d, pc_done = None\<rparr>\<rparr>
      in if dry_run then Inr (result, d)
         else
           (let now = clk 8;
                (alerts_soft, d1) = soft_delete_alerts s (clk 9) (clk 10) now d;
                (incidents_soft, d2) = soft_delete_incidents s (clk 11) (clk 12) now d1;
                (activities_soft, d3) = soft_delete_activities s (clk 13) now d2
            in ebind (hard_delete_alerts s (clk 14) d3) (\<lambda>(alerts_hard, d4).
                 let (incidents_hard, d5) = hard_delete_incidents s (clk 15) d4;
                     (activities_hard, d6) = hard_delete_activities s (clk 16) d5;
                     result = result\<lparr>
                       pu_alerts := (pu_alerts result)\<lparr>pc_done := Some (alerts_soft, alerts_hard)\<rparr>,
                       pu_incidents := (pu_incidents result)\<lparr>pc_done := Some (incidents_soft, incidents_hard)\<rparr>,
                       pu_activities := (pu_activities result)\<lparr>pc_done := Some (activities_soft, activities_hard)\<rparr>\<rparr>
                 in Inr (result, add_activity (clk 0) (purge_activity result actor_username actor_id) d6))))"

text \<open>The daily beat task, with two retries, and the administrator's endpoint.\<close>

definition execute_purge :: "retention_settings \<Rightarrow> (nat \<Rightarrow> time) \<Rightarrow> bool \<Rightarrow> db \<Rightarrow> (exn + purge_result) \<times> db" where
  "execute_purge s clk dry_run d =
     (case run_retention_purge s clk dry_run (Some ''celery-beat'') None d of
        Inl e \<Rightarrow> (Inl e, d) | Inr (r, d') \<Rightarrow> (Inr r, d'))"

definition purge_retention_task ::
  "retention_settings \<Rightarrow> (nat \<Rightarrow> nat \<Rightarrow> time) \<Rightarrow> bool \<Rightarrow> db \<Rightarrow> (exn + purge_result) \<times> int list \<times> db" where
  "purge_retention_task s clk dry_run d = celery_task 2 0 (\<lambda>k. execute_purge s (clk k) dry_run) d"

definition purge_event :: "analyst \<Rightarrow> bool \<Rightarrow> purge_result \<Rightarrow> audit_event" where
  "purge_event admin dry_run r =
     \<lparr>ae_category = ''admin'', ae_action = (if dry_run then ''retention.purge.dry_run'' else ''retention.purge''),
      ae_status = ''success'', ae_actor_id = Some (an_id admin), ae_actor_username = Some (an_username admin),
      ae_target_type = Some ''retention'', ae_target_id = None, ae_metadata = result_json r\<rparr>"

definition purge_retention ::
  "retention_settings \<Rightarrow> (nat \<Rightarrow> time) \<Rightarrow> call_env \<Rightarrow> bool \<Rightarrow> db \<Rightarrow> purge_result outcome" where
  "purge_retention s clk ev dry_run d =
     after_commit d
       (ebind (require_permission RETENTION_MANAGE (ev_user ev)) (\<lambda>admin.
        ebind (run_retention_purge s clk dry_run (Some (an_username admin)) (Some (an_id admin)) d) (\<lambda>(r, d').
          Inr ((admin, r), d'))))
       (\<lambda>(admin, r). case dispatch_audit_event (ev_app ev) (purge_event admin dry_run r) of Some e \<Rightarrow> Inl e | None \<Rightarrow> Inr r)"

section \<open>What a run leaves\<close>

definition archive_alerts :: "retention_settings \<Rightarrow> (nat \<Rightarrow> time) \<Rightarrow> alert list \<Rightarrow> alert list" where
  "archive_alerts s clk = update_where (alert_due s (clk 9) (clk 10)) (\<lambda>a. a\<lparr>al_archived_at := Some (clk 8)\<rparr>)"

definition archive_incidents :: "retention_settings \<Rightarrow> (nat \<Rightarrow> time) \<Rightarrow> incident list \<Rightarrow> incident list" where
  "archive_incidents s clk = update_where (incident_due s (clk 11) (clk 12)) (\<lambda>i. i\<lparr>in_archived_at := Some (clk 8)\<rparr>)"

definition archive_activities :: "retention_settings \<Rightarrow> (nat \<Rightarrow> time) \<Rightarrow> activity list \<Rightarrow> activity list" where
  "archive_activities s clk = update_where (\<lambda>a. activity_old s (clk 13) a \<and> \<not> is_purge_row a)
     (\<lambda>a. a\<lparr>ac_archived_at := Some (clk 8)\<rparr>)"

definition archived_db :: "retention_settings \<Rightarrow> (nat \<Rightarrow> time) \<Rightarrow> db \<Rightarrow> db" where
  "archived_db s clk d = d\<lparr>db_alerts := archive_alerts s clk (db_alerts d),
     db_incidents := archive_incidents s clk (db_incidents d),
     db_activities := archive_activities s clk (db_activities d)\<rparr>"

abbreviation old_alert :: "retention_settings \<Rightarrow> (nat \<Rightarrow> time) \<Rightarrow> alert \<Rightarrow> bool" where
  "old_alert s clk a \<equiv> older (al_archived_at a) (grace_cutoff s (clk 14))"

abbreviation old_incident :: "retention_settings \<Rightarrow> (nat \<Rightarrow> time) \<Rightarrow> incident \<Rightarrow> bool" where
  "old_incident s clk i \<equiv> older (in_archived_at i) (grace_cutoff s (clk 15))"

abbreviation old_activity :: "retention_settings \<Rightarrow> (nat \<Rightarrow> time) \<Rightarrow> activity \<Rightarrow> bool" where
  "old_activity s clk a \<equiv> older (ac_archived_at a) (grace_cutoff s (clk 16)) \<and> \<not> is_purge_row a"

lemma archived_db_frame [simp]:
  "db_alerts (archived_db s clk d) = archive_alerts s clk (db_alerts d)"
  "db_incidents (archived_db s clk d) = archive_incidents s clk (db_incidents d)"
  "db_activities (archived_db s clk d) = archive_activities s clk (db_activities d)"
  "db_next_id (archived_db s clk d) = db_next_id d" "db_runs (archived_db s clk d) = db_runs d"
  "db_incident_alerts (archived_db s clk d) = db_incident_alerts d"
  by (simp_all add: archived_db_def)

lemma soft_deletes: "snd (soft_delete_activities s (clk 13) (clk 8) (snd (soft_delete_incidents s (clk 11) (clk 12) (clk 8)
    (snd (soft_delete_alerts s (clk 9) (clk 10) (clk 8) d))))) = archived_db s clk d"
  by (simp add: soft_delete_activities_def soft_delete_incidents_def soft_delete_alerts_def archived_db_def
      archive_alerts_def archive_incidents_def archive_activities_def Let_def)

lemma purge_run:
  assumes "run_retention_purge s clk False u i d = Inr (r, d')"
  obtains d4 row where "delete_alerts (old_alert s clk) (archived_db s clk d) = Inr d4" "is_purge_row row"
    "ac_alert_id row = None" "ac_incident_id row = None" "ac_analyst_username row = u" "ac_analyst_id row = i"
    "d' = add_activity (clk 0) row (snd (hard_delete_activities s (clk 16) (delete_incidents (old_incident s clk) d4)))"
proof -
  have row: "is_purge_row (purge_activity q u i)" "ac_alert_id (purge_activity q u i) = None"
    "ac_incident_id (purge_activity q u i) = None" "ac_analyst_username (purge_activity q u i) = u"
    "ac_analyst_id (purge_activity q u i) = i" for q
    by (simp_all add: purge_activity_def is_purge_row_def blank_activity_def Let_def)
  from assms soft_deletes[of s clk d] obtain d4 q where
    "delete_alerts (old_alert s clk) (archived_db s clk d) = Inr d4"
    "d' = add_activity (clk 0) (purge_activity q u i) (snd (hard_delete_activities s (clk 16) (delete_incidents (old_incident s clk) d4)))"
    by (auto simp: run_retention_purge_def Let_def ebind_eq_Inr hard_delete_alerts_def hard_delete_incidents_def split_beta)
  from this(1) row this(2) show ?thesis by (rule that)
qed

lemma soft_delete_counts [simp]:
  "fst (soft_delete_alerts s t u now d) = count_rows (alert_due s t u) (db_alerts d)"
  "fst (soft_delete_incidents s t u now d) = count_rows (incident_due s t u) (db_incidents d)"
  "fst (soft_delete_activities s t now d) = count_rows (\<lambda>a. activity_old s t a \<and> \<not> is_purge_row a) (db_activities d)"
  "db_incidents (snd (soft_delete_alerts s t u now d)) = db_incidents d"
  "db_activities (snd (soft_delete_alerts s t u now d)) = db_activities d"
  "db_activities (snd (soft_delete_incidents s t u now d)) = db_activities d"
  by (simp_all add: soft_delete_alerts_def soft_delete_incidents_def soft_delete_activities_def Let_def)

lemma purge_run_counts:
  assumes "run_retention_purge s clk False u i d = Inr (r, d')"
  shows "pc_done (pu_alerts r) = Some (count_rows (alert_due s (clk 9) (clk 10)) (db_alerts d),
      count_rows (old_alert s clk) (archive_alerts s clk (db_alerts d)))"
    and "pc_done (pu_incidents r) = Some (count_rows (incident_due s (clk 11) (clk 12)) (db_incidents d),
      count_rows (old_incident s clk) (archive_incidents s clk (db_incidents d)))"
    and "\<exists>hard. pc_done (pu_activities r) = Some (count_rows (\<lambda>x. activity_old s (clk 13) x \<and> \<not> is_purge_row x) (db_activities d), hard)"
proof -
  have rows: "db_incidents d4 = archive_incidents s clk (db_incidents d)"
    if "delete_alerts q (archived_db s clk d) = Inr d4" for q d4
    using that by (auto simp: delete_alerts_def Let_def split: if_splits)
  from assms soft_deletes[of s clk d]
  show "pc_done (pu_alerts r) = Some (count_rows (alert_due s (clk 9) (clk 10)) (db_alerts d),
      count_rows (old_alert s clk) (archive_alerts s clk (db_alerts d)))"
    "pc_done (pu_incidents r) = Some (count_rows (incident_due s (clk 11) (clk 12)) (db_incidents d),
      count_rows (old_incident s clk) (archive_incidents s clk (db_incidents d)))"
    "\<exists>hard. pc_done (pu_activities r) = Some (count_rows (\<lambda>x. activity_old s (clk 13) x \<and> \<not> is_purge_row x) (db_activities d), hard)"
    by (auto simp: run_retention_purge_def Let_def ebind_eq_Inr hard_delete_alerts_def hard_delete_incidents_def split_beta dest: rows)
qed

lemma delete_incidents_frame [simp]:
  "db_alerts (delete_incidents p d) = db_alerts d" "db_next_id (delete_incidents p d) = db_next_id d"
  "db_runs (delete_incidents p d) = db_runs d"
  "db_incidents (delete_incidents p d) = filter (\<lambda>x. \<not> p x) (db_incidents d)"
  "db_incident_alerts (delete_incidents p d) =
     filter (\<lambda>l. ia_incident_id l \<notin> in_id ` set (filter p (db_incidents d))) (db_incident_alerts d)"
  "db_activities (delete_incidents p d) =
     filter (\<lambda>a. \<forall>i \<in> in_id ` set (filter p (db_incidents d)). ac_incident_id a \<noteq> Some i) (db_activities d)"
  by (simp_all add: delete_incidents_def Let_def)

lemma hard_delete_activities_frame [simp]:
  "db_alerts (snd (hard_delete_activities s g d)) = db_alerts d"
  "db_incidents (snd (hard_delete_activities s g d)) = db_incidents d"
  "db_incident_alerts (snd (hard_delete_activities s g d)) = db_incident_alerts d"
  "db_next_id (snd (hard_delete_activities s g d)) = db_next_id d"
  "db_runs (snd (hard_delete_activities s g d)) = db_runs d"
  "db_activities (snd (hard_delete_activities s g d)) =
     filter (\<lambda>a. \<not> (older (ac_archived_at a) (grace_cutoff s g) \<and> \<not> is_purge_row a)) (db_activities d)"
  by (simp_all add: hard_delete_activities_def Let_def)

lemma delete_alerts_runs: "delete_alerts p d = Inr d' \<Longrightarrow> db_runs d' = db_runs d"
  by (auto simp: delete_alerts_def Let_def split: if_splits)

lemma add_activity_log [simp]: "db_activities (add_activity now a d) =
    db_activities d @ [a\<lparr>ac_id := db_next_id d, ac_created_at := now, ac_updated_at := now\<rparr>]"
  "db_next_id (add_activity now a d) = Suc (db_next_id d)"
  by (simp_all add: add_activity_def)

text \<open>The rows of every table after a run.\<close>

lemma purge_tables:
  assumes "run_retention_purge s clk False u i d = Inr (r, d')"
  shows "db_alerts d' = filter (\<lambda>a. \<not> old_alert s clk a) (archive_alerts s clk (db_alerts d))"
    and "db_incidents d' = filter (\<lambda>i. \<not> old_incident s clk i) (archive_incidents s clk (db_incidents d))"
    and "db_runs d' = db_runs d"
    and "\<exists>row. is_purge_row row \<and> ac_alert_id row = None \<and> ac_incident_id row = None \<and> ac_analyst_username row = u \<and>
      ac_analyst_id row = i \<and>
      db_activities d' = filter (\<lambda>a. \<not> old_activity s clk a)
        (filter (\<lambda>a. \<forall>i \<in> in_id ` set (filter (old_incident s clk) (archive_incidents s clk (db_incidents d))). ac_incident_id a \<noteq> Some i)
        (filter (\<lambda>a. \<forall>i \<in> al_id ` set (filter (old_alert s clk) (archive_alerts s clk (db_alerts d))). ac_alert_id a \<noteq> Some i)
          (archive_activities s clk (db_activities d)))) @ [row]"
proof -
  from purge_run[OF assms] obtain d4 row where del: "delete_alerts (old_alert s clk) (archived_db s clk d) = Inr d4"
    and row: "is_purge_row row" "ac_alert_id row = None" "ac_incident_id row = None" "ac_analyst_username row = u" "ac_analyst_id row = i"
    and d': "d' = add_activity (clk 0) row (snd (hard_delete_activities s (clk 16) (delete_incidents (old_incident s clk) d4)))" by blast
  note t = delete_alerts_tables[OF del] delete_alerts_runs[OF del]
  show "db_alerts d' = filter (\<lambda>a. \<not> old_alert s clk a) (archive_alerts s clk (db_alerts d))"
    "db_incidents d' = filter (\<lambda>i. \<not> old_incident s clk i) (archive_incidents s clk (db_incidents d))" "db_runs d' = db_runs d"
    using t by (simp_all add: d')
  let ?row = "row\<lparr>ac_id := db_next_id d, ac_created_at := clk 0, ac_updated_at := clk 0\<rparr>"
  have "is_purge_row ?row" using row(1) by (simp add: is_purge_row_def)
  then show "\<exists>row. is_purge_row row \<and> ac_alert_id row = None \<and> ac_incident_id row = None \<and> ac_analyst_username row = u \<and>
      ac_analyst_id row = i \<and>
      db_activities d' = filter (\<lambda>a. \<not> old_activity s clk a)
        (filter (\<lambda>a. \<forall>i \<in> in_id ` set (filter (old_incident s clk) (archive_incidents s clk (db_incidents d))). ac_incident_id a \<noteq> Some i)
        (filter (\<lambda>a. \<forall>i \<in> al_id ` set (filter (old_alert s clk) (archive_alerts s clk (db_alerts d))). ac_alert_id a \<noteq> Some i)
          (archive_activities s clk (db_activities d)))) @ [row]"
    using t row by (intro exI[of _ ?row]) (simp add: d')
qed

section \<open>The invariant\<close>

lemma archived_system_ok: "system_ok d \<Longrightarrow> system_ok (archived_db s clk d)"
proof -
  assume ok: "system_ok d"
  have ids: "map al_id (archive_alerts s clk xs) = map al_id xs" "map dedup_key (archive_alerts s clk xs) = map dedup_key xs"
    "map in_id (archive_incidents s clk is) = map in_id is" "map ac_id (archive_activities s clk rs) = map ac_id rs" for xs "is" rs
    by (auto simp: archive_alerts_def archive_incidents_def archive_activities_def dedup_key_def intro!: map_update_where)
  have "al_id b < db_next_id d \<and> alert_ok b" if "b \<in> set (archive_alerts s clk (db_alerts d))" for b
    using that ok by (auto simp: system_ok_def alerts_ok_def archive_alerts_def set_update_where alert_ok_def split: if_splits)
  then have a: "alerts_ok (archived_db s clk d)" using ok by (simp add: system_ok_def alerts_ok_def ids)
  have "al_id ` set (archive_alerts s clk (db_alerts d)) = al_id ` set (db_alerts d)"
    "in_id ` set (archive_incidents s clk (db_incidents d)) = in_id ` set (db_incidents d)"
    using ids(1)[of "db_alerts d"] ids(3)[of "db_incidents d"] by (metis list.set_map)+
  moreover have "in_id b < db_next_id d \<and> incident_ok b" if "b \<in> set (archive_incidents s clk (db_incidents d))" for b
    using that ok by (auto simp: system_ok_def incidents_ok_def archive_incidents_def set_update_where incident_ok_def split: if_splits)
  ultimately have i: "incidents_ok (archived_db s clk d)" using ok by (simp add: system_ok_def incidents_ok_def links_ok_def ids)
  have "log_ids_ok (archived_db s clk d)"
    using ok unfolding system_ok_def log_ids_rows archived_db_frame ids by simp
  with a i ok show ?thesis by (simp add: system_ok_def dedup_ok_def ids)
qed

lemma delete_incidents_system_ok: "system_ok d \<Longrightarrow> system_ok (delete_incidents p d)"
proof -
  assume ok: "system_ok d"
  have "alerts_ok (delete_incidents p d)" using ok alerts_ok_frame[of d "delete_incidents p d"] by (simp add: system_ok_def)
  moreover have "ia_incident_id l \<in> in_id ` set (db_incidents (delete_incidents p d))"
    if "l \<in> set (db_incident_alerts (delete_incidents p d))" for l
    using that ok by (fastforce simp: system_ok_def incidents_ok_def links_ok_def image_iff)
  ultimately show ?thesis
    using ok by (auto simp: system_ok_def incidents_ok_def links_ok_def dedup_ok_def log_ids_ok_def distinct_map_filter)
qed

lemma hard_delete_activities_system_ok: "system_ok d \<Longrightarrow> system_ok (snd (hard_delete_activities s g d))"
  using alerts_ok_frame[of d "snd (hard_delete_activities s g d)"] incidents_ok_frame[of d "snd (hard_delete_activities s g d)"]
  by (auto simp: system_ok_def dedup_ok_def log_ids_ok_def distinct_map_filter)

lemma system_ok_activity: "system_ok d \<Longrightarrow> system_ok (add_activity now a d)"
  using extends_log[OF extends_activity] extends_dedup[OF extends_activity] alerts_ok_frame[of d "add_activity now a d"]
    incidents_ok_frame[of d "add_activity now a d"] by (simp add: system_ok_def)

lemma run_purge_ok: "run_retention_purge s clk dry u i d = Inr (r, d') \<Longrightarrow> system_ok d \<Longrightarrow> system_ok d'"
proof (cases dry)
  case False
  assume run: "run_retention_purge s clk dry u i d = Inr (r, d')" and ok: "system_ok d"
  from False run have "run_retention_purge s clk False u i d = Inr (r, d')" by simp
  from purge_run[OF this] obtain d4 row where del: "delete_alerts (old_alert s clk) (archived_db s clk d) = Inr d4"
    and d': "d' = add_activity (clk 0) row (snd (hard_delete_activities s (clk 16) (delete_incidents (old_incident s clk) d4)))" by blast
  from delete_alerts_system_ok[OF del archived_system_ok[OF ok]] show ?thesis
    unfolding d' by (intro system_ok_activity hard_delete_activities_system_ok delete_incidents_system_ok)
qed (simp add: run_retention_purge_def Let_def)

text \<open>The case handlers together with the beat task and the administrator's endpoint.\<close>

inductive purging_step :: "'r webhook_state \<Rightarrow> 'r webhook_state \<Rightarrow> bool" where
  work: "step ws ws' \<Longrightarrow> purging_step ws ws'"
| purge_task: "purge_retention_task s clk dry (ws_db ws) = (res, countdowns, d') \<Longrightarrow> purging_step ws (ws\<lparr>ws_db := d'\<rparr>)"
| purge_request: "purge_retention s clk1 ev dry (ws_db ws) = (out, d') \<Longrightarrow> purging_step ws (ws\<lparr>ws_db := d'\<rparr>)"

lemma celery_task_preserves:
  assumes "\<And>k w. P w \<Longrightarrow> P (snd (body k w))" and "P w"
  shows "P (snd (snd (celery_task left retries body w)))"
  using assms(2)
proof (induction left arbitrary: retries w)
  case 0
  with assms(1)[of w retries] show ?case by (subst celery_task.simps) (auto split: sum.splits prod.splits)
next
  case (Suc left)
  obtain r w' where b: "body retries w = (r, w')" by fastforce
  with assms(1)[OF Suc.prems, of retries] have "P w'" by simp
  note ih = Suc.IH[OF this, of "Suc retries"]
  obtain r2 cs2 w2 where rec: "celery_task left (Suc retries) body w' = (r2, cs2, w2)"
    by (metis prod_cases3)
  from \<open>P w'\<close> ih b rec show ?case by (subst celery_task.simps) (simp split: sum.splits)
qed

lemma execute_purge_ok: "system_ok d \<Longrightarrow> system_ok (snd (execute_purge s clk dry d))"
  by (auto simp: execute_purge_def intro: run_purge_ok split: sum.splits)

lemma purge_retention_ok: "purge_retention s clk ev dry d = (res, d') \<Longrightarrow> system_ok d \<Longrightarrow> system_ok d'"
  by (auto simp: purge_retention_def after_commit_def ebind_eq_Inr intro: run_purge_ok split: sum.splits)

lemma purging_step_ok: "purging_step ws ws' \<Longrightarrow> system_ok (ws_db ws) \<Longrightarrow> system_ok (ws_db ws')"
proof (induction rule: purging_step.induct)
  case (purge_task s clk dry ws res countdowns d')
  from celery_task_preserves[of system_ok "\<lambda>k. execute_purge s (clk k) dry", OF execute_purge_ok purge_task.prems, of 2 0]
    purge_task.hyps
  show ?case by (simp add: purge_retention_task_def)
qed (auto intro: step_ok purge_retention_ok)

lemma purging_steps_ok: "purging_step\<^sup>*\<^sup>* ws ws' \<Longrightarrow> system_ok (ws_db ws) \<Longrightarrow> system_ok (ws_db ws')"
  by (induction rule: rtranclp_induct) (auto intro: purging_step_ok)

section \<open>The fate of a record\<close>

lemma older_mono: "older x t \<Longrightarrow> t \<le> u \<Longrightarrow> older x u"
  by (auto simp: older_def split: option.splits)

lemma not_older_None [simp]: "\<not> older None t"
  by (simp add: older_def)

lemma older_Some [simp]: "older (Some x) t \<longleftrightarrow> x < t"
  by (simp add: older_def)

lemma fate_of_key:
  assumes "distinct (map k rows)" and "x \<in> set rows" and "\<And>r. k (f r) = k r"
  shows "{b \<in> set (filter q (update_where p f rows)). k b = k x} =
    (if q (if p x then f x else x) then {if p x then f x else x} else {})"
proof -
  have "r = x" if "r \<in> set rows" "k r = k x" for r using key_eq[OF assms(1) that(1) assms(2) that(2)] .
  then have one: "{b \<in> set (update_where p f rows). k b = k x} = {if p x then f x else x}"
    using assms(2,3) unfolding update_where_def by (auto split: if_splits) blast+
  have "{b \<in> set (filter q (update_where p f rows)). k b = k x} = {b \<in> {b \<in> set (update_where p f rows). k b = k x}. q b}"
    by auto
  then show ?thesis unfolding one by auto
qed

lemma alert_fate:
  assumes run: "run_retention_purge s clk False u i d = Inr (r, d')" and ok: "system_ok d" and a: "a \<in> set (db_alerts d)"
    and quick: "clk 14 \<le> clk 8 + days (retention_grace_days s)"
  shows "{b \<in> set (db_alerts d'). al_id b = al_id a} =
    (if old_alert s clk a then {} else if alert_due s (clk 9) (clk 10) a then {a\<lparr>al_archived_at := Some (clk 8)\<rparr>} else {a})"
proof -
  have "\<not> old_alert s clk (a\<lparr>al_archived_at := Some (clk 8)\<rparr>)" using quick by (simp add: grace_cutoff_def)
  moreover have "alert_due s (clk 9) (clk 10) a \<Longrightarrow> \<not> old_alert s clk a" by (simp add: alert_due_def)
  moreover have "distinct (map al_id (db_alerts d))" using ok by (simp add: system_ok_def alerts_ok_def)
  ultimately show ?thesis using a unfolding purge_tables(1)[OF run] archive_alerts_def by (subst fate_of_key) auto
qed

lemma incident_fate:
  assumes run: "run_retention_purge s clk False u i d = Inr (r, d')" and ok: "system_ok d" and x: "x \<in> set (db_incidents d)"
    and quick: "clk 15 \<le> clk 8 + days (retention_grace_days s)"
  shows "{b \<in> set (db_incidents d'). in_id b = in_id x} =
    (if old_incident s clk x then {} else if incident_due s (clk 11) (clk 12) x then {x\<lparr>in_archived_at := Some (clk 8)\<rparr>} else {x})"
proof -
  have "\<not> old_incident s clk (x\<lparr>in_archived_at := Some (clk 8)\<rparr>)" using quick by (simp add: grace_cutoff_def)
  moreover have "incident_due s (clk 11) (clk 12) x \<Longrightarrow> \<not> old_incident s clk x" by (simp add: incident_due_def)
  moreover have "distinct (map in_id (db_incidents d))" using ok by (simp add: system_ok_def incidents_ok_def)
  ultimately show ?thesis using x unfolding purge_tables(2)[OF run] archive_incidents_def by (subst fate_of_key) auto
qed

section \<open>Properties\<close>

text \<open>The case invariants survive retention: they hold in every state reached by the handlers, the webhooks,
  the workers, the daily purge with its retries and purges an administrator asks for, dry or real.\<close>

theorem purging_system_ok:
  "purging_step\<^sup>*\<^sup>* ws ws' \<Longrightarrow> system_ok (ws_db ws) \<Longrightarrow> system_ok (ws_db ws')"
  by (rule purging_steps_ok)

text \<open>C6: What a purge does to an alert or an incident, in a run no longer than the grace period: it is gone
  exactly when it had been archived for longer than the grace period, it is archived as of this run
  when it is resolved or closed and past its threshold, and is left as it was in every other case; so
  open cases are never touched and nothing is deleted without its grace period in the archive.\<close>

theorem purge_fate:
  assumes "run_retention_purge s clk False u i d = Inr (r, d')" and "system_ok d"
    and "\<forall>n \<in> {14, 15}. clk n \<le> clk 8 + days (retention_grace_days s)"
  shows "(\<forall>a \<in> set (db_alerts d). {b \<in> set (db_alerts d'). al_id b = al_id a} =
      (if older (al_archived_at a) (clk 14 - days (retention_grace_days s)) then {}
       else if alert_due s (clk 9) (clk 10) a then {a\<lparr>al_archived_at := Some (clk 8)\<rparr>} else {a})) \<and>
    (\<forall>x \<in> set (db_incidents d). {b \<in> set (db_incidents d'). in_id b = in_id x} =
      (if older (in_archived_at x) (clk 15 - days (retention_grace_days s)) then {}
       else if incident_due s (clk 11) (clk 12) x then {x\<lparr>in_archived_at := Some (clk 8)\<rparr>} else {x}))"
  using alert_fate[OF assms(1,2)] incident_fate[OF assms(1,2)] assms(3) by (simp add: grace_cutoff_def)

lemma purge_succeeds:
  assumes "\<forall>r \<in> set (db_runs d). \<forall>a \<in> set (archive_alerts s clk (db_alerts d)).
    pr_alert_id r = Some (al_id a) \<longrightarrow> \<not> old_alert s clk a"
  shows "\<exists>r d'. run_retention_purge s clk False u i d = Inr (r, d')"
proof -
  have "\<exists>d4. delete_alerts (old_alert s clk) (archived_db s clk d) = Inr d4"
    using assms by (fastforce simp: delete_alerts_def Let_def)
  with soft_deletes[of s clk d] show ?thesis
    by (auto simp: run_retention_purge_def Let_def hard_delete_alerts_def split_beta)
qed

text \<open>An alert with a playbook run past its grace period.\<close>

lemma purge_blocked:
  assumes "a \<in> set (db_alerts d)" "old_alert s clk a" "r \<in> set (db_runs d)" "pr_alert_id r = Some (al_id a)"
  shows "run_retention_purge s clk False u i d = Inl (IntegrityError ''fk_playbook_runs_alert_id_alerts'')"
proof -
  have "\<not> alert_due s (clk 9) (clk 10) a" using assms(2) by (auto simp: alert_due_def)
  then have "a \<in> set (filter (old_alert s clk) (archive_alerts s clk (db_alerts d)))"
    using assms(1,2) by (auto simp: archive_alerts_def set_update_where intro!: bexI[of _ a])
  then have "delete_alerts (old_alert s clk) (archived_db s clk d) = Inl (IntegrityError ''fk_playbook_runs_alert_id_alerts'')"
    using assms(3,4) unfolding delete_alerts_def Let_def archived_db_frame by (smt (verit, best) imageI)
  with soft_deletes[of s clk d] show ?thesis
    by (simp add: run_retention_purge_def Let_def hard_delete_alerts_def split_beta)
qed

lemma untouched_by_retention:
  assumes "b \<in> set (archive_alerts s clk' (db_alerts e))" and "r \<in> set (db_runs e)" and "pr_alert_id r = Some (al_id b)"
    and "\<forall>r \<in> set (db_runs e). \<forall>b \<in> set (db_alerts e). pr_alert_id r = Some (al_id b) \<longrightarrow>
        al_archived_at b = None \<and> al_status b \<notin> set resolved_alert_statuses"
  shows "b \<in> set (db_alerts e) \<and> al_archived_at b = None \<and> al_status b \<notin> set resolved_alert_statuses"
proof -
  from assms(1) obtain c where c: "c \<in> set (db_alerts e)"
    and b: "b = (if alert_due s (clk' 9) (clk' 10) c then c\<lparr>al_archived_at := Some (clk' 8)\<rparr> else c)"
    by (auto simp: archive_alerts_def set_update_where)
  then have "al_id b = al_id c" by simp
  with assms(2-4) c have "al_archived_at c = None" "al_status c \<notin> set resolved_alert_statuses" by auto
  with b c show ?thesis by (auto simp: alert_due_def)
qed

text \<open>C15: Retention makes progress: when no playbook run refers to a resolved, closed or archived alert, a purge
  succeeds and archives an alert past its threshold, and every purge more than the grace period later
  succeeds too and leaves no trace of it in the alert table.\<close>

theorem purge_eventually_deletes:
  assumes "system_ok d" and "a \<in> set (db_alerts d)" and "alert_due s (clk 9) (clk 10) a"
    and "clk 14 \<le> clk 8 + days (retention_grace_days s)"
    and "\<forall>r \<in> set (db_runs d). \<forall>b \<in> set (db_alerts d). pr_alert_id r = Some (al_id b) \<longrightarrow>
      al_archived_at b = None \<and> al_status b \<notin> set resolved_alert_statuses"
  shows "\<exists>r d1. run_retention_purge s clk False u i d = Inr (r, d1) \<and>
    a\<lparr>al_archived_at := Some (clk 8)\<rparr> \<in> set (db_alerts d1) \<and>
    (\<forall>clk2. clk 8 + days (retention_grace_days s) < clk2 14 \<longrightarrow>
      (\<exists>r2 d2. run_retention_purge s clk2 False u i d1 = Inr (r2, d2) \<and> al_id a \<notin> al_id ` set (db_alerts d2)))"
proof -
  note same = untouched_by_retention
  obtain r d1 where run: "run_retention_purge s clk False u i d = Inr (r, d1)"
    using purge_succeeds[of d s clk u i] same[OF _ _ _ assms(5)] by fastforce
  have kept: "a\<lparr>al_archived_at := Some (clk 8)\<rparr> \<in> set (db_alerts d1)"
    using alert_fate[OF run assms(1,2,4)] assms(3) by (auto simp: alert_due_def)
  have free: "\<forall>r \<in> set (db_runs d1). \<forall>b \<in> set (db_alerts d1). pr_alert_id r = Some (al_id b) \<longrightarrow>
      al_archived_at b = None \<and> al_status b \<notin> set resolved_alert_statuses"
    using same[of _ s clk d, OF _ _ _ assms(5)] by (auto simp: purge_tables[OF run])
  have "\<exists>r2 d2. run_retention_purge s clk2 False u i d1 = Inr (r2, d2) \<and> al_id a \<notin> al_id ` set (db_alerts d2)"
    if later: "clk 8 + days (retention_grace_days s) < clk2 14" for clk2
  proof -
    obtain r2 d2 where run2: "run_retention_purge s clk2 False u i d1 = Inr (r2, d2)"
      using purge_succeeds[of d1 s clk2 u i] same[OF _ _ _ free] by fastforce
    have d1: "distinct (map al_id (db_alerts d1))"
      using run_purge_ok[OF run assms(1)] by (simp add: system_ok_def alerts_ok_def)
    have "{b \<in> set (db_alerts d2). al_id b = al_id a} = {}"
      using fate_of_key[OF d1 kept, of "\<lambda>x. x\<lparr>al_archived_at := Some (clk2 8)\<rparr>" "\<lambda>x. \<not> old_alert s clk2 x" "alert_due s (clk2 9) (clk2 10)"]
        later unfolding purge_tables(1)[OF run2] archive_alerts_def by (simp add: alert_due_def grace_cutoff_def)
    with run2 show ?thesis by auto
  qed
  with run kept show ?thesis by blast
qed

text \<open>One alert can stop retention for good: once an alert that a playbook ran on has been archived for longer
  than the grace period, every real purge fails on the foreign key of \<open>playbook_runs\<close> and changes
  nothing at all; the beat task gives up after its two retries with the database as it was, and an
  administrator's request ends in the same error.\<close>

theorem purge_blocked_by_run:
  assumes "a \<in> set (db_alerts d)" and "r \<in> set (db_runs d)" and "pr_alert_id r = Some (al_id a)"
    and "\<forall>k. older (al_archived_at a) (grace_cutoff s (clk k 14))"
  shows "purge_retention_task s clk False d = (Inl (IntegrityError ''fk_playbook_runs_alert_id_alerts''), [1, 2], d) \<and>
    (require_permission RETENTION_MANAGE (ev_user ev) = Inr admin \<longrightarrow>
      purge_retention s (clk 0) ev False d = (Inl (IntegrityError ''fk_playbook_runs_alert_id_alerts''), d))"
proof -
  have e: "run_retention_purge s (clk k) False u i d = Inl (IntegrityError ''fk_playbook_runs_alert_id_alerts'')" for k u i
    using purge_blocked[OF assms(1) _ assms(2,3)] assms(4) by blast
  then have "execute_purge s (clk k) False d = (Inl (IntegrityError ''fk_playbook_runs_alert_id_alerts''), d)" for k
    by (simp add: execute_purge_def)
  then show ?thesis
    by (simp add: purge_retention_task_def celery_task.simps eval_nat_numeral purge_retention_def e)
qed

text \<open>Every real purge leaves exactly one new record of itself in the audit log, at its end, naming who asked for
  it, and no purge ever removes or archives the record of an earlier one.\<close>

theorem purge_records_kept:
  assumes "run_retention_purge s clk False u i d = Inr (r, d')"
    and "\<forall>row \<in> set (db_activities d). ac_action row = ''retention_purge'' \<longrightarrow> ac_alert_id row = None \<and> ac_incident_id row = None"
  shows "\<exists>row. ac_action row = ''retention_purge'' \<and> ac_alert_id row = None \<and> ac_incident_id row = None \<and>
    ac_analyst_username row = u \<and> ac_analyst_id row = i \<and>
    filter (\<lambda>x. ac_action x = ''retention_purge'') (db_activities d') =
      filter (\<lambda>x. ac_action x = ''retention_purge'') (db_activities d) @ [row]"
proof -
  let ?f = "filter is_purge_row"
  have arch: "?f (archive_activities s clk rows) = ?f rows" for rows
    by (induction rows) (auto simp: archive_activities_def update_where_def is_purge_row_def)
  have all: "\<forall>x \<in> set (?f (archive_activities s clk (db_activities d))). ac_alert_id x = None \<and> ac_incident_id x = None"
    unfolding arch using assms(2) by (simp add: is_purge_row_def)
  have drop: "?f (filter q xs) = ?f xs" if "\<forall>x \<in> set (?f xs). q x" for q and xs :: "activity list"
    using that by (induction xs) auto
  from purge_tables(4)[OF assms(1)] all obtain row where "is_purge_row row" "ac_alert_id row = None" "ac_incident_id row = None"
    "ac_analyst_username row = u" "ac_analyst_id row = i" and "?f (db_activities d') = ?f (db_activities d) @ [row]"
    by (auto simp: drop arch simp del: filter_filter)
  then show ?thesis by (auto simp: is_purge_row_def[abs_def])
qed

text \<open>A dry run changes nothing, and on alerts and incidents its preview is exact: a real run at the same instant
  archives and deletes as many as were announced. For activities the preview also counts the purge's
  own audit rows, which a real run spares, so it announces too many by the number of old ones.\<close>

theorem dry_run_preview:
  assumes "run_retention_purge s clk True u i d = Inr (p, e)" and "run_retention_purge s clk False u i d = Inr (r, d')"
    and "\<And>n. clk n = t" and "0 \<le> retention_grace_days s"
  shows "e = d \<and> pc_done (pu_alerts r) = Some (pc_candidates (pu_alerts p)) \<and>
    pc_done (pu_incidents r) = Some (pc_candidates (pu_incidents p)) \<and>
    (\<exists>hard. pc_done (pu_activities r) = Some (fst (pc_candidates (pu_activities p)) -
        count_rows (\<lambda>a. activity_old s t a \<and> ac_action a = ''retention_purge'') (db_activities d), hard))"
proof -
  have grace: "0 \<le> days (retention_grace_days s)" using assms(4) by (simp add: days_def)
  have a: "count_rows (old_alert s clk) (archive_alerts s clk (db_alerts d)) = count_rows (old_alert s clk) (db_alerts d)"
    using grace assms(3) by (auto simp: count_rows_def archive_alerts_def update_where_def filter_map comp_def grace_cutoff_def
        alert_due_def intro!: arg_cong[of _ _ length] filter_cong)
  have i: "count_rows (old_incident s clk) (archive_incidents s clk (db_incidents d)) = count_rows (old_incident s clk) (db_incidents d)"
    using grace assms(3) by (auto simp: count_rows_def archive_incidents_def update_where_def filter_map comp_def grace_cutoff_def
        incident_due_def intro!: arg_cong[of _ _ length] filter_cong)
  have split: "count_rows (\<lambda>x. activity_old s t' x \<and> \<not> is_purge_row x) rows =
      count_rows (activity_old s t') rows - count_rows (\<lambda>x. activity_old s t' x \<and> is_purge_row x) rows" for rows t'
    by (induction rows) (auto simp: count_rows_def)
  from assms(1) have p: "e = d" "pc_candidates (pu_alerts p) = alert_counts s t t t d"
    "pc_candidates (pu_incidents p) = incident_counts s t t t d" "pc_candidates (pu_activities p) = activity_counts s t t d"
    by (auto simp: run_retention_purge_def Let_def assms(3))
  note c = purge_run_counts[OF assms(2)]
  show ?thesis using c unfolding a i split p
    by (simp add: alert_counts_def incident_counts_def activity_counts_def assms(3) is_purge_row_def[abs_def])
qed

section \<open>Witnesses\<close>

definition default_retention :: retention_settings where
  "default_retention = \<lparr>alerts_retention_days = 365, incidents_retention_days = 730, activities_retention_days = 365,
     retention_grace_days = 30\<rparr>"

definition solved_alert :: alert where
  "solved_alert = login_alert\<lparr>al_id := 8, al_source_id := Some ''E2'', al_status := ''resolved'', al_resolved_at := Some 9\<rparr>"

definition expired_alert :: alert where
  "expired_alert = login_alert\<lparr>al_id := 9, al_source_id := Some ''E3'', al_archived_at := Some (days 900)\<rparr>"

definition old_row :: "uuid \<Rightarrow> string \<Rightarrow> uuid option \<Rightarrow> activity" where
  "old_row i action alert = blank_activity\<lparr>ac_id := i, ac_action := action, ac_alert_id := alert\<rparr>"

definition old_db :: "alert list \<Rightarrow> playbook_run list \<Rightarrow> db" where
  "old_db alerts runs = empty_db\<lparr>db_next_id := 20, db_alerts := alerts, db_runs := runs,
     db_activities := [old_row 1 ''claimed'' (Some 9), old_row 2 ''retention_purge'' None]\<rparr>"

abbreviation "day_1000 \<equiv> \<lambda>n::nat. days 1000"

lemma old_db_ok: "system_ok (old_db [login_alert, solved_alert, expired_alert] runs)"
  by (simp add: old_db_def login_alert_def solved_alert_def expired_alert_def old_row_def blank_activity_def system_ok_def
      alerts_ok_def alert_ok_def incidents_ok_def links_ok_def dedup_ok_def log_ids_ok_def dedup_key_def empty_db_def)

lemma solved_due: "alert_due default_retention (days 1000) (days 1000) solved_alert"
  by (simp add: alert_due_def solved_alert_def login_alert_def default_retention_def days_def alert_retention_cutoff_def
      resolved_alert_statuses_def)

lemma demo_purge: "\<exists>r d'. run_retention_purge default_retention day_1000 False (Some ''celery-beat'') None
    (old_db [login_alert, solved_alert, expired_alert] []) = Inr (r, d')"
  by (rule purge_succeeds) (simp add: old_db_def empty_db_def)

theorem purging_system_ok_witness:
  "\<exists>res cs d'. purge_retention_task default_retention (\<lambda>k. day_1000) False (old_db [login_alert, solved_alert, expired_alert] [])
     = (res, cs, d') \<and> system_ok d'"
proof -
  let ?ws = "(demo_state [])\<lparr>ws_db := old_db [login_alert, solved_alert, expired_alert] []\<rparr>"
  obtain res cs d' where run: "purge_retention_task default_retention (\<lambda>k. day_1000) False (ws_db ?ws) = (res, cs, d')"
    using prod_cases3 by blast
  from purging_system_ok[OF r_into_rtranclp[of purging_step, OF purging_step.purge_task[OF run]]] old_db_ok
  have "system_ok d'" by simp
  with run show ?thesis by simp
qed

theorem purge_fate_witness:
  "\<exists>r d'. run_retention_purge default_retention day_1000 False (Some ''celery-beat'') None
       (old_db [login_alert, solved_alert, expired_alert] []) = Inr (r, d') \<and>
     login_alert \<in> set (db_alerts d') \<and> solved_alert\<lparr>al_archived_at := Some (days 1000)\<rparr> \<in> set (db_alerts d') \<and>
     9 \<notin> al_id ` set (db_alerts d')"
proof -
  from demo_purge obtain r d' where run: "run_retention_purge default_retention day_1000 False (Some ''celery-beat'') None
       (old_db [login_alert, solved_alert, expired_alert] []) = Inr (r, d')" by blast
  have l: "\<not> alert_due default_retention (days 1000) (days 1000) login_alert"
    by (simp add: alert_due_def login_alert_def resolved_alert_statuses_def)
  have "{b \<in> set (db_alerts d'). al_id b = al_id login_alert} = {login_alert}"
    "{b \<in> set (db_alerts d'). al_id b = al_id solved_alert} = {solved_alert\<lparr>al_archived_at := Some (days 1000)\<rparr>}"
    "{b \<in> set (db_alerts d'). al_id b = al_id expired_alert} = {}"
    using purge_fate[OF run old_db_ok] solved_due l
    by (simp_all add: default_retention_def days_def old_db_def,
        simp_all add: login_alert_def solved_alert_def expired_alert_def days_def)
  then have "login_alert \<in> set (db_alerts d')" "solved_alert\<lparr>al_archived_at := Some (days 1000)\<rparr> \<in> set (db_alerts d')"
    "9 \<notin> al_id ` set (db_alerts d')" by (blast, blast, force simp: expired_alert_def)
  with run show ?thesis by blast
qed

theorem purge_eventually_deletes_witness:
  "\<exists>r d1. run_retention_purge default_retention day_1000 False None None (old_db [login_alert, solved_alert, expired_alert] []) = Inr (r, d1)
     \<and> (\<exists>r2 d2. run_retention_purge default_retention (\<lambda>n. days 1031) False None None d1 = Inr (r2, d2) \<and>
          8 \<notin> al_id ` set (db_alerts d2))"
proof -
  have "days 1000 + days (retention_grace_days default_retention) < days 1031" "al_id solved_alert = 8"
    by (simp_all add: days_def default_retention_def solved_alert_def)
  moreover have "days 1000 \<le> days 1000 + days (retention_grace_days default_retention)"
    by (simp add: days_def default_retention_def)
  ultimately show ?thesis
    using purge_eventually_deletes[OF old_db_ok[of "[]"], of solved_alert default_retention day_1000 None None] solved_due
    by (auto simp: old_db_def empty_db_def)
qed

definition blocking_run :: playbook_run where
  "blocking_run = \<lparr>pr_id = 3, pr_created_at = 6, pr_playbook_id = 2, pr_alert_id = Some 9, pr_status = ''success'',
     pr_started_at = None, pr_finished_at = None, pr_error = None, pr_result = None, pr_sequence_id = None,
     pr_sequence_position = None, pr_sequence_total = None, pr_correlation_id = None\<rparr>"

theorem purge_blocked_by_run_witness:
  "purge_retention_task default_retention (\<lambda>k. day_1000) False (old_db [login_alert, solved_alert, expired_alert] [blocking_run]) =
     (Inl (IntegrityError ''fk_playbook_runs_alert_id_alerts''), [1, 2],
      old_db [login_alert, solved_alert, expired_alert] [blocking_run])"
proof -
  let ?d = "old_db [login_alert, solved_alert, expired_alert] [blocking_run]"
  have "expired_alert \<in> set (db_alerts ?d)" "blocking_run \<in> set (db_runs ?d)" "pr_alert_id blocking_run = Some (al_id expired_alert)"
    "older (al_archived_at expired_alert) (grace_cutoff default_retention (days 1000))"
    by (simp_all add: old_db_def blocking_run_def expired_alert_def grace_cutoff_def default_retention_def days_def)
  then show ?thesis using purge_blocked_by_run[of expired_alert ?d blocking_run default_retention "\<lambda>k. day_1000"] by blast
qed

theorem purge_records_kept_witness:
  "\<exists>r d' row. run_retention_purge default_retention day_1000 False (Some ''celery-beat'') None
       (old_db [login_alert, solved_alert, expired_alert] []) = Inr (r, d') \<and>
     filter (\<lambda>x. ac_action x = ''retention_purge'') (db_activities d') = [old_row 2 ''retention_purge'' None, row]"
proof -
  from demo_purge obtain r d' where run: "run_retention_purge default_retention day_1000 False (Some ''celery-beat'') None
       (old_db [login_alert, solved_alert, expired_alert] []) = Inr (r, d')" by blast
  from purge_records_kept[OF run] run show ?thesis by (auto simp: old_db_def old_row_def blank_activity_def)
qed

theorem dry_run_preview_witness:
  "\<exists>p r d'. run_retention_purge default_retention day_1000 True None None (old_db [login_alert, solved_alert, expired_alert] []) =
       Inr (p, old_db [login_alert, solved_alert, expired_alert] []) \<and>
     run_retention_purge default_retention day_1000 False None None (old_db [login_alert, solved_alert, expired_alert] []) = Inr (r, d') \<and>
     pc_candidates (pu_alerts p) = (1, 1) \<and> pc_done (pu_alerts r) = Some (1, 1) \<and>
     fst (pc_candidates (pu_activities p)) = 2 \<and> (\<exists>hard. pc_done (pu_activities r) = Some (1, hard))"
proof -
  let ?d = "old_db [login_alert, solved_alert, expired_alert] []"
  obtain p where p: "run_retention_purge default_retention day_1000 True None None ?d = Inr (p, ?d)"
    and c: "pc_candidates (pu_alerts p) = alert_counts default_retention (days 1000) (days 1000) (days 1000) ?d"
      "pc_candidates (pu_activities p) = activity_counts default_retention (days 1000) (days 1000) ?d"
    by (auto simp: run_retention_purge_def Let_def)
  obtain r d' where r: "run_retention_purge default_retention day_1000 False None None ?d = Inr (r, d')"
    using purge_succeeds[of ?d default_retention day_1000 None None] by (auto simp: old_db_def empty_db_def)
  have n: "pc_candidates (pu_alerts p) = (1, 1)" "fst (pc_candidates (pu_activities p)) = 2"
    "count_rows (\<lambda>a. activity_old default_retention (days 1000) a \<and> ac_action a = ''retention_purge'') (db_activities ?d) = 1"
    unfolding c by code_simp+
  from dry_run_preview[OF p r, of "days 1000"] n p r show ?thesis by (simp add: default_retention_def)
qed

end
