(* ===== verification/Anomaly.thy ===== *)
theory Anomaly
  imports Complex_Main Tables
begin

text \<open>
  \<open>opensoar/ai/anomaly.py\<close>: the anomaly detector, three heuristics over a window of alerts, and the run that
  stores their signals once a day.

  Python's floats are idealised as rationals, with \<open>math.sqrt\<close> a parameter and infinity the value
  \<open>None\<close>. A dictionary of sets is a set of pairs, any other dictionary an association list in insertion
  order. Rows come in table order.
\<close>

section \<open>Scores\<close>

definition severity_order :: "(string \<times> int) list" where
  "severity_order = [(''info'', 0), (''informational'', 0), (''low'', 1), (''medium'', 2), (''moderate'', 2),
     (''high'', 3), (''critical'', 4)]"

definition severity_rank :: "string \<Rightarrow> int" where
  "severity_rank severity = (if severity = [] then 0
     else (case map_of severity_order (lower severity) of None \<Rightarrow> 0 | Some r \<Rightarrow> r))"

definition zscore :: "rat \<Rightarrow> rat \<Rightarrow> rat \<Rightarrow> rat option" where
  "zscore sample mean stdev =
     (if stdev = 0 then (if sample = mean then Some 0 else None) else Some ((sample - mean) / stdev))"

definition mean_of :: "rat list \<Rightarrow> rat" where
  "mean_of values = sum_list values / of_nat (length values)"

definition stdev_of :: "(rat \<Rightarrow> rat) \<Rightarrow> rat list \<Rightarrow> rat" where
  "stdev_of sq values = (if length values < 2 then 0
     else (let mean = mean_of values
           in sq (sum_list (map (\<lambda>v. (v - mean)\<^sup>2) values) / of_nat (length values - 1))))"

section \<open>Signals\<close>

type_synonym alert_bucket = "string option \<times> string option"
type_synonym alert_key = "string option \<times> string option \<times> string option"

datatype anomaly_details =
    FirstSeen string
  | NewSeverity string string
  | CountSpike nat rat rat nat rat

record anomaly_signal =
  sg_kind :: string
  sg_partner :: "string option"
  sg_rule_name :: "string option"
  sg_source_ip :: "string option"
  sg_score :: rat
  sg_details :: anomaly_details

type_synonym signal_id = "string \<times> alert_key"

definition rule_bucket :: "alert \<Rightarrow> alert_bucket" where
  "rule_bucket a = (al_partner a, al_rule_name a)"

definition key_of :: "alert \<Rightarrow> alert_key" where
  "key_of a = (al_partner a, al_rule_name a, al_source_ip a)"

definition signal_key :: "anomaly_signal \<Rightarrow> signal_id" where
  "signal_key s = (sg_kind s, sg_partner s, sg_rule_name s, sg_source_ip s)"

definition day_bucket :: "time \<Rightarrow> time" where
  "day_bucket t = t - t mod 86400000000"

text \<open>The signals so far and the keys \<open>_emit\<close> has seen.\<close>

type_synonym sink = "anomaly_signal list \<times> signal_id list"

definition emit :: "anomaly_signal \<Rightarrow> sink \<Rightarrow> sink" where
  "emit s st = (if signal_key s \<in> set (snd st) then st else (fst st @ [s], signal_key s # snd st))"

definition first_seen_signal :: "alert \<Rightarrow> anomaly_signal" where
  "first_seen_signal a = \<lparr>sg_kind = ''first_seen_ip'', sg_partner = al_partner a, sg_rule_name = al_rule_name a,
     sg_source_ip = al_source_ip a, sg_score = 1, sg_details = FirstSeen (al_severity a)\<rparr>"

definition new_severity_signal :: "alert \<Rightarrow> int \<Rightarrow> int \<Rightarrow> string \<Rightarrow> anomaly_signal" where
  "new_severity_signal a rank prev_rank prev_label =
     \<lparr>sg_kind = ''new_severity'', sg_partner = al_partner a, sg_rule_name = al_rule_name a,
      sg_source_ip = al_source_ip a, sg_score = of_int (rank - prev_rank), sg_details = NewSeverity (al_severity a) prev_label\<rparr>"

section \<open>The heuristics\<close>

fun first_seen_loop :: "alert list \<Rightarrow> (alert_bucket \<times> string option) list \<Rightarrow> sink \<Rightarrow> sink" where
  "first_seen_loop [] seen st = st"
| "first_seen_loop (a # as) seen st =
     (if \<not> truthy_str (al_source_ip a) \<or> (rule_bucket a, al_source_ip a) \<in> set seen then first_seen_loop as seen st
      else first_seen_loop as ((rule_bucket a, al_source_ip a) # seen)
        (emit (first_seen_signal a) st))"

definition seen_ips :: "alert list \<Rightarrow> (alert_bucket \<times> string option) list" where
  "seen_ips history = map (\<lambda>a. (rule_bucket a, al_source_ip a)) history"

type_synonym severities = "(alert_bucket \<times> int \<times> string) list"

fun max_severity :: "alert list \<Rightarrow> severities \<Rightarrow> severities" where
  "max_severity [] m = m"
| "max_severity (a # as) m =
     (let rank = severity_rank (al_severity a)
      in max_severity as
           (if rank > (case map_of m (rule_bucket a) of None \<Rightarrow> -1 | Some (r, l) \<Rightarrow> r)
            then AList.update (rule_bucket a) (rank, al_severity a) m else m))"

fun new_severity_loop :: "alert list \<Rightarrow> severities \<Rightarrow> sink \<Rightarrow> sink" where
  "new_severity_loop [] m st = st"
| "new_severity_loop (a # as) m st =
     (let rank = severity_rank (al_severity a)
      in case map_of m (rule_bucket a) of
           None \<Rightarrow> new_severity_loop as (AList.update (rule_bucket a) (rank, al_severity a) m) st
         | Some (prev_rank, prev_label) \<Rightarrow>
             (if rank > prev_rank
              then new_severity_loop as (AList.update (rule_bucket a) (rank, al_severity a) m)
                (emit (new_severity_signal a rank prev_rank prev_label) st)
              else new_severity_loop as m st))"

text \<open>\<open>per_day[key]\<close>: the counts by day of one key; \<open>values[-n:]\<close> and the padding loop.\<close>

definition daily_counts :: "alert list \<Rightarrow> alert_key \<Rightarrow> (time \<times> nat) list" where
  "daily_counts history k = tally (map (\<lambda>a. day_bucket (al_created_at a)) (filter (\<lambda>a. key_of a = k) history))"

definition last_values :: "nat \<Rightarrow> 'a list \<Rightarrow> 'a list" where
  "last_values n xs = (if n = 0 then xs else drop (length xs - n) xs)"

definition padded :: "nat \<Rightarrow> rat list \<Rightarrow> rat list" where
  "padded n xs = xs @ replicate (n - length xs) 0"

definition baseline_values :: "nat \<Rightarrow> alert list \<Rightarrow> alert_key \<Rightarrow> rat list" where
  "baseline_values n history k = last_values n (map (\<lambda>p. of_nat (snd p)) (daily_counts history k))"

definition spike_score :: "(rat \<Rightarrow> rat) \<Rightarrow> nat \<Rightarrow> rat list \<Rightarrow> rat option" where
  "spike_score sq count values = zscore (of_nat count) (mean_of values) (stdev_of sq values)"

definition above :: "rat option \<Rightarrow> rat \<Rightarrow> bool" where
  "above score threshold \<longleftrightarrow> (case score of None \<Rightarrow> True | Some z \<Rightarrow> z > threshold)"

definition stored_score :: "rat option \<Rightarrow> rat" where
  "stored_score score = (case score of None \<Rightarrow> 1000000 | Some z \<Rightarrow> z)"

fun spike_loop ::
  "(rat \<Rightarrow> rat) \<Rightarrow> rat \<Rightarrow> nat \<Rightarrow> alert list \<Rightarrow> (alert_key \<times> nat) list \<Rightarrow> sink \<Rightarrow> sink" where
  "spike_loop sq threshold n history [] st = st"
| "spike_loop sq threshold n history ((k, count) # counts) st =
     (let values = baseline_values n history k
      in if values = [] then spike_loop sq threshold n history counts st
         else (let values = padded n values; score = spike_score sq count values
               in spike_loop sq threshold n history counts
                    (if above score threshold
                     then emit \<lparr>sg_kind = ''count_spike'', sg_partner = fst k, sg_rule_name = fst (snd k),
                            sg_source_ip = snd (snd k), sg_score = stored_score score,
                            sg_details = CountSpike count (mean_of values) (stdev_of sq values) n threshold\<rparr> st
                     else st)))"

definition compute_anomaly_signals ::
  "(rat \<Rightarrow> rat) \<Rightarrow> alert list \<Rightarrow> alert list \<Rightarrow> rat \<Rightarrow> nat \<Rightarrow> anomaly_signal list" where
  "compute_anomaly_signals sq history current threshold n =
     fst (spike_loop sq threshold n history (tally (map key_of current))
          (new_severity_loop current (max_severity history [])
             (first_seen_loop current (seen_ips history) ([], []))))"

section \<open>A run\<close>

text \<open>A stored row is a signal with the instant of its creation, read while the run adds it.\<close>

record anomaly = anomaly_signal +
  ax_created_at :: time

fun store_signals :: "time \<Rightarrow> anomaly_signal list \<Rightarrow> signal_id list \<Rightarrow> anomaly list" where
  "store_signals stamp [] seen = []"
| "store_signals stamp (s # ss) seen =
     (if signal_key s \<in> set seen then store_signals stamp ss seen
      else anomaly_signal.extend s \<lparr>ax_created_at = stamp\<rparr> # store_signals stamp ss (signal_key s # seen))"

definition row_key :: "anomaly \<Rightarrow> signal_id" where
  "row_key r = signal_key (anomaly_signal.truncate r)"

definition run_anomaly_detection ::
  "(rat \<Rightarrow> rat) \<Rightarrow> time \<Rightarrow> time \<Rightarrow> nat \<Rightarrow> rat \<Rightarrow> db \<Rightarrow> anomaly list \<Rightarrow> nat \<times> anomaly list" where
  "run_anomaly_detection sq now stamp n threshold d rows =
     (let window_start = now - int n * 86400000000;
          current_start = day_bucket now;
          alerts = filter (\<lambda>a. al_created_at a \<ge> window_start) (db_alerts d);
          current = filter (\<lambda>a. al_created_at a \<ge> current_start) alerts;
          history = filter (\<lambda>a. \<not> al_created_at a \<ge> current_start) alerts;
          signals = compute_anomaly_signals sq history current threshold n
      in if signals = [] then (0, rows)
         else (let existing = map row_key (filter (\<lambda>r. ax_created_at r \<ge> current_start) rows);
                   new = store_signals stamp signals existing
               in (length new, rows @ new)))"

section \<open>What the heuristics emit\<close>

definition sink_ok :: "sink \<Rightarrow> bool" where
  "sink_ok st \<longleftrightarrow> distinct (map signal_key (fst st)) \<and> signal_key ` set (fst st) = set (snd st)"

lemma emit_ok: "sink_ok st \<Longrightarrow> sink_ok (emit s st)"
  by (auto simp: sink_ok_def emit_def)

lemma emit_keys [simp]: "set (snd (emit s st)) = insert (signal_key s) (set (snd st))"
  by (auto simp: emit_def)

lemma first_seen_ok: "sink_ok st \<Longrightarrow> sink_ok (first_seen_loop as seen st)"
  by (induction "as" seen st rule: first_seen_loop.induct) (auto simp: emit_ok)

lemma new_severity_ok: "sink_ok st \<Longrightarrow> sink_ok (new_severity_loop as m st)"
  by (induction "as" m st rule: new_severity_loop.induct) (auto simp: emit_ok Let_def split: option.splits)

lemma spike_ok: "sink_ok st \<Longrightarrow> sink_ok (spike_loop sq t n h counts st)"
  by (induction sq t n h counts st rule: spike_loop.induct) (auto simp: emit_ok Let_def)

lemma signal_keys [simp]:
  "signal_key (first_seen_signal a) = (''first_seen_ip'', key_of a)"
  "signal_key (new_severity_signal a r p l) = (''new_severity'', key_of a)"
  by (simp_all add: signal_key_def first_seen_signal_def new_severity_signal_def key_of_def)

lemma key_bucket: "key_of a = key_of c \<Longrightarrow> rule_bucket a = rule_bucket c"
  by (simp add: key_of_def rule_bucket_def)

definition unseen :: "(alert_bucket \<times> string option) list \<Rightarrow> alert \<Rightarrow> bool" where
  "unseen seen a \<longleftrightarrow> truthy_str (al_source_ip a) \<and> (rule_bucket a, al_source_ip a) \<notin> set seen"

lemma unseen_Cons: "unseen ((rule_bucket a, al_source_ip a) # seen) c \<longleftrightarrow> unseen seen c \<and> key_of c \<noteq> key_of a"
  by (auto simp: unseen_def key_of_def rule_bucket_def)

lemma first_seen_keys: "x \<in> set (snd (first_seen_loop as seen st)) \<longleftrightarrow>
    x \<in> set (snd st) \<or> (\<exists>a \<in> set as. unseen seen a \<and> x = (''first_seen_ip'', key_of a))"
proof (induction "as" seen st rule: first_seen_loop.induct)
  case (2 a "as" seen st)
  show ?case
  proof (cases "unseen seen a")
    case False
    with 2(1) show ?thesis by (auto simp: unseen_def)
  next
    case True
    then have c: "\<not> (\<not> truthy_str (al_source_ip a) \<or> (rule_bucket a, al_source_ip a) \<in> set seen)" by (simp add: unseen_def)
    show ?thesis unfolding first_seen_loop.simps if_not_P[OF c] 2(2)[OF c] using True by (auto simp: unseen_Cons)
  qed
qed simp

lemma new_severity_grows: "x \<in> set (snd st) \<Longrightarrow> x \<in> set (snd (new_severity_loop as m st))"
  by (induction "as" m st rule: new_severity_loop.induct) (simp_all add: Let_def split: option.split prod.split)

lemma new_severity_kind: "fst x \<noteq> ''new_severity'' \<Longrightarrow> x \<in> set (snd (new_severity_loop as m st)) \<Longrightarrow> x \<in> set (snd st)"
proof (induction "as" m st rule: new_severity_loop.induct)
  case (2 a "as" m st)
  show ?case
  proof (cases "map_of m (rule_bucket a)")
    case None
    with 2 show ?thesis by (simp add: Let_def)
  next
    case (Some p)
    obtain r l where p: "p = (r, l)" by fastforce
    show ?thesis
    proof (cases "severity_rank (al_severity a) > r")
      case True
      with 2(2)[OF refl Some p[symmetric] True 2(4)] 2(4,5) Some p show ?thesis by (auto simp: Let_def)
    next
      case False
      with 2(3)[OF refl Some p[symmetric] False 2(4)] 2(4,5) Some p show ?thesis by (auto simp: Let_def)
    qed
  qed
qed simp

definition raised :: "alert_bucket \<Rightarrow> signal_id list \<Rightarrow> bool" where
  "raised b keys \<longleftrightarrow> (\<exists>ip. (''new_severity'', fst b, snd b, ip) \<in> set keys)"

lemma raised_emit: "raised b (snd (emit (new_severity_signal a r p l) st)) \<longleftrightarrow> rule_bucket a = b \<or> raised b (snd st)"
  by (cases b) (auto simp: raised_def key_of_def rule_bucket_def)

lemma raised_grows: "raised b (snd st) \<Longrightarrow> raised b (snd (new_severity_loop as m st))"
  unfolding raised_def using new_severity_grows by blast

lemma new_severity_raised: "map_of m b = Some (r, l) \<Longrightarrow> raised b (snd (new_severity_loop as m st)) \<longleftrightarrow>
    raised b (snd st) \<or> (\<exists>a \<in> set as. rule_bucket a = b \<and> severity_rank (al_severity a) > r)"
proof (induction "as" m st arbitrary: r l rule: new_severity_loop.induct)
  case (2 a "as" m st)
  let ?rank = "severity_rank (al_severity a)"
  show ?case
  proof (cases "map_of m (rule_bucket a)")
    case None
    with 2(4) have "rule_bucket a \<noteq> b" by auto
    with None 2(1)[OF refl None] 2(4) show ?thesis by (simp add: Let_def)
  next
    case (Some p)
    obtain r' l' where p: "p = (r', l')" by fastforce
    show ?thesis
    proof (cases "?rank > r'")
      case False
      with 2(3)[OF refl Some p[symmetric] False 2(4)] Some p 2(4) show ?thesis by (auto simp: Let_def)
    next
      case rank: True
      show ?thesis
      proof (cases "rule_bucket a = b")
        case True
        with Some p rank 2(4) show ?thesis by (simp add: Let_def raised_grows raised_emit)
      next
        case False
        with 2(4) have "map_of (AList.update (rule_bucket a) (?rank, al_severity a) m) b = Some (r, l)" by simp
        from 2(2)[OF refl Some p[symmetric] rank this] False Some p rank show ?thesis by (simp add: Let_def raised_emit)
      qed
    qed
  qed
qed simp

lemma severity_rank_nonneg [simp]: "0 \<le> severity_rank x"
proof -
  have "0 \<le> r" if "map_of severity_order y = Some r" for y r
    using map_of_SomeD[OF that] by (auto simp: severity_order_def)
  then show ?thesis by (auto simp: severity_rank_def split: option.splits)
qed

definition best :: "severities \<Rightarrow> alert_bucket \<Rightarrow> int" where
  "best m b = (case map_of m b of None \<Rightarrow> -1 | Some (r, l) \<Rightarrow> r)"

lemma best_update: "best (AList.update b' (r, l) m) b = (if b = b' then r else best m b)"
  by (simp add: best_def)

lemma max_severity_step: "max_severity (a # as) m = max_severity as
    (if severity_rank (al_severity a) > best m (rule_bucket a) then AList.update (rule_bucket a) (severity_rank (al_severity a), al_severity a) m
     else m)"
  by (simp add: best_def Let_def)

lemma max_severity_best: "best (max_severity as m) b < x \<longleftrightarrow>
    best m b < x \<and> (\<forall>a \<in> set as. rule_bucket a = b \<longrightarrow> severity_rank (al_severity a) < x)"
proof (induction "as" arbitrary: m)
  case (Cons a "as")
  then show ?case unfolding max_severity_step
    by (cases "severity_rank (al_severity a) > best m (rule_bucket a)") (auto simp: best_update)
qed simp

lemma max_severity_known: "map_of (max_severity as m) b = None \<longleftrightarrow> map_of m b = None \<and> (\<forall>a \<in> set as. rule_bucket a \<noteq> b)"
proof (induction "as" arbitrary: m)
  case (Cons a "as")
  show ?case
  proof (cases "map_of m (rule_bucket a)")
    case None
    then have "best m (rule_bucket a) < severity_rank (al_severity a)"
      using less_le_trans[of "-1" 0 "severity_rank (al_severity a)"] by (simp add: best_def)
    with Cons None show ?thesis unfolding max_severity_step by auto
  next
    case (Some y)
    with Cons show ?thesis unfolding max_severity_step by auto
  qed
qed simp

definition spiking :: "(rat \<Rightarrow> rat) \<Rightarrow> rat \<Rightarrow> nat \<Rightarrow> alert list \<Rightarrow> alert_key \<Rightarrow> nat \<Rightarrow> bool" where
  "spiking sq threshold n history k count \<longleftrightarrow> baseline_values n history k \<noteq> [] \<and>
     above (spike_score sq count (padded n (baseline_values n history k))) threshold"

lemma spike_keys: "set (snd (spike_loop sq threshold n history counts st)) = set (snd st) \<union>
    {(''count_spike'', k) | k c. (k, c) \<in> set counts \<and> spiking sq threshold n history k c}"
  by (induction sq threshold n history counts st rule: spike_loop.induct)
     (auto simp: Let_def spiking_def signal_key_def)

lemma last_values_empty: "last_values n xs = [] \<longleftrightarrow> xs = []"
  by (cases "length xs \<le> n") (auto simp: last_values_def)

lemma baseline_known: "baseline_values n history k \<noteq> [] \<longleftrightarrow> k \<in> key_of ` set history"
  by (auto simp: baseline_values_def daily_counts_def last_values_empty tally_empty filter_empty_conv)

lemmas detector_defs = compute_anomaly_signals_def sink_ok_def

lemma signals_ok: "distinct (map signal_key (compute_anomaly_signals sq history current threshold n))"
  "x \<in> signal_key ` set (compute_anomaly_signals sq history current threshold n) \<longleftrightarrow>
     x \<in> set (snd (spike_loop sq threshold n history (tally (map key_of current))
       (new_severity_loop current (max_severity history []) (first_seen_loop current (seen_ips history) ([], [])))))"
proof -
  have "sink_ok ([], [])" by (simp add: sink_ok_def)
  from spike_ok[OF new_severity_ok[OF first_seen_ok[OF this]]]
  show "distinct (map signal_key (compute_anomaly_signals sq history current threshold n))"
    "x \<in> signal_key ` set (compute_anomaly_signals sq history current threshold n) \<longleftrightarrow>
     x \<in> set (snd (spike_loop sq threshold n history (tally (map key_of current))
       (new_severity_loop current (max_severity history []) (first_seen_loop current (seen_ips history) ([], [])))))"
    unfolding compute_anomaly_signals_def sink_ok_def by simp_all
qed

lemma new_severity_other: "fst x \<noteq> ''new_severity'' \<Longrightarrow>
    x \<in> set (snd (new_severity_loop as m st)) \<longleftrightarrow> x \<in> set (snd st)"
  using new_severity_kind new_severity_grows by blast

lemma unseen_key: "unseen (seen_ips history) a \<longleftrightarrow> truthy_str (snd (snd (key_of a))) \<and> key_of a \<notin> key_of ` set history"
  by (simp add: unseen_def seen_ips_def image_iff key_of_def rule_bucket_def conj_ac)

lemma first_seen_iff: "(\<exists>a \<in> set current. unseen (seen_ips history) a \<and> k = key_of a) \<longleftrightarrow>
    truthy_str (snd (snd k)) \<and> k \<in> key_of ` set current \<and> k \<notin> key_of ` set history"
proof -
  have "(\<exists>a \<in> S. (P (f a) \<and> f a \<notin> H) \<and> y = f a) \<longleftrightarrow> P y \<and> y \<in> f ` S \<and> y \<notin> H" for S :: "'a set" and f :: "'a \<Rightarrow> 'b" and P H y
    by auto
  then show ?thesis unfolding unseen_key .
qed

lemma signal_first_seen: "(''first_seen_ip'', k) \<in> signal_key ` set (compute_anomaly_signals sq history current threshold n) \<longleftrightarrow>
    (\<exists>a \<in> set current. unseen (seen_ips history) a \<and> k = key_of a)"
  by (simp add: signals_ok spike_keys new_severity_other first_seen_keys)

lemma signal_spike: "(''count_spike'', k) \<in> signal_key ` set (compute_anomaly_signals sq history current threshold n) \<longleftrightarrow>
    k \<in> key_of ` set current \<and> spiking sq threshold n history k (count_list (map key_of current) k)"
  by (auto simp: signals_ok spike_keys new_severity_other first_seen_keys tally_mem simp del: split_paired_Ex)

lemma signal_severity:
  assumes "h \<in> set history" and "rule_bucket h = b"
  shows "(\<exists>ip. (''new_severity'', fst b, snd b, ip) \<in> signal_key ` set (compute_anomaly_signals sq history current threshold n)) \<longleftrightarrow>
    (\<exists>a \<in> set current. rule_bucket a = b \<and> (\<forall>h \<in> set history. rule_bucket h = b \<longrightarrow> severity_rank (al_severity h) < severity_rank (al_severity a)))"
proof -
  from assms max_severity_known[of history "[]" b] obtain r l where m: "map_of (max_severity history []) b = Some (r, l)" by auto
  have r: "r < x \<longleftrightarrow> (\<forall>h \<in> set history. rule_bucket h = b \<longrightarrow> severity_rank (al_severity h) < x)" if "0 \<le> x" for x
    using max_severity_best[of history "[]" b x] m that by (simp add: best_def)
  have "(\<exists>ip. (''new_severity'', fst b, snd b, ip) \<in> signal_key ` set (compute_anomaly_signals sq history current threshold n)) \<longleftrightarrow>
    raised b (snd (new_severity_loop current (max_severity history []) (first_seen_loop current (seen_ips history) ([], []))))"
    unfolding raised_def by (simp add: signals_ok spike_keys)
  also have "\<dots> \<longleftrightarrow> (\<exists>a \<in> set current. rule_bucket a = b \<and> r < severity_rank (al_severity a))"
    unfolding new_severity_raised[OF m] by (simp add: raised_def first_seen_keys)
  finally show ?thesis by (simp add: r)
qed

section \<open>Properties\<close>

text \<open>The detector reports exactly what its heuristics describe, each report once: an address is first seen when
  no alert of the baseline with the same partner and rule came from it; a rule the baseline knows has a
  new severity when some current alert outranks every earlier one of the rule; and a combination of
  partner, rule and address spikes when the baseline knows it and today's count scores above the
  threshold.\<close>

theorem anomaly_signals_spec:
  "distinct (map signal_key (compute_anomaly_signals sq history current threshold n)) \<and>
   (\<forall>p r ip. (''first_seen_ip'', p, r, ip) \<in> signal_key ` set (compute_anomaly_signals sq history current threshold n) \<longleftrightarrow>
      truthy_str ip \<and> (p, r, ip) \<in> key_of ` set current \<and> (p, r, ip) \<notin> key_of ` set history) \<and>
   (\<forall>p r. (p, r) \<in> rule_bucket ` set history \<longrightarrow>
      ((\<exists>ip. (''new_severity'', p, r, ip) \<in> signal_key ` set (compute_anomaly_signals sq history current threshold n)) \<longleftrightarrow>
       (\<exists>a \<in> set current. rule_bucket a = (p, r) \<and>
          (\<forall>h \<in> set history. rule_bucket h = (p, r) \<longrightarrow> severity_rank (al_severity h) < severity_rank (al_severity a))))) \<and>
   (\<forall>k. (''count_spike'', k) \<in> signal_key ` set (compute_anomaly_signals sq history current threshold n) \<longleftrightarrow>
      k \<in> key_of ` set current \<and> k \<in> key_of ` set history \<and>
      above (spike_score sq (count_list (map key_of current) k) (padded n (baseline_values n history k))) threshold)"
proof (intro conjI allI impI)
  fix p r ip
  show "(''first_seen_ip'', p, r, ip) \<in> signal_key ` set (compute_anomaly_signals sq history current threshold n) \<longleftrightarrow>
      truthy_str ip \<and> (p, r, ip) \<in> key_of ` set current \<and> (p, r, ip) \<notin> key_of ` set history"
    unfolding signal_first_seen first_seen_iff snd_conv ..
next
  fix p r assume "(p, r) \<in> rule_bucket ` set history"
  then obtain h where "h \<in> set history" "rule_bucket h = (p, r)" by auto
  from signal_severity[OF this] show "(\<exists>ip. (''new_severity'', p, r, ip) \<in> signal_key ` set (compute_anomaly_signals sq history current threshold n)) \<longleftrightarrow>
       (\<exists>a \<in> set current. rule_bucket a = (p, r) \<and>
          (\<forall>h \<in> set history. rule_bucket h = (p, r) \<longrightarrow> severity_rank (al_severity h) < severity_rank (al_severity a)))" unfolding fst_conv snd_conv .
next
  fix k
  show "(''count_spike'', k) \<in> signal_key ` set (compute_anomaly_signals sq history current threshold n) \<longleftrightarrow>
      k \<in> key_of ` set current \<and> k \<in> key_of ` set history \<and>
      above (spike_score sq (count_list (map key_of current) k) (padded n (baseline_values n history k))) threshold"
    unfolding signal_spike spiking_def baseline_known ..
qed (rule signals_ok)

section \<open>The order of the alerts\<close>

text \<open>The alerts of the day are said to come in any order, and for a rule the baseline does not know the order
  decides: of two alerts, a milder and a graver one, the graver one is reported as a new severity when
  it comes second and is not when it comes first.\<close>

theorem new_severity_order:
  assumes "rule_bucket a = rule_bucket b" and "rule_bucket a \<notin> rule_bucket ` set history"
    and "severity_rank (al_severity a) < severity_rank (al_severity b)"
  shows "(''new_severity'', key_of b) \<in> signal_key ` set (compute_anomaly_signals sq history [a, b] threshold n) \<and>
    (\<forall>k. (''new_severity'', k) \<notin> signal_key ` set (compute_anomaly_signals sq history [b, a] threshold n))"
proof -
  have m: "map_of (max_severity history []) (rule_bucket b) = None"
    using assms(1,2) by (auto simp: max_severity_known image_iff)
  show ?thesis
    using assms by (simp add: signals_ok spike_keys m first_seen_keys Let_def)
qed

section \<open>Storing\<close>

lemma row_key_extend [simp]: "row_key (anomaly_signal.extend s \<lparr>ax_created_at = t\<rparr>) = signal_key s"
  by (simp add: row_key_def anomaly_signal.defs signal_key_def)

lemma store_created: "x \<in> set (store_signals stamp ss seen) \<Longrightarrow> ax_created_at x = stamp"
  by (induction stamp ss seen rule: store_signals.induct) (auto simp: anomaly_signal.defs split: if_splits)

lemma store_keys: "row_key ` set (store_signals stamp ss seen) = signal_key ` set ss - set seen \<and>
    distinct (map row_key (store_signals stamp ss seen))"
  by (induction stamp ss seen rule: store_signals.induct) auto

lemma store_nothing: "signal_key ` set ss \<subseteq> set seen \<Longrightarrow> store_signals stamp ss seen = []"
  by (induction stamp ss seen rule: store_signals.induct) auto

definition keys_since :: "time \<Rightarrow> anomaly list \<Rightarrow> signal_id list" where
  "keys_since t rows = map row_key (filter (\<lambda>r. ax_created_at r \<ge> t) rows)"

lemma keys_since_append [simp]: "keys_since t (xs @ ys) = keys_since t xs @ keys_since t ys"
  by (simp add: keys_since_def)

text \<open>Runs do not pile up reports: whatever is in the alert table, a run only adds rows, as many as it says, no
  two rows of the day report the same thing about the same partner, rule and address, and running the
  detector again at the same instant adds none.\<close>

theorem anomaly_rows_unique:
  assumes "run_anomaly_detection sq now stamp n threshold d rows = (added, rows')"
    and "distinct (keys_since (day_bucket now) rows)" and "day_bucket now \<le> stamp"
  shows "(\<exists>new. rows' = rows @ new \<and> added = length new) \<and> distinct (keys_since (day_bucket now) rows') \<and>
    run_anomaly_detection sq now later n threshold d rows' = (0, rows')"
proof -
  define ss where "ss = compute_anomaly_signals sq
    (filter (\<lambda>a. \<not> al_created_at a \<ge> day_bucket now) (filter (\<lambda>a. al_created_at a \<ge> now - int n * 86400000000) (db_alerts d)))
    (filter (\<lambda>a. al_created_at a \<ge> day_bucket now) (filter (\<lambda>a. al_created_at a \<ge> now - int n * 86400000000) (db_alerts d)))
    threshold n"
  have run: "run_anomaly_detection sq now t n threshold d rs = (if ss = [] then (0, rs)
      else (length (store_signals t ss (keys_since (day_bucket now) rs)), rs @ store_signals t ss (keys_since (day_bucket now) rs)))" for t rs
    unfolding run_anomaly_detection_def Let_def ss_def keys_since_def by simp
  define new where "new = store_signals stamp ss (keys_since (day_bucket now) rows)"
  have rows': "rows' = rows @ new" and added: "added = length new"
    using assms(1) unfolding run new_def by (auto split: if_splits)
  have "keys_since (day_bucket now) new = map row_key new"
    unfolding keys_since_def new_def using store_created[of _ stamp ss] assms(3) by (simp add: filter_id_conv)
  then have keys: "keys_since (day_bucket now) rows' = keys_since (day_bucket now) rows @ map row_key new" by (simp add: rows')
  have k: "row_key ` set new = signal_key ` set ss - set (keys_since (day_bucket now) rows)" "distinct (map row_key new)"
    using store_keys[of stamp ss "keys_since (day_bucket now) rows"] unfolding new_def by auto
  have "signal_key ` set ss \<subseteq> set (keys_since (day_bucket now) rows')" unfolding keys using k(1) by auto
  from store_nothing[OF this] have "run_anomaly_detection sq now later n threshold d rows' = (0, rows')"
    unfolding run by simp
  moreover have "distinct (keys_since (day_bucket now) rows')" unfolding keys using k assms(2) by auto
  ultimately show ?thesis using rows' added by blast
qed

section \<open>Witnesses\<close>

definition seen_alert :: "time \<Rightarrow> string \<Rightarrow> string \<Rightarrow> alert" where
  "seen_alert t ip severity = \<lparr>al_id = 1, al_created_at = t, al_source = ''edr'', al_source_id = None, al_title = ''scan'',
     al_description = None, al_severity = severity, al_status = ''new'', al_raw_payload = [], al_normalized = [],
     al_correlation_id = None, al_source_ip = Some ip, al_dest_ip = None, al_hostname = None, al_rule_name = Some ''R1'',
     al_iocs = None, al_tags = None, al_partner = None, al_determination = ''unknown'', al_resolved_at = None,
     al_resolve_reason = None, al_assigned_to = None, al_assigned_username = None, al_duplicate_count = 1,
     al_archived_at = None\<rparr>"

theorem anomaly_signals_spec_witness:
  "(\<exists>ip. (''new_severity'', None, Some ''R1'', ip) \<in>
     signal_key ` set (compute_anomaly_signals id [seen_alert 0 ''h'' ''low''] [seen_alert 9 ''h'' ''critical''] 3 7))"
proof -
  have "(None, Some ''R1'') \<in> rule_bucket ` set [seen_alert 0 ''h'' ''low'']" by (simp add: seen_alert_def rule_bucket_def)
  then show ?thesis
    using anomaly_signals_spec[of id "[seen_alert 0 ''h'' ''low'']" "[seen_alert 9 ''h'' ''critical'']" 3 7]
    by (simp add: seen_alert_def rule_bucket_def severity_rank_def severity_order_def lower_def lower_char_def is_upper_def)
qed

theorem new_severity_order_witness:
  "(''new_severity'', None, Some ''R1'', Some ''h'') \<in>
     signal_key ` set (compute_anomaly_signals id [] [seen_alert 0 ''h'' ''low'', seen_alert 0 ''h'' ''high''] 3 7)"
  using new_severity_order[of "seen_alert 0 ''h'' ''low''" "seen_alert 0 ''h'' ''high''" "[]" id 3 7]
  by (simp add: seen_alert_def rule_bucket_def key_of_def severity_rank_def severity_order_def lower_def lower_char_def is_upper_def)

definition quiet_db :: db where
  "quiet_db = empty_db\<lparr>db_alerts := [seen_alert 5 ''h'' ''low'', seen_alert 86400000007 ''g'' ''high'',
     seen_alert 86400000009 ''g'' ''high'']\<rparr>"

theorem anomaly_rows_unique_witness:
  "\<exists>rows. run_anomaly_detection id 86400000010 86400000011 7 3 quiet_db [] = (2, rows) \<and>
     distinct (keys_since 86400000000 rows) \<and> run_anomaly_detection id 86400000010 86400000012 7 3 quiet_db rows = (0, rows)"
proof -
  obtain rows where run: "run_anomaly_detection id 86400000010 86400000011 7 3 quiet_db [] = (2, rows)"
  proof -
    have "fst (run_anomaly_detection id 86400000010 86400000011 7 3 quiet_db []) = 2" by code_simp
    then show thesis using that by (metis prod.collapse)
  qed
  have d: "day_bucket 86400000010 = 86400000000" by (simp add: day_bucket_def)
  have e: "distinct (keys_since (day_bucket 86400000010) [])" by (simp add: keys_since_def)
  from anomaly_rows_unique[OF run e, of 86400000012] run show ?thesis unfolding d by auto
qed

end
