(* ===== verification/Resources.thy ===== *)
theory Resources
  imports Lifecycle Executor
begin

text \<open>
  The endpoints of the smaller resources: \<open>opensoar/api/observables.py\<close>, \<open>playbooks.py\<close>, \<open>playbook_runs.py\<close>,
  \<open>incident_templates.py\<close> and \<open>integrations.py\<close>, with the connector loader
  \<open>opensoar/integrations/loader.py\<close>.

  The endpoints share their shape: find the row or answer 404, ask the tenant validators, change the
  row, commit. The collation of the database and the connector classes are parameters.
\<close>

section \<open>The common shape\<close>

definition load_row ::
  "call_env \<Rightarrow> string \<Rightarrow> ('a \<Rightarrow> resource) \<Rightarrow> string \<Rightarrow> string \<Rightarrow> ('a \<Rightarrow> uuid) \<Rightarrow> uuid \<Rightarrow> 'a list \<Rightarrow> exn + 'a" where
  "load_row ev missing wrap kind action key i rows =
     ebind (fetch_or (HTTPException 404 missing) (\<lambda>r. key r = i) rows) (\<lambda>r.
     ebind (enforce ev (wrap r) kind action) (\<lambda>_. Inr r))"

definition list_rows ::
  "call_env \<Rightarrow> query \<Rightarrow> ('a \<Rightarrow> resource) \<Rightarrow> string \<Rightarrow> ('a \<Rightarrow> time) \<Rightarrow> int \<Rightarrow> int \<Rightarrow> 'a list \<Rightarrow> exn + ('a list \<times> nat)" where
  "list_rows ev q0 wrap kind created limit offset rows =
     ebind (guard (limit \<le> 200 \<and> 0 \<le> offset) (HTTPException 422 ''query'')) (\<lambda>_.
     ebind (scoped_query ev q0 kind ''list'') (\<lambda>q.
     ebind (scoped_query ev q0 kind ''count'') (\<lambda>cq.
     let total = length (filter (\<lambda>r. cq (wrap r)) rows)
     in ebind (page offset limit (newest_first created (filter (\<lambda>r. q (wrap r)) rows))) (\<lambda>found.
        Inr (found, total)))))"

section \<open>Observables\<close>

record observable_create =
  oc_type :: string
  oc_value :: string
  oc_source :: "string option"
  oc_alert_id :: "string option"
  oc_incident_id :: "string option"

record enrichment_create =
  ec_source :: string
  ec_data :: jdict
  ec_malicious :: bool
  ec_score :: json

definition list_observables :: "call_env \<Rightarrow> string option \<Rightarrow> int \<Rightarrow> int \<Rightarrow> db \<Rightarrow> exn + (observable list \<times> nat)" where
  "list_observables ev ty limit offset d =
     list_rows ev (\<lambda>r. case r of RObservable ob \<Rightarrow> truthy_str ty \<longrightarrow> Some (ob_type ob) = ty | _ \<Rightarrow> False)
       RObservable ''observable'' ob_created_at limit offset (db_observables d)"

definition optional_uuid :: "string option \<Rightarrow> exn + uuid option" where
  "optional_uuid s = (if truthy_str s then ebind (parse_uuid (the s)) (\<lambda>i. Inr (Some i)) else Inr None)"

definition observable_refs_ok :: "observable \<Rightarrow> db \<Rightarrow> bool" where
  "observable_refs_ok ob d \<longleftrightarrow>
     (case ob_alert_id ob of None \<Rightarrow> True | Some i \<Rightarrow> i \<in> al_id ` set (db_alerts d)) \<and>
     (case ob_incident_id ob of None \<Rightarrow> True | Some i \<Rightarrow> i \<in> in_id ` set (db_incidents d))"

definition create_observable :: "call_env \<Rightarrow> observable_create \<Rightarrow> db \<Rightarrow> exn + (observable \<times> db)" where
  "create_observable ev b d =
     ebind (require_permission OBSERVABLES_MANAGE (ev_user ev)) (\<lambda>_.
     ebind (fetch (\<lambda>ob. ob_type ob = oc_type b \<and> ob_value ob = oc_value b) (db_observables d)) (\<lambda>existing.
     case existing of
       Some ob \<Rightarrow> Inr (ob, d)
     | None \<Rightarrow>
         ebind (optional_uuid (oc_alert_id b)) (\<lambda>alert_id.
         ebind (optional_uuid (oc_incident_id b)) (\<lambda>incident_id.
         let ob = new_observable d (ev_now ev) (oc_type b) (oc_value b) (oc_source b) alert_id incident_id
         in ebind (enforce ev (RObservable ob) ''observable'' ''create'') (\<lambda>_.
            ebind (guard (observable_refs_ok ob d) (IntegrityError ''observables'')) (\<lambda>_.
            ebind (add_observable ob d) (\<lambda>d'. Inr (ob, d'))))))))"

definition load_observable :: "call_env \<Rightarrow> string \<Rightarrow> uuid \<Rightarrow> db \<Rightarrow> exn + observable" where
  "load_observable ev action i d =
     load_row ev ''Observable not found'' RObservable ''observable'' action ob_id i (db_observables d)"

definition get_observable :: "call_env \<Rightarrow> uuid \<Rightarrow> db \<Rightarrow> exn + observable" where
  "get_observable ev i d = load_observable ev ''read'' i d"

definition add_enrichment :: "call_env \<Rightarrow> uuid \<Rightarrow> enrichment_create \<Rightarrow> db \<Rightarrow> exn + (observable \<times> db)" where
  "add_enrichment ev i b d =
     ebind (require_permission OBSERVABLES_MANAGE (ev_user ev)) (\<lambda>_.
     ebind (load_observable ev ''update'' i d) (\<lambda>ob.
     let entry = [(''source'', JStr (ec_source b)), (''data'', JObj (ec_data b)),
           (''malicious'', JBool (ec_malicious b)), (''score'', ec_score b)];
         ob' = ob\<lparr>ob_enrichments := ob_enrichments ob @ [entry], ob_enrichment_status := ''enriched''\<rparr>
     in Inr (ob', put_observable ob' d)))"

text \<open>The cache is cleared before the commit; it keeps the change whatever the database does.\<close>

definition invalidate_observable_enrichment ::
  "call_env \<Rightarrow> cache_env \<Rightarrow> 's backend \<Rightarrow> uuid \<Rightarrow> string \<Rightarrow> 's cache \<Rightarrow> db \<Rightarrow> (exn + (nat \<times> nat) \<times> db) \<times> 's cache" where
  "invalidate_observable_enrichment ev cenv B i source c d =
     (case ebind (require_permission OBSERVABLES_MANAGE (ev_user ev)) (\<lambda>_. load_observable ev ''update'' i d) of
        Inl e \<Rightarrow> (Inl e, c)
      | Inr ob \<Rightarrow>
          (let (cleared, c') = cache_invalidate cenv B source (ob_type ob) (ob_value ob) c;
               remaining = filter (\<lambda>e. dget e ''source'' \<noteq> JStr source) (ob_enrichments ob);
               ob' = ob\<lparr>ob_enrichments := remaining,
                 ob_enrichment_status := (if remaining = [] then ''pending'' else ob_enrichment_status ob)\<rparr>
           in (Inr ((cleared, length (ob_enrichments ob) - length remaining), put_observable ob' d), c')))"

section \<open>Incident templates\<close>

record template_create =
  tc_name :: string
  tc_description :: "string option"
  tc_default_severity :: string
  tc_default_tags :: "string list"
  tc_playbook_ids :: "string list"
  tc_observable_types :: "string list"
  tc_tenant_id :: "uuid option"

record template_update =
  tu_name :: "string patch"
  tu_description :: "string patch"
  tu_default_severity :: "string patch"
  tu_default_tags :: "string list patch"
  tu_playbook_ids :: "string list patch"
  tu_observable_types :: "string list patch"
  tu_tenant_id :: "uuid patch"

definition template_fits :: "incident_template \<Rightarrow> bool" where
  "template_fits t \<longleftrightarrow> length (it_name t) \<le> 255 \<and> length (it_default_severity t) \<le> 20"

definition validation_error :: exn where
  "validation_error = ValueError ''ValidationError''"

text \<open>The response model wants lists where the row may hold a JSON null.\<close>

definition template_response :: "incident_template \<Rightarrow> exn + incident_template" where
  "template_response t = ebind (guard (it_default_tags t \<noteq> None \<and> it_playbook_ids t \<noteq> None \<and> it_observable_types t \<noteq> None)
     validation_error) (\<lambda>_. Inr t)"

fun template_responses :: "incident_template list \<Rightarrow> exn + incident_template list" where
  "template_responses [] = Inr []"
| "template_responses (t # ts) = ebind (template_response t) (\<lambda>r. ebind (template_responses ts) (\<lambda>rs. Inr (r # rs)))"

definition list_incident_templates :: "call_env \<Rightarrow> int \<Rightarrow> int \<Rightarrow> db \<Rightarrow> exn + (incident_template list \<times> nat)" where
  "list_incident_templates ev limit offset d =
     ebind (list_rows ev (\<lambda>r. case r of RTemplate t \<Rightarrow> True | _ \<Rightarrow> False) RTemplate ''incident_template''
        it_created_at limit offset (db_templates d)) (\<lambda>(rows, total).
     ebind (template_responses rows) (\<lambda>rs. Inr (rs, total)))"

definition create_incident_template :: "call_env \<Rightarrow> template_create \<Rightarrow> db \<Rightarrow> exn + (incident_template \<times> db)" where
  "create_incident_template ev b d =
     ebind (require_permission SETTINGS_MANAGE (ev_user ev)) (\<lambda>_.
     let t = \<lparr>it_id = db_next_id d, it_created_at = ev_now ev, it_name = tc_name b, it_description = tc_description b,
           it_default_severity = tc_default_severity b, it_default_tags = Some (tc_default_tags b),
           it_playbook_ids = Some (tc_playbook_ids b), it_observable_types = Some (tc_observable_types b),
           it_tenant_id = tc_tenant_id b\<rparr>
     in ebind (enforce ev (RTemplate t) ''incident_template'' ''create'') (\<lambda>_.
        ebind (guard (template_fits t) data_error) (\<lambda>_.
          Inr (t, d\<lparr>db_next_id := Suc (db_next_id d), db_templates := db_templates d @ [t]\<rparr>))))"

definition load_template_row :: "call_env \<Rightarrow> string \<Rightarrow> uuid \<Rightarrow> db \<Rightarrow> exn + incident_template" where
  "load_template_row ev action i d =
     load_row ev ''Incident template not found'' RTemplate ''incident_template'' action it_id i (db_templates d)"

definition get_incident_template :: "call_env \<Rightarrow> uuid \<Rightarrow> db \<Rightarrow> exn + incident_template" where
  "get_incident_template ev i d = ebind (load_template_row ev ''read'' i d) template_response"

definition patched_template :: "template_update \<Rightarrow> incident_template \<Rightarrow> exn + incident_template" where
  "patched_template u t =
     ebind (patch_not_null ''name'' (tu_name u) (it_name t)) (\<lambda>name.
     ebind (patch_not_null ''default_severity'' (tu_default_severity u) (it_default_severity t)) (\<lambda>severity.
     Inr (t\<lparr>it_name := name, it_default_severity := severity,
       it_description := patch_nullable (tu_description u) (it_description t),
       it_default_tags := patch_nullable (tu_default_tags u) (it_default_tags t),
       it_playbook_ids := patch_nullable (tu_playbook_ids u) (it_playbook_ids t),
       it_observable_types := patch_nullable (tu_observable_types u) (it_observable_types t),
       it_tenant_id := patch_nullable (tu_tenant_id u) (it_tenant_id t)\<rparr>)))"

definition update_incident_template :: "call_env \<Rightarrow> uuid \<Rightarrow> template_update \<Rightarrow> db \<Rightarrow> incident_template outcome" where
  "update_incident_template ev i u d =
     after_commit d
       (ebind (require_permission SETTINGS_MANAGE (ev_user ev)) (\<lambda>_.
        ebind (load_template_row ev ''update'' i d) (\<lambda>t.
        ebind (patched_template u t) (\<lambda>t'.
        ebind (guard (template_fits t') data_error) (\<lambda>_.
          Inr (t', d\<lparr>db_templates := update_where (\<lambda>r. it_id r = i) (\<lambda>_. t') (db_templates d)\<rparr>))))))
       template_response"

definition delete_incident_template :: "call_env \<Rightarrow> uuid \<Rightarrow> db \<Rightarrow> exn + db" where
  "delete_incident_template ev i d =
     ebind (require_permission SETTINGS_MANAGE (ev_user ev)) (\<lambda>_.
     ebind (load_template_row ev ''delete'' i d) (\<lambda>_.
       Inr (d\<lparr>db_templates := filter (\<lambda>r. it_id r \<noteq> i) (db_templates d)\<rparr>)))"

section \<open>Playbooks and runs\<close>

record playbook_update =
  pu_enabled :: "bool patch"
  pu_partner :: "string patch"
  pu_tenant_id :: "uuid patch"

definition load_playbook_row :: "call_env \<Rightarrow> string \<Rightarrow> uuid \<Rightarrow> db \<Rightarrow> exn + playbook_definition" where
  "load_playbook_row ev action i d =
     load_row ev ''Playbook not found'' RPlaybook ''playbook'' action pd_id i (db_playbooks d)"

text \<open>\<open>by_order\<close> is the database's ordering by execution order and name.\<close>

definition list_playbooks ::
  "call_env \<Rightarrow> (playbook_definition list \<Rightarrow> playbook_definition list) \<Rightarrow> db \<Rightarrow> exn + playbook_definition list" where
  "list_playbooks ev by_order d =
     ebind (require_permission PLAYBOOKS_READ (ev_user ev)) (\<lambda>_.
     ebind (scoped_query ev (\<lambda>r. case r of RPlaybook p \<Rightarrow> True | _ \<Rightarrow> False) ''playbook'' ''list'') (\<lambda>q.
       Inr (by_order (filter (\<lambda>p. q (RPlaybook p)) (db_playbooks d)))))"

definition get_playbook :: "call_env \<Rightarrow> uuid \<Rightarrow> db \<Rightarrow> exn + playbook_definition" where
  "get_playbook ev i d =
     ebind (require_permission PLAYBOOKS_READ (ev_user ev)) (\<lambda>_. load_playbook_row ev ''read'' i d)"

text \<open>The fields are set before the tenant check, which so sees the changed row; a null \<open>enabled\<close> is refused
  by the column.\<close>

definition update_playbook :: "call_env \<Rightarrow> uuid \<Rightarrow> playbook_update \<Rightarrow> db \<Rightarrow> exn + (playbook_definition \<times> db)" where
  "update_playbook ev i u d =
     ebind (require_permission PLAYBOOKS_MANAGE (ev_user ev)) (\<lambda>_.
     ebind (fetch_or (HTTPException 404 ''Playbook not found'') (\<lambda>p. pd_id p = i) (db_playbooks d)) (\<lambda>p.
     let changed = p\<lparr>pd_partner := patch_nullable (pu_partner u) (pd_partner p),
           pd_tenant_id := patch_nullable (pu_tenant_id u) (pd_tenant_id p),
           pd_enabled := (case patch_value (pu_enabled u) of None \<Rightarrow> pd_enabled p | Some b \<Rightarrow> b)\<rparr>
     in ebind (enforce ev (RPlaybook changed) ''playbook'' ''update'') (\<lambda>_.
        ebind (guard (pu_enabled u \<noteq> Some None) (IntegrityError ''enabled'')) (\<lambda>_.
        ebind (guard (fits 100 (pd_partner changed)) data_error) (\<lambda>_.
          Inr (changed, d\<lparr>db_playbooks := update_where (\<lambda>r. pd_id r = i) (\<lambda>_. changed) (db_playbooks d)\<rparr>))))))"

definition reload_playbooks ::
  "call_env \<Rightarrow> playbook_dir list \<Rightarrow> runtime \<Rightarrow> db \<Rightarrow> (exn + nat) \<times> runtime \<times> db" where
  "reload_playbooks ev dirs rt d =
     (case require_permission PLAYBOOKS_MANAGE (ev_user ev) of
        Inl e \<Rightarrow> (Inl e, rt, d)
      | Inr _ \<Rightarrow>
          (case clear_and_reload dirs rt of
             (Inl e, rt') \<Rightarrow> (Inl e, rt', d)
           | (Inr n, rt') \<Rightarrow> (case sync_to_db (rt_registry rt') d of Inl e \<Rightarrow> (Inl e, rt', d) | Inr d' \<Rightarrow> (Inr n, rt', d'))))"

text \<open>\<open>delay\<close> is the hand-over to the queue; the answer is the call made, a playbook's name and an alert.\<close>

definition run_playbook ::
  "call_env \<Rightarrow> (string \<Rightarrow> uuid option \<Rightarrow> exn option) \<Rightarrow> registry \<Rightarrow> uuid \<Rightarrow> uuid option \<Rightarrow> db \<Rightarrow> exn + (string \<times> uuid option)" where
  "run_playbook ev delay reg i alert_id d =
     ebind (require_permission PLAYBOOKS_EXECUTE (ev_user ev)) (\<lambda>an.
     ebind (load_playbook_row ev ''run'' i d) (\<lambda>pb_def.
     ebind (guard (map_of reg (pd_name pb_def) \<noteq> None) (HTTPException 404 ''Playbook not loaded in registry'')) (\<lambda>_.
     ebind (case alert_id of
              None \<Rightarrow> Inr ()
            | Some aid \<Rightarrow>
                ebind (load_alert ev ''read'' aid d) (\<lambda>a.
                  guard (an_role an = ''admin'' \<or> pd_partner pb_def = al_partner a)
                    (HTTPException 403 ''Playbook tenant scope does not match alert''))) (\<lambda>_.
     case delay (pd_name pb_def) alert_id of
       Some e \<Rightarrow> Inl e
     | None \<Rightarrow> Inr (pd_name pb_def, alert_id)))))"

definition list_runs ::
  "call_env \<Rightarrow> string option \<Rightarrow> uuid option \<Rightarrow> int \<Rightarrow> int \<Rightarrow> db \<Rightarrow> exn + (playbook_run list \<times> nat)" where
  "list_runs ev status playbook_id limit offset d =
     ebind (require_permission PLAYBOOKS_READ (ev_user ev)) (\<lambda>_.
       list_rows ev (\<lambda>r. case r of
           RRun x \<Rightarrow> (truthy_str status \<longrightarrow> Some (pr_status x) = status) \<and> (playbook_id \<noteq> None \<longrightarrow> Some (pr_playbook_id x) = playbook_id)
         | _ \<Rightarrow> False)
         RRun ''playbook_run'' pr_created_at limit offset (db_runs d))"

definition get_run :: "call_env \<Rightarrow> uuid \<Rightarrow> db \<Rightarrow> exn + playbook_run" where
  "get_run ev i d =
     ebind (require_permission PLAYBOOKS_READ (ev_user ev)) (\<lambda>_.
       load_row ev ''Run not found'' RRun ''playbook_run'' ''read'' pr_id i (db_runs d))"

section \<open>Connector classes\<close>

text \<open>A connector class: its metadata, and what constructing it on a configuration, connecting, checking and
  disconnecting comes to.\<close>

record health_check =
  hc_healthy :: bool
  hc_message :: string
  hc_details :: "jdict option"

record connector_class =
  cc_display_name :: "string option"
  cc_description :: "string option"
  cc_check :: "jdict \<Rightarrow> exn + health_check"

type_synonym loader = "(string \<times> connector_class) list"

definition builtin_connectors :: "(string \<times> string \<times> string) list" where
  "builtin_connectors = [
     (''elastic'', ''opensoar.integrations.elastic.connector'', ''ElasticIntegration''),
     (''virustotal'', ''opensoar.integrations.virustotal.connector'', ''VirusTotalIntegration''),
     (''abuseipdb'', ''opensoar.integrations.abuseipdb.connector'', ''AbuseIPDBIntegration''),
     (''shodan'', ''opensoar.integrations.shodan.connector'', ''ShodanIntegration''),
     (''greynoise'', ''opensoar.integrations.greynoise.connector'', ''GreyNoiseIntegration''),
     (''slack'', ''opensoar.integrations.slack.connector'', ''SlackIntegration''),
     (''email'', ''opensoar.integrations.email.connector'', ''EmailIntegration''),
     (''splunk'', ''opensoar.integrations.splunk.connector'', ''SplunkIntegration''),
     (''msdefender'', ''opensoar.integrations.msdefender.connector'', ''MSDefenderIntegration'')]"

fun builtin_skipped :: "exn \<Rightarrow> bool" where
  "builtin_skipped (ImportError _) = True"
| "builtin_skipped (AttributeError _) = True"
| "builtin_skipped _ = False"

fun discover_builtins ::
  "(string \<Rightarrow> string \<Rightarrow> exn + connector_class) \<Rightarrow> (string \<times> string \<times> string) list \<Rightarrow> loader \<Rightarrow> exn option \<times> loader" where
  "discover_builtins imp [] ld = (None, ld)"
| "discover_builtins imp ((ty, path, cls) # bs) ld =
     (case imp path cls of
        Inr c \<Rightarrow> discover_builtins imp bs (AList.update ty c ld)
      | Inl e \<Rightarrow> (if builtin_skipped e then discover_builtins imp bs ld else (Some e, ld)))"

definition discover_builtin :: "(string \<Rightarrow> string \<Rightarrow> exn + connector_class) \<Rightarrow> loader \<Rightarrow> exn option \<times> loader" where
  "discover_builtin imp ld = discover_builtins imp builtin_connectors ld"

text \<open>The \<open>*/connector.py\<close> files of a directory in order, by the name of their folder: loading one raises or
  finds the first class of that type, or none. A type already known is not loaded.\<close>

fun discover_directory :: "(string \<times> (exn + connector_class option)) list \<Rightarrow> loader \<Rightarrow> exn option \<times> loader" where
  "discover_directory [] ld = (None, ld)"
| "discover_directory ((ty, outcome) # fs) ld =
     (if map_of ld ty \<noteq> None then discover_directory fs ld
      else case outcome of
             Inr (Some c) \<Rightarrow> discover_directory fs (AList.update ty c ld)
           | Inr None \<Rightarrow> discover_directory fs ld
           | Inl e \<Rightarrow> (if import_caught e then discover_directory fs ld else (Some e, ld)))"

definition register_connector :: "string \<Rightarrow> connector_class \<Rightarrow> loader \<Rightarrow> loader" where
  "register_connector ty c ld = AList.update ty c ld"

definition get_connector :: "string \<Rightarrow> loader \<Rightarrow> connector_class option" where
  "get_connector ty ld = map_of ld ty"

definition available_types :: "loader \<Rightarrow> string list" where
  "available_types ld = map fst ld"

definition available_types_detail :: "loader \<Rightarrow> (string \<times> string \<times> string) list" where
  "available_types_detail ld = map (\<lambda>(ty, c).
     (ty, case cc_display_name c of None \<Rightarrow> ty | Some n \<Rightarrow> n, case cc_description c of None \<Rightarrow> [] | Some t \<Rightarrow> t)) ld"

definition the_loader :: "(string \<Rightarrow> string \<Rightarrow> exn + connector_class) \<Rightarrow> loader \<Rightarrow> exn option \<times> loader" where
  "the_loader imp ld = (if available_types ld = [] then discover_builtin imp ld else (None, ld))"

section \<open>Integrations\<close>

record integration_create =
  gc_integration_type :: string
  gc_name :: string
  gc_partner :: "string option"
  gc_tenant_id :: "uuid option"
  gc_config :: jdict
  gc_enabled :: bool

record integration_update =
  gu_name :: "string patch"
  gu_partner :: "string patch"
  gu_tenant_id :: "uuid patch"
  gu_config :: "jdict option"
  gu_enabled :: "bool patch"

definition integration_fits :: "integration_instance \<Rightarrow> bool" where
  "integration_fits i \<longleftrightarrow> length (ii_integration_type i) \<le> 100 \<and> length (ii_name i) \<le> 255 \<and> fits 100 (ii_partner i)"

definition put_integration :: "integration_instance \<Rightarrow> db \<Rightarrow> db" where
  "put_integration i d = d\<lparr>db_integrations := update_where (\<lambda>r. ii_id r = ii_id i) (\<lambda>_. i) (db_integrations d)\<rparr>"

definition load_integration :: "call_env \<Rightarrow> string \<Rightarrow> uuid \<Rightarrow> db \<Rightarrow> exn + integration_instance" where
  "load_integration ev action i d =
     load_row ev ''Integration not found'' RIntegration ''integration'' action ii_id i (db_integrations d)"

definition list_integrations ::
  "call_env \<Rightarrow> (integration_instance list \<Rightarrow> integration_instance list) \<Rightarrow> db \<Rightarrow> exn + integration_instance list" where
  "list_integrations ev by_name d =
     ebind (require_permission INTEGRATIONS_READ (ev_user ev)) (\<lambda>_.
     ebind (scoped_query ev (\<lambda>r. case r of RIntegration i \<Rightarrow> True | _ \<Rightarrow> False) ''integration'' ''list'') (\<lambda>q.
       Inr (by_name (filter (\<lambda>i. q (RIntegration i)) (db_integrations d)))))"

definition create_integration :: "call_env \<Rightarrow> integration_create \<Rightarrow> db \<Rightarrow> exn + (integration_instance \<times> db)" where
  "create_integration ev b d =
     ebind (require_permission INTEGRATIONS_MANAGE (ev_user ev)) (\<lambda>_.
     let i = \<lparr>ii_id = db_next_id d, ii_integration_type = gc_integration_type b, ii_name = gc_name b,
           ii_partner = gc_partner b, ii_tenant_id = gc_tenant_id b, ii_config = gc_config b, ii_enabled = gc_enabled b,
           ii_health_status = None, ii_last_health_check = None\<rparr>
     in ebind (enforce ev (RIntegration i) ''integration'' ''create'') (\<lambda>_.
        ebind (guard (integration_fits i) data_error) (\<lambda>_.
          Inr (i, d\<lparr>db_next_id := Suc (db_next_id d), db_integrations := db_integrations d @ [i]\<rparr>))))"

definition get_integration :: "call_env \<Rightarrow> uuid \<Rightarrow> db \<Rightarrow> exn + integration_instance" where
  "get_integration ev i d =
     ebind (require_permission INTEGRATIONS_READ (ev_user ev)) (\<lambda>_. load_integration ev ''read'' i d)"

definition patched_integration :: "integration_update \<Rightarrow> integration_instance \<Rightarrow> integration_instance" where
  "patched_integration u i =
     i\<lparr>ii_name := (case patch_value (gu_name u) of None \<Rightarrow> ii_name i | Some n \<Rightarrow> n),
       ii_partner := patch_nullable (gu_partner u) (ii_partner i),
       ii_tenant_id := patch_nullable (gu_tenant_id u) (ii_tenant_id i),
       ii_config := (case gu_config u of None \<Rightarrow> ii_config i | Some c \<Rightarrow> c),
       ii_enabled := (case patch_value (gu_enabled u) of None \<Rightarrow> ii_enabled i | Some b \<Rightarrow> b)\<rparr>"

text \<open>The fields are set before the tenant check here too. A null name or flag is refused by its column; a null
  configuration, which the JSONB column takes as a value of its own, is outside the model.\<close>

definition update_integration :: "call_env \<Rightarrow> uuid \<Rightarrow> integration_update \<Rightarrow> db \<Rightarrow> exn + (integration_instance \<times> db)" where
  "update_integration ev i u d =
     ebind (require_permission INTEGRATIONS_MANAGE (ev_user ev)) (\<lambda>_.
     ebind (fetch_or (HTTPException 404 ''Integration not found'') (\<lambda>r. ii_id r = i) (db_integrations d)) (\<lambda>old.
     let changed = patched_integration u old
     in ebind (enforce ev (RIntegration changed) ''integration'' ''update'') (\<lambda>_.
        ebind (guard (gu_name u \<noteq> Some None \<and> gu_enabled u \<noteq> Some None) (IntegrityError ''integration_instances'')) (\<lambda>_.
        ebind (guard (integration_fits changed) data_error) (\<lambda>_.
          Inr (changed, put_integration changed d))))))"

definition delete_integration :: "call_env \<Rightarrow> uuid \<Rightarrow> db \<Rightarrow> exn + db" where
  "delete_integration ev i d =
     ebind (require_permission INTEGRATIONS_MANAGE (ev_user ev)) (\<lambda>_.
     ebind (load_integration ev ''delete'' i d) (\<lambda>_.
       Inr (d\<lparr>db_integrations := filter (\<lambda>r. ii_id r \<noteq> i) (db_integrations d)\<rparr>)))"

fun health_caught :: "exn \<Rightarrow> bool" where
  "health_caught (OSError _) = True"
| "health_caught (ValueError _) = True"
| "health_caught (KeyError _) = True"
| "health_caught (RuntimeError _) = True"
| "health_caught (TimeoutError _) = True"
| "health_caught _ = False"

definition unsupported :: "string \<Rightarrow> health_check" where
  "unsupported ty = \<lparr>hc_healthy = False,
     hc_message = ''Integration type '' @ [CHR 0x27] @ ty @ [CHR 0x27] @ '' not supported'', hc_details = None\<rparr>"

definition check_integration_health :: "call_env \<Rightarrow> loader \<Rightarrow> uuid \<Rightarrow> db \<Rightarrow> exn + (health_check \<times> db)" where
  "check_integration_health ev ld i d =
     ebind (require_permission INTEGRATIONS_MANAGE (ev_user ev)) (\<lambda>_.
     ebind (load_integration ev ''health'' i d) (\<lambda>r.
     ebind (case get_connector (ii_integration_type r) ld of
              None \<Rightarrow> Inr (unsupported (ii_integration_type r))
            | Some c \<Rightarrow>
                (case cc_check c (ii_config r) of
                   Inr h \<Rightarrow> Inr h
                 | Inl e \<Rightarrow> (if health_caught e then Inr \<lparr>hc_healthy = False, hc_message = exn_str e, hc_details = None\<rparr>
                            else Inl e))) (\<lambda>h.
       Inr (h, put_integration (r\<lparr>ii_health_status := Some (if hc_healthy h then ''healthy'' else ''unhealthy''),
                  ii_last_health_check := Some (ev_now ev)\<rparr>) d))))"

section \<open>Observables: properties\<close>

lemma load_row_eq: "load_row ev missing wrap kind action key i rows = Inr r \<longleftrightarrow>
    filter (\<lambda>r. key r = i) rows = [r] \<and> enforce ev (wrap r) kind action = Inr ()"
  by (auto simp: load_row_def ebind_eq_Inr fetch_or_eq_Inr)

definition observable_key :: "observable \<Rightarrow> string \<times> string" where
  "observable_key ob = (ob_type ob, ob_value ob)"

text \<open>Creating an observable deduplicates by type and value: a stored one is returned and nothing changes,
  otherwise exactly the new row is added, for an existing alert and incident if any, and type and value
  stay unique when they were. The stored row is returned whatever the tenant validators say, also to an
  analyst they refuse to let read it.\<close>

theorem create_observable_spec:
  assumes "distinct (map observable_key (db_observables d))" and "require_permission OBSERVABLES_MANAGE (ev_user ev) = Inr an"
  shows "(\<forall>ob \<in> set (db_observables d). observable_key ob = (oc_type b, oc_value b) \<longrightarrow> create_observable ev b d = Inr (ob, d)) \<and>
    (\<forall>ob d'. create_observable ev b d = Inr (ob, d') \<longrightarrow> (oc_type b, oc_value b) \<notin> observable_key ` set (db_observables d) \<longrightarrow>
       db_observables d' = db_observables d @ [ob] \<and> observable_key ob = (oc_type b, oc_value b) \<and>
       enforce ev (RObservable ob) ''observable'' ''create'' = Inr () \<and> observable_refs_ok ob d \<and>
       distinct (map observable_key (db_observables d')))"
proof (intro conjI ballI allI impI)
  fix ob assume ob: "ob \<in> set (db_observables d)" "observable_key ob = (oc_type b, oc_value b)"
  have "filter (\<lambda>r. observable_key r = observable_key ob) (db_observables d) = [ob]"
    using filter_key[OF assms(1) ob(1)] .
  then have "fetch (\<lambda>r. ob_type r = oc_type b \<and> ob_value r = oc_value b) (db_observables d) = Inr (Some ob)"
    using ob(2) by (simp add: fetch_def observable_key_def)
  then show "create_observable ev b d = Inr (ob, d)" by (simp add: create_observable_def assms(2))
next
  fix ob d' assume c: "create_observable ev b d = Inr (ob, d')" and new: "(oc_type b, oc_value b) \<notin> observable_key ` set (db_observables d)"
  have "filter (\<lambda>r. ob_type r = oc_type b \<and> ob_value r = oc_value b) (db_observables d) = []"
    using new by (force simp: filter_empty_conv observable_key_def image_iff)
  with c assms(2) have f: "observable_refs_ok ob d" "enforce ev (RObservable ob) ''observable'' ''create'' = Inr ()"
    "db_observables d' = db_observables d @ [ob]" "observable_key ob = (oc_type b, oc_value b)"
    by (auto simp: create_observable_def fetch_def ebind_eq_Inr guard_eq_Inr Let_def add_observable_def observable_key_def
        new_observable_def)
  then show "db_observables d' = db_observables d @ [ob]" "observable_key ob = (oc_type b, oc_value b)"
    "enforce ev (RObservable ob) ''observable'' ''create'' = Inr ()" "observable_refs_ok ob d"
    "distinct (map observable_key (db_observables d'))" using assms(1) new by auto
qed

lemma put_observable_rows: "db_observables (put_observable ob d) = update_where (\<lambda>r. ob_id r = ob_id ob) (\<lambda>_. ob) (db_observables d)"
  by (simp add: put_observable_def)

lemma filter_update_where: "filter (\<lambda>r. k r = i) rows = [x] \<Longrightarrow> k y = i \<Longrightarrow>
    filter (\<lambda>r. k r = i) (update_where (\<lambda>r. k r = i) (\<lambda>_. y) rows) = [y]"
proof (induction rows)
  case (Cons r rows)
  have none: "filter (\<lambda>r. k r = i) rows = [] \<Longrightarrow> update_where (\<lambda>r. k r = i) (\<lambda>_. y) rows = rows"
    by (induction rows) (auto simp: update_where_def split: if_splits)
  from Cons none show ?case by (auto simp: update_where_def split: if_splits)
qed simp

text \<open>Invalidation undoes an enrichment: after a record from a source that had none is added and that source is
  invalidated, the observable has the records it had, one record is reported as removed, and whatever
  the cache held for that source and value is gone.\<close>

theorem invalidate_undoes_enrichment:
  assumes "get_observable ev i d = Inr ob" and "add_enrichment ev i b d = Inr (ob1, d1)"
    and "\<forall>e \<in> set (ob_enrichments ob). dget e ''source'' \<noteq> JStr (ec_source b)"
    and "invalidate_observable_enrichment ev cenv memory_backend i (ec_source b) c d1 = (Inr ((n_cleared, removed), d2), c2)"
  shows "(\<exists>ob2. filter (\<lambda>r. ob_id r = i) (db_observables d2) = [ob2] \<and> ob_enrichments ob2 = ob_enrichments ob) \<and> removed = 1 \<and>
    (\<forall>t. \<not> memory.fresh cenv (ca_store c2) t (build_key cenv (ec_source b) (ob_type ob) (ob_value ob)))"
proof -
  from assms(1) have one: "filter (\<lambda>r. ob_id r = i) (db_observables d) = [ob]"
    by (simp add: get_observable_def load_observable_def load_row_eq)
  then have id: "ob_id ob = i" by (auto dest: filter_single_mem)
  define ob' where "ob' = ob\<lparr>ob_enrichments := ob_enrichments ob @ [[(''source'', JStr (ec_source b)), (''data'', JObj (ec_data b)),
           (''malicious'', JBool (ec_malicious b)), (''score'', ec_score b)]], ob_enrichment_status := ''enriched''\<rparr>"
  from assms(2) obtain an where perm: "require_permission OBSERVABLES_MANAGE (ev_user ev) = Inr an"
    by (auto simp: add_enrichment_def ebind_eq_Inr)
  have d1: "d1 = put_observable ob' d"
    using assms(2) one by (auto simp: add_enrichment_def load_observable_def load_row_eq ebind_eq_Inr Let_def ob'_def)
  have id': "ob_id ob' = i" by (simp add: ob'_def id)
  have one1: "filter (\<lambda>r. ob_id r = i) (db_observables d1) = [ob']"
    unfolding d1 put_observable_rows id' by (rule filter_update_where[OF one id'])
  have rest: "filter (\<lambda>e. dget e ''source'' \<noteq> JStr (ec_source b)) (ob_enrichments ob') = ob_enrichments ob"
    using assms(3) by (simp add: ob'_def dget_def filter_id_conv)
  define ob2 where "ob2 = ob'\<lparr>ob_enrichments := ob_enrichments ob,
    ob_enrichment_status := (if ob_enrichments ob = [] then ''pending'' else ob_enrichment_status ob')\<rparr>"
  have "load_observable ev ''update'' i d1 = Inr ob'"
    using assms(4) one1 by (auto simp: invalidate_observable_enrichment_def load_observable_def load_row_eq ebind_eq_Inr split: sum.splits)
  with assms(4) rest have r: "d2 = put_observable ob2 d1" "removed = length (ob_enrichments ob') - length (ob_enrichments ob)"
    "c2 = snd (cache_invalidate cenv memory_backend (ec_source b) (ob_type ob') (ob_value ob') c)"
    by (auto simp: invalidate_observable_enrichment_def perm Let_def ob2_def split: prod.splits)
  have "filter (\<lambda>r. ob_id r = i) (db_observables d2) = [ob2]"
    unfolding r(1) put_observable_rows using filter_update_where[OF one1, of ob2] id' by (simp add: ob2_def)
  moreover have "ob_enrichments ob2 = ob_enrichments ob" "removed = 1" "ob_type ob' = ob_type ob" "ob_value ob' = ob_value ob"
    by (simp_all add: ob2_def r(2) ob'_def)
  ultimately show ?thesis using memory.invalidate_not_fresh r(3) by metis
qed

section \<open>Templates, integrations and playbooks: properties\<close>

lemma template_responses_fail: "t \<in> set ts \<Longrightarrow> template_response t = Inl e \<Longrightarrow> \<exists>e. template_responses ts = Inl e"
  by (induction ts) (auto simp: ebind_eq_Inl, metis ebind.simps(1) ebind.simps(2) sum.exhaust)

text \<open>A null list in a template's PATCH is stored: the request itself ends in an error after the commit, and from
  then on reading the template fails, and so does every listing of templates whose page would show it,
  for every analyst.\<close>

theorem null_list_breaks_templates:
  assumes "require_permission SETTINGS_MANAGE (ev_user ev) = Inr an" and "load_template_row ev ''update'' i d = Inr t"
    and "template_fits t"
  defines "u \<equiv> \<lparr>tu_name = None, tu_description = None, tu_default_severity = None, tu_default_tags = Some None,
     tu_playbook_ids = None, tu_observable_types = None, tu_tenant_id = None\<rparr>"
  shows "\<exists>d'. update_incident_template ev i u d = (Inl validation_error, d') \<and> t\<lparr>it_default_tags := None\<rparr> \<in> set (db_templates d') \<and>
    (\<forall>ev2 r. get_incident_template ev2 i d' \<noteq> Inr r) \<and>
    (\<forall>ev2 limit offset rows total. list_rows ev2 (\<lambda>r. case r of RTemplate t \<Rightarrow> True | _ \<Rightarrow> False) RTemplate ''incident_template''
       it_created_at limit offset (db_templates d') = Inr (rows, total) \<longrightarrow> t\<lparr>it_default_tags := None\<rparr> \<in> set rows \<longrightarrow>
       (\<exists>e. list_incident_templates ev2 limit offset d' = Inl e))"
proof -
  let ?t = "t\<lparr>it_default_tags := None\<rparr>"
  let ?d = "d\<lparr>db_templates := update_where (\<lambda>r. it_id r = i) (\<lambda>_. ?t) (db_templates d)\<rparr>"
  from assms(2) have one: "filter (\<lambda>r. it_id r = i) (db_templates d) = [t]" by (simp add: load_template_row_def load_row_eq)
  then have t: "t \<in> set (db_templates d)" "it_id t = i" by (auto dest: filter_single_mem)
  have "patched_template u t = Inr ?t" by (simp add: patched_template_def u_def patch_not_null_def patch_nullable_def)
  moreover have "template_fits ?t" using assms(3) by (simp add: template_fits_def)
  moreover have bad: "template_response ?t = Inl validation_error" by (simp add: template_response_def guard_def)
  ultimately have "update_incident_template ev i u d = (Inl validation_error, ?d)"
    by (simp add: update_incident_template_def assms(1,2) guard_def)
  moreover have "?t \<in> set (db_templates ?d)" using t by (auto simp: set_update_where intro!: bexI[of _ t])
  moreover have "filter (\<lambda>r. it_id r = i) (db_templates ?d) = [?t]"
    using filter_update_where[OF one, of ?t] t(2) by simp
  then have "get_incident_template ev2 i ?d \<noteq> Inr r" for ev2 r
    using bad by (auto simp: get_incident_template_def load_template_row_def ebind_eq_Inr load_row_eq)
  moreover have "\<exists>e. list_incident_templates ev2 limit offset d' = Inl e"
    if "list_rows ev2 (\<lambda>r. case r of RTemplate t \<Rightarrow> True | _ \<Rightarrow> False) RTemplate ''incident_template''
       it_created_at limit offset (db_templates d') = Inr (rows, total)" "?t \<in> set rows" for ev2 limit offset rows total d'
    using that(1) template_responses_fail[OF that(2) bad] by (auto simp: list_incident_templates_def)
  ultimately show ?thesis by blast
qed


text \<open>A playbook is handed to the queue only for an analyst who may execute playbooks, by the name of a stored
  playbook the validators let the analyst run and that is loaded; with an alert only if that alert
  exists, the validators let the analyst read it, and its partner is the playbook's unless the analyst
  is an administrator. Whether the playbook is enabled is not asked: the outcome depends on the
  stored playbook's name and partner and on the validators alone.\<close>

theorem run_playbook_authorized:
  assumes "run_playbook ev delay reg i alert_id d = Inr (name, aid)"
  shows "\<exists>an p. ev_user ev = Some an \<and> has_permission (an_role an) PLAYBOOKS_EXECUTE \<and> p \<in> set (db_playbooks d) \<and> pd_id p = i \<and>
    pd_name p = name \<and> enforce ev (RPlaybook p) ''playbook'' ''run'' = Inr () \<and> map_of reg name \<noteq> None \<and> aid = alert_id \<and>
    (\<forall>j. alert_id = Some j \<longrightarrow> (\<exists>a \<in> set (db_alerts d). al_id a = j \<and> enforce ev (RAlert a) ''alert'' ''read'' = Inr () \<and>
       (an_role an = ''admin'' \<or> pd_partner p = al_partner a))) \<and>
    (\<forall>e. filter (\<lambda>q. pd_id q = i) (db_playbooks e) = [p\<lparr>pd_enabled := False\<rparr>] \<longrightarrow> db_alerts e = db_alerts d \<longrightarrow>
       enforce ev (RPlaybook (p\<lparr>pd_enabled := False\<rparr>)) ''playbook'' ''run'' = Inr () \<longrightarrow>
       run_playbook ev delay reg i alert_id e = Inr (name, aid))"
proof -
  from assms obtain an p where perm: "require_permission PLAYBOOKS_EXECUTE (ev_user ev) = Inr an"
    and p: "filter (\<lambda>r. pd_id r = i) (db_playbooks d) = [p]" "enforce ev (RPlaybook p) ''playbook'' ''run'' = Inr ()"
    and reg: "map_of reg (pd_name p) \<noteq> None" and al: "(case alert_id of None \<Rightarrow> Inr () | Some aid \<Rightarrow>
        ebind (load_alert ev ''read'' aid d) (\<lambda>a. guard (an_role an = ''admin'' \<or> pd_partner p = al_partner a)
          (HTTPException 403 ''Playbook tenant scope does not match alert''))) = Inr ()"
    and out: "delay (pd_name p) alert_id = None" "name = pd_name p" "aid = alert_id"
    by (auto simp: run_playbook_def load_playbook_row_def ebind_eq_Inr load_row_eq guard_eq_Inr split: option.splits)
  have alert: "\<exists>a \<in> set (db_alerts d). al_id a = j \<and> enforce ev (RAlert a) ''alert'' ''read'' = Inr () \<and>
       (an_role an = ''admin'' \<or> pd_partner p = al_partner a)" if "alert_id = Some j" for j
    using al that by (auto simp: ebind_eq_Inr guard_eq_Inr load_alert_def fetch_or_eq_Inr dest!: filter_single_mem)
  have "run_playbook ev delay reg i alert_id e = Inr (name, aid)"
    if "filter (\<lambda>q. pd_id q = i) (db_playbooks e) = [p\<lparr>pd_enabled := False\<rparr>]" "db_alerts e = db_alerts d"
      "enforce ev (RPlaybook (p\<lparr>pd_enabled := False\<rparr>)) ''playbook'' ''run'' = Inr ()" for e
  proof -
    have "load_playbook_row ev ''run'' i e = Inr (p\<lparr>pd_enabled := False\<rparr>)" using that by (simp add: load_playbook_row_def load_row_eq)
    moreover have "load_alert ev act j e = load_alert ev act j d" for act j by (simp add: load_alert_def that(2))
    ultimately show ?thesis using reg al out by (auto simp: run_playbook_def perm ebind_guard split: option.splits)
  qed
  moreover have "p \<in> set (db_playbooks d)" "pd_id p = i" using filter_single_mem[OF p(1)] by auto
  moreover have "ev_user ev = Some an" "has_permission (an_role an) PLAYBOOKS_EXECUTE"
    using perm by (auto simp: require_permission_def split: option.splits if_splits)
  ultimately show ?thesis using p(2) reg alert out by (intro exI[of _ an] exI[of _ p]) auto
qed

lemma loader_keeps: "map_of ld t = Some k \<Longrightarrow> map_of (snd (discover_directory fs ld)) t = Some k"
proof (induction fs ld rule: discover_directory.induct)
  case (2 ty outcome fs ld)
  show ?case
  proof (cases "map_of ld ty")
    case None
    with 2(5) have "t \<noteq> ty" by auto
    with 2(2-5) None show ?thesis by (auto split: sum.splits option.splits)
  qed (use 2 in auto)
qed simp

text \<open>External connectors cannot replace a known one: whatever a directory holds, scanning it leaves every type
  the loader knows with the class it had, and a broken connector file of the usual kinds hides no
  other.\<close>

theorem external_never_shadows:
  assumes "map_of ld ty = Some c"
  shows "map_of (snd (discover_directory fs ld)) ty = Some c \<and>
    ((\<forall>f \<in> set fs. \<forall>e. snd f = Inl e \<longrightarrow> import_caught e) \<longrightarrow> fst (discover_directory fs ld) = None \<and>
       (\<forall>f \<in> set fs. \<forall>k. snd f = Inr (Some k) \<longrightarrow> map_of (snd (discover_directory fs ld)) (fst f) \<noteq> None))"
proof -
  note keep = loader_keeps
  have "fst (discover_directory fs l) = None \<and>
      (\<forall>f \<in> set fs. \<forall>k. snd f = Inr (Some k) \<longrightarrow> map_of (snd (discover_directory fs l)) (fst f) \<noteq> None)"
    if "\<forall>f \<in> set fs. \<forall>e. snd f = Inl e \<longrightarrow> import_caught e" for l
    using that
  proof (induction fs l rule: discover_directory.induct)
    case (2 ty0 outcome fs l)
    note kept = loader_keeps
    show ?case
    proof (cases "map_of l ty0")
      case (Some k)
      with 2(1) 2(5) kept[OF Some] show ?thesis by auto
    next
      case None
      with 2(2-5) kept[of "AList.update ty0 _ l" ty0] show ?thesis by (auto split: sum.splits option.splits)
    qed
  qed simp
  with keep[OF assms] show ?thesis by blast
qed

text \<open>A health check always leaves its verdict: when it answers, the stored integration carries exactly that
  verdict and the time of the check and is otherwise unchanged, whatever of the listed errors the
  connector raised; an unsupported type is unhealthy, and only other errors pass through, with nothing
  stored.\<close>

theorem health_check_persisted:
  assumes "load_integration ev ''health'' i d = Inr r" and "require_permission INTEGRATIONS_MANAGE (ev_user ev) = Inr an"
  shows "case check_integration_health ev ld i d of
      Inl e \<Rightarrow> \<not> health_caught e \<and> (\<exists>c. get_connector (ii_integration_type r) ld = Some c \<and> cc_check c (ii_config r) = Inl e)
    | Inr (h, d') \<Rightarrow> filter (\<lambda>x. ii_id x = i) (db_integrations d') =
          [r\<lparr>ii_health_status := Some (if hc_healthy h then ''healthy'' else ''unhealthy''), ii_last_health_check := Some (ev_now ev)\<rparr>] \<and>
        (hc_healthy h \<longrightarrow> (\<exists>c. get_connector (ii_integration_type r) ld = Some c \<and> cc_check c (ii_config r) = Inr h))"
proof -
  from assms(1) have one: "filter (\<lambda>x. ii_id x = i) (db_integrations d) = [r]" by (simp add: load_integration_def load_row_eq)
  then have id: "ii_id r = i" by (auto dest: filter_single_mem)
  have stored: "filter (\<lambda>x. ii_id x = i) (db_integrations (put_integration x d)) = [x]" if "ii_id x = i" for x
    using filter_update_where[OF one that] that by (simp add: put_integration_def)
  show ?thesis
    by (auto simp: check_integration_health_def assms unsupported_def stored id split: option.splits sum.splits if_splits)
qed

section \<open>Witnesses\<close>

definition boss :: analyst where
  "boss = ana\<lparr>an_role := ''admin''\<rparr>"

lemma boss_may [simp]: "require_permission p (ev_user (no_plugins_env boss)) = Inr boss"
  by (cases p) (simp_all add: no_plugins_env_def boss_def ana_def require_permission_def has_permission_def role_permissions_def
      all_permissions_def)

definition beacon :: observable where
  "beacon = \<lparr>ob_id = 4, ob_created_at = 1, ob_type = ''ip'', ob_value = ''10.0.0.9'', ob_source = None,
     ob_enrichment_status = ''pending'', ob_enrichments = [], ob_tags = None, ob_alert_id = None, ob_incident_id = None\<rparr>"

definition beacon_db :: db where
  "beacon_db = empty_db\<lparr>db_next_id := 9, db_observables := [beacon]\<rparr>"

theorem create_observable_spec_witness:
  "create_observable (no_plugins_env boss) \<lparr>oc_type = ''ip'', oc_value = ''10.0.0.9'', oc_source = None, oc_alert_id = None,
     oc_incident_id = None\<rparr> beacon_db = Inr (beacon, beacon_db)"
proof -
  have "distinct (map observable_key (db_observables beacon_db))" by (simp add: beacon_db_def)
  from create_observable_spec[OF this boss_may, of "\<lparr>oc_type = ''ip'', oc_value = ''10.0.0.9'', oc_source = None,
      oc_alert_id = None, oc_incident_id = None\<rparr>"]
  show ?thesis by (simp add: beacon_db_def beacon_def observable_key_def)
qed

definition plain_cache_env :: cache_env where
  "plain_cache_env = \<lparr>ce_digest = (\<lambda>s. s), ce_dumps = (\<lambda>j. None), ce_loads = (\<lambda>s. None),
     ce_ttls = \<lparr>ttl_virustotal = 1, ttl_abuseipdb = 1, ttl_greynoise = 1, ttl_shodan = 1, ttl_default = 1\<rparr>\<rparr>"

theorem invalidate_undoes_enrichment_witness:
  "\<exists>ob1 d1 n d2 c2 ob2. add_enrichment (no_plugins_env boss) 4 \<lparr>ec_source = ''vt'', ec_data = [], ec_malicious = True, ec_score = JNull\<rparr>
       beacon_db = Inr (ob1, d1) \<and>
     invalidate_observable_enrichment (no_plugins_env boss) plain_cache_env memory_backend 4 ''vt''
       \<lparr>ca_store = [], ca_metrics = no_metrics\<rparr> d1 = (Inr ((n, 1), d2), c2) \<and>
     filter (\<lambda>r. ob_id r = 4) (db_observables d2) = [ob2] \<and> ob_enrichments ob2 = []"
proof -
  let ?b = "\<lparr>ec_source = ''vt'', ec_data = [], ec_malicious = True, ec_score = JNull\<rparr>"
  have g: "get_observable (no_plugins_env boss) 4 beacon_db = Inr beacon"
    by (simp add: get_observable_def load_observable_def load_row_eq beacon_db_def) (simp add: beacon_def)
  obtain ob1 d1 where a: "add_enrichment (no_plugins_env boss) 4 ?b beacon_db = Inr (ob1, d1)"
    and d1: "filter (\<lambda>r. ob_id r = 4) (db_observables d1) = [ob1]"
    by (simp add: add_enrichment_def load_observable_def load_row_def beacon_db_def fetch_or_def fetch_def put_observable_def
        update_where_def beacon_def Let_def)
  obtain n k d2 c2 where inv: "invalidate_observable_enrichment (no_plugins_env boss) plain_cache_env memory_backend 4 ''vt''
       \<lparr>ca_store = [], ca_metrics = no_metrics\<rparr> d1 = (Inr ((n, k), d2), c2)"
    using d1 by (auto simp: invalidate_observable_enrichment_def load_observable_def load_row_def fetch_or_def fetch_def Let_def
        cache_invalidate_def)
  have "\<forall>e \<in> set (ob_enrichments beacon). dget e ''source'' \<noteq> JStr (ec_source ?b)" by (simp add: beacon_def)
  from invalidate_undoes_enrichment[OF g a this] inv a show ?thesis by (auto simp: beacon_def)
qed

definition phishing_template :: incident_template where
  "phishing_template = \<lparr>it_id = 3, it_created_at = 2, it_name = ''Phishing'', it_description = None, it_default_severity = ''high'',
     it_default_tags = Some [''mail''], it_playbook_ids = Some [], it_observable_types = Some [], it_tenant_id = None\<rparr>"

theorem null_list_breaks_templates_witness:
  "\<exists>d' r. update_incident_template (no_plugins_env boss) 3
      \<lparr>tu_name = None, tu_description = None, tu_default_severity = None, tu_default_tags = Some None, tu_playbook_ids = None,
       tu_observable_types = None, tu_tenant_id = None\<rparr> (empty_db\<lparr>db_templates := [phishing_template]\<rparr>) = (Inl validation_error, d') \<and>
    get_incident_template (no_plugins_env boss) 3 (empty_db\<lparr>db_templates := [phishing_template]\<rparr>) = Inr phishing_template \<and>
    get_incident_template (no_plugins_env boss) 3 d' = Inl r"
proof -
  let ?d = "empty_db\<lparr>db_templates := [phishing_template]\<rparr>"
  have l: "load_template_row (no_plugins_env boss) act 3 ?d = Inr phishing_template" for act
    by (simp add: load_template_row_def load_row_eq phishing_template_def)
  have "template_fits phishing_template" by (simp add: template_fits_def phishing_template_def)
  from null_list_breaks_templates[OF boss_may l this] obtain d' where
    "update_incident_template (no_plugins_env boss) 3
      \<lparr>tu_name = None, tu_description = None, tu_default_severity = None, tu_default_tags = Some None, tu_playbook_ids = None,
       tu_observable_types = None, tu_tenant_id = None\<rparr> ?d = (Inl validation_error, d')"
    "\<forall>r. get_incident_template (no_plugins_env boss) 3 d' \<noteq> Inr r" by blast
  moreover have "get_incident_template (no_plugins_env boss) 3 ?d = Inr phishing_template"
    by (simp add: get_incident_template_def l template_response_def guard_def) (simp add: phishing_template_def)
  ultimately show ?thesis by (metis sum.exhaust)
qed

definition acme_only :: "resource \<Rightarrow> string \<Rightarrow> string \<Rightarrow> analyst option \<Rightarrow> exn option" where
  "acme_only r kind action an = (case r of
      RIntegration x \<Rightarrow> (if ii_partner x = Some ''acme'' then None else Some (HTTPException 403 ''tenant''))
    | _ \<Rightarrow> None)"

definition acme_env :: call_env where
  "acme_env = \<lparr>ev_app = no_plugins\<lparr>app_validators := Some [\<lparr>tv_enforce = acme_only, tv_query = (\<lambda>q kind action an. Inr None)\<rparr>]\<rparr>,
     ev_now = 50, ev_user = Some boss\<rparr>"

definition foreign_mailbox :: integration_instance where
  "foreign_mailbox = \<lparr>ii_id = 6, ii_integration_type = ''email'', ii_name = ''mail'', ii_partner = Some ''globex'', ii_tenant_id = None,
     ii_config = [(''password'', JStr ''s3cret'')], ii_enabled = True, ii_health_status = None, ii_last_health_check = None\<rparr>"


definition disabled_playbook :: playbook_definition where
  "disabled_playbook = \<lparr>pd_id = 5, pd_name = ''triage'', pd_description = None, pd_partner = None, pd_tenant_id = None,
     pd_module_path = ''playbooks.triage'', pd_function_name = ''triage'', pd_trigger_type = None, pd_trigger_config = [],
     pd_enabled = False, pd_execution_order = 1, pd_version = 1\<rparr>"

definition triage_registry :: registry where
  "triage_registry = [(''triage'', \<lparr>rp_meta = \<lparr>pm_name = ''triage'', pm_trigger = None, pm_conditions = [], pm_description = [],
     pm_enabled = True, pm_order = 1, pm_priority = ''default''\<rparr>, rp_func = ''triage'', rp_module = ''playbooks.triage''\<rparr>)]"

theorem run_playbook_authorized_witness:
  "run_playbook (no_plugins_env boss) (\<lambda>n a. None) triage_registry 5 None (empty_db\<lparr>db_playbooks := [disabled_playbook]\<rparr>) =
     Inr (''triage'', None) \<and>
   (\<exists>p \<in> set (db_playbooks (empty_db\<lparr>db_playbooks := [disabled_playbook]\<rparr>)). pd_id p = 5 \<and> pd_name p = ''triage'')"
proof -
  have r: "run_playbook (no_plugins_env boss) (\<lambda>n a. None) triage_registry 5 None (empty_db\<lparr>db_playbooks := [disabled_playbook]\<rparr>) =
     Inr (''triage'', None)"
    by (simp add: run_playbook_def load_playbook_row_def load_row_def fetch_or_def fetch_def guard_def)
       (simp add: disabled_playbook_def triage_registry_def)
  with run_playbook_authorized[OF r] show ?thesis by blast
qed

definition slack_class :: connector_class where
  "slack_class = \<lparr>cc_display_name = Some ''Slack'', cc_description = None,
     cc_check = (\<lambda>cfg. Inl (OSError ''unreachable''))\<rparr>"

theorem external_never_shadows_witness:
  "map_of (snd (discover_directory [(''slack'', Inr (Some \<lparr>cc_display_name = None, cc_description = None, cc_check = (\<lambda>cfg. Inl SystemExit)\<rparr>))]
     [(''slack'', slack_class)])) ''slack'' = Some slack_class"
  using external_never_shadows[of "[(''slack'', slack_class)]" "''slack''" slack_class] by simp

theorem health_check_persisted_witness:
  "\<exists>h d'. check_integration_health (no_plugins_env boss) [(''email'', slack_class)] 6 (empty_db\<lparr>db_integrations := [foreign_mailbox]\<rparr>) = Inr (h, d') \<and>
     map ii_health_status (filter (\<lambda>x. ii_id x = 6) (db_integrations d')) = [Some ''unhealthy'']"
proof -
  let ?d = "empty_db\<lparr>db_integrations := [foreign_mailbox]\<rparr>"
  have l: "load_integration (no_plugins_env boss) act 6 ?d = Inr foreign_mailbox" for act
    by (simp add: load_integration_def load_row_eq foreign_mailbox_def)
  obtain h d' where c: "check_integration_health (no_plugins_env boss) [(''email'', slack_class)] 6 ?d = Inr (h, d')" "\<not> hc_healthy h"
    by (simp add: check_integration_health_def l get_connector_def) (simp add: foreign_mailbox_def slack_class_def)
  from health_check_persisted[OF l boss_may, of "[(''email'', slack_class)]"] c show ?thesis by simp
qed

end
