(* ===== verification/Dashboard.thy ===== *)
theory Dashboard
  imports Complex_Main Alerts
begin

text \<open>
  \<open>opensoar/api/dashboard.py\<close>: the figures of the dashboard and its queues. Every figure is a query of its
  own that goes through the tenant validators; a grouped query is a tally, its groups in order of
  first occurrence. Averages are rationals, in seconds.
\<close>

section \<open>Queries\<close>

definition scoped_alerts :: "call_env \<Rightarrow> (alert \<Rightarrow> bool) \<Rightarrow> db \<Rightarrow> exn + alert list" where
  "scoped_alerts ev p d =
     ebind (scoped_query ev (\<lambda>r. case r of RAlert a \<Rightarrow> p a | _ \<Rightarrow> False) ''alert'' ''dashboard_stats'') (\<lambda>q.
       Inr (filter (\<lambda>a. q (RAlert a)) (db_alerts d)))"

definition scoped_runs :: "call_env \<Rightarrow> (playbook_run \<Rightarrow> bool) \<Rightarrow> db \<Rightarrow> exn + playbook_run list" where
  "scoped_runs ev p d =
     ebind (scoped_query ev (\<lambda>r. case r of RRun x \<Rightarrow> p x | _ \<Rightarrow> False) ''playbook_run'' ''dashboard_stats'') (\<lambda>q.
       Inr (filter (\<lambda>x. q (RRun x)) (db_runs d)))"

definition is_open :: "alert \<Rightarrow> bool" where
  "is_open a \<longleftrightarrow> al_status a \<in> set [''new'', ''in_progress'']"

definition severity_weight :: "string \<Rightarrow> int" where
  "severity_weight severity = (case map_of [(''critical'', 0), (''high'', 1), (''medium'', 2), (''low'', 3)] severity of
      Some w \<Rightarrow> w | None \<Rightarrow> 4)"

text \<open>\<open>order_by(severity_order, created_at.asc()).limit(10)\<close>: two stable sorts, the minor key first.\<close>

definition by_urgency :: "alert list \<Rightarrow> alert list" where
  "by_urgency rows = sort_key (\<lambda>a. severity_weight (al_severity a)) (sort_key al_created_at rows)"

definition resolve_seconds :: "alert \<Rightarrow> rat" where
  "resolve_seconds a = of_int (the (al_resolved_at a) - al_created_at a) / 1000000"

definition average :: "rat list \<Rightarrow> rat option" where
  "average xs = (if xs = [] then None else Some (sum_list xs / of_nat (length xs)))"

definition resolved_since :: "time \<Rightarrow> alert \<Rightarrow> bool" where
  "resolved_since t a \<longleftrightarrow> (case al_resolved_at a of None \<Rightarrow> False | Some r \<Rightarrow> t \<le> r)"

definition partners_of :: "alert list \<Rightarrow> string list" where
  "partners_of rows = List.map_filter al_partner rows"

definition mttr_by_partner :: "alert list \<Rightarrow> (string \<times> rat) list" where
  "mttr_by_partner rows = map (\<lambda>p. (p, the (average (map resolve_seconds (filter (\<lambda>a. al_partner a = Some p) rows)))))
     (remdups (partners_of rows))"

section \<open>The answer\<close>

record dashboard =
  ds_alerts_by_severity :: "(string \<times> nat) list"
  ds_alerts_by_status :: "(string \<times> nat) list"
  ds_alerts_by_partner :: "(string \<times> nat) list"
  ds_alerts_by_determination :: "(string \<times> nat) list"
  ds_open_by_partner :: "(string \<times> nat) list"
  ds_mttr_by_partner :: "(string \<times> rat) list"
  ds_total_alerts :: nat
  ds_total_runs :: nat
  ds_open_alerts :: nat
  ds_alerts_today :: nat
  ds_active_runs :: nat
  ds_unassigned_count :: nat
  ds_mttr_seconds :: "rat option"
  ds_priority_queue :: "alert list"
  ds_my_alerts :: "alert list"
  ds_recent_runs :: "playbook_run list"
  ds_recent_alerts :: "alert list"

definition scoped_count :: "(string \<times> nat) list \<Rightarrow> string \<Rightarrow> nat" where
  "scoped_count m k = (case map_of m k of None \<Rightarrow> 0 | Some n \<Rightarrow> n)"

definition dashboard_stats :: "call_env \<Rightarrow> db \<Rightarrow> exn + dashboard" where
  "dashboard_stats ev d =
     (let now = ev_now ev; today_start = now - now mod 86400000000; week_ago = now - 7 * 86400000000
      in ebind (scoped_alerts ev (\<lambda>a. True) d) (\<lambda>sev.
         ebind (scoped_alerts ev (\<lambda>a. True) d) (\<lambda>status.
         ebind (scoped_alerts ev (\<lambda>a. al_partner a \<noteq> None) d) (\<lambda>partner.
         ebind (scoped_alerts ev (\<lambda>a. True) d) (\<lambda>det.
         ebind (scoped_alerts ev (\<lambda>a. al_partner a \<noteq> None \<and> resolved_since week_ago a) d) (\<lambda>mttr_partner.
         ebind (scoped_alerts ev (\<lambda>a. al_partner a \<noteq> None \<and> is_open a) d) (\<lambda>open_partner.
         ebind (scoped_runs ev (\<lambda>x. True) d) (\<lambda>runs.
         ebind (scoped_alerts ev (\<lambda>a. today_start \<le> al_created_at a) d) (\<lambda>today.
         ebind (scoped_alerts ev (resolved_since week_ago) d) (\<lambda>mttr.
         ebind (scoped_runs ev (\<lambda>x. pr_status x \<in> set [''running'', ''pending'']) d) (\<lambda>active.
         ebind (scoped_alerts ev is_open d) (\<lambda>open_rows.
         ebind (case ev_user ev of
                  None \<Rightarrow> Inr []
                | Some an \<Rightarrow> scoped_alerts ev (\<lambda>a. al_assigned_to a = Some (an_id an) \<and> is_open a) d) (\<lambda>mine.
         ebind (scoped_runs ev (\<lambda>x. True) d) (\<lambda>recent.
         ebind (scoped_alerts ev (\<lambda>a. is_open a \<and> al_assigned_to a = None) d) (\<lambda>unassigned.
         let by_severity = tally (map al_severity sev);
             by_status = tally (map al_status status);
             priority = take 10 (by_urgency open_rows)
         in Inr \<lparr>ds_alerts_by_severity = by_severity,
              ds_alerts_by_status = by_status,
              ds_alerts_by_partner = tally (partners_of partner),
              ds_alerts_by_determination = tally (map al_determination det),
              ds_open_by_partner = tally (partners_of open_partner),
              ds_mttr_by_partner = mttr_by_partner mttr_partner,
              ds_total_alerts = sum_list (map snd by_severity),
              ds_total_runs = length runs,
              ds_open_alerts = scoped_count by_status ''new'' + scoped_count by_status ''in_progress'',
              ds_alerts_today = length today,
              ds_active_runs = length active,
              ds_unassigned_count = length unassigned,
              ds_mttr_seconds = average (map resolve_seconds mttr),
              ds_priority_queue = priority,
              ds_my_alerts = take 10 (by_urgency mine),
              ds_recent_runs = take 5 (newest_first pr_created_at recent),
              ds_recent_alerts = take 5 priority\<rparr>)))))))))))))))"

section \<open>Scopes\<close>

text \<open>Validators that scope a dashboard query do so by a condition on the row, whatever the query.\<close>

definition scopes_by :: "call_env \<Rightarrow> string \<Rightarrow> (resource \<Rightarrow> bool) \<Rightarrow> bool" where
  "scopes_by ev kind V \<longleftrightarrow> (\<forall>q. scoped_query ev q kind ''dashboard_stats'' = Inr (\<lambda>r. q r \<and> V r))"

lemma scoped_alerts_eq: "scopes_by ev ''alert'' V \<Longrightarrow>
    scoped_alerts ev p d = Inr (filter p (filter (\<lambda>a. V (RAlert a)) (db_alerts d)))"
  by (simp add: scoped_alerts_def scopes_by_def conj_commute)

lemma scoped_runs_eq: "scopes_by ev ''playbook_run'' V \<Longrightarrow>
    scoped_runs ev p d = Inr (filter p (filter (\<lambda>x. V (RRun x)) (db_runs d)))"
  by (simp add: scoped_runs_def scopes_by_def conj_commute)

lemma scoped_count_tally: "scoped_count (tally ks) k = count_list ks k"
  by (simp add: scoped_count_def tally_map count_list_0_iff)

lemma open_count: "count_list (map al_status rows) ''new'' + count_list (map al_status rows) ''in_progress'' = length (filter is_open rows)"
  by (induction rows) (auto simp: is_open_def)

text \<open>A list sorted by a major key over a minor one.\<close>

lemma sorted_lex:
  assumes "sorted (map f ys)" and "\<And>k. sorted (map g (filter (\<lambda>x. f x = k) ys))"
  shows "sorted_wrt (\<lambda>x y. f x < f y \<or> f x = f y \<and> g x \<le> g y) ys"
  using assms
proof (induction ys)
  case (Cons x ys)
  have "f x < f y \<or> f x = f y \<and> g x \<le> g y" if "y \<in> set ys" for y
    using that Cons.prems(1) Cons.prems(2)[of "f x"] by (auto simp: less_le)
  moreover have "sorted (map g (filter (\<lambda>x. f x = k) ys))" for k using Cons.prems(2)[of k] by (simp split: if_splits)
  ultimately show ?case using Cons by simp
qed simp

lemma by_urgency_sorted: "sorted_wrt (\<lambda>x y. severity_weight (al_severity x) < severity_weight (al_severity y) \<or>
    severity_weight (al_severity x) = severity_weight (al_severity y) \<and> al_created_at x \<le> al_created_at y) (by_urgency rows)"
  unfolding by_urgency_def
proof (rule sorted_lex)
  fix k
  have "filter (\<lambda>x. severity_weight (al_severity x) = k) (sort_key (\<lambda>a. severity_weight (al_severity a)) (sort_key al_created_at rows)) =
      filter (\<lambda>x. severity_weight (al_severity x) = k) (sort_key al_created_at rows)" by (rule sort_key_stable)
  then show "sorted (map al_created_at (filter (\<lambda>x. severity_weight (al_severity x) = k)
      (sort_key (\<lambda>a. severity_weight (al_severity a)) (sort_key al_created_at rows))))"
    by (simp add: sorted_filter)
qed simp

lemma by_urgency_set [simp]: "set (by_urgency rows) = set rows" "length (by_urgency rows) = length rows"
  by (simp_all add: by_urgency_def)

lemma partner_sum: "length (partners_of (filter P rows)) = length (filter (\<lambda>a. P a \<and> al_partner a \<noteq> None) rows)"
  by (induction rows) (auto simp: partners_of_def List.map_filter_simps)

section \<open>Properties\<close>

text \<open>The dashboard is consistent with itself and the tables: with validators that scope every query by the same
  condition on the row, the total is the number of alerts in scope, every breakdown adds up to it (the
  one by partner to those that have a partner), the open count is the number of open alerts in scope,
  and an alert is counted as unassigned or as of today only if it is counted in the total.\<close>

theorem dashboard_consistent:
  assumes "dashboard_stats ev d = Inr s" and "scopes_by ev ''alert'' V" and "scopes_by ev ''playbook_run'' V"
  shows "ds_total_alerts s = length (filter (\<lambda>a. V (RAlert a)) (db_alerts d)) \<and>
    sum_list (map snd (ds_alerts_by_severity s)) = ds_total_alerts s \<and> sum_list (map snd (ds_alerts_by_status s)) = ds_total_alerts s \<and>
    sum_list (map snd (ds_alerts_by_determination s)) = ds_total_alerts s \<and>
    sum_list (map snd (ds_alerts_by_partner s)) = length (filter (\<lambda>a. V (RAlert a) \<and> al_partner a \<noteq> None) (db_alerts d)) \<and>
    ds_open_alerts s = length (filter (\<lambda>a. V (RAlert a) \<and> is_open a) (db_alerts d)) \<and>
    sum_list (map snd (ds_open_by_partner s)) \<le> ds_open_alerts s \<and> ds_unassigned_count s \<le> ds_open_alerts s \<and>
    ds_open_alerts s \<le> ds_total_alerts s \<and> ds_alerts_today s \<le> ds_total_alerts s \<and> ds_active_runs s \<le> ds_total_runs s"
proof -
  note eqs = scoped_alerts_eq[OF assms(2)] scoped_runs_eq[OF assms(3)]
  let ?as = "filter (\<lambda>a. V (RAlert a)) (db_alerts d)" and ?rs = "filter (\<lambda>x. V (RRun x)) (db_runs d)"
  from assms(1) have f: "ds_total_alerts s = sum_list (map snd (tally (map al_severity ?as)))"
    "ds_alerts_by_severity s = tally (map al_severity ?as)" "ds_alerts_by_status s = tally (map al_status ?as)"
    "ds_alerts_by_determination s = tally (map al_determination ?as)"
    "ds_alerts_by_partner s = tally (partners_of (filter (\<lambda>a. al_partner a \<noteq> None) ?as))"
    "ds_open_alerts s = scoped_count (tally (map al_status ?as)) ''new'' + scoped_count (tally (map al_status ?as)) ''in_progress''"
    "ds_open_by_partner s = tally (partners_of (filter (\<lambda>a. al_partner a \<noteq> None \<and> is_open a) ?as))"
    "ds_unassigned_count s = length (filter (\<lambda>a. is_open a \<and> al_assigned_to a = None) ?as)"
    "\<exists>t. ds_alerts_today s = length (filter (\<lambda>a. t \<le> al_created_at a) ?as)"
    "ds_active_runs s = length (filter (\<lambda>x. pr_status x \<in> set [''running'', ''pending'']) ?rs)" "ds_total_runs s = length ?rs"
    unfolding dashboard_stats_def Let_def eqs ebind.simps by (auto simp: ebind_eq_Inr)
  have "length (filter (\<lambda>a. is_open a \<and> al_assigned_to a = None) ?as) \<le> length (filter is_open ?as)"
    "length (filter (\<lambda>a. al_partner a \<noteq> None \<and> is_open a) ?as) \<le> length (filter is_open ?as)"
    by (rule length_filter_mono, simp)+
  then show ?thesis
    unfolding f(1-8) f(10,11) scoped_count_tally open_count sum_tally partner_sum
    using f(9) by (auto simp: conj_ac intro!: length_filter_mono)
qed

text \<open>The priority queue is the right one: at most ten open alerts in scope, most severe first and older first
  among equals, and no open alert in scope left out is more urgent than one that is shown.\<close>

theorem priority_queue_spec:
  assumes "dashboard_stats ev d = Inr s" and "scopes_by ev ''alert'' V" and "scopes_by ev ''playbook_run'' V"
  shows "length (ds_priority_queue s) = min 10 (length (filter (\<lambda>a. V (RAlert a) \<and> is_open a) (db_alerts d))) \<and>
    set (ds_priority_queue s) \<subseteq> {a \<in> set (db_alerts d). V (RAlert a) \<and> is_open a} \<and>
    sorted_wrt (\<lambda>x y. severity_weight (al_severity x) < severity_weight (al_severity y) \<or>
      severity_weight (al_severity x) = severity_weight (al_severity y) \<and> al_created_at x \<le> al_created_at y) (ds_priority_queue s) \<and>
    (\<forall>x \<in> set (ds_priority_queue s). \<forall>y \<in> {a \<in> set (db_alerts d). V (RAlert a) \<and> is_open a} - set (ds_priority_queue s).
      severity_weight (al_severity x) < severity_weight (al_severity y) \<or>
      severity_weight (al_severity x) = severity_weight (al_severity y) \<and> al_created_at x \<le> al_created_at y)"
proof -
  let ?rows = "filter is_open (filter (\<lambda>a. V (RAlert a)) (db_alerts d))"
  have q: "ds_priority_queue s = take 10 (by_urgency ?rows)"
    using assms(1) unfolding dashboard_stats_def Let_def scoped_alerts_eq[OF assms(2)] scoped_runs_eq[OF assms(3)] ebind.simps
    by (auto simp: ebind_eq_Inr)
  let ?le = "\<lambda>x y. severity_weight (al_severity x) < severity_weight (al_severity y) \<or>
      severity_weight (al_severity x) = severity_weight (al_severity y) \<and> al_created_at x \<le> al_created_at y"
  have split: "by_urgency ?rows = ds_priority_queue s @ drop 10 (by_urgency ?rows)" unfolding q by simp
  have w: "sorted_wrt ?le (ds_priority_queue s)" "\<forall>x \<in> set (ds_priority_queue s). \<forall>y \<in> set (drop 10 (by_urgency ?rows)). ?le x y"
    using by_urgency_sorted[of ?rows] unfolding sorted_wrt_append[symmetric]
    by (subst (asm) split, simp add: sorted_wrt_append)+
  have rows: "set ?rows = {a \<in> set (db_alerts d). V (RAlert a) \<and> is_open a}" by auto
  have "set (ds_priority_queue s) \<union> set (drop 10 (by_urgency ?rows)) = set ?rows"
    unfolding set_append[symmetric] split[symmetric] by simp
  then have rest: "set ?rows - set (ds_priority_queue s) \<subseteq> set (drop 10 (by_urgency ?rows))" by blast
  have "length (ds_priority_queue s) = min 10 (length ?rows)" unfolding q by simp
  moreover have "set (ds_priority_queue s) \<subseteq> set ?rows" unfolding q using set_take_subset[of 10 "by_urgency ?rows"] by simp
  ultimately show ?thesis using w rest unfolding rows filter_filter by (auto simp: conj_commute)
qed

section \<open>Witnesses\<close>

lemma no_plugins_scope: "scopes_by (no_plugins_env an) kind (\<lambda>r. True)"
  by (simp add: scopes_by_def scoped_query_def apply_tenant_access_query_def no_plugins_env_def no_plugins_def
      initialize_plugin_state_def set_missing_def)

definition board_db :: db where
  "board_db = empty_db\<lparr>db_alerts := [(shared_alert 1 ''a'' ''x'')\<lparr>al_severity := ''low'', al_status := ''new''\<rparr>,
     (shared_alert 2 ''b'' ''y'')\<lparr>al_severity := ''critical'', al_status := ''in_progress''\<rparr>,
     (shared_alert 3 ''c'' ''z'')\<lparr>al_severity := ''high'', al_status := ''resolved''\<rparr>]\<rparr>"

lemma board_runs: "\<exists>s. dashboard_stats (no_plugins_env ana) board_db = Inr s"
  unfolding dashboard_stats_def Let_def scoped_alerts_eq[OF no_plugins_scope] scoped_runs_eq[OF no_plugins_scope] ebind.simps
  by (simp add: no_plugins_env_def scoped_alerts_eq[OF no_plugins_scope, unfolded no_plugins_env_def])

theorem dashboard_consistent_witness:
  "\<exists>s. dashboard_stats (no_plugins_env ana) board_db = Inr s \<and> ds_total_alerts s = 3 \<and> ds_open_alerts s = 2"
proof -
  obtain s where s: "dashboard_stats (no_plugins_env ana) board_db = Inr s" using board_runs by blast
  from dashboard_consistent[OF s no_plugins_scope no_plugins_scope] s show ?thesis by (auto simp: board_db_def is_open_def)
qed

theorem priority_queue_spec_witness:
  "\<exists>s. dashboard_stats (no_plugins_env ana) board_db = Inr s \<and> length (ds_priority_queue s) = 2"
proof -
  obtain s where s: "dashboard_stats (no_plugins_env ana) board_db = Inr s" using board_runs by blast
  from priority_queue_spec[OF s no_plugins_scope no_plugins_scope] s show ?thesis by (auto simp: board_db_def is_open_def)
qed

end
