(* ===== verification/Actions.thy ===== *)
theory Actions
  imports Alerts
begin

text \<open>
  \<open>opensoar/api/actions.py\<close>: manual actions on an indicator. The WHOIS library, name resolution and the two
  vendor connectors are parameters (\<open>world\<close>): what a call returns, or the exception it ends with; the
  connectors' lookups include the disconnection after them. The order of a set of addresses is a
  parameter too.
\<close>

section \<open>The actions\<close>

record available_action =
  aa_name :: string
  aa_integration :: string
  aa_description :: string
  aa_ioc_types :: "string list"

definition available_actions :: "available_action list" where
  "available_actions = [
     \<lparr>aa_name = ''virustotal_lookup'', aa_integration = ''virustotal'',
      aa_description = ''Look up IP, domain, or hash on VirusTotal'', aa_ioc_types = [''ips'', ''domains'', ''hashes'']\<rparr>,
     \<lparr>aa_name = ''abuseipdb_check'', aa_integration = ''abuseipdb'',
      aa_description = ''Check IP reputation on AbuseIPDB'', aa_ioc_types = [''ips'']\<rparr>,
     \<lparr>aa_name = ''whois_lookup'', aa_integration = ''builtin'',
      aa_description = ''Perform WHOIS lookup on domain or IP'', aa_ioc_types = [''ips'', ''domains'']\<rparr>,
     \<lparr>aa_name = ''dns_resolve'', aa_integration = ''builtin'',
      aa_description = ''Resolve DNS records for a domain'', aa_ioc_types = [''domains'']\<rparr>]"

definition list_available_actions :: "string option \<Rightarrow> available_action list" where
  "list_available_actions ioc_type =
     (if truthy_str ioc_type then filter (\<lambda>a. the ioc_type \<in> set (aa_ioc_types a)) available_actions else available_actions)"

section \<open>Running one\<close>

record whois_answer =
  wh_domain_name :: json
  wh_registrar :: json
  wh_creation_date :: string
  wh_expiration_date :: string
  wh_name_servers :: json
  wh_org :: json
  wh_country :: json

record world =
  wo_whois :: "string \<Rightarrow> exn + whois_answer"
  wo_resolve :: "string \<Rightarrow> (exn + string list) option"
  wo_vt_key :: "string option"
  wo_vt_connect :: "exn + unit"
  wo_vt_ip :: "string \<Rightarrow> exn + json"
  wo_vt_hash :: "string \<Rightarrow> exn + json"
  wo_vt_domain :: "string \<Rightarrow> exn + json"
  wo_abuse_key :: "string option"
  wo_abuse_connect :: "exn + unit"
  wo_abuse_ip :: "string \<Rightarrow> exn + json"
  wo_set_order :: "string list \<Rightarrow> string list"

text \<open>\<open>v.get(k, default)\<close>, which only a dictionary has.\<close>

fun py_gets :: "json \<Rightarrow> (string \<times> string \<times> json) list \<Rightarrow> exn + jdict" where
  "py_gets v [] = Inr []"
| "py_gets v ((out, k, dflt) # ks) =
     ebind (py_get v k dflt) (\<lambda>x. ebind (py_gets v ks) (\<lambda>r. Inr ((out, x) # r)))"

fun whois_caught :: "exn \<Rightarrow> bool" where
  "whois_caught (OSError _) = True"
| "whois_caught (TimeoutError _) = True"
| "whois_caught (ValueError _) = True"
| "whois_caught (AttributeError _) = True"
| "whois_caught (TypeError _) = True"
| "whois_caught _ = False"

definition whois_lookup :: "world \<Rightarrow> string \<Rightarrow> exn + jdict" where
  "whois_lookup w v = (case wo_whois w v of
      Inr a \<Rightarrow> Inr [(''domain_name'', wh_domain_name a), (''registrar'', wh_registrar a),
        (''creation_date'', JStr (wh_creation_date a)), (''expiration_date'', JStr (wh_expiration_date a)),
        (''name_servers'', wh_name_servers a), (''org'', wh_org a), (''country'', wh_country a)]
    | Inl (ImportError m) \<Rightarrow> Inr [(''info'', JStr (''WHOIS lookup for '' @ v @ '' (python-whois not installed)''))]
    | Inl e \<Rightarrow> (if whois_caught e
                then Inr [(''info'', JStr (''WHOIS lookup for '' @ v)), (''error'', JStr (exn_str e))] else Inl e))"

text \<open>Resolution that fails (\<open>socket.gaierror\<close>) is \<open>None\<close>.\<close>

definition dns_resolve :: "world \<Rightarrow> string \<Rightarrow> exn + jdict" where
  "dns_resolve w v = (case wo_resolve w v of
      None \<Rightarrow> Inr [(''domain'', JStr v), (''resolved_ips'', JArr []), (''error'', JStr ''DNS resolution failed'')]
    | Some r \<Rightarrow> ebind r (\<lambda>addrs.
        Inr [(''domain'', JStr v), (''resolved_ips'', JArr (map JStr (wo_set_order w (remdups addrs))))]))"

definition virustotal_lookup :: "world \<Rightarrow> string \<Rightarrow> string \<Rightarrow> exn + jdict" where
  "virustotal_lookup w ioc_type v =
     (if \<not> truthy_str (wo_vt_key w)
      then Inr [(''source'', JStr ''virustotal''), (''indicator'', JStr v),
             (''note'', JStr ''VirusTotal not configured. Add VT_API_KEY to .env.'')]
      else ebind (wo_vt_connect w) (\<lambda>_.
           if ioc_type \<notin> set [''ips'', ''hashes'', ''domains'']
           then Inr [(''error'', JStr (''Unsupported IOC type for VT: '' @ ioc_type))]
           else ebind (if ioc_type = ''ips'' then wo_vt_ip w v else if ioc_type = ''hashes'' then wo_vt_hash w v else wo_vt_domain w v) (\<lambda>raw.
           ebind (py_get raw ''data'' (JObj [])) (\<lambda>data0.
           ebind (py_get data0 ''attributes'' (JObj [])) (\<lambda>data.
           ebind (py_get data ''last_analysis_stats'' (JObj [])) (\<lambda>stats.
           ebind (py_gets stats (map (\<lambda>k. (k, k, JInt 0)) [''malicious'', ''suspicious'', ''harmless'', ''undetected''])) (\<lambda>counts.
           ebind (py_gets data (map (\<lambda>k. (k, k, JNull)) [''reputation'', ''country'', ''as_owner''])) (\<lambda>rest.
             Inr ([(''source'', JStr ''virustotal''), (''indicator'', JStr v)] @ counts @ rest)))))))))"

definition abuseipdb_check :: "world \<Rightarrow> string \<Rightarrow> exn + jdict" where
  "abuseipdb_check w v =
     (if \<not> truthy_str (wo_abuse_key w)
      then Inr [(''source'', JStr ''abuseipdb''), (''indicator'', JStr v),
             (''note'', JStr ''AbuseIPDB not configured. Add ABUSEIPDB_API_KEY to .env.'')]
      else ebind (wo_abuse_connect w) (\<lambda>_.
           ebind (wo_abuse_ip w v) (\<lambda>raw.
           ebind (py_get raw ''data'' (JObj [])) (\<lambda>data.
           ebind (py_gets data [(''abuse_confidence_score'', ''abuseConfidenceScore'', JNull), (''total_reports'', ''totalReports'', JNull),
                    (''country_code'', ''countryCode'', JNull), (''isp'', ''isp'', JNull), (''domain'', ''domain'', JNull),
                    (''is_tor'', ''isTor'', JNull), (''is_whitelisted'', ''isWhitelisted'', JNull)]) (\<lambda>fields.
             Inr ([(''source'', JStr ''abuseipdb''), (''indicator'', JStr v)] @ fields))))))"

definition run_action :: "world \<Rightarrow> string \<Rightarrow> string \<Rightarrow> string \<Rightarrow> exn + jdict" where
  "run_action w action ioc_type v =
     (if action = ''whois_lookup'' then whois_lookup w v
      else if action = ''dns_resolve'' then dns_resolve w v
      else if action = ''virustotal_lookup'' then virustotal_lookup w ioc_type v
      else if action = ''abuseipdb_check'' then abuseipdb_check w v
      else Inr [(''action'', JStr action), (''indicator'', JStr v), (''note'', JStr ''Action executed'')])"

section \<open>The endpoint\<close>

record action_request =
  rq_action_name :: string
  rq_ioc_type :: string
  rq_ioc_value :: string
  rq_alert_id :: "string option"

record action_response =
  rs_status :: string
  rs_result :: "jdict option"
  rs_error :: "string option"

definition action_activity :: "analyst \<Rightarrow> uuid \<Rightarrow> action_request \<Rightarrow> action_response \<Rightarrow> activity" where
  "action_activity an i b r =
     by_analyst an i ''manual_action'' (''Executed '' @ rq_action_name b @ '' on '' @ rq_ioc_type b @ '': '' @ rq_ioc_value b)
       (Some [(''action_name'', JStr (rq_action_name b)), (''ioc_type'', JStr (rq_ioc_type b)),
          (''ioc_value'', JStr (rq_ioc_value b)), (''status'', JStr (rs_status r)),
          (''result'', case rs_result r of None \<Rightarrow> JNull | Some d \<Rightarrow> JObj d)])"

text \<open>The alert the request names, if any, checked before the action runs.\<close>

definition action_alert :: "call_env \<Rightarrow> action_request \<Rightarrow> db \<Rightarrow> exn + uuid option" where
  "action_alert ev b d =
     (if truthy_str (rq_alert_id b)
      then ebind (parse_uuid (the (rq_alert_id b))) (\<lambda>i.
           ebind (load_alert ev ''execute_action'' i d) (\<lambda>_. Inr (Some i)))
      else Inr None)"

text \<open>The answer, the database, and whether the action was run at all.\<close>

definition execute_action :: "call_env \<Rightarrow> world \<Rightarrow> action_request \<Rightarrow> db \<Rightarrow> (exn + action_response) \<times> db \<times> bool" where
  "execute_action ev w b d =
     (case require_analyst (ev_user ev) of
        Inl e \<Rightarrow> (Inl e, d, False)
      | Inr an \<Rightarrow>
          (if find (\<lambda>a. aa_name a = rq_action_name b) available_actions = None
           then (Inr \<lparr>rs_status = ''failed'', rs_result = None, rs_error = Some (''Unknown action: '' @ rq_action_name b)\<rparr>, d, False)
           else case action_alert ev b d of
                  Inl e \<Rightarrow> (Inl e, d, False)
                | Inr target \<Rightarrow>
                    (let respond = (\<lambda>r. (Inr r, case target of None \<Rightarrow> d | Some i \<Rightarrow> add_activity (ev_now ev) (action_activity an i b r) d, True))
                     in case run_action w (rq_action_name b) (rq_ioc_type b) (rq_ioc_value b) of
                          Inr res \<Rightarrow> respond \<lparr>rs_status = ''success'', rs_result = Some res, rs_error = None\<rparr>
                        | Inl e \<Rightarrow> (if is_Exception e then respond \<lparr>rs_status = ''failed'', rs_result = None, rs_error = Some (exn_str e)\<rparr>
                                   else (Inl e, d, True)))))"

section \<open>Properties\<close>

text \<open>A manual action runs only when it may and never goes unrecorded: it runs only for a signed-in analyst, a known
  action and, when an alert is named, an alert that exists and the validators let the analyst act on;
  whatever exception it raises becomes a failed answer; and with an alert exactly one entry, with the
  status of the answer, is added to that alert's log, while nothing else changes.\<close>

theorem action_recorded:
  assumes "execute_action ev w b d = (res, d', did_run)"
  shows "(did_run \<longrightarrow> ev_user ev \<noteq> None \<and> rq_action_name b \<in> aa_name ` set available_actions \<and>
      (truthy_str (rq_alert_id b) \<longrightarrow> (\<exists>a \<in> set (db_alerts d). parse_uuid (the (rq_alert_id b)) = Inr (al_id a) \<and>
         enforce ev (RAlert a) ''alert'' ''execute_action'' = Inr ()))) \<and>
    (\<not> did_run \<longrightarrow> d' = d) \<and>
    (did_run \<longrightarrow> (case res of
        Inl e \<Rightarrow> \<not> is_Exception e \<and> d' = d
      | Inr r \<Rightarrow> rs_status r \<in> {''success'', ''failed''} \<and>
          (if truthy_str (rq_alert_id b)
           then \<exists>row. db_activities d' = db_activities d @ [row] \<and> Inr (the (ac_alert_id row)) = parse_uuid (the (rq_alert_id b)) \<and>
             ac_action row = ''manual_action'' \<and> dget (the (ac_metadata_json row)) ''status'' = JStr (rs_status r) \<and>
             db_alerts d' = db_alerts d
           else d' = d)))"
proof -
  have find: "find (\<lambda>a. aa_name a = n) available_actions \<noteq> None \<Longrightarrow> n \<in> aa_name ` set available_actions" for n
    by (auto simp: find_None_iff)
  have target: "case t of None \<Rightarrow> \<not> truthy_str (rq_alert_id b) | Some i \<Rightarrow> truthy_str (rq_alert_id b) \<and> parse_uuid (the (rq_alert_id b)) = Inr i \<and>
      (\<exists>a \<in> set (db_alerts d). al_id a = i \<and> enforce ev (RAlert a) ''alert'' ''execute_action'' = Inr ())"
    if "action_alert ev b d = Inr t" for t
    using that by (auto simp: action_alert_def ebind_eq_Inr load_alert_def fetch_or_eq_Inr dest!: filter_single_mem split: if_splits)
  show ?thesis
  proof (cases did_run)
    case False
    with assms show ?thesis by (auto simp: execute_action_def Let_def split: sum.splits if_splits)
  next
    case True
    with assms obtain an t where an: "require_analyst (ev_user ev) = Inr an" and known: "find (\<lambda>a. aa_name a = rq_action_name b) available_actions \<noteq> None"
      and t: "action_alert ev b d = Inr t" and out: "(\<exists>e. \<not> is_Exception e \<and> res = Inl e \<and> d' = d) \<or>
        (\<exists>r. res = Inr r \<and> rs_status r \<in> {''success'', ''failed''} \<and>
           d' = (case t of None \<Rightarrow> d | Some i \<Rightarrow> add_activity (ev_now ev) (action_activity an i b r) d))"
      by (auto simp: execute_action_def Let_def split: sum.splits if_splits)
    have row: "\<exists>row. db_activities (add_activity (ev_now ev) (action_activity an i b r) d) = db_activities d @ [row] \<and>
        ac_alert_id row = Some i \<and> ac_action row = ''manual_action'' \<and> dget (the (ac_metadata_json row)) ''status'' = JStr (rs_status r)" for i r
      by (simp add: add_activity_def action_activity_def by_analyst_def dget_def)
    have "ev_user ev \<noteq> None" using an by (auto simp: require_analyst_def split: option.splits)
    with True target[OF t] find[OF known] out row show ?thesis by (cases t) (fastforce split: option.splits)+
  qed
qed

definition offline :: world where
  "offline = \<lparr>wo_whois = (\<lambda>v. Inl (ImportError ''whois'')), wo_resolve = (\<lambda>v. None), wo_vt_key = Some ''k'',
     wo_vt_connect = Inl (OSError ''refused''), wo_vt_ip = (\<lambda>v. Inl SystemExit), wo_vt_hash = (\<lambda>v. Inl SystemExit),
     wo_vt_domain = (\<lambda>v. Inl SystemExit), wo_abuse_key = None, wo_abuse_connect = Inr (), wo_abuse_ip = (\<lambda>v. Inl SystemExit),
     wo_set_order = (\<lambda>xs. xs)\<rparr>"

theorem action_recorded_witness:
  "\<exists>r d'. execute_action (no_plugins_env ana) offline \<lparr>rq_action_name = ''virustotal_lookup'', rq_ioc_type = ''ips'',
       rq_ioc_value = ''10.0.0.9'', rq_alert_id = Some ''2''\<rparr> (empty_db\<lparr>db_alerts := [resolved_alert]\<rparr>) = (Inr r, d', True) \<and>
     rs_status r = ''failed'' \<and> map ac_action (db_activities d') = [''manual_action'']"
proof -
  let ?b = "\<lparr>rq_action_name = ''virustotal_lookup'', rq_ioc_type = ''ips'', rq_ioc_value = ''10.0.0.9'', rq_alert_id = Some ''2''\<rparr>"
  let ?d = "empty_db\<lparr>db_alerts := [resolved_alert]\<rparr>"
  obtain r d' where run: "execute_action (no_plugins_env ana) offline ?b ?d = (Inr r, d', True)" and st: "rs_status r = ''failed''"
  proof -
    have "(case execute_action (no_plugins_env ana) offline ?b ?d of (Inr r, d', True) \<Rightarrow> rs_status r = ''failed'' | _ \<Rightarrow> False)"
      by code_simp
    then show thesis using that by (auto split: prod.splits sum.splits bool.splits)
  qed
  from action_recorded[OF run] st run show ?thesis by (auto simp: empty_db_def)
qed

end
