(* ===== verification/Ai.thy ===== *)
theory Ai
  imports Complex_Main Alerts
begin

text \<open>
  \<open>opensoar/api/ai.py\<close> with \<open>opensoar/ai/client.py\<close>: the endpoints that put an alert to a language model and
  read its answer. The model is a parameter from prompts to answers; a prompt is the template of
  \<open>opensoar/ai/prompts.py\<close> with the data that fills it, not its text. An endpoint returns its answer and
  the prompts it sent. The JSON parser and the reading of a decimal are parameters.
\<close>

section \<open>The client\<close>

record llm_settings =
  ls_anthropic_api_key :: "string option"
  ls_openai_api_key :: "string option"
  ls_ollama_url :: "string option"
  ls_llm_model :: "string option"

record llm_client =
  lc_provider :: string
  lc_model :: string
  lc_api_key :: string
  lc_base_url :: string

record llm_response =
  lr_content :: json
  lr_model :: json
  lr_usage :: json

definition get_llm_client :: "llm_settings \<Rightarrow> llm_client option" where
  "get_llm_client s =
     (if truthy_str (ls_anthropic_api_key s)
      then Some \<lparr>lc_provider = ''anthropic'', lc_model = or_else (ls_llm_model s) ''claude-sonnet-4-6'',
             lc_api_key = the (ls_anthropic_api_key s), lc_base_url = []\<rparr>
      else if truthy_str (ls_openai_api_key s)
      then Some \<lparr>lc_provider = ''openai'', lc_model = or_else (ls_llm_model s) ''gpt-4o'',
             lc_api_key = the (ls_openai_api_key s), lc_base_url = []\<rparr>
      else if truthy_str (ls_ollama_url s)
      then Some \<lparr>lc_provider = ''ollama'', lc_model = or_else (ls_llm_model s) ''llama3'',
             lc_api_key = [], lc_base_url = the (ls_ollama_url s)\<rparr>
      else None)"

text \<open>A POST: the path and body sent, the status, the text and the JSON of the answer.\<close>

record http_reply =
  hr_status :: int
  hr_text :: string
  hr_json :: json

definition base_or :: "llm_client \<Rightarrow> string \<Rightarrow> string" where
  "base_or c dflt = (if lc_base_url c = [] then dflt else lc_base_url c)"

definition call_anthropic ::
  "(string \<Rightarrow> jdict \<Rightarrow> exn + http_reply) \<Rightarrow> llm_client \<Rightarrow> string \<Rightarrow> string \<Rightarrow> int \<Rightarrow> json \<Rightarrow> exn + llm_response" where
  "call_anthropic post c prompt system max_tokens temperature =
     (let body = [(''model'', JStr (lc_model c)), (''max_tokens'', JInt max_tokens), (''temperature'', temperature),
            (''messages'', JArr [JObj [(''role'', JStr ''user''), (''content'', JStr prompt)]])] @
            (if system = [] then [] else [(''system'', JStr system)])
      in ebind (post (base_or c ''https://api.anthropic.com'' @ ''/v1/messages'') body) (\<lambda>r.
         if hr_status r \<noteq> 200
         then Inl (RuntimeError (''Anthropic API error '' @ show_int (hr_status r) @ '': '' @ hr_text r))
         else ebind (py_key ''content'' (hr_json r)) (\<lambda>parts.
              ebind (py_first parts) (\<lambda>part.
              ebind (py_key ''text'' part) (\<lambda>content.
              ebind (py_get (hr_json r) ''model'' (JStr (lc_model c))) (\<lambda>model.
              ebind (py_get (hr_json r) ''usage'' (JObj [])) (\<lambda>usage.
                Inr \<lparr>lr_content = content, lr_model = model, lr_usage = usage\<rparr>)))))))"

definition call_openai ::
  "(string \<Rightarrow> jdict \<Rightarrow> exn + http_reply) \<Rightarrow> llm_client \<Rightarrow> string \<Rightarrow> string \<Rightarrow> int \<Rightarrow> json \<Rightarrow> exn + llm_response" where
  "call_openai post c prompt system max_tokens temperature =
     (let messages = (if system = [] then [] else [JObj [(''role'', JStr ''system''), (''content'', JStr system)]]) @
            [JObj [(''role'', JStr ''user''), (''content'', JStr prompt)]];
          body = [(''model'', JStr (lc_model c)), (''messages'', JArr messages), (''max_tokens'', JInt max_tokens),
            (''temperature'', temperature)]
      in ebind (post (base_or c ''https://api.openai.com'' @ ''/v1/chat/completions'') body) (\<lambda>r.
         if hr_status r \<noteq> 200
         then Inl (RuntimeError (''OpenAI API error '' @ show_int (hr_status r) @ '': '' @ hr_text r))
         else ebind (py_key ''choices'' (hr_json r)) (\<lambda>choices.
              ebind (py_first choices) (\<lambda>choice.
              ebind (py_key ''message'' choice) (\<lambda>message.
              ebind (py_key ''content'' message) (\<lambda>content.
              ebind (py_get (hr_json r) ''model'' (JStr (lc_model c))) (\<lambda>model.
              ebind (py_get (hr_json r) ''usage'' (JObj [])) (\<lambda>usage.
                Inr \<lparr>lr_content = content, lr_model = model, lr_usage = usage\<rparr>))))))))"

definition call_ollama ::
  "(string \<Rightarrow> jdict \<Rightarrow> exn + http_reply) \<Rightarrow> llm_client \<Rightarrow> string \<Rightarrow> string \<Rightarrow> int \<Rightarrow> json \<Rightarrow> exn + llm_response" where
  "call_ollama post c prompt system max_tokens temperature =
     (let body = [(''model'', JStr (lc_model c)), (''prompt'', JStr prompt), (''stream'', JBool False),
            (''options'', JObj [(''temperature'', temperature), (''num_predict'', JInt max_tokens)])] @
            (if system = [] then [] else [(''system'', JStr system)])
      in ebind (post (base_or c ''http://localhost:11434'' @ ''/api/generate'') body) (\<lambda>r.
         if hr_status r \<noteq> 200
         then Inl (RuntimeError (''Ollama API error '' @ show_int (hr_status r) @ '': '' @ hr_text r))
         else ebind (py_get (hr_json r) ''response'' (JStr [])) (\<lambda>content.
              ebind (py_get (hr_json r) ''model'' (JStr (lc_model c))) (\<lambda>model.
              ebind (py_get (hr_json r) ''prompt_eval_count'' (JInt 0)) (\<lambda>p.
              ebind (py_get (hr_json r) ''eval_count'' (JInt 0)) (\<lambda>e.
                Inr \<lparr>lr_content = content, lr_model = model,
                      lr_usage = JObj [(''prompt_tokens'', p), (''completion_tokens'', e)]\<rparr>))))))"

definition call_provider ::
  "(string \<Rightarrow> jdict \<Rightarrow> exn + http_reply) \<Rightarrow> llm_client \<Rightarrow> string \<Rightarrow> string \<Rightarrow> int \<Rightarrow> json \<Rightarrow> exn + llm_response" where
  "call_provider post c prompt system max_tokens temperature =
     (if lc_provider c = ''anthropic'' then call_anthropic post c prompt system max_tokens temperature
      else if lc_provider c = ''openai'' then call_openai post c prompt system max_tokens temperature
      else if lc_provider c = ''ollama'' then call_ollama post c prompt system max_tokens temperature
      else Inl (ValueError (''Unknown LLM provider: '' @ lc_provider c)))"

section \<open>Prompts\<close>

datatype prompt =
    SummarizePrompt jdict
  | TriagePrompt jdict
  | PlaybookPrompt string
  | AutoResolvePrompt "jdict list"
  | CorrelationPrompt "jdict list"
  | RecommendationPrompt jdict "jdict list" "jdict list"

text \<open>A Python float: a rational stands for the finite ones, whose rounding is left out.\<close>

datatype pyfloat = Finite rat | PlusInf | MinusInf | NaN

record ai_env = call_env +
  ai_client :: "llm_client option"
  ai_complete :: "prompt \<Rightarrow> exn + llm_response"
  ai_loads :: "string \<Rightarrow> json option"
  ai_float :: "string \<Rightarrow> pyfloat option"
  ai_unit :: "pyfloat \<Rightarrow> bool"

type_synonym 'r asked = "(exn + 'r) \<times> prompt list"

definition str_or_null :: "string option \<Rightarrow> json" where
  "str_or_null s = (case s of None \<Rightarrow> JNull | Some t \<Rightarrow> JStr t)"

definition tags_or_null :: "string list option \<Rightarrow> json" where
  "tags_or_null ts = (case ts of None \<Rightarrow> JNull | Some xs \<Rightarrow> JArr (map JStr xs))"

definition dict_or_null :: "jdict option \<Rightarrow> json" where
  "dict_or_null x = (case x of None \<Rightarrow> JNull | Some d \<Rightarrow> JObj d)"

definition alert_fields :: "alert \<Rightarrow> (string \<times> json) list" where
  "alert_fields a = [(''id'', JStr (uuid_str (al_id a))), (''title'', JStr (al_title a)), (''severity'', JStr (al_severity a)),
     (''status'', JStr (al_status a)), (''determination'', JStr (al_determination a)),
     (''description'', str_or_null (al_description a)), (''source_ip'', str_or_null (al_source_ip a)),
     (''dest_ip'', str_or_null (al_dest_ip a)), (''hostname'', str_or_null (al_hostname a)), (''rule_name'', str_or_null (al_rule_name a)),
     (''iocs'', dict_or_null (al_iocs a)), (''tags'', tags_or_null (al_tags a)), (''source'', JStr (al_source a)),
     (''raw_payload'', JObj (al_raw_payload a))]"

text \<open>The dictionaries the endpoints build: chosen fields in the order written.\<close>

definition pick :: "string list \<Rightarrow> alert \<Rightarrow> jdict" where
  "pick ks a = map (\<lambda>k. (k, dget (alert_fields a) k)) ks"

definition not_configured :: exn where
  "not_configured = HTTPException 503 ''AI features not configured.''"

definition ask :: "('x) ai_env_scheme \<Rightarrow> prompt \<Rightarrow> (llm_response \<Rightarrow> exn + 'r) \<Rightarrow> 'r asked" where
  "ask env p k = (ebind (ai_complete env p) k, [p])"

definition ai_alert :: "('x) ai_env_scheme \<Rightarrow> string \<Rightarrow> string \<Rightarrow> db \<Rightarrow> exn + alert" where
  "ai_alert env action raw d =
     ebind (guard (ai_client env \<noteq> None) not_configured) (\<lambda>_.
     ebind (parse_uuid raw) (\<lambda>i. load_alert (call_env.truncate env) action i d))"

text \<open>\<open>json.loads\<close> of an answer that may not be a text; \<open>None\<close> is a \<open>JSONDecodeError\<close>.\<close>

definition loads_content :: "('x) ai_env_scheme \<Rightarrow> json \<Rightarrow> exn + json option" where
  "loads_content env v = (case v of JStr s \<Rightarrow> Inr (ai_loads env s) | _ \<Rightarrow> Inl (TypeError ''JSON object''))"

definition text_strip :: "json \<Rightarrow> exn + string" where
  "text_strip v = (case v of JStr s \<Rightarrow> Inr (strip s) | _ \<Rightarrow> Inl (AttributeError ''strip''))"

definition summarize_alert :: "('x) ai_env_scheme \<Rightarrow> string \<Rightarrow> db \<Rightarrow> (json \<times> json \<times> json) asked" where
  "summarize_alert env raw d =
     (case ebind (require_analyst (ev_user env)) (\<lambda>_. ai_alert env ''ai_summarize'' raw d) of
        Inl e \<Rightarrow> (Inl e, [])
      | Inr a \<Rightarrow> ask env (SummarizePrompt (pick [''title'', ''severity'', ''description'', ''source_ip'', ''dest_ip'', ''hostname'',
            ''rule_name'', ''iocs'', ''tags'', ''source''] a)) (\<lambda>r. Inr (lr_content r, lr_model r, lr_usage r)))"

definition triage_of :: "json option \<Rightarrow> json \<Rightarrow> exn + jdict" where
  "triage_of parsed content =
     (let triage = (case parsed of
            None \<Rightarrow> JObj [(''severity'', JStr ''unknown''), (''determination'', JStr ''unknown''),
              (''confidence'', JFloat ''0.0''), (''reasoning'', content)]
          | Some v \<Rightarrow> v)
      in ebind (py_get triage ''severity'' (JStr ''unknown'')) (\<lambda>sev.
         ebind (py_get triage ''determination'' (JStr ''unknown'')) (\<lambda>det.
         ebind (py_get triage ''confidence'' (JFloat ''0.0'')) (\<lambda>conf.
         ebind (py_get triage ''reasoning'' (JStr [])) (\<lambda>why.
           Inr [(''severity'', sev), (''determination'', det), (''confidence'', conf), (''reasoning'', why)])))))"

definition triage_alert :: "('x) ai_env_scheme \<Rightarrow> string \<Rightarrow> db \<Rightarrow> jdict asked" where
  "triage_alert env raw d =
     (case ebind (require_analyst (ev_user env)) (\<lambda>_. ai_alert env ''ai_triage'' raw d) of
        Inl e \<Rightarrow> (Inl e, [])
      | Inr a \<Rightarrow> ask env (TriagePrompt (pick [''title'', ''severity'', ''status'', ''description'', ''source_ip'', ''dest_ip'',
            ''hostname'', ''rule_name'', ''iocs'', ''tags'', ''source'', ''raw_payload''] a))
          (\<lambda>r. ebind (loads_content env (lr_content r)) (\<lambda>parsed.
             ebind (triage_of parsed (lr_content r)) (\<lambda>t.
             Inr (t @ [(''model'', lr_model r), (''usage'', lr_usage r)])))))"

definition fence :: string where
  "fence = [CHR 0x60, CHR 0x60, CHR 0x60]"

definition endswith :: "string \<Rightarrow> string \<Rightarrow> bool" where
  "endswith s p = suffix p s"

definition strip_fences :: "string \<Rightarrow> string" where
  "strip_fences code1 =
     (let code2 = (if startswith code1 (fence @ ''python'') then strip (drop (length (fence @ ''python'')) code1) else code1);
          code3 = (if startswith code2 fence then strip (drop 3 code2) else code2)
      in if endswith code3 fence then strip (take (length code3 - 3) code3) else code3)"

definition generate_playbook :: "('x) ai_env_scheme \<Rightarrow> string \<Rightarrow> (string \<times> json \<times> json) asked" where
  "generate_playbook env description =
     (case ebind (require_analyst (ev_user env)) (\<lambda>_. guard (ai_client env \<noteq> None) not_configured) of
        Inl e \<Rightarrow> (Inl e, [])
      | Inr _ \<Rightarrow> ask env (PlaybookPrompt description) (\<lambda>r. ebind (text_strip (lr_content r)) (\<lambda>code.
          Inr (strip_fences code, lr_model r, lr_usage r))))"

text \<open>The alerts among the identifiers that exist and that the validators admit; refused ones are skipped.\<close>

fun collect_alerts :: "('x) ai_env_scheme \<Rightarrow> string \<Rightarrow> string list \<Rightarrow> string list \<Rightarrow> db \<Rightarrow> exn + jdict list" where
  "collect_alerts env action ks [] d = Inr []"
| "collect_alerts env action ks (raw # raws) d =
     ebind (parse_uuid raw) (\<lambda>i.
     ebind (fetch (\<lambda>a. al_id a = i) (db_alerts d)) (\<lambda>found.
     case found of
       None \<Rightarrow> collect_alerts env action ks raws d
     | Some a \<Rightarrow>
         (case enforce (call_env.truncate env) (RAlert a) ''alert'' action of
            Inl e \<Rightarrow> (if is_HTTPException e then collect_alerts env action ks raws d else Inl e)
          | Inr _ \<Rightarrow> ebind (collect_alerts env action ks raws d) (\<lambda>rest. Inr (pick ks a # rest)))))"

definition resolve_fields :: "string list" where
  "resolve_fields = [''id'', ''title'', ''severity'', ''source_ip'', ''hostname'', ''rule_name'', ''tags'', ''description'']"

definition correlate_fields :: "string list" where
  "correlate_fields = [''id'', ''title'', ''severity'', ''source_ip'', ''dest_ip'', ''hostname'', ''rule_name'', ''tags'']"

definition as_index :: "json \<Rightarrow> int option" where
  "as_index v = (case v of JInt i \<Rightarrow> Some i | JBool b \<Rightarrow> Some (if b then 1 else 0) | _ \<Rightarrow> None)"

definition attach_alert :: "jdict list \<Rightarrow> json \<Rightarrow> json" where
  "attach_alert alerts r = (case r of
      JObj m \<Rightarrow>
        (case as_index (dget_default m ''alert_index'' (JInt 0)) of
           Some i \<Rightarrow> (if 0 \<le> i \<and> i < int (length alerts)
                     then JObj (AList.update ''alert_id'' (dget (alerts ! nat i) ''id'') m) else r)
         | None \<Rightarrow> r)
    | _ \<Rightarrow> r)"

definition parse_failed :: "nat \<Rightarrow> json" where
  "parse_failed i = JObj [(''alert_index'', JInt (int i)), (''should_resolve'', JBool False), (''confidence'', JFloat ''0.0''),
     (''reasoning'', JStr ''Failed to parse LLM response'')]"

definition resolve_results :: "json option \<Rightarrow> nat \<Rightarrow> json" where
  "resolve_results parsed n = (case parsed of
      None \<Rightarrow> JArr (map parse_failed [0..<n])
    | Some (JArr xs) \<Rightarrow> JArr xs
    | Some (JObj m) \<Rightarrow> (if map_of m ''results'' \<noteq> None then dget m ''results'' else JArr [JObj m])
    | Some _ \<Rightarrow> JArr [])"

text \<open>Only a list has results to annotate; iterating a text or a dictionary annotates nothing, anything else is
  a \<open>TypeError\<close>.\<close>

definition annotate :: "jdict list \<Rightarrow> json \<Rightarrow> exn + json" where
  "annotate alerts v = (case v of
      JArr xs \<Rightarrow> Inr (JArr (map (attach_alert alerts) xs))
    | JStr s \<Rightarrow> Inr v
    | JObj m \<Rightarrow> Inr v
    | _ \<Rightarrow> Inl (TypeError ''not iterable''))"

definition auto_resolve :: "('x) ai_env_scheme \<Rightarrow> string list \<Rightarrow> db \<Rightarrow> jdict asked" where
  "auto_resolve env raws d =
     (case ebind (require_analyst (ev_user env)) (\<lambda>_.
           ebind (guard (ai_client env \<noteq> None) not_configured) (\<lambda>_. collect_alerts env ''ai_auto_resolve'' resolve_fields raws d)) of
        Inl e \<Rightarrow> (Inl e, [])
      | Inr alerts \<Rightarrow>
          (if alerts = [] then (Inr [(''results'', JArr [])], [])
           else ask env (AutoResolvePrompt alerts) (\<lambda>r.
             ebind (loads_content env (lr_content r)) (\<lambda>parsed.
             ebind (annotate alerts (resolve_results parsed (length alerts))) (\<lambda>results.
               Inr [(''results'', results), (''model'', lr_model r)])))))"

definition correlate_alerts :: "('x) ai_env_scheme \<Rightarrow> string list \<Rightarrow> db \<Rightarrow> jdict asked" where
  "correlate_alerts env raws d =
     (case ebind (require_analyst (ev_user env)) (\<lambda>_.
           ebind (guard (ai_client env \<noteq> None) not_configured) (\<lambda>_. collect_alerts env ''ai_correlate'' correlate_fields raws d)) of
        Inl e \<Rightarrow> (Inl e, [])
      | Inr alerts \<Rightarrow>
          (if length alerts < 2 then (Inr [(''groups'', JArr [])], [])
           else ask env (CorrelationPrompt alerts) (\<lambda>r.
             ebind (loads_content env (lr_content r)) (\<lambda>parsed.
             ebind (py_get (case parsed of None \<Rightarrow> JObj [(''groups'', JArr [])] | Some v \<Rightarrow> v) ''groups'' (JArr []))
               (\<lambda>groups. Inr [(''groups'', groups), (''model'', lr_model r)])))))"

section \<open>Recommendations\<close>

definition allowed_actions :: "string list" where
  "allowed_actions = [''isolate'', ''block'', ''enrich'', ''escalate'', ''resolve'']"

text \<open>\<open>float(raw)\<close>: an integer that rounds to \<open>2 ^ 1024\<close> or more is an \<open>OverflowError\<close>.\<close>

definition to_float :: "(string \<Rightarrow> pyfloat option) \<Rightarrow> json \<Rightarrow> exn + pyfloat" where
  "to_float read v = (case v of
      JInt i \<Rightarrow> (if \<bar>i\<bar> < 2 ^ 1024 - 2 ^ 970 then Inr (Finite (of_int i)) else Inl (OtherError ''OverflowError''))
    | JBool b \<Rightarrow> Inr (Finite (if b then 1 else 0))
    | JFloat s \<Rightarrow> (case read s of Some x \<Rightarrow> Inr x | None \<Rightarrow> Inl (ValueError ''float''))
    | JStr s \<Rightarrow> (case read s of Some x \<Rightarrow> Inr x | None \<Rightarrow> Inl (ValueError ''float''))
    | _ \<Rightarrow> Inl (TypeError ''float''))"

definition clamp_confidence :: "pyfloat \<Rightarrow> pyfloat" where
  "clamp_confidence v = (case v of
      Finite x \<Rightarrow> (let y = (if 2 < x \<and> x \<le> 100 then x / 100 else x)
                  in if y < 0 then Finite 0 else if 1 < y then Finite 1 else Finite y)
    | PlusInf \<Rightarrow> Finite 1
    | MinusInf \<Rightarrow> Finite 0
    | NaN \<Rightarrow> NaN)"

definition normalize_confidence :: "(string \<Rightarrow> pyfloat option) \<Rightarrow> json \<Rightarrow> exn + pyfloat" where
  "normalize_confidence read raw =
     (case to_float read raw of
        Inr v \<Rightarrow> Inr (clamp_confidence v)
      | Inl (TypeError m) \<Rightarrow> Inr (Finite 0)
      | Inl (ValueError m) \<Rightarrow> Inr (Finite 0)
      | Inl e \<Rightarrow> Inl e)"

record recommendation =
  rc_action :: string
  rc_confidence :: pyfloat
  rc_reasoning :: string

text \<open>The response model; whether pydantic admits a confidence that is no finite number is a parameter.\<close>

definition build_recommendation :: "('x) ai_env_scheme \<Rightarrow> string \<Rightarrow> pyfloat \<Rightarrow> string \<Rightarrow> exn + recommendation" where
  "build_recommendation env act conf why =
     ebind (guard (act \<in> set allowed_actions) (OtherError ''ValidationError'')) (\<lambda>_.
     ebind (guard (case conf of Finite x \<Rightarrow> 0 \<le> x \<and> x \<le> 1 | _ \<Rightarrow> ai_unit env conf) (OtherError ''ValidationError'')) (\<lambda>_.
       Inr \<lparr>rc_action = act, rc_confidence = conf, rc_reasoning = why\<rparr>))"

definition observable_context :: "observable \<Rightarrow> jdict" where
  "observable_context ob =
     [(''type'', JStr (ob_type ob)), (''value'', JStr (ob_value ob)), (''source'', str_or_null (ob_source ob)),
      (''enrichment_status'', JStr (ob_enrichment_status ob)), (''enrichments'', JArr (map JObj (ob_enrichments ob))),
      (''tags'', JArr (case ob_tags ob of None \<Rightarrow> [] | Some ts \<Rightarrow> map JStr ts))]"

definition similar_fields :: "string list" where
  "similar_fields = [''id'', ''title'', ''severity'', ''status'', ''determination'', ''rule_name'']"

definition recommend_fields :: "string list" where
  "recommend_fields = [''title'', ''severity'', ''status'', ''description'', ''source_ip'', ''dest_ip'', ''hostname'',
     ''rule_name'', ''iocs'', ''tags'', ''source'']"

definition linked_observables :: "('x) ai_env_scheme \<Rightarrow> uuid \<Rightarrow> db \<Rightarrow> exn + observable list" where
  "linked_observables env i d =
     ebind (scoped_query (call_env.truncate env)
         (\<lambda>r. case r of RObservable ob \<Rightarrow> ob_alert_id ob = Some i | _ \<Rightarrow> False) ''observable'' ''list'') (\<lambda>q.
       Inr (filter (\<lambda>ob. q (RObservable ob)) (db_observables d)))"

definition similar_alerts :: "('x) ai_env_scheme \<Rightarrow> alert \<Rightarrow> db \<Rightarrow> exn + alert list" where
  "similar_alerts env a d =
     (if \<not> truthy_str (al_source_ip a) then Inr []
      else ebind (scoped_query (call_env.truncate env)
             (\<lambda>r. case r of RAlert b \<Rightarrow> al_source_ip b = al_source_ip a \<and> al_id b \<noteq> al_id a | _ \<Rightarrow> False)
             ''alert'' ''ai_recommend_similar'') (\<lambda>q.
             Inr (take 5 (newest_first al_created_at (select_alerts q d)))))"

definition strip_ticks :: "string \<Rightarrow> string" where
  "strip_ticks s = rev (dropWhile (\<lambda>c. c = CHR 0x60) (rev (dropWhile (\<lambda>c. c = CHR 0x60) s)))"

definition unfence :: "string \<Rightarrow> string" where
  "unfence c0 =
     (if startswith c0 fence
      then let c1 = strip_ticks c0 in if startswith c1 ''json'' then strip (drop 4 c1) else c1
      else c0)"

definition is_allowed :: "json \<Rightarrow> bool" where
  "is_allowed v = (case v of JStr s \<Rightarrow> s \<in> set allowed_actions | _ \<Rightarrow> False)"

definition field_of :: "json \<Rightarrow> string \<Rightarrow> json \<Rightarrow> json" where
  "field_of v k dflt = (case v of JObj m \<Rightarrow> dget_default m k dflt | _ \<Rightarrow> dflt)"

definition no_reasoning :: string where
  "no_reasoning = ''No reasoning provided by the model.''"

definition recommendation_of :: "('x) ai_env_scheme \<Rightarrow> json \<Rightarrow> exn + recommendation" where
  "recommendation_of env parsed =
     (let raw_action = field_of parsed ''action'' JNull
      in ebind (guard (hashable raw_action) (TypeError ''unhashable type'')) (\<lambda>_.
         let act = (if is_allowed raw_action then py_str raw_action else ''escalate'')
         in ebind (normalize_confidence (ai_float env) (field_of parsed ''confidence'' (JFloat ''0.0''))) (\<lambda>conf.
            let said = strip (py_str (field_of parsed ''reasoning'' (JStr [])));
                why = (if said = [] then no_reasoning else said)
            in build_recommendation env act conf
                 (if is_allowed raw_action then why
                  else ''Model returned unsupported action '' @ [CHR 0x27] @ py_str raw_action @ [CHR 0x27] @
                       ''; defaulting to escalate. '' @ why))))"

definition read_recommendation :: "('x) ai_env_scheme \<Rightarrow> llm_response \<Rightarrow> exn + recommendation" where
  "read_recommendation env r =
     ebind (if truthy (lr_content r) then text_strip (lr_content r) else Inr []) (\<lambda>content.
       case ai_loads env (unfence content) of
         None \<Rightarrow> ebind (py_take 500 (lr_content r)) (\<lambda>s.
           build_recommendation env ''escalate'' (Finite 0) (''Could not parse LLM response: '' @ py_str s))
       | Some parsed \<Rightarrow> recommendation_of env parsed)"

definition recommend_context :: "('x) ai_env_scheme \<Rightarrow> string \<Rightarrow> db \<Rightarrow> exn + (alert \<times> observable list \<times> alert list)" where
  "recommend_context env raw d =
     ebind (require_permission AI_USE (ev_user env)) (\<lambda>an.
     ebind (guard (ai_client env \<noteq> None) not_configured) (\<lambda>_.
     ebind (case parse_uuid raw of Inr i \<Rightarrow> Inr i | Inl e \<Rightarrow> Inl (HTTPException 400 ''Invalid alert_id'')) (\<lambda>i.
     ebind (load_alert (call_env.truncate env) ''ai_recommend'' i d) (\<lambda>a.
     ebind (linked_observables env i d) (\<lambda>obs.
     ebind (similar_alerts env a d) (\<lambda>sims. Inr (a, obs, sims)))))))"

definition recommend_action :: "('x) ai_env_scheme \<Rightarrow> string \<Rightarrow> db \<Rightarrow> recommendation asked" where
  "recommend_action env raw d =
     (case recommend_context env raw d of
        Inl e \<Rightarrow> (Inl e, [])
      | Inr (a, obs, sims) \<Rightarrow>
          ask env (RecommendationPrompt (pick recommend_fields a) (map observable_context obs) (map (pick similar_fields) sims))
            (read_recommendation env))"

section \<open>What reaches the model\<close>

definition admits :: "('x) ai_env_scheme \<Rightarrow> string \<Rightarrow> db \<Rightarrow> alert \<Rightarrow> bool" where
  "admits env action d a \<longleftrightarrow> a \<in> set (db_alerts d) \<and> enforce (call_env.truncate env) (RAlert a) ''alert'' action = Inr ()"

lemma sole_row: "filter p rows = [a] \<Longrightarrow> a \<in> set rows \<and> p a"
  by (metis filter_eq_Cons_iff in_set_conv_decomp)

lemma fetch_row: "fetch p rows = Inr (Some a) \<Longrightarrow> a \<in> set rows \<and> p a"
  by (auto simp: fetch_def res_simps dest: sole_row)

lemma load_alert_admits:
  "load_alert (call_env.truncate env) action i d = Inr a \<Longrightarrow> admits env action d a \<and> al_id a = i"
  by (auto simp: load_alert_def admits_def res_simps dest: sole_row)

lemma ai_alert_admits:
  "ai_alert env action raw d = Inr a \<Longrightarrow> admits env action d a \<and> parse_uuid raw = Inr (al_id a) \<and> ai_client env \<noteq> None"
  by (auto simp: ai_alert_def res_simps dest: load_alert_admits split: if_splits)

lemma collect_alerts_admits:
  "collect_alerts env action ks raws d = Inr rows \<Longrightarrow>
     \<exists>as. rows = map (pick ks) as \<and> (\<forall>a\<in>set as. admits env action d a \<and> Inr (al_id a) \<in> parse_uuid ` set raws)"
proof (induction raws arbitrary: rows)
  case Nil
  then show ?case by simp
next
  case (Cons raw raws)
  from Cons.prems obtain i found where i: "parse_uuid raw = Inr i"
    and f: "fetch (\<lambda>a. al_id a = i) (db_alerts d) = Inr found"
    by (auto simp: res_simps)
  consider (skip) "collect_alerts env action ks raws d = Inr rows"
    | (keep) a rest where "found = Some a" "enforce (call_env.truncate env) (RAlert a) ''alert'' action = Inr ()"
        "collect_alerts env action ks raws d = Inr rest" "rows = pick ks a # rest"
    using Cons.prems i f by (auto simp: res_simps split: option.splits sum.splits if_splits)
  then show ?case
  proof cases
    case skip
    then show ?thesis using Cons.IH by fastforce
  next
    case keep
    from Cons.IH[OF keep(3)] obtain as where as: "rest = map (pick ks) as"
      "\<forall>a\<in>set as. admits env action d a \<and> Inr (al_id a) \<in> parse_uuid ` set raws" by blast
    have "admits env action d a" "al_id a = i"
      using f keep(1,2) by (auto simp: admits_def dest: fetch_row)
    then show ?thesis using as keep(4) i by (intro exI[of _ "a # as"]) auto
  qed
qed

lemma snd_ask [simp]: "snd (ask env p k) = [p]"
  by (simp add: ask_def)

lemma fst_ask [simp]: "fst (ask env p k) = ebind (ai_complete env p) k"
  by (simp add: ask_def)

definition asked_only :: "('x) ai_env_scheme \<Rightarrow> string \<Rightarrow> db \<Rightarrow> string list \<Rightarrow> (alert list \<Rightarrow> prompt) \<Rightarrow> prompt list \<Rightarrow> bool" where
  "asked_only env action d raws mk ps \<longleftrightarrow>
     ps = [] \<or>
     (\<exists>as an. ps = [mk as] \<and> as \<noteq> [] \<and> require_analyst (ev_user env) = Inr an \<and> ai_client env \<noteq> None \<and>
        (\<forall>a\<in>set as. admits env action d a \<and> Inr (al_id a) \<in> parse_uuid ` set raws))"

text \<open>C14: What an analyst endpoint sends to the model is at most one prompt, only for an authenticated analyst
  and a configured model, and every alert in it was named in the request, exists and is one the tenant
  validators let this analyst see: what they refuse never reaches the prompt.\<close>

theorem ai_prompts_confined:
  "asked_only env ''ai_summarize'' d [raw] (\<lambda>as. SummarizePrompt (pick [''title'', ''severity'', ''description'',
       ''source_ip'', ''dest_ip'', ''hostname'', ''rule_name'', ''iocs'', ''tags'', ''source''] (hd as)))
       (snd (summarize_alert env raw d)) \<and>
   asked_only env ''ai_triage'' d [raw] (\<lambda>as. TriagePrompt (pick [''title'', ''severity'', ''status'', ''description'',
       ''source_ip'', ''dest_ip'', ''hostname'', ''rule_name'', ''iocs'', ''tags'', ''source'', ''raw_payload''] (hd as)))
       (snd (triage_alert env raw d)) \<and>
   asked_only env ''ai_auto_resolve'' d raws (\<lambda>as. AutoResolvePrompt (map (pick resolve_fields) as))
       (snd (auto_resolve env raws d)) \<and>
   asked_only env ''ai_correlate'' d raws (\<lambda>as. CorrelationPrompt (map (pick correlate_fields) as))
       (snd (correlate_alerts env raws d))"
proof (intro conjI)
  have one: "asked_only env action d [raw] (\<lambda>as. mk (hd as)) [mk a]"
    if "ebind (require_analyst (ev_user env)) (\<lambda>_. ai_alert env action raw d) = Inr a" for action mk a
  proof -
    from that obtain an where "require_analyst (ev_user env) = Inr an" "ai_alert env action raw d = Inr a"
      by (auto simp: res_simps)
    then show ?thesis
      unfolding asked_only_def by (intro disjI2 exI[of _ "[a]"] exI[of _ an]) (auto dest: ai_alert_admits)
  qed
  show "asked_only env ''ai_summarize'' d [raw] (\<lambda>as. SummarizePrompt (pick [''title'', ''severity'', ''description'',
       ''source_ip'', ''dest_ip'', ''hostname'', ''rule_name'', ''iocs'', ''tags'', ''source''] (hd as)))
       (snd (summarize_alert env raw d))"
    by (auto simp: summarize_alert_def asked_only_def[of _ _ _ _ _ "[]"] split: sum.split intro!: one)
  show "asked_only env ''ai_triage'' d [raw] (\<lambda>as. TriagePrompt (pick [''title'', ''severity'', ''status'', ''description'',
       ''source_ip'', ''dest_ip'', ''hostname'', ''rule_name'', ''iocs'', ''tags'', ''source'', ''raw_payload''] (hd as)))
       (snd (triage_alert env raw d))"
    by (auto simp: triage_alert_def asked_only_def[of _ _ _ _ _ "[]"] split: sum.split intro!: one)
  have many: "asked_only env action d raws (\<lambda>as. mk (map (pick ks) as)) [mk rows]"
    if "ebind (require_analyst (ev_user env)) (\<lambda>_. ebind (guard (ai_client env \<noteq> None) not_configured)
          (\<lambda>_. collect_alerts env action ks raws d)) = Inr rows" and "rows \<noteq> []" for action ks rows mk
  proof -
    from that obtain an where "require_analyst (ev_user env) = Inr an" "ai_client env \<noteq> None"
      and c: "collect_alerts env action ks raws d = Inr rows"
      by (auto simp: res_simps split: if_splits)
    moreover from collect_alerts_admits[OF c] obtain as where "rows = map (pick ks) as"
      "\<forall>a\<in>set as. admits env action d a \<and> Inr (al_id a) \<in> parse_uuid ` set raws" by blast
    ultimately show ?thesis
      using that(2) unfolding asked_only_def by (intro disjI2 exI[of _ as] exI[of _ an]) auto
  qed
  show "asked_only env ''ai_auto_resolve'' d raws (\<lambda>as. AutoResolvePrompt (map (pick resolve_fields) as))
       (snd (auto_resolve env raws d))"
    using many[of _ _ _ AutoResolvePrompt]
    by (auto simp: auto_resolve_def asked_only_def[of _ _ _ _ _ "[]"] simp del: not_None_eq split: sum.split)
  show "asked_only env ''ai_correlate'' d raws (\<lambda>as. CorrelationPrompt (map (pick correlate_fields) as))
       (snd (correlate_alerts env raws d))"
    by (auto simp: correlate_alerts_def asked_only_def[of _ _ _ _ _ "[]"] simp del: not_None_eq split: sum.split
        intro!: many[of _ _ _ CorrelationPrompt])
qed


lemma recommend_context_cases:
  assumes "recommend_context env raw d = Inr (a, obs, sims)"
  shows "\<exists>an. ev_user env = Some an \<and> has_permission (an_role an) AI_USE" and "ai_client env \<noteq> None"
    and "parse_uuid raw = Inr (al_id a)" and "admits env ''ai_recommend'' d a"
    and "linked_observables env (al_id a) d = Inr obs" and "similar_alerts env a d = Inr sims"
proof -
  from assms obtain an i where an: "require_permission AI_USE (ev_user env) = Inr an" and c: "ai_client env \<noteq> None"
    and i: "(case parse_uuid raw of Inr i \<Rightarrow> Inr i | Inl e \<Rightarrow> Inl (HTTPException 400 ''Invalid alert_id'')) = Inr i"
    and l: "load_alert (call_env.truncate env) ''ai_recommend'' i d = Inr a"
    and o: "linked_observables env i d = Inr obs" and sm: "similar_alerts env a d = Inr sims"
    unfolding recommend_context_def by (auto simp: res_simps simp del: not_None_eq split: if_splits)
  have a: "admits env ''ai_recommend'' d a" "al_id a = i" using load_alert_admits[OF l] by auto
  show "\<exists>an. ev_user env = Some an \<and> has_permission (an_role an) AI_USE" using an by (auto simp: res_simps)
  show "ai_client env \<noteq> None" by (rule c)
  show "parse_uuid raw = Inr (al_id a)" using i a(2) by (auto split: sum.splits)
  show "admits env ''ai_recommend'' d a" by (rule a(1))
  show "linked_observables env (al_id a) d = Inr obs" using o a(2) by simp
  show "similar_alerts env a d = Inr sims" by (rule sm)
qed

text \<open>The validators restrict a kind of query by the predicate \<open>V\<close>.\<close>

definition restricts :: "('x) ai_env_scheme \<Rightarrow> string \<Rightarrow> string \<Rightarrow> (resource \<Rightarrow> bool) \<Rightarrow> bool" where
  "restricts env kind action V \<longleftrightarrow>
     (\<forall>q. scoped_query (call_env.truncate env) q kind action = Inr (\<lambda>r. q r \<and> V r))"

lemma linked_observables_eq: "restricts env ''observable'' ''list'' V \<Longrightarrow>
    linked_observables env i d =
      Inr (filter (\<lambda>ob. ob_alert_id ob = Some i \<and> V (RObservable ob)) (db_observables d))"
  by (simp add: linked_observables_def restricts_def)

lemma similar_alerts_eq: "restricts env ''alert'' ''ai_recommend_similar'' V \<Longrightarrow> truthy_str (al_source_ip a) \<Longrightarrow>
    similar_alerts env a d = Inr (take 5 (newest_first al_created_at
      (filter (\<lambda>b. al_source_ip b = al_source_ip a \<and> al_id b \<noteq> al_id a \<and> V (RAlert b)) (db_alerts d))))"
  by (simp add: similar_alerts_def restricts_def select_alerts_def conj_assoc)

text \<open>A recommendation costs one prompt, sent only for an analyst whose role may use the AI and for an alert the
  validators let it see. Beside the alert it carries the observables linked to it that the observable scope
  admits, and at most five other alerts, all with the same source address and inside the alert scope.\<close>

theorem recommend_prompt_confined:
  assumes scope: "restricts env ''observable'' ''list'' V" "restricts env ''alert'' ''ai_recommend_similar'' V"
    and sent: "p \<in> set (snd (recommend_action env raw d))"
  shows "\<exists>an a sims. snd (recommend_action env raw d) = [p] \<and> ev_user env = Some an \<and> has_permission (an_role an) AI_USE \<and>
    admits env ''ai_recommend'' d a \<and> parse_uuid raw = Inr (al_id a) \<and>
    p = RecommendationPrompt (pick recommend_fields a)
          (map observable_context
             (filter (\<lambda>ob. ob_alert_id ob = Some (al_id a) \<and> V (RObservable ob)) (db_observables d)))
          (map (pick similar_fields) sims) \<and>
    length sims \<le> 5 \<and>
    (\<forall>b\<in>set sims. b \<in> set (db_alerts d) \<and> al_source_ip b = al_source_ip a \<and> al_id b \<noteq> al_id a \<and> V (RAlert b))"
proof -
  from sent obtain a obs sims where ctx: "recommend_context env raw d = Inr (a, obs, sims)"
    and p: "p = RecommendationPrompt (pick recommend_fields a) (map observable_context obs) (map (pick similar_fields) sims)"
      "snd (recommend_action env raw d) = [p]"
    by (auto simp: recommend_action_def split: sum.splits prod.splits)
  note c = recommend_context_cases[OF ctx]
  have obs: "obs = filter (\<lambda>ob. ob_alert_id ob = Some (al_id a) \<and> V (RObservable ob)) (db_observables d)"
    using c(5) by (simp add: linked_observables_eq[OF scope(1)])
  have sims: "sims = [] \<or> (sims = take 5 (newest_first al_created_at
      (filter (\<lambda>b. al_source_ip b = al_source_ip a \<and> al_id b \<noteq> al_id a \<and> V (RAlert b)) (db_alerts d))))"
  proof (cases "truthy_str (al_source_ip a)")
    case True
    then show ?thesis using c(6) by (simp add: similar_alerts_eq[OF scope(2)])
  next
    case False
    then show ?thesis using c(6) by (simp add: similar_alerts_def)
  qed
  have "length sims \<le> 5" using sims by auto
  moreover have "\<forall>b\<in>set sims. b \<in> set (db_alerts d) \<and> al_source_ip b = al_source_ip a \<and> al_id b \<noteq> al_id a \<and> V (RAlert b)"
    using sims by (auto dest!: in_set_takeD)
  ultimately show ?thesis using c(1,3,4) p obs by blast
qed

section \<open>What comes back\<close>

definition unit_float :: "pyfloat \<Rightarrow> bool" where
  "unit_float v = (case v of Finite x \<Rightarrow> 0 \<le> x \<and> x \<le> 1 | _ \<Rightarrow> False)"

lemma clamp_unit: "v \<noteq> NaN \<Longrightarrow> unit_float (clamp_confidence v)"
  by (cases v) (auto simp: clamp_confidence_def unit_float_def Let_def)

lemma build_recommendation_eq:
  "build_recommendation env act conf why = Inr r \<longleftrightarrow>
     act \<in> set allowed_actions \<and> (unit_float conf \<or> (\<forall>x. conf \<noteq> Finite x) \<and> ai_unit env conf) \<and>
     r = \<lparr>rc_action = act, rc_confidence = conf, rc_reasoning = why\<rparr>"
  by (cases conf) (auto simp: build_recommendation_def unit_float_def res_simps split: if_splits)

lemma normalize_cases:
  "normalize_confidence read raw = Inr v \<Longrightarrow> unit_float v \<or> v = NaN \<and> to_float read raw = Inr NaN"
  by (auto simp: normalize_confidence_def unit_float_def clamp_confidence_def Let_def
      split: sum.splits exn.splits pyfloat.splits if_splits)

text \<open>Reading the confidence a model reports: a number from zero to one is itself, a percentage above two is
  divided by a hundred, anything else is clamped, what is not a number counts as zero, and the result is a number
  from zero to one except that a NaN stays a NaN and an integer too large for a float is an error.\<close>

theorem normalize_confidence_spec:
  "(case normalize_confidence read raw of
      Inr v \<Rightarrow> unit_float v \<or> v = NaN \<and> to_float read raw = Inr NaN
    | Inl e \<Rightarrow> e = OtherError ''OverflowError'' \<and> (\<exists>i. raw = JInt i \<and> 2 ^ 1024 - 2 ^ 970 \<le> \<bar>i\<bar>)) \<and>
   (0 \<le> i \<and> i \<le> 1 \<longrightarrow> normalize_confidence read (JInt i) = Inr (Finite (of_int i))) \<and>
   (2 < i \<and> i \<le> 100 \<longrightarrow> normalize_confidence read (JInt i) = Inr (Finite (of_int i / 100))) \<and>
   (read s = Some (Finite x) \<and> 0 \<le> x \<and> x \<le> 1 \<longrightarrow> normalize_confidence read (JFloat s) = Inr (Finite x)) \<and>
   (read s = Some (Finite x) \<and> 1 < x \<and> (x \<le> 2 \<or> 100 < x) \<longrightarrow> normalize_confidence read (JStr s) = Inr (Finite 1)) \<and>
   (read s = None \<longrightarrow> normalize_confidence read (JStr s) = Inr (Finite 0)) \<and>
   normalize_confidence read JNull = Inr (Finite 0) \<and> normalize_confidence read (JArr xs) = Inr (Finite 0)"
proof (intro conjI impI)
  show "case normalize_confidence read raw of
      Inr v \<Rightarrow> unit_float v \<or> v = NaN \<and> to_float read raw = Inr NaN
    | Inl e \<Rightarrow> e = OtherError ''OverflowError'' \<and> (\<exists>i. raw = JInt i \<and> 2 ^ 1024 - 2 ^ 970 \<le> \<bar>i\<bar>)"
  proof (cases "normalize_confidence read raw")
    case (Inr v)
    then show ?thesis using normalize_cases by simp
  next
    case (Inl e)
    then show ?thesis
      by (auto simp: normalize_confidence_def to_float_def split: sum.splits exn.splits json.splits option.splits if_splits)
  qed
qed (auto simp: normalize_confidence_def to_float_def clamp_confidence_def)

lemma recommendation_of_ok:
  "recommendation_of env parsed = Inr r \<Longrightarrow>
     rc_action r \<in> set allowed_actions \<and> (unit_float (rc_confidence r) \<or> rc_confidence r = NaN \<and> ai_unit env NaN) \<and>
     rc_reasoning r \<noteq> []"
  by (auto simp: recommendation_of_def Let_def ebind_guard ebind_eq_Inr build_recommendation_eq no_reasoning_def
      dest!: normalize_cases split: if_splits)

lemma recommendation_of_unsupported:
  "recommendation_of env parsed = Inr r \<Longrightarrow> \<not> is_allowed (field_of parsed ''action'' JNull) \<Longrightarrow>
     rc_action r = ''escalate'' \<and> prefix ''Model returned unsupported action '' (rc_reasoning r)"
  by (auto simp: recommendation_of_def Let_def ebind_guard ebind_eq_Inr build_recommendation_eq split: if_splits)


section \<open>Fenced code\<close>

lemma strip_ends:
  assumes "strip x = x" and "x \<noteq> []"
  shows "\<not> is_space (hd x)" and "\<not> is_space (last x)"
proof -
  obtain c cs where x: "x = c # cs" using assms(2) by (cases x) auto
  have short: "length (strip y) \<le> length (lstrip y)" for y
    using length_dropWhile_le[of is_space "rev (lstrip y)"] by (simp add: strip_def rstrip_def)
  show hd: "\<not> is_space (hd x)"
  proof
    assume "is_space (hd x)"
    then have "length (lstrip x) \<le> length cs" using length_dropWhile_le[of is_space cs] by (simp add: x lstrip_def)
    with short[of x] assms(1) x show False by simp
  qed
  obtain ds e where e: "x = ds @ [e]" using assms(2) by (cases x rule: rev_cases) auto
  have l: "lstrip x = x" using hd x by (simp add: lstrip_def)
  show "\<not> is_space (last x)"
  proof
    assume "is_space (last x)"
    then have "length (rstrip x) \<le> length ds"
      using length_dropWhile_le[of is_space "rev ds"] by (simp add: e rstrip_def)
    with l assms(1) e show False by (simp add: strip_def)
  qed
qed

lemma strip_solid: "x \<noteq> [] \<Longrightarrow> \<not> is_space (hd x) \<Longrightarrow> \<not> is_space (last x) \<Longrightarrow> strip x = x"
proof -
  assume x: "x \<noteq> []" and h: "\<not> is_space (hd x)" "\<not> is_space (last x)"
  have keep: "dropWhile is_space y = y" if "y \<noteq> []" "\<not> is_space (hd y)" for y
    using that by (cases y) auto
  show "strip x = x" using keep[of x] keep[of "rev x"] x h by (simp add: strip_def lstrip_def rstrip_def hd_rev)
qed

lemma strip_pad:
  assumes "list_all is_space pre" and "list_all is_space post" and "strip x = x"
  shows "strip (pre @ x @ post) = x"
proof -
  have "lstrip (pre @ y) = lstrip y" for y using assms(1) by (simp add: lstrip_def dropWhile_append2 list_all_iff)
  moreover have "rstrip (y @ post) = rstrip y" for y
    using assms(2) dropWhile_append2[of "rev post" is_space "rev y"] by (simp add: rstrip_def list_all_iff)
  moreover have "lstrip (x @ post) = x @ post" if "x \<noteq> []"
    using strip_ends(1)[OF assms(3) that] that by (cases x) (auto simp: lstrip_def)
  moreover have "rstrip x = x" if "x \<noteq> []"
    using strip_ends[OF assms(3) that] assms(3) that by (cases x) (auto simp: strip_def lstrip_def)
  moreover have "lstrip post = []" using assms(2) by (simp add: lstrip_def list_all_iff)
  then have "strip post = []" by (simp add: strip_def rstrip_def)
  ultimately show ?thesis by (cases "x = []") (simp_all add: strip_def)
qed

lemma tick_solid [simp]: "\<not> is_space (CHR 0x60)"
  by (simp add: is_space_def)

definition fenced :: "string \<Rightarrow> string" where
  "fenced src = fence @ ''python'' @ [CHR 0x0A] @ src @ [CHR 0x0A] @ fence"

lemma line_feed [simp]: "is_space (CHR 0x0A)"
  by (simp add: is_space_def)

lemma strip_fences_fenced:
  assumes "strip src = src" and "\<not> startswith src fence"
  shows "strip_fences (fenced src) = src"
proof (cases "src = []")
  case True
  show ?thesis unfolding True by code_simp
next
  case False
  note e = strip_ends[OF assms(1) False]
  have body: "strip ([CHR 0x0A] @ (src @ [CHR 0x0A] @ fence)) = src @ [CHR 0x0A] @ fence"
    using strip_pad[of "[CHR 0x0A]" "[]" "src @ [CHR 0x0A] @ fence"] strip_solid[of "src @ [CHR 0x0A] @ fence"] e False
    by (simp add: fence_def)
  have nofence: "\<not> startswith (src @ [CHR 0x0A] @ fence) fence"
    using assms(2) False by (cases src; cases "tl src"; cases "tl (tl src)") (auto simp: startswith_def fence_def)
  have tail: "take (length (src @ [CHR 0x0A] @ fence) - 3) (src @ [CHR 0x0A] @ fence) = src @ [CHR 0x0A]"
    by (simp add: fence_def)
  have last: "strip (src @ [CHR 0x0A]) = src" using strip_pad[of "[]" "[CHR 0x0A]" src] assms(1) by simp
  have start: "startswith (fenced src) (fence @ ''python'')"
    "drop (length (fence @ ''python'')) (fenced src) = [CHR 0x0A] @ (src @ [CHR 0x0A] @ fence)"
    by (simp_all add: fenced_def fence_def startswith_def)
  have ends: "endswith (src @ [CHR 0x0A] @ fence) fence" by (simp add: endswith_def suffix_def)
  show ?thesis
    unfolding strip_fences_def Let_def
    by (simp only: start body nofence ends tail last if_True if_False)
qed

text \<open>A generated playbook comes back as the code the model wrote: markdown fences around it, and white space around
  those, are taken off, and code without fences is returned as it is.\<close>

theorem generated_code_unfenced:
  assumes "require_analyst (ev_user env) = Inr an" and "ai_client env \<noteq> None"
    and "strip src = src" and "\<not> startswith src fence" and "\<not> endswith src fence"
    and "list_all is_space pre" and "list_all is_space post"
    and "ai_complete env (PlaybookPrompt description) = Inr r"
    and "lr_content r = JStr (pre @ body @ post)" and "body = fenced src \<or> body = src"
  shows "generate_playbook env description = (Inr (src, lr_model r, lr_usage r), [PlaybookPrompt description])"
proof -
  have solid: "strip (fenced src) = fenced src" by (intro strip_solid) (simp_all add: fenced_def fence_def)
  have body: "strip (pre @ body @ post) = body" using assms(3,6,7,10) solid by (intro strip_pad) auto
  have nopy: "\<not> startswith src (fence @ ''python'')"
    using assms(4) append_prefixD[of fence "''python''" src] by (auto simp: startswith_def)
  have "strip_fences src = src"
    using assms(4,5) nopy by (simp add: strip_fences_def Let_def)
  then have "strip_fences body = src" using assms(10) strip_fences_fenced[OF assms(3,4)] by auto
  then show ?thesis
    using assms(1,2,8,9) body by (simp add: generate_playbook_def ask_def text_strip_def guard_def)
qed

section \<open>Attribution of the verdicts\<close>

definition verdict_index :: "jdict \<Rightarrow> int option" where
  "verdict_index m = (case map_of m ''alert_index'' of None \<Rightarrow> Some 0 | Some v \<Rightarrow> as_index v)"

lemma attach_alert_obj:
  "attach_alert alerts (JObj m) = JObj (case verdict_index m of
      Some i \<Rightarrow> if 0 \<le> i \<and> i < int (length alerts) then AList.update ''alert_id'' (dget (alerts ! nat i) ''id'') m else m
    | None \<Rightarrow> m)"
  by (auto simp: attach_alert_def verdict_index_def dget_default_def as_index_def split: option.splits)

lemma picked_id: "dget (pick resolve_fields a) ''id'' = JStr (uuid_str (al_id a))"
  by (simp add: pick_def resolve_fields_def alert_fields_def dget_def dget_default_def)

text \<open>Every verdict of an automatic resolution that names a place in the prompt is labelled with the identifier of the alert
  at that place and otherwise left as the model wrote it; a verdict that names no place is labelled with the first
  alert. An answer that cannot be parsed resolves nothing: each alert gets one verdict, not to resolve it.\<close>

theorem auto_resolve_attribution:
  assumes "snd (auto_resolve env raws d) = [AutoResolvePrompt (map (pick resolve_fields) as)]"
    and "ai_complete env (AutoResolvePrompt (map (pick resolve_fields) as)) = Inr r" and "lr_content r = JStr t"
  shows "(\<forall>ms. ai_loads env t = Some (JArr (map JObj ms)) \<longrightarrow>
      (\<exists>ms'. fst (auto_resolve env raws d) = Inr [(''results'', JArr (map JObj ms')), (''model'', lr_model r)] \<and>
        length ms' = length ms \<and>
        (\<forall>j < length ms. (\<forall>k. k \<noteq> ''alert_id'' \<longrightarrow> map_of (ms' ! j) k = map_of (ms ! j) k) \<and>
          (\<forall>i. verdict_index (ms ! j) = Some (int i) \<and> i < length as \<longrightarrow>
             map_of (ms' ! j) ''alert_id'' = Some (JStr (uuid_str (al_id (as ! i)))))))) \<and>
    (ai_loads env t = None \<longrightarrow>
      (\<exists>ms'. fst (auto_resolve env raws d) = Inr [(''results'', JArr (map JObj ms')), (''model'', lr_model r)] \<and>
        length ms' = length as \<and>
        (\<forall>j < length as. map_of (ms' ! j) ''should_resolve'' = Some (JBool False) \<and>
           map_of (ms' ! j) ''alert_id'' = Some (JStr (uuid_str (al_id (as ! j)))))))"
proof (intro conjI allI impI)
  let ?rows = "map (pick resolve_fields) as"
  let ?lab = "\<lambda>m. case verdict_index m of
      Some i \<Rightarrow> if 0 \<le> i \<and> i < int (length ?rows) then AList.update ''alert_id'' (dget (?rows ! nat i) ''id'') m else m
    | None \<Rightarrow> m"
  have ann: "annotate ?rows (JArr (map JObj ms)) = Inr (JArr (map JObj (map ?lab ms)))" for ms
    by (simp add: annotate_def attach_alert_obj)
  have run: "fst (auto_resolve env raws d) = ebind (annotate ?rows (resolve_results (ai_loads env t) (length ?rows)))
      (\<lambda>results. Inr [(''results'', results), (''model'', lr_model r)])"
    using assms by (auto simp: auto_resolve_def loads_content_def split: sum.splits if_splits)
  {
    fix ms assume p: "ai_loads env t = Some (JArr (map JObj ms))"
    have "fst (auto_resolve env raws d) = Inr [(''results'', JArr (map JObj (map ?lab ms))), (''model'', lr_model r)]"
      unfolding run p resolve_results_def option.case json.case ann by simp
    then show "\<exists>ms'. fst (auto_resolve env raws d) = Inr [(''results'', JArr (map JObj ms')), (''model'', lr_model r)] \<and>
        length ms' = length ms \<and>
        (\<forall>j < length ms. (\<forall>k. k \<noteq> ''alert_id'' \<longrightarrow> map_of (ms' ! j) k = map_of (ms ! j) k) \<and>
          (\<forall>i. verdict_index (ms ! j) = Some (int i) \<and> i < length as \<longrightarrow>
             map_of (ms' ! j) ''alert_id'' = Some (JStr (uuid_str (al_id (as ! i))))))"
      by (intro exI[of _ "map ?lab ms"]) (auto simp: update_conv picked_id split: option.split)
  }
  {
    assume p: "ai_loads env t = None"
    let ?fail = "\<lambda>i. [(''alert_index'', JInt (int i)), (''should_resolve'', JBool False), (''confidence'', JFloat ''0.0''),
     (''reasoning'', JStr ''Failed to parse LLM response'')]"
    have obj: "map parse_failed [0..<n] = map JObj (map ?fail [0..<n])" for n by (simp add: parse_failed_def)
    have "fst (auto_resolve env raws d) =
        Inr [(''results'', JArr (map JObj (map ?lab (map ?fail [0..<length as])))), (''model'', lr_model r)]"
      unfolding run p resolve_results_def option.case obj ann by simp
    then show "\<exists>ms'. fst (auto_resolve env raws d) = Inr [(''results'', JArr (map JObj ms')), (''model'', lr_model r)] \<and>
        length ms' = length as \<and>
        (\<forall>j < length as. map_of (ms' ! j) ''should_resolve'' = Some (JBool False) \<and>
           map_of (ms' ! j) ''alert_id'' = Some (JStr (uuid_str (al_id (as ! j)))))"
      by (intro exI[of _ "map ?lab (map ?fail [0..<length as])"])
         (auto simp: update_conv picked_id verdict_index_def as_index_def)
  }
qed

section \<open>Witnesses\<close>

text \<open>Two tenants; the caller belongs to partner a.\<close>

definition partner_a :: "resource \<Rightarrow> bool" where
  "partner_a r = (case r of RAlert a \<Rightarrow> al_partner a = Some ''a'' | _ \<Rightarrow> True)"

definition partner_a_tenant :: tenant_validator where
  "partner_a_tenant =
     \<lparr>tv_enforce = (\<lambda>r kind action an. if partner_a r then None else Some (HTTPException 403 ''tenant'')),
      tv_query = (\<lambda>q kind action an. Inr (Some (\<lambda>r. q r \<and> partner_a r)))\<rparr>"

definition local_model :: "jdict \<Rightarrow> unit ai_env_scheme" where
  "local_model verdict =
     \<lparr>ev_app = no_plugins\<lparr>app_validators := Some [partner_a_tenant]\<rparr>, ev_now = 50, ev_user = Some ana,
      ai_client = get_llm_client \<lparr>ls_anthropic_api_key = None, ls_openai_api_key = None,
        ls_ollama_url = Some ''http://ollama'', ls_llm_model = None\<rparr>,
      ai_complete = (\<lambda>p. Inr \<lparr>lr_content = JStr (case p of PlaybookPrompt s \<Rightarrow> fenced ''x = 1'' | _ \<Rightarrow> ''answer''),
        lr_model = JStr ''llama3'', lr_usage = JObj []\<rparr>),
      ai_loads = (\<lambda>s. if s = ''answer'' then Some (JArr [JObj verdict]) else None), ai_float = (\<lambda>s. None), ai_unit = (\<lambda>v. False)\<rparr>"

definition shared_inbox :: db where
  "shared_inbox = empty_db\<lparr>db_next_id := 8, db_analysts := [ana],
     db_alerts := [(shared_alert 1 ''scan'' ''a'')\<lparr>al_source_ip := Some ''10.0.0.9''\<rparr>,
       (shared_alert 2 ''scan'' ''b'')\<lparr>al_source_ip := Some ''10.0.0.9''\<rparr>,
       (shared_alert 3 ''login'' ''a'')\<lparr>al_source_ip := Some ''10.0.0.9''\<rparr>]\<rparr>"

lemma local_model_scope: "restricts (local_model v) kind action partner_a"
  by (simp add: restricts_def scoped_query_def apply_tenant_access_query_def initialize_plugin_state_def set_missing_def
      local_model_def call_env.truncate_def no_plugins_def partner_a_tenant_def)

theorem recommend_prompt_confined_witness:
  "\<exists>obs sims. snd (recommend_action (local_model []) ''1'' shared_inbox) =
      [RecommendationPrompt (pick recommend_fields (hd (db_alerts shared_inbox))) obs (map (pick similar_fields) sims)] \<and>
    (\<forall>b\<in>set sims. al_id b \<noteq> 2)"
proof -
  let ?e = "local_model []"
  have "snd (recommend_action ?e ''1'' shared_inbox) \<noteq> []" by code_simp
  then obtain p where p: "p \<in> set (snd (recommend_action ?e ''1'' shared_inbox))"
    by (cases "snd (recommend_action ?e ''1'' shared_inbox)") auto
  from recommend_prompt_confined[OF local_model_scope local_model_scope p]
  obtain a sims where a: "snd (recommend_action ?e ''1'' shared_inbox) = [p]"
    "admits ?e ''ai_recommend'' shared_inbox a" "parse_uuid ''1'' = Inr (al_id a)"
    "\<exists>obs. p = RecommendationPrompt (pick recommend_fields a) obs (map (pick similar_fields) sims)"
    "\<forall>b\<in>set sims. b \<in> set (db_alerts shared_inbox) \<and> partner_a (RAlert b)" by blast
  have i: "parse_uuid ''1'' = Inr 1" by code_simp
  have rows: "\<forall>b \<in> set (db_alerts shared_inbox). (al_id b = 1 \<longrightarrow> b = hd (db_alerts shared_inbox)) \<and>
      (partner_a (RAlert b) \<longrightarrow> al_id b \<noteq> 2)"
    by (simp add: shared_inbox_def empty_db_def shared_alert_def partner_a_def)
  have "a = hd (db_alerts shared_inbox)" using a(2,3) i rows by (simp add: admits_def)
  then show ?thesis using a(1,4,5) rows by blast
qed


theorem generated_code_unfenced_witness:
  "fst (generate_playbook (local_model []) ''block the address'') = Inr (''x = 1'', JStr ''llama3'', JObj [])"
proof -
  have h: "require_analyst (ev_user (local_model [])) = Inr ana" "ai_client (local_model []) \<noteq> None"
    "strip ''x = 1'' = ''x = 1''" "\<not> startswith ''x = 1'' fence" "\<not> endswith ''x = 1'' fence"
    by code_simp+
  show ?thesis
    using generated_code_unfenced[OF h, of "[]" "[]" "''block the address''" _ "fenced ''x = 1''"]
    by (simp add: local_model_def)
qed

text \<open>The verdict names no place, so the first alert is labelled with it although the model was shown two.\<close>

theorem auto_resolve_attribution_witness:
  "\<exists>m. fst (auto_resolve (local_model [(''should_resolve'', JBool True)]) [''1'', ''2'', ''3''] shared_inbox) =
      Inr [(''results'', JArr [JObj m]), (''model'', JStr ''llama3'')] \<and>
    map_of m ''should_resolve'' = Some (JBool True) \<and> map_of m ''alert_id'' = Some (JStr (uuid_str 1))"
proof -
  let ?v = "[(''should_resolve'', JBool True)]"
  let ?e = "local_model ?v"
  let ?as = "filter (\<lambda>a. al_id a \<noteq> 2) (db_alerts shared_inbox)"
  have p: "snd (auto_resolve ?e [''1'', ''2'', ''3''] shared_inbox) = [AutoResolvePrompt (map (pick resolve_fields) ?as)]"
    by code_simp
  have ids: "length ?as = 2" "al_id (?as ! 0) = 1" by code_simp+
  have loads: "ai_loads ?e ''answer'' = Some (JArr (map JObj [?v]))" by (simp add: local_model_def)
  have c: "ai_complete ?e (AutoResolvePrompt (map (pick resolve_fields) ?as)) =
      Inr \<lparr>lr_content = JStr ''answer'', lr_model = JStr ''llama3'', lr_usage = JObj []\<rparr>" by (simp add: local_model_def)
  have vi: "verdict_index ?v = Some (int 0)" by code_simp
  have t: "lr_content \<lparr>lr_content = JStr ''answer'', lr_model = JStr ''llama3'', lr_usage = JObj []\<rparr> = JStr ''answer''" by simp
  from conjunct1[OF auto_resolve_attribution[OF p c t], THEN spec, THEN mp, OF loads] obtain ms' where
    ms: "fst (auto_resolve ?e [''1'', ''2'', ''3''] shared_inbox) =
      Inr [(''results'', JArr (map JObj ms')), (''model'', JStr ''llama3'')]" "length ms' = 1"
    and labels: "\<forall>j < length [?v]. (\<forall>k. k \<noteq> ''alert_id'' \<longrightarrow> map_of (ms' ! j) k = map_of ([?v] ! j) k) \<and>
          (\<forall>i. verdict_index ([?v] ! j) = Some (int i) \<and> i < length ?as \<longrightarrow>
             map_of (ms' ! j) ''alert_id'' = Some (JStr (uuid_str (al_id (?as ! i)))))"
    by (auto simp del: One_nat_def)
  have "map_of (ms' ! 0) ''should_resolve'' = map_of ?v ''should_resolve''" using labels by auto
  moreover have "verdict_index ([?v] ! 0) = Some (int 0) \<and> 0 < length ?as" using vi ids by simp
  with labels have "map_of (ms' ! 0) ''alert_id'' = Some (JStr (uuid_str (al_id (?as ! 0))))"
    by (metis length_Cons zero_less_Suc)
  ultimately have m: "map_of (ms' ! 0) ''should_resolve'' = Some (JBool True)" "map_of (ms' ! 0) ''alert_id'' = Some (JStr (uuid_str 1))"
    using ids by simp_all
  from ms(2) obtain m' where "ms' = [m']" by (cases ms') auto
  then show ?thesis using ms(1) m by simp
qed

theorem normalize_confidence_spec_witness:
  "normalize_confidence (\<lambda>s. if s = ''0.85'' then Some (Finite (17 / 20)) else None) (JFloat ''0.85'') = Inr (Finite (17 / 20)) \<and>
   normalize_confidence (\<lambda>s. None) (JInt 85) = Inr (Finite (85 / 100)) \<and>
   normalize_confidence (\<lambda>s. None) (JInt 1) = Inr (Finite 1)"
  using normalize_confidence_spec[where read = "\<lambda>s. if s = ''0.85'' then Some (Finite (17 / 20)) else None" and s = "''0.85''" and x = "17 / 20"]
    normalize_confidence_spec[where read = "\<lambda>s. None" and i = 85] normalize_confidence_spec[where read = "\<lambda>s. None" and i = 1]
  by simp

end
