(* ===== verification/Migrate.thy ===== *)
theory Migrate
  imports Complex_Main Webhook
begin

text \<open>
  \<open>scripts/migrate_from_thehive.py\<close>: reading alerts and cases out of TheHive page by page, and sending
  them to the API of OpenSOAR. TheHive and OpenSOAR are parameters. The pages are read in a loop that
  ends only when the server says so, hence the option: \<open>None\<close> is a loop without end. The import keeps the
  requests it has sent; the server answers from that history.
\<close>

record reply =
  hv_status :: int
  hv_json :: "exn + json"

section \<open>Reading page by page\<close>

definition page_size :: nat where
  "page_size = 200"

partial_function (option) search_from ::
  "(nat \<Rightarrow> 'w \<Rightarrow> (exn + reply) \<times> 'w) \<Rightarrow> nat \<Rightarrow> json list \<Rightarrow> 'w \<Rightarrow> ((exn + json list) \<times> 'w) option" where
  "search_from fetch_page offset results w =
     (case fetch_page offset w of
        (Inl e, w') \<Rightarrow> Some (Inl e, w')
      | (Inr r, w') \<Rightarrow>
          (if hv_status r \<noteq> 200 then Some (Inr results, w')
           else (case hv_json r of
                   Inl e \<Rightarrow> Some (Inl e, w')
                 | Inr batch \<Rightarrow>
                     (if \<not> truthy batch then Some (Inr results, w')
                      else (case py_iter batch of
                              Inl e \<Rightarrow> Some (Inl e, w')
                            | Inr rows \<Rightarrow>
                                (if length rows < page_size then Some (Inr (results @ rows), w')
                                 else search_from fetch_page (offset + page_size) (results @ rows) w'))))))"

text \<open>The server: endpoint, query and offset to an answer.\<close>

type_synonym 'w hive = "string \<Rightarrow> json \<Rightarrow> nat \<Rightarrow> 'w \<Rightarrow> (exn + reply) \<times> 'w"

type_synonym ('w, 'a) export = "'w \<Rightarrow> ((exn + 'a) \<times> 'w) option"

definition hive_search :: "'w hive \<Rightarrow> string \<Rightarrow> json \<Rightarrow> ('w, json list) export" where
  "hive_search hive endpoint query w = search_from (hive endpoint (py_or query (JObj []))) 0 [] w"

definition xbind :: "('w, 'a) export \<Rightarrow> ('a \<Rightarrow> ('w, 'b) export) \<Rightarrow> ('w, 'b) export" where
  "xbind m f w = (case m w of
      None \<Rightarrow> None
    | Some (Inl e, w') \<Rightarrow> Some (Inl e, w')
    | Some (Inr x, w') \<Rightarrow> f x w')"

definition xlift :: "exn + 'a \<Rightarrow> ('w, 'a) export" where
  "xlift r w = Some (r, w)"

definition parent_query :: "string \<Rightarrow> json \<Rightarrow> json" where
  "parent_query kind i = JObj [(''_parent'', JObj [(''_type'', JStr kind), (''_query'', JObj [(''_id'', i)])])]"

definition with_key :: "string \<Rightarrow> json \<Rightarrow> json \<Rightarrow> json" where
  "with_key k x v = (case v of JObj d \<Rightarrow> JObj (AList.update k x d) | _ \<Rightarrow> v)"

definition row_id :: "json \<Rightarrow> json \<Rightarrow> exn + json" where
  "row_id dflt v = ebind (py_get v ''id'' JNull) (\<lambda>i. if truthy i then Inr i else py_get v ''_id'' dflt)"

fun export_logs :: "'w hive \<Rightarrow> json list \<Rightarrow> ('w, json list) export" where
  "export_logs hive [] = xlift (Inr [])"
| "export_logs hive (task # tasks) =
     xbind (xlift (row_id JNull task)) (\<lambda>i.
     xbind (if truthy i
            then xbind (hive_search hive ''case/task/log'' (parent_query ''case_task'' i))
                   (\<lambda>logs. xlift (Inr (with_key ''_logs'' (JArr logs) task)))
            else xlift (Inr task)) (\<lambda>task'.
     xbind (export_logs hive tasks) (\<lambda>rest. xlift (Inr (task' # rest)))))"

definition export_case :: "'w hive \<Rightarrow> json \<Rightarrow> ('w, json) export" where
  "export_case hive c =
     xbind (xlift (row_id JNull c)) (\<lambda>i.
       if \<not> truthy i then xlift (Inr c)
       else xbind (hive_search hive ''case/task'' (parent_query ''case'' i)) (\<lambda>found.
            xbind (export_logs hive found) (\<lambda>tasks.
            xbind (hive_search hive ''case/artifact'' (parent_query ''case'' i)) (\<lambda>observables.
              xlift (Inr (with_key ''_observables'' (JArr observables) (with_key ''_tasks'' (JArr tasks) c)))))))"

fun export_each :: "'w hive \<Rightarrow> json list \<Rightarrow> ('w, json list) export" where
  "export_each hive [] = xlift (Inr [])"
| "export_each hive (c # cs) =
     xbind (export_case hive c) (\<lambda>c'. xbind (export_each hive cs) (\<lambda>rest. xlift (Inr (c' # rest))))"

definition export_alerts :: "'w hive \<Rightarrow> ('w, json list) export" where
  "export_alerts hive = hive_search hive ''alert'' JNull"

definition export_cases :: "'w hive \<Rightarrow> ('w, json list) export" where
  "export_cases hive = xbind (hive_search hive ''case'' JNull) (export_each hive)"

definition export_users :: "('w \<Rightarrow> (exn + reply) \<times> 'w) \<Rightarrow> ('w, json) export" where
  "export_users get_users w =
     (case get_users w of
        (Inl e, w') \<Rightarrow> Some (Inl e, w')
      | (Inr r, w') \<Rightarrow> xlift (ebind (if hv_status r = 200 then hv_json r else Inr (JArr [])) (\<lambda>users.
          ebind (py_iter users) (\<lambda>_. Inr users))) w')"

text \<open>The files written, the later first; an exception leaves those written before it.\<close>

definition export_all ::
  "'w hive \<Rightarrow> ('w \<Rightarrow> (exn + reply) \<times> 'w) \<Rightarrow> string \<Rightarrow> string \<Rightarrow> 'w \<Rightarrow> ((exn + unit) \<times> (string \<times> json) list) option" where
  "export_all hive get_users url stamp w =
     (case export_alerts hive w of
        None \<Rightarrow> None
      | Some (Inl e, w1) \<Rightarrow> Some (Inl e, [])
      | Some (Inr alerts, w1) \<Rightarrow>
         (let f1 = [(''alerts.json'', JArr alerts)]
          in case export_cases hive w1 of
               None \<Rightarrow> None
             | Some (Inl e, w2) \<Rightarrow> Some (Inl e, f1)
             | Some (Inr cases, w2) \<Rightarrow>
                (let f2 = (''cases.json'', JArr cases) # f1
                 in case export_users get_users w2 of
                      None \<Rightarrow> None
                    | Some (Inl e, w3) \<Rightarrow> Some (Inl e, f2)
                    | Some (Inr users, w3) \<Rightarrow> Some (Inr (),
                        (''metadata.json'', JObj [(''source'', JStr ''thehive''), (''url'', JStr url), (''exported_at'', JStr stamp),
                           (''version'', JStr ''1.0'')]) # (''users.json'', users) # f2))))"

section \<open>Sending to OpenSOAR\<close>

type_synonym history = "(string \<times> json) list"

type_synonym api = "history \<Rightarrow> string \<Rightarrow> json \<Rightarrow> exn + reply"

record migration =
  mg_sent :: history
  mg_alerts :: nat
  mg_incidents :: nat
  mg_observables :: nat
  mg_links :: nat
  mg_errors :: nat
  mg_alert_map :: "(json \<times> json) list"
  mg_incident_map :: "(json \<times> json) list"

definition fresh_migration :: migration where
  "fresh_migration = \<lparr>mg_sent = [], mg_alerts = 0, mg_incidents = 0, mg_observables = 0, mg_links = 0, mg_errors = 0,
     mg_alert_map = [], mg_incident_map = []\<rparr>"

type_synonym 'a step = "migration \<Rightarrow> (exn + 'a) \<times> migration"

definition mret :: "'a \<Rightarrow> 'a step" where
  "mret x s = (Inr x, s)"

definition mlift :: "exn + 'a \<Rightarrow> 'a step" where
  "mlift r s = (r, s)"

definition mbind :: "'a step \<Rightarrow> ('a \<Rightarrow> 'b step) \<Rightarrow> 'b step" where
  "mbind m f s = (case m s of (Inl e, s') \<Rightarrow> (Inl e, s') | (Inr x, s') \<Rightarrow> f x s')"

definition mget :: "(migration \<Rightarrow> 'a) \<Rightarrow> 'a step" where
  "mget f s = (Inr (f s), s)"

definition mupd :: "(migration \<Rightarrow> migration) \<Rightarrow> unit step" where
  "mupd f s = (Inr (), f s)"

fun each :: "('x \<Rightarrow> unit step) \<Rightarrow> 'x list \<Rightarrow> unit step" where
  "each f [] = mret ()"
| "each f (x # xs) = mbind (f x) (\<lambda>_. each f xs)"

definition post :: "api \<Rightarrow> string \<Rightarrow> json \<Rightarrow> reply step" where
  "post api path body s = (api (mg_sent s) path body, s\<lparr>mg_sent := mg_sent s @ [(path, body)]\<rparr>)"

definition accepted :: "reply \<Rightarrow> bool" where
  "accepted r \<longleftrightarrow> hv_status r \<in> {200, 201}"

text \<open>Dictionaries keyed by a value: a key must be hashable, and equal keys are one.\<close>

definition map_get :: "(json \<times> 'v) list \<Rightarrow> json \<Rightarrow> exn + 'v option" where
  "map_get m k =
     (if hashable k then Inr (map_option snd (find (\<lambda>(k', v). py_eq k' k) m)) else Inl (TypeError ''unhashable type''))"

fun map_put :: "json \<Rightarrow> 'v \<Rightarrow> (json \<times> 'v) list \<Rightarrow> (json \<times> 'v) list" where
  "map_put k v [] = [(k, v)]"
| "map_put k v ((k', v') # m) = (if py_eq k' k then (k', v) # m else (k', v') # map_put k v m)"

definition map_set :: "json \<Rightarrow> 'v \<Rightarrow> (json \<times> 'v) list \<Rightarrow> exn + (json \<times> 'v) list" where
  "map_set k v m = (if hashable k then Inr (map_put k v m) else Inl (TypeError ''unhashable type''))"

definition severity_map :: "(json \<times> string) list" where
  "severity_map = [(JInt 1, ''low''), (JInt 2, ''medium''), (JInt 3, ''high''), (JInt 4, ''critical'')]"

definition tlp_map :: "(json \<times> string) list" where
  "tlp_map = [(JInt 0, ''white''), (JInt 1, ''green''), (JInt 2, ''amber''), (JInt 3, ''red'')]"

definition map_severity :: "json \<Rightarrow> exn + string" where
  "map_severity v = ebind (map_get severity_map v) (\<lambda>r. Inr (case r of None \<Rightarrow> ''medium'' | Some s \<Rightarrow> s))"

definition map_alert_status :: "string \<Rightarrow> string" where
  "map_alert_status st =
     (case map_of [(''New'', ''new''), (''Updated'', ''new''), (''Imported'', ''new''), (''Ignored'', ''resolved'')] st of
        None \<Rightarrow> ''new'' | Some s \<Rightarrow> s)"

definition map_determination :: "string \<Rightarrow> string option" where
  "map_determination st = (if st = ''Ignored'' then Some ''benign'' else None)"

definition level_tag :: "string \<Rightarrow> json \<Rightarrow> exn + json list" where
  "level_tag label v =
     (if v = JNull then Inr []
      else ebind (map_get tlp_map v) (\<lambda>r. Inr (case r of None \<Rightarrow> [] | Some c \<Rightarrow> [JStr (label @ c)])))"

definition text_tag :: "string \<Rightarrow> json \<Rightarrow> json list" where
  "text_tag label v = (if truthy v then [JStr (label @ py_str v)] else [])"

definition build_tags :: "json \<Rightarrow> exn + json list" where
  "build_tags th =
     ebind (py_get th ''tags'' (JArr [])) (\<lambda>ts. ebind (py_iter ts) (\<lambda>tags.
     ebind (py_get th ''tlp'' JNull) (\<lambda>tlp. ebind (level_tag ''tlp:'' tlp) (\<lambda>t1.
     ebind (py_get th ''pap'' JNull) (\<lambda>pap. ebind (level_tag ''pap:'' pap) (\<lambda>t2.
     ebind (py_get th ''type'' JNull) (\<lambda>ty.
       Inr (tags @ t1 @ t2 @ text_tag ''thehive-type:'' ty @ [JStr ''migrated:thehive'']))))))))"

definition observable_tags :: "json \<Rightarrow> exn + json list" where
  "observable_tags art =
     ebind (py_get art ''tags'' (JArr [])) (\<lambda>ts. ebind (py_iter ts) (\<lambda>tags.
     ebind (py_get art ''message'' JNull) (\<lambda>message.
     ebind (if truthy message then ebind (py_take 100 message) (\<lambda>m. Inr [JStr (''context:'' @ py_str m)]) else Inr []) (\<lambda>t1.
     ebind (py_get art ''ioc'' JNull) (\<lambda>ioc. ebind (py_get art ''sighted'' JNull) (\<lambda>sighted.
     ebind (py_get art ''tlp'' JNull) (\<lambda>tlp. ebind (level_tag ''tlp:'' tlp) (\<lambda>t2.
       Inr (tags @ t1 @ (if truthy ioc then [JStr ''ioc:true''] else []) @
            (if truthy sighted then [JStr ''sighted:true''] else []) @ t2 @ [JStr ''migrated:thehive''])))))))))"

text \<open>Whether a Cortex report calls the observable malicious.\<close>

definition report_malicious :: "json \<Rightarrow> exn + bool" where
  "report_malicious report =
     ebind (py_get report ''summary'' (JObj [])) (\<lambda>summary.
     ebind (py_get summary ''taxonomies'' JNull) (\<lambda>taxonomies.
       if \<not> truthy taxonomies then Inr False
       else ebind (py_first taxonomies) (\<lambda>t.
            ebind (py_get t ''level'' JNull) (\<lambda>level. Inr (level = JStr ''malicious'')))))"

definition observables_path :: string where
  "observables_path = ''/api/v1/observables''"

definition import_report :: "api \<Rightarrow> json \<Rightarrow> string \<times> json \<Rightarrow> unit step" where
  "import_report api obs_id r =
     mbind (mlift (report_malicious (snd r))) (\<lambda>bad.
     mbind (post api (observables_path @ ''/'' @ py_str obs_id @ ''/enrichments'')
       (JObj [(''source'', JStr (''cortex:'' @ fst r)), (''data'', snd r), (''malicious'', JBool bad)])) (\<lambda>_. mret ()))"

definition import_observable :: "api \<Rightarrow> json \<Rightarrow> json \<Rightarrow> unit step" where
  "import_observable api alert_id art =
     mbind (mlift (py_get art ''dataType'' (JStr ''other''))) (\<lambda>data_type.
     mbind (mlift (py_get art ''data'' JNull)) (\<lambda>v.
       if \<not> truthy v then mret ()
       else mbind (mlift (observable_tags art)) (\<lambda>tags.
            mbind (post api observables_path (JObj ([(''type'', data_type), (''value'', v), (''source'', JStr ''thehive-migration''),
                (''tags'', JArr tags)] @ (if truthy alert_id then [(''alert_id'', alert_id)] else [])))) (\<lambda>r.
              if \<not> accepted r then mret ()
              else mbind (mupd (\<lambda>s. s\<lparr>mg_observables := mg_observables s + 1\<rparr>)) (\<lambda>_.
                   mbind (mlift (ebind (hv_json r) (\<lambda>b. py_get b ''id'' JNull))) (\<lambda>obs_id.
                     if \<not> truthy obs_id then mret ()
                     else mbind (mlift (py_get art ''reports'' (JObj []))) (\<lambda>reports.
                          case reports of
                            JObj d \<Rightarrow> each (import_report api obs_id) d
                          | _ \<Rightarrow> mlift (Inl (AttributeError ''items'')))))))))"

fun artifact_data :: "json list \<Rightarrow> exn + json list" where
  "artifact_data [] = Inr []"
| "artifact_data (art # arts) =
     ebind (py_get art ''data'' JNull) (\<lambda>v. ebind (artifact_data arts) (\<lambda>vs. Inr (if truthy v then v # vs else vs)))"

definition artifacts_of :: "json \<Rightarrow> exn + json list" where
  "artifacts_of th = ebind (py_get th ''artifacts'' (JArr [])) py_iter"

definition alert_payload :: "json \<Rightarrow> json \<Rightarrow> exn + jdict" where
  "alert_payload th th_id =
     ebind (py_get th ''title'' (JStr ''Untitled Alert'')) (\<lambda>title.
     ebind (py_get th ''description'' (JStr [])) (\<lambda>description.
     ebind (py_get th ''severity'' (JInt 2)) (\<lambda>sev. ebind (map_severity sev) (\<lambda>severity.
     ebind (py_get th ''source'' (JStr ''thehive-migration'')) (\<lambda>source.
     ebind (py_get th ''sourceRef'' th_id) (\<lambda>source_id.
     ebind (build_tags th) (\<lambda>tags.
     ebind (artifacts_of th) (\<lambda>arts. ebind (artifact_data arts) (\<lambda>iocs.
       Inr ([(''title'', title), (''description'', description), (''severity'', JStr severity), (''source'', source),
             (''source_id'', source_id), (''tags'', JArr tags), (''raw_payload'', th)] @
            (if iocs = [] then [] else [(''iocs'', JArr iocs)])))))))))))"

definition webhook_path :: string where
  "webhook_path = ''/api/v1/webhooks/alerts''"

definition remember_alert :: "json \<Rightarrow> json \<Rightarrow> unit step" where
  "remember_alert th_id os_id =
     (if truthy os_id
      then mbind (mget mg_alert_map) (\<lambda>m. mbind (mlift (map_set th_id os_id m)) (\<lambda>m'. mupd (\<lambda>s. s\<lparr>mg_alert_map := m'\<rparr>)))
      else mret ())"

definition import_alert :: "api \<Rightarrow> json \<Rightarrow> unit step" where
  "import_alert api th =
     mbind (mlift (row_id (JStr []) th)) (\<lambda>th_id.
     mbind (mlift (alert_payload th th_id)) (\<lambda>payload.
     mbind (post api webhook_path (JObj payload)) (\<lambda>r.
       if \<not> accepted r then mupd (\<lambda>s. s\<lparr>mg_errors := mg_errors s + 1\<rparr>)
       else mbind (mlift (ebind (hv_json r) (\<lambda>b. py_get b ''id'' JNull))) (\<lambda>os_id.
            mbind (remember_alert th_id os_id) (\<lambda>_.
            mbind (mupd (\<lambda>s. s\<lparr>mg_alerts := mg_alerts s + 1\<rparr>)) (\<lambda>_.
            mbind (mlift (artifacts_of th)) (\<lambda>arts. each (import_observable api os_id) arts)))))))"

text \<open>A file that does not exist reads as an empty list.\<close>

type_synonym files = "string \<Rightarrow> (exn + json) option"

definition load_file :: "files \<Rightarrow> string \<Rightarrow> json step" where
  "load_file fs name = mlift (case fs name of None \<Rightarrow> Inr (JArr []) | Some r \<Rightarrow> r)"

definition import_alerts :: "api \<Rightarrow> files \<Rightarrow> unit step" where
  "import_alerts api fs =
     mbind (load_file fs ''alerts.json'') (\<lambda>alerts.
       if \<not> truthy alerts then mret ()
       else mbind (mlift (py_iter alerts)) (each (import_alert api)))"

text \<open>\<open>description += text\<close>: a list takes the text character by character.\<close>

definition append_text :: "json \<Rightarrow> string \<Rightarrow> exn + json" where
  "append_text v t = (case v of
      JStr s \<Rightarrow> Inr (JStr (s @ t))
    | JArr xs \<Rightarrow> Inr (JArr (xs @ map (\<lambda>c. JStr [c]) t))
    | _ \<Rightarrow> Inl (TypeError ''unsupported operand''))"

definition summary_text :: "json \<Rightarrow> string" where
  "summary_text summary =
     [CHR 0x0A, CHR 0x0A] @ ''---'' @ [CHR 0x0A] @ ''**Resolution Summary:** '' @ py_str summary"

definition case_payload :: "json \<Rightarrow> exn + jdict" where
  "case_payload c =
     ebind (py_get c ''caseId'' (JStr [])) (\<lambda>case_id.
     ebind (py_get c ''description'' (JStr [])) (\<lambda>description.
     ebind (py_get c ''summary'' JNull) (\<lambda>summary.
     ebind (if truthy summary then append_text description (summary_text summary) else Inr description) (\<lambda>body.
     ebind (build_tags c) (\<lambda>tags.
     ebind (py_get c ''resolutionStatus'' JNull) (\<lambda>resolution.
     ebind (py_get c ''impactStatus'' JNull) (\<lambda>impact.
     ebind (py_get c ''status'' (JStr ''Open'')) (\<lambda>st.
     ebind (py_get c ''title'' (JStr ''Untitled Incident'')) (\<lambda>title.
     ebind (py_get c ''severity'' (JInt 2)) (\<lambda>sev. ebind (map_severity sev) (\<lambda>severity.
     ebind (py_get c ''owner'' JNull) (\<lambda>owner.
       Inr ([(''title'', title), (''description'', body), (''severity'', JStr severity),
             (''status'', JStr (if st = JStr ''Open'' then ''open'' else ''closed'')),
             (''tags'', JArr (tags @ text_tag ''thehive-case:'' case_id @ text_tag ''resolution:'' resolution @
                text_tag ''impact:'' impact))] @
            (if truthy owner then [(''assigned_username'', owner)] else []))))))))))))))"

definition incidents_path :: string where
  "incidents_path = ''/api/v1/incidents''"

fun walk_tasks :: "json list \<Rightarrow> exn + unit" where
  "walk_tasks [] = Inr ()"
| "walk_tasks (t # ts) =
     ebind (py_get t ''_logs'' (JArr [])) (\<lambda>logs. ebind (py_iter logs) (\<lambda>_. walk_tasks ts))"

definition remember_incident :: "json \<Rightarrow> json \<Rightarrow> unit step" where
  "remember_incident th_id os_id =
     (if truthy os_id
      then mbind (mget mg_incident_map) (\<lambda>m. mbind (mlift (map_set th_id os_id m)) (\<lambda>m'. mupd (\<lambda>s. s\<lparr>mg_incident_map := m'\<rparr>)))
      else mret ())"

definition import_case :: "api \<Rightarrow> json \<Rightarrow> unit step" where
  "import_case api c =
     mbind (mlift (row_id (JStr []) c)) (\<lambda>th_id.
     mbind (mlift (case_payload c)) (\<lambda>payload.
     mbind (post api incidents_path (JObj payload)) (\<lambda>r.
       if \<not> accepted r then mupd (\<lambda>s. s\<lparr>mg_errors := mg_errors s + 1\<rparr>)
       else mbind (mlift (ebind (hv_json r) (\<lambda>b. py_get b ''id'' JNull))) (\<lambda>os_id.
            mbind (remember_incident th_id os_id) (\<lambda>_.
            mbind (mupd (\<lambda>s. s\<lparr>mg_incidents := mg_incidents s + 1\<rparr>)) (\<lambda>_.
            mbind (mlift (ebind (py_get c ''_observables'' (JArr [])) py_iter)) (\<lambda>obs.
            mbind (each (import_observable api JNull) obs) (\<lambda>_.
              mlift (ebind (py_get c ''_tasks'' (JArr [])) (\<lambda>ts. ebind (py_iter ts) walk_tasks))))))))))"

definition import_cases :: "api \<Rightarrow> files \<Rightarrow> unit step" where
  "import_cases api fs =
     mbind (load_file fs ''cases.json'') (\<lambda>cases.
       if \<not> truthy cases then mret ()
       else mbind (mlift (py_iter cases)) (each (import_case api)))"

definition link_alert_of :: "api \<Rightarrow> json \<Rightarrow> json \<Rightarrow> json \<Rightarrow> unit step" where
  "link_alert_of api th_case_id incident th =
     mbind (mlift (py_get th ''case'' JNull)) (\<lambda>linked.
       if \<not> py_eq linked th_case_id then mret ()
       else mbind (mlift (row_id (JStr []) th)) (\<lambda>th_id.
            mbind (mget mg_alert_map) (\<lambda>m. mbind (mlift (map_get m th_id)) (\<lambda>os_id.
              if \<not> (case os_id of None \<Rightarrow> False | Some v \<Rightarrow> truthy v) then mret ()
              else mbind (post api (incidents_path @ ''/'' @ py_str incident @ ''/alerts'') (JObj [(''alert_id'', the os_id)])) (\<lambda>r.
                   if accepted r then mupd (\<lambda>s. s\<lparr>mg_links := mg_links s + 1\<rparr>) else mret ())))))"

definition link_case :: "api \<Rightarrow> files \<Rightarrow> json \<Rightarrow> unit step" where
  "link_case api fs c =
     mbind (mlift (row_id (JStr []) c)) (\<lambda>th_case_id.
       mbind (mget mg_incident_map) (\<lambda>m. mbind (mlift (map_get m th_case_id)) (\<lambda>incident.
         if \<not> (case incident of None \<Rightarrow> False | Some v \<Rightarrow> truthy v) then mret ()
         else mbind (load_file fs ''alerts.json'') (\<lambda>alerts.
              mbind (mlift (py_iter alerts)) (each (link_alert_of api th_case_id (the incident)))))))"

definition link_alerts_to_incidents :: "api \<Rightarrow> files \<Rightarrow> unit step" where
  "link_alerts_to_incidents api fs =
     mbind (load_file fs ''cases.json'') (\<lambda>cases.
       if \<not> truthy cases then mret ()
       else mbind (mlift (py_iter cases)) (each (link_case api fs)))"

definition import_all :: "api \<Rightarrow> files \<Rightarrow> unit step" where
  "import_all api fs =
     mbind (load_file fs ''metadata.json'') (\<lambda>_.
     mbind (import_alerts api fs) (\<lambda>_.
     mbind (import_cases api fs) (\<lambda>_. link_alerts_to_incidents api fs)))"

section \<open>The reading ends\<close>

text \<open>A server with a fixed list of rows, which every request may change otherwise (\<open>tick\<close>): it answers a range
  that starts inside the list with at most a page of rows, and one past the end with status 416 or an empty list.\<close>

definition serves :: "(nat \<Rightarrow> 'w \<Rightarrow> (exn + reply) \<times> 'w) \<Rightarrow> ('w \<Rightarrow> 'w) \<Rightarrow> json list \<Rightarrow> bool" where
  "serves f tick rows \<longleftrightarrow> (\<forall>offset w. snd (f offset w) = tick w \<and>
     (if offset < length rows
      then fst (f offset w) = Inr \<lparr>hv_status = 200, hv_json = Inr (JArr (take page_size (drop offset rows)))\<rparr>
      else (\<exists>r. fst (f offset w) = Inr r \<and> (hv_status r = 416 \<or> hv_status r = 200 \<and> hv_json r = Inr (JArr [])))))"

lemma search_from_serves:
  assumes "serves f tick rows"
  shows "search_from f offset acc w =
    Some (Inr (acc @ drop offset rows), (tick ^^ ((length rows - offset) div page_size + 1)) w)"
proof (induction "length rows - offset" arbitrary: offset acc w rule: less_induct)
  case less
  obtain r where f: "f offset w = (Inr r, tick w)"
    and r: "if offset < length rows then r = \<lparr>hv_status = 200, hv_json = Inr (JArr (take page_size (drop offset rows)))\<rparr>
      else hv_status r = 416 \<or> hv_status r = 200 \<and> hv_json r = Inr (JArr [])"
    using assms unfolding serves_def by (metis prod.collapse)
  show ?case
  proof (cases "offset < length rows")
    case False
    then show ?thesis using f r by (subst search_from.simps) auto
  next
    case True
    let ?batch = "take page_size (drop offset rows)"
    have page: "r = \<lparr>hv_status = 200, hv_json = Inr (JArr ?batch)\<rparr>" using r True by simp
    have nonempty: "?batch \<noteq> []" using True by (simp add: page_size_def)
    show ?thesis
    proof (cases "length ?batch < page_size")
      case short: True
      then have "length rows - offset < page_size" by (simp add: min_def split: if_splits)
      then have "(length rows - offset) div page_size = 0" "?batch = drop offset rows" by simp_all
      then show ?thesis using f page nonempty short by (subst search_from.simps) simp
    next
      case full: False
      then have long: "page_size \<le> length rows - offset" by (simp add: min_def split: if_splits)
      have "page_size \<noteq> 0" by (simp add: page_size_def)
      have d: "(length rows - offset) div page_size = Suc ((length rows - (offset + page_size)) div page_size)"
        using long le_div_geq[of page_size "length rows - offset"] by (simp add: page_size_def diff_diff_left)
      have next_pages: "search_from f (offset + page_size) (acc @ ?batch) (tick w) =
        Some (Inr ((acc @ ?batch) @ drop (offset + page_size) rows),
          (tick ^^ ((length rows - (offset + page_size)) div page_size + 1)) (tick w))"
        using less[of "offset + page_size" "acc @ ?batch" "tick w"] long by (simp add: page_size_def)
      have "acc @ drop offset rows = (acc @ ?batch) @ drop (offset + page_size) rows"
        by (simp add: add.commute flip: drop_drop)
      moreover have "search_from f offset acc w = search_from f (offset + page_size) (acc @ ?batch) (tick w)"
        using f page nonempty full by (subst search_from.simps) simp
      ultimately show ?thesis using next_pages d by (simp add: funpow_swap1)
    qed
  qed
qed

lemma search_from_full_pages:
  fixes f :: "nat \<Rightarrow> 'w \<Rightarrow> (exn + reply) \<times> 'w"
  assumes full: "\<And>offset w. \<exists>rows. fst (f offset w) = Inr \<lparr>hv_status = 200, hv_json = Inr (JArr rows)\<rparr> \<and> page_size \<le> length rows"
  shows "search_from f offset acc w = None"
proof (rule ccontr)
  assume "search_from f offset acc w \<noteq> None"
  then obtain r where "search_from f offset acc w = Some r" by blast
  then show False
  proof (rule search_from.raw_induct[where P = "\<lambda>g offset acc w r. g = f \<longrightarrow> False", THEN mp, rotated])
    show "f = f" by simp
  next
    fix rec :: "(nat \<Rightarrow> 'w \<Rightarrow> (exn + reply) \<times> 'w) \<Rightarrow> nat \<Rightarrow> json list \<Rightarrow> 'w \<Rightarrow> ((exn + json list) \<times> 'w) option"
    fix g :: "nat \<Rightarrow> 'w \<Rightarrow> (exn + reply) \<times> 'w" and offset acc w r
    assume IH: "\<And>g offset acc w r. rec g offset acc w = Some r \<Longrightarrow> g = f \<longrightarrow> False"
    assume step: "(case g offset w of
        (Inl e, w') \<Rightarrow> Some (Inl e, w')
      | (Inr r, w') \<Rightarrow>
          (if hv_status r \<noteq> 200 then Some (Inr acc, w')
           else (case hv_json r of
                   Inl e \<Rightarrow> Some (Inl e, w')
                 | Inr batch \<Rightarrow>
                     (if \<not> truthy batch then Some (Inr acc, w')
                      else (case py_iter batch of
                              Inl e \<Rightarrow> Some (Inl e, w')
                            | Inr rows \<Rightarrow>
                                (if length rows < page_size then Some (Inr (acc @ rows), w')
                                 else rec g (offset + page_size) (acc @ rows) w')))))) = Some r"
    show "g = f \<longrightarrow> False"
    proof
      assume g: "g = f"
      from full[of offset w] obtain rows w' where f: "f offset w = (Inr \<lparr>hv_status = 200, hv_json = Inr (JArr rows)\<rparr>, w')"
        and l: "page_size \<le> length rows" by (metis prod.collapse)
      then have "rows \<noteq> []" by (auto simp: page_size_def)
      then have "rec g (offset + page_size) (acc @ rows) w' = Some r" using step f l g by auto
      then show False using IH g by blast
    qed
  qed
qed


section \<open>What the import keeps\<close>

text \<open>The invariant \<open>P\<close> survives the step, also when it raises, and a result satisfies \<open>Q\<close>.\<close>

definition keeps :: "(migration \<Rightarrow> bool) \<Rightarrow> 'a step \<Rightarrow> ('a \<Rightarrow> bool) \<Rightarrow> bool" where
  "keeps P m Q \<longleftrightarrow> (\<forall>s. P s \<longrightarrow> P (snd (m s)) \<and> (\<forall>x. fst (m s) = Inr x \<longrightarrow> Q x))"

named_theorems keeps_intros \<open>rules that follow the shape of a step\<close>

lemma keepsD: "keeps P m Q \<Longrightarrow> m s = (r, t) \<Longrightarrow> P s \<Longrightarrow> P t"
  by (auto simp: keeps_def)

lemma keeps_ret [keeps_intros]: "Q x \<Longrightarrow> keeps P (mret x) Q"
  by (simp add: keeps_def mret_def)

lemma keeps_lift [keeps_intros]: "(\<And>x. r = Inr x \<Longrightarrow> Q x) \<Longrightarrow> keeps P (mlift r) Q"
  by (simp add: keeps_def mlift_def)

lemma keeps_bind: "keeps P m R \<Longrightarrow> (\<And>x. R x \<Longrightarrow> keeps P (f x) Q) \<Longrightarrow> keeps P (mbind m f) Q"
  by (fastforce simp: keeps_def mbind_def split: prod.splits sum.splits)

lemma keeps_bind_any [keeps_intros]: "keeps P m (\<lambda>_. True) \<Longrightarrow> (\<And>x. keeps P (f x) Q) \<Longrightarrow> keeps P (mbind m f) Q"
  by (rule keeps_bind)

lemma keeps_each [keeps_intros]: "(\<And>x. x \<in> set xs \<Longrightarrow> keeps P (f x) (\<lambda>_. True)) \<Longrightarrow> keeps P (each f xs) (\<lambda>_. True)"
proof (induction xs)
  case Nil
  then show ?case by (simp add: keeps_ret)
next
  case (Cons x xs)
  then show ?case by (auto intro!: keeps_bind_any)
qed

lemma keeps_upd [keeps_intros]: "(\<And>s. P s \<Longrightarrow> P (g s)) \<Longrightarrow> keeps P (mupd g) (\<lambda>_. True)"
  by (simp add: keeps_def mupd_def)

lemma keeps_post: "(\<And>s. P s \<Longrightarrow> P (s\<lparr>mg_sent := mg_sent s @ [(path, body)]\<rparr>)) \<Longrightarrow> keeps P (post api path body) (\<lambda>_. True)"
  by (simp add: keeps_def post_def)

lemma keeps_get [keeps_intros]: "keeps P (mget f) (\<lambda>_. True)"
  by (simp add: keeps_def mget_def)

lemma keeps_if [keeps_intros]: "(b \<Longrightarrow> keeps P m Q) \<Longrightarrow> (\<not> b \<Longrightarrow> keeps P m' Q) \<Longrightarrow> keeps P (if b then m else m') Q"
  by simp

definition observable_post :: "json \<Rightarrow> string \<Rightarrow> json \<Rightarrow> bool" where
  "observable_post alert_id path body \<longleftrightarrow>
     (\<exists>rest. path = observables_path @ ''/'' @ rest) \<or>
     path = observables_path \<and> (\<exists>d. body = JObj d \<and> map_of d ''alert_id'' = (if truthy alert_id then Some alert_id else None))"

lemma import_observable_keeps:
  assumes "\<And>s path body. P s \<Longrightarrow> observable_post a path body \<Longrightarrow> P (s\<lparr>mg_sent := mg_sent s @ [(path, body)]\<rparr>)"
    and "\<And>s n. P s \<Longrightarrow> P (s\<lparr>mg_observables := n\<rparr>)"
  shows "keeps P (import_observable api a art) (\<lambda>_. True)"
proof -
  have report: "keeps P (import_report api obs_id rep) (\<lambda>_. True)" for obs_id rep
    unfolding import_report_def
    by (intro keeps_intros keeps_post assms(1)) (auto simp: observable_post_def)
  show ?thesis
    unfolding import_observable_def
    by (intro keeps_intros keeps_post assms(1)) (auto intro!: keeps_intros assms(2) report split: json.split simp: observable_post_def)
qed

text \<open>The alerts sent so far.\<close>

definition hooks :: "migration \<Rightarrow> json list" where
  "hooks s = map snd (filter (\<lambda>(p, b). p = webhook_path) (mg_sent s))"

lemma hooks_send [simp]: "hooks (s\<lparr>mg_sent := mg_sent s @ [(path, body)]\<rparr>) = hooks s @ (if path = webhook_path then [body] else [])"
  by (simp add: hooks_def)

lemma hooks_other [simp]: "hooks (s\<lparr>mg_alerts := n\<rparr>) = hooks s" "hooks (s\<lparr>mg_errors := n\<rparr>) = hooks s"
  "hooks (s\<lparr>mg_observables := n\<rparr>) = hooks s" "hooks (s\<lparr>mg_alert_map := m\<rparr>) = hooks s"
  by (simp_all add: hooks_def)

lemma observable_path_apart: "observable_post a path body \<Longrightarrow> path \<noteq> webhook_path"
  by (auto simp: observable_post_def observables_path_def webhook_path_def)

lemma observables_keep_alerts:
  "keeps (\<lambda>s. hooks s = hs \<and> mg_alerts s = n \<and> mg_errors s = m) (each (import_observable api a) arts) (\<lambda>_. True)"
  by (intro keeps_intros import_observable_keeps) (auto dest: observable_path_apart)

lemma mbind_eq: "mbind m f s = (Inr y, s') \<longleftrightarrow> (\<exists>x t. m s = (Inr x, t) \<and> f x t = (Inr y, s'))"
  by (auto simp: mbind_def split: prod.splits sum.splits)

lemma import_alert_accounted:
  assumes "import_alert api th s = (Inr (), s')"
  shows "\<exists>i p. row_id (JStr []) th = Inr i \<and> alert_payload th i = Inr p \<and> hooks s' = hooks s @ [JObj p] \<and>
    mg_alerts s' + mg_errors s' = Suc (mg_alerts s + mg_errors s)"
proof -
  from assms obtain i p r where i: "row_id (JStr []) th = Inr i" and p: "alert_payload th i = Inr p"
    and rest: "(if \<not> accepted r then mupd (\<lambda>s. s\<lparr>mg_errors := mg_errors s + 1\<rparr>)
       else mbind (mlift (ebind (hv_json r) (\<lambda>b. py_get b ''id'' JNull))) (\<lambda>os_id.
            mbind (remember_alert i os_id) (\<lambda>_.
            mbind (mupd (\<lambda>s. s\<lparr>mg_alerts := mg_alerts s + 1\<rparr>)) (\<lambda>_.
            mbind (mlift (artifacts_of th)) (\<lambda>arts. each (import_observable api os_id) arts)))))
       (s\<lparr>mg_sent := mg_sent s @ [(webhook_path, JObj p)]\<rparr>) = (Inr (), s')"
    unfolding import_alert_def mbind_eq mlift_def post_def by (auto simp: mbind_eq)
  show ?thesis
  proof (cases "accepted r")
    case False
    then show ?thesis using i p rest by (auto simp: mupd_def)
  next
    case True
    with rest obtain os_id arts t where r: "remember_alert i os_id (s\<lparr>mg_sent := mg_sent s @ [(webhook_path, JObj p)]\<rparr>) = (Inr (), t)"
      and e: "each (import_observable api os_id) arts (t\<lparr>mg_alerts := Suc (mg_alerts t)\<rparr>) = (Inr (), s')"
      by (auto simp: mbind_eq mlift_def mupd_def)
    have k: "keeps (\<lambda>u. hooks u = hooks s @ [JObj p] \<and> mg_alerts u = mg_alerts s \<and> mg_errors u = mg_errors s) (remember_alert i os_id) (\<lambda>_. True)"
      unfolding remember_alert_def by (intro keeps_intros) auto
    have t: "hooks t = hooks s @ [JObj p] \<and> mg_alerts t = mg_alerts s \<and> mg_errors t = mg_errors s"
      by (rule keepsD[OF k r]) simp
    have "hooks s' = hooks t \<and> mg_alerts s' = Suc (mg_alerts t) \<and> mg_errors s' = mg_errors t"
      by (rule keepsD[OF observables_keep_alerts e]) simp
    then show ?thesis using i p t by auto
  qed
qed

lemma import_each_accounted:
  "each (import_alert api) ths s = (Inr (), s') \<Longrightarrow>
    \<exists>ps. list_all2 (\<lambda>th p. \<exists>i. row_id (JStr []) th = Inr i \<and> alert_payload th i = Inr p) ths ps \<and>
      hooks s' = hooks s @ map JObj ps \<and> mg_alerts s' + mg_errors s' = mg_alerts s + mg_errors s + length ths"
proof (induction ths arbitrary: s)
  case Nil
  then show ?case by (simp add: mret_def)
next
  case (Cons th ths)
  from Cons.prems obtain t where f: "import_alert api th s = (Inr (), t)" and r: "each (import_alert api) ths t = (Inr (), s')"
    by (auto simp: mbind_eq)
  from import_alert_accounted[OF f] obtain i p where "row_id (JStr []) th = Inr i" "alert_payload th i = Inr p"
    "hooks t = hooks s @ [JObj p]" "mg_alerts t + mg_errors t = Suc (mg_alerts s + mg_errors s)" by blast
  moreover from Cons.IH[OF r] obtain ps where
    "list_all2 (\<lambda>th p. \<exists>i. row_id (JStr []) th = Inr i \<and> alert_payload th i = Inr p) ths ps"
    "hooks s' = hooks t @ map JObj ps" "mg_alerts s' + mg_errors s' = mg_alerts t + mg_errors t + length ths" by blast
  ultimately show ?case by (intro exI[of _ "p # ps"]) auto
qed

text \<open>An import of alerts that ends without an exception sends every alert of the export to the webhook exactly once, in
  order, with the payload made from it, and counts each one either as imported or as an error.\<close>

theorem import_alerts_accounted:
  assumes "import_alerts api fs s = (Inr (), s')" and "fs ''alerts.json'' = Some (Inr (JArr ths))"
  shows "\<exists>ps. list_all2 (\<lambda>th p. \<exists>i. row_id (JStr []) th = Inr i \<and> alert_payload th i = Inr p) ths ps \<and>
      hooks s' = hooks s @ map JObj ps \<and> mg_alerts s' + mg_errors s' = mg_alerts s + mg_errors s + length ths"
proof (cases "ths = []")
  case True
  then show ?thesis using assms by (simp add: import_alerts_def load_file_def mbind_eq mlift_def mret_def)
next
  case False
  then show ?thesis
    using assms by (intro import_each_accounted[of api]) (simp add: import_alerts_def load_file_def mbind_eq mlift_def)
qed

section \<open>What the import loses\<close>

text \<open>The body the webhook answers with.\<close>

definition webhook_json :: "webhook_response \<Rightarrow> string \<Rightarrow> json" where
  "webhook_json r message =
     JObj [(''alert_id'', JStr (uuid_str (wp_alert_id r))),
       (''correlation_id'', case wp_correlation_id r of None \<Rightarrow> JNull | Some i \<Rightarrow> JStr (uuid_str i)),
       (''title'', JStr (wp_title r)), (''severity'', JStr (wp_severity r)),
       (''playbooks_triggered'', JArr (map JStr (wp_playbooks r))), (''message'', JStr message)]"

text \<open>Requests that name no imported alert.\<close>

definition detached :: "string \<Rightarrow> json \<Rightarrow> bool" where
  "detached path body \<longleftrightarrow> path = webhook_path \<or> path = incidents_path \<or> observable_post JNull path body"

definition nothing_linked :: "migration \<Rightarrow> bool" where
  "nothing_linked s \<longleftrightarrow> mg_alert_map s = [] \<and> mg_links s = 0 \<and> (\<forall>(p, b) \<in> set (mg_sent s). detached p b)"

lemma nothing_linked_simps [simp]:
  "nothing_linked (s\<lparr>mg_sent := mg_sent s @ [(path, body)]\<rparr>) \<longleftrightarrow> nothing_linked s \<and> detached path body"
  "nothing_linked (s\<lparr>mg_alerts := n\<rparr>) = nothing_linked s" "nothing_linked (s\<lparr>mg_errors := n\<rparr>) = nothing_linked s"
  "nothing_linked (s\<lparr>mg_observables := n\<rparr>) = nothing_linked s" "nothing_linked (s\<lparr>mg_incidents := n\<rparr>) = nothing_linked s"
  "nothing_linked (s\<lparr>mg_incident_map := m\<rparr>) = nothing_linked s"
  by (auto simp: nothing_linked_def)

lemma observables_linked_nowhere: "keeps nothing_linked (import_observable api JNull art) (\<lambda>_. True)"
  by (intro import_observable_keeps) (auto simp: detached_def)

lemma post_answer: "detached path body \<Longrightarrow> keeps nothing_linked (post api path body) (\<lambda>r. \<exists>h. api h path body = Inr r)"
  by (auto simp: keeps_def post_def)

lemma import_alert_unlinked:
  assumes "\<And>h b r. api h webhook_path b = Inr r \<Longrightarrow> accepted r \<Longrightarrow> \<exists>a m. hv_json r = Inr (webhook_json a m)"
  shows "keeps nothing_linked (import_alert api th) (\<lambda>_. True)"
proof -
  have answer: "keeps nothing_linked (mlift (ebind (hv_json r) (\<lambda>b. py_get b ''id'' JNull))) (\<lambda>i. i = JNull)"
    if "accepted r" "\<exists>h. api h webhook_path b = Inr r" for r b
  proof -
    from that assms obtain a m where "hv_json r = Inr (webhook_json a m)" by blast
    then show ?thesis by (intro keeps_lift) (simp add: webhook_json_def py_get_def dget_default_def)
  qed
  have rest: "keeps nothing_linked (mbind (remember_alert x i) (\<lambda>_. mbind (mupd (\<lambda>s. s\<lparr>mg_alerts := mg_alerts s + 1\<rparr>))
      (\<lambda>_. mbind (mlift (artifacts_of th)) (\<lambda>arts. each (import_observable api i) arts)))) (\<lambda>_. True)" if "i = JNull" for x i
    using that by (auto simp: remember_alert_def intro!: keeps_intros observables_linked_nowhere)
  have sent: "keeps nothing_linked (post api webhook_path (JObj p)) (\<lambda>r. \<exists>h. api h webhook_path (JObj p) = Inr r)" for p
    by (rule post_answer) (simp add: detached_def)
  have imported: "keeps nothing_linked
      (if \<not> accepted r then mupd (\<lambda>s. s\<lparr>mg_errors := mg_errors s + 1\<rparr>)
       else mbind (mlift (ebind (hv_json r) (\<lambda>b. py_get b ''id'' JNull))) (\<lambda>i.
         mbind (remember_alert x i) (\<lambda>_. mbind (mupd (\<lambda>s. s\<lparr>mg_alerts := mg_alerts s + 1\<rparr>))
           (\<lambda>_. mbind (mlift (artifacts_of th)) (\<lambda>arts. each (import_observable api i) arts))))) (\<lambda>_. True)"
    if "\<exists>h. api h webhook_path b = Inr r" for x r b
  proof (cases "accepted r")
    case True
    then show ?thesis using keeps_bind[OF answer[OF True that] rest] by simp
  next
    case False
    then show ?thesis by (simp add: keeps_upd)
  qed
  show ?thesis
    unfolding import_alert_def
    by (rule keeps_bind_any[OF keeps_lift[OF TrueI]], rule keeps_bind_any[OF keeps_lift[OF TrueI]],
        rule keeps_bind[OF sent imported])
qed

lemma incident_unlinked: "keeps nothing_linked (remember_incident i os_id) (\<lambda>_. True)"
  unfolding remember_incident_def by (intro keeps_intros) auto

lemma import_case_unlinked: "keeps nothing_linked (import_case api c) (\<lambda>_. True)"
  unfolding import_case_def
  by (auto intro!: keeps_intros keeps_post observables_linked_nowhere incident_unlinked simp: detached_def)

lemma link_unlinked: "keeps nothing_linked (link_alert_of api i incident th) (\<lambda>_. True)"
proof -
  have m: "keeps nothing_linked (mget mg_alert_map) (\<lambda>m. m = [])" by (simp add: keeps_def mget_def nothing_linked_def)
  have find: "keeps nothing_linked (mlift (map_get [] th_id)) (\<lambda>r. r = None)" for th_id
    by (intro keeps_lift) (auto simp: map_get_def split: if_splits)
  show ?thesis
    unfolding link_alert_of_def by (auto intro!: keeps_bind[OF m] keeps_bind[OF find] keeps_intros)
qed

text \<open>C32: Importing through the webhook links nothing. The webhook answers with \<open>alert_id\<close> and not with \<open>id\<close>, so
  whatever was exported and however the rest of the API answers, no imported alert is remembered, no observable is sent with
  an alert, no alert is linked to an incident and no link is counted.\<close>

theorem migration_links_nothing:
  assumes "\<And>h b r. api h webhook_path b = Inr r \<Longrightarrow> accepted r \<Longrightarrow> \<exists>a m. hv_json r = Inr (webhook_json a m)"
  shows "nothing_linked (snd (import_all api fs fresh_migration))"
proof -
  have "keeps nothing_linked (link_case api fs c) (\<lambda>_. True)" for c
    unfolding link_case_def load_file_def by (auto intro!: keeps_intros link_unlinked)
  then have "keeps nothing_linked (import_all api fs) (\<lambda>_. True)"
    unfolding import_all_def import_alerts_def import_cases_def link_alerts_to_incidents_def load_file_def
    by (auto intro!: keeps_intros import_alert_unlinked assms import_case_unlinked)
  moreover have "nothing_linked fresh_migration" by (simp add: nothing_linked_def fresh_migration_def)
  ultimately show ?thesis by (simp add: keeps_def)
qed

section \<open>Witnesses\<close>

definition row_server :: "json list \<Rightarrow> nat \<Rightarrow> nat \<Rightarrow> (exn + reply) \<times> nat" where
  "row_server rows offset w =
     (if offset < length rows then Inr \<lparr>hv_status = 200, hv_json = Inr (JArr (take page_size (drop offset rows)))\<rparr>
      else Inr \<lparr>hv_status = 416, hv_json = Inl (ValueError ''json'')\<rparr>, Suc w)"


definition phishing_case :: json where
  "phishing_case = JObj [(''id'', JStr ''c1''), (''title'', JStr ''Phishing''), (''status'', JStr ''Resolved''), (''owner'', JStr ''ana''),
     (''_observables'', JArr [JObj [(''dataType'', JStr ''ip''), (''data'', JStr ''10.0.0.9'')]])]"

definition phishing_alert :: json where
  "phishing_alert = JObj [(''id'', JStr ''a1''), (''title'', JStr ''Mail''), (''severity'', JInt 3), (''case'', JStr ''c1''),
     (''artifacts'', JArr [JObj [(''dataType'', JStr ''ip''), (''data'', JStr ''10.0.0.9'')]])]"

definition hive_files :: files where
  "hive_files name = (if name = ''alerts.json'' then Some (Inr (JArr [phishing_alert]))
     else if name = ''cases.json'' then Some (Inr (JArr [phishing_case])) else None)"

definition soar_api :: api where
  "soar_api h path body =
     (if path = webhook_path
      then Inr \<lparr>hv_status = 200, hv_json = Inr (webhook_json \<lparr>wp_alert_id = 1, wp_correlation_id = None, wp_title = ''Mail'',
             wp_severity = ''high'', wp_playbooks = []\<rparr> ''Alert ingested'')\<rparr>
      else Inr \<lparr>hv_status = 201, hv_json = Inr (JObj [(''id'', JStr ''2'')])\<rparr>)"

theorem import_alerts_accounted_witness:
  "\<exists>s' p. import_alerts soar_api hive_files fresh_migration = (Inr (), s') \<and> hooks s' = [JObj p] \<and>
     alert_payload phishing_alert (JStr ''a1'') = Inr p \<and> mg_alerts s' + mg_errors s' = 1"
proof -
  let ?r = "import_alerts soar_api hive_files fresh_migration"
  have "fst ?r = Inr ()" by code_simp
  then have r: "?r = (Inr (), snd ?r)" by (metis prod.collapse)
  have f: "hive_files ''alerts.json'' = Some (Inr (JArr [phishing_alert]))" by (simp add: hive_files_def)
  have start: "hooks fresh_migration = []" "mg_alerts fresh_migration = 0" "mg_errors fresh_migration = 0" by code_simp+
  have i: "row_id (JStr []) phishing_alert = Inr (JStr ''a1'')" by code_simp
  from import_alerts_accounted[OF r f] start i show ?thesis
    by (subst r) (auto simp: list_all2_Cons1 intro!: exI[of _ "snd ?r"])
qed

text \<open>An alert of the case is imported and so is the case, and the two are not linked.\<close>

theorem migration_links_nothing_witness:
  "nothing_linked (snd (import_all soar_api hive_files fresh_migration)) \<and>
   mg_alerts (snd (import_all soar_api hive_files fresh_migration)) = 1 \<and>
   mg_incidents (snd (import_all soar_api hive_files fresh_migration)) = 1"
proof (intro conjI)
  show "nothing_linked (snd (import_all soar_api hive_files fresh_migration))"
    by (rule migration_links_nothing) (auto simp: soar_api_def)
  show "mg_alerts (snd (import_all soar_api hive_files fresh_migration)) = 1" by code_simp
  show "mg_incidents (snd (import_all soar_api hive_files fresh_migration)) = 1" by code_simp
qed

end
