(* ===== verification/Poller.thy ===== *)
theory Poller
  imports Json "HOL-Library.Char_ord" "HOL-Library.List_Lexorder"
begin

text \<open>
  \<open>scripts/elastic_poller.py\<close>: the loop that reads new events from Elasticsearch and forwards them to the webhook.
  Elasticsearch answers from the timestamp asked for, the webhook from the event; \<open>poll\<close> is one turn of the endless
  loop, \<open>polls n\<close> its first \<open>n\<close> turns. Timestamps are compared as texts.
\<close>

record poller =
  po_last :: string
  po_forwarded :: "json list"

text \<open>An \<open>URLError\<close> is an \<open>OSError\<close>.\<close>

definition is_url_error :: "exn \<Rightarrow> bool" where
  "is_url_error e = (case e of OSError _ \<Rightarrow> True | _ \<Rightarrow> False)"

definition set_item :: "string \<Rightarrow> json \<Rightarrow> json \<Rightarrow> exn + json" where
  "set_item k x v = (case v of JObj d \<Rightarrow> Inr (JObj (AList.update k x d)) | _ \<Rightarrow> Inl (TypeError ''item assignment''))"

text \<open>The event of a hit, labelled with its document and index.\<close>

definition event_of :: "json \<Rightarrow> exn + json" where
  "event_of hit =
     ebind (py_key ''_source'' hit) (\<lambda>source.
     ebind (py_key ''_id'' hit) (\<lambda>i. ebind (set_item ''_id'' i source) (\<lambda>s1.
     ebind (py_key ''_index'' hit) (\<lambda>x. set_item ''_index'' x s1))))"

text \<open>What the answer of the webhook is read for.\<close>

definition read_answer :: "json \<Rightarrow> exn + unit" where
  "read_answer resp =
     ebind (py_get resp ''title'' JNull) (\<lambda>_. ebind (py_get resp ''severity'' JNull) (\<lambda>_.
     ebind (py_get resp ''playbooks_triggered'' (JArr [])) (\<lambda>_. Inr ())))"

definition later :: "string \<Rightarrow> json \<Rightarrow> exn + string" where
  "later since ts = (case ts of
      JStr t \<Rightarrow> Inr (if since < t then t else since)
    | _ \<Rightarrow> Inl (TypeError ''not supported between instances''))"

text \<open>The hits of one answer in order. An event the webhook does not take is given up; any other exception ends the
  batch, and what was done until then stays.\<close>

fun forward :: "(json \<Rightarrow> exn + json) \<Rightarrow> json list \<Rightarrow> poller \<Rightarrow> (exn + unit) \<times> poller" where
  "forward send [] p = (Inr (), p)"
| "forward send (hit # hits) p =
     (case event_of hit of
        Inl e \<Rightarrow> (Inl e, p)
      | Inr source \<Rightarrow>
          (let p1 = p\<lparr>po_forwarded := po_forwarded p @ [source]\<rparr>;
               sent = ebind (send source) read_answer
           in case (case sent of Inl e \<Rightarrow> if is_url_error e then Inr () else Inl e | Inr u \<Rightarrow> Inr u) of
                Inl e \<Rightarrow> (Inl e, p1)
              | Inr _ \<Rightarrow>
                  (case ebind (py_get source ''@timestamp'' (JStr (po_last p1))) (later (po_last p1)) of
                     Inl e \<Rightarrow> (Inl e, p1)
                   | Inr t \<Rightarrow> forward send hits (p1\<lparr>po_last := t\<rparr>))))"

definition search_query :: "string \<Rightarrow> json" where
  "search_query since =
     JObj [(''query'', JObj [(''range'', JObj [(''@timestamp'', JObj [(''gt'', JStr since)])])]),
       (''sort'', JArr [JObj [(''@timestamp'', JStr ''asc'')]]), (''size'', JInt 100)]"

definition poll :: "(json \<Rightarrow> exn + json) \<Rightarrow> (json \<Rightarrow> exn + json) \<Rightarrow> poller \<Rightarrow> poller" where
  "poll elastic send p =
     (case ebind (elastic (search_query (po_last p))) (\<lambda>result.
           ebind (py_get result ''hits'' (JObj [])) (\<lambda>outer.
           ebind (py_get outer ''hits'' (JArr [])) (\<lambda>hits.
             if truthy hits then py_iter hits else Inr []))) of
        Inl e \<Rightarrow> p
      | Inr hits \<Rightarrow> snd (forward send hits p))"

fun polls :: "(json \<Rightarrow> exn + json) \<Rightarrow> (json \<Rightarrow> exn + json) \<Rightarrow> nat \<Rightarrow> poller \<Rightarrow> poller" where
  "polls elastic send 0 p = p"
| "polls elastic send (Suc n) p = polls elastic send n (poll elastic send p)"

section \<open>An index\<close>

record event =
  ee_id :: string
  ee_time :: string
  ee_body :: jdict

text \<open>The document of an event and what is forwarded of it.\<close>

definition document :: "event \<Rightarrow> json" where
  "document e = JObj ((''@timestamp'', JStr (ee_time e)) # ee_body e)"

definition hit_of :: "event \<Rightarrow> json" where
  "hit_of e = JObj [(''_id'', JStr (ee_id e)), (''_index'', JStr ''security-events''), (''_source'', document e)]"

definition labelled :: "event \<Rightarrow> json" where
  "labelled e = JObj (AList.update ''_index'' (JStr ''security-events'')
     (AList.update ''_id'' (JStr (ee_id e)) ((''@timestamp'', JStr (ee_time e)) # ee_body e)))"

text \<open>Elasticsearch over a fixed index: the first hundred events after the timestamp asked for, in order of time.\<close>

definition answers_from :: "event list \<Rightarrow> (json \<Rightarrow> exn + json) \<Rightarrow> bool" where
  "answers_from es elastic \<longleftrightarrow> sorted (map ee_time es) \<and>
     (\<forall>since. elastic (search_query since) =
        Inr (JObj [(''hits'', JObj [(''hits'', JArr (map hit_of (take 100 (filter (\<lambda>e. since < ee_time e) es))))])]))"

text \<open>The webhook takes an event or cannot be reached.\<close>

definition takes_or_fails :: "(json \<Rightarrow> exn + json) \<Rightarrow> bool" where
  "takes_or_fails send \<longleftrightarrow> (\<forall>s. case send s of Inl e \<Rightarrow> is_url_error e | Inr v \<Rightarrow> (\<exists>d. v = JObj d))"

lemma event_of_hit [simp]: "event_of (hit_of e) = Inr (labelled e)"
  by (simp add: event_of_def hit_of_def py_key_def document_def set_item_def labelled_def)

lemma labelled_time [simp]: "py_get (labelled e) ''@timestamp'' v = Inr (JStr (ee_time e))"
  by (simp add: py_get_def labelled_def dget_default_def)

lemma sent_ok: "takes_or_fails send \<Longrightarrow>
    (case ebind (send s) read_answer of Inl e \<Rightarrow> if is_url_error e then Inr () else Inl e | Inr u \<Rightarrow> Inr u) = Inr ()"
  unfolding takes_or_fails_def by (erule allE[of _ s]) (auto simp: read_answer_def py_get_def split: sum.splits)

lemma forward_hits:
  assumes "takes_or_fails send"
  shows "forward send (map hit_of es) p = (Inr (), p\<lparr>po_forwarded := po_forwarded p @ map labelled es,
    po_last := foldl max (po_last p) (map ee_time es)\<rparr>)"
proof (induction es arbitrary: p)
  case Nil
  then show ?case by simp
next
  case (Cons e es)
  have "later t (JStr (ee_time e)) = Inr (max t (ee_time e))" for t by (simp add: later_def max_def less_le)
  then show ?case
    using Cons.IH[of "p\<lparr>po_forwarded := po_forwarded p @ [labelled e], po_last := max (po_last p) (ee_time e)\<rparr>"] sent_ok[OF assms]
    by (simp add: Let_def)
qed

definition pending :: "event list \<Rightarrow> string \<Rightarrow> event list" where
  "pending es since = filter (\<lambda>e. since < ee_time e) es"

lemma poll_eq:
  assumes "answers_from es elastic" and "takes_or_fails send"
  shows "poll elastic send p = p\<lparr>po_forwarded := po_forwarded p @ map labelled (take 100 (pending es (po_last p))),
    po_last := foldl max (po_last p) (map ee_time (take 100 (pending es (po_last p))))\<rparr>"
proof (cases "take 100 (pending es (po_last p)) = []")
  case True
  then show ?thesis using assms(1) by (simp add: poll_def answers_from_def py_get_def dget_default_def pending_def)
next
  case False
  then show ?thesis
    using assms(1) forward_hits[OF assms(2), of "take 100 (pending es (po_last p))" p]
    by (simp add: poll_def answers_from_def py_get_def dget_default_def pending_def)
qed

lemma foldl_max_upper: "foldl max (a :: string) xs \<ge> a \<and> (\<forall>x \<in> set xs. x \<le> foldl max a xs)"
proof (induction xs arbitrary: a)
  case (Cons x xs)
  from Cons.IH[of "max a x"] show ?case by (auto intro: order_trans)
qed simp

lemma foldl_max_mem: "foldl max (a :: string) xs \<in> insert a (set xs)"
proof (induction xs arbitrary: a)
  case (Cons x xs)
  from Cons.IH[of "max a x"] show ?case by (auto simp: max_def)
qed simp

lemma pending_after:
  assumes "sorted_wrt (<) (map ee_time es)"
  shows "pending es (foldl max t (map ee_time (take k (pending es t)))) = drop k (pending es t)"
proof -
  let ?ys = "pending es t" and ?m = "foldl max t (map ee_time (take k (pending es t)))"
  have "sorted_wrt (\<lambda>x y. ee_time x < ee_time y) es" using assms by (simp add: sorted_wrt_map)
  then have "sorted_wrt (\<lambda>x y. ee_time x < ee_time y) (take k ?ys @ drop k ?ys)"
    by (simp add: pending_def sorted_wrt_filter)
  then have order: "\<forall>x \<in> set (take k ?ys). \<forall>y \<in> set (drop k ?ys). ee_time x < ee_time y"
    unfolding sorted_wrt_append by blast
  have above: "\<forall>y \<in> set (drop k ?ys). t < ee_time y" by (auto simp: pending_def dest!: in_set_dropD)
  have "?m \<in> insert t (set (map ee_time (take k ?ys)))" by (rule foldl_max_mem)
  then have later: "\<forall>y \<in> set (drop k ?ys). ?m < ee_time y" using order above by auto
  have up: "t \<le> ?m" "\<forall>x \<in> set (take k ?ys). ee_time x \<le> ?m" using foldl_max_upper[of t "map ee_time (take k ?ys)"] by auto
  have "pending es ?m = filter (\<lambda>e. ?m < ee_time e) ?ys"
    using up(1) by (auto simp: pending_def intro!: filter_cong[OF refl] dest: le_less_trans)
  also have "\<dots> = filter (\<lambda>e. ?m < ee_time e) (take k ?ys) @ filter (\<lambda>e. ?m < ee_time e) (drop k ?ys)"
    by (metis append_take_drop_id filter_append)
  also have "\<dots> = drop k ?ys" using up(2) later by (simp add: filter_empty_conv filter_id_conv not_less)
  finally show ?thesis .
qed


lemma polls_bunch:
  assumes "answers_from es elastic" and "takes_or_fails send"
  shows "\<exists>fs. po_forwarded (polls elastic send n p) = po_forwarded p @ map labelled fs \<and>
    set fs \<subseteq> set (pending es (po_last p)) \<and> (\<forall>t. length (filter (\<lambda>e. ee_time e = t) fs) \<le> 100)"
proof (induction n arbitrary: p)
  case 0
  then show ?case by (intro exI[of _ "[]"]) simp
next
  case (Suc n)
  let ?batch = "take 100 (pending es (po_last p))" and ?p = "poll elastic send p"
  from Suc.IH[of ?p] obtain fs where fs: "po_forwarded (polls elastic send n ?p) = po_forwarded ?p @ map labelled fs"
    "set fs \<subseteq> set (pending es (po_last ?p))" "\<forall>t. length (filter (\<lambda>e. ee_time e = t) fs) \<le> 100" by blast
  have last: "po_last ?p = foldl max (po_last p) (map ee_time ?batch)" by (simp add: poll_eq[OF assms])
  note up = foldl_max_upper[of "po_last p" "map ee_time ?batch", folded last]
  have "set fs \<subseteq> set (pending es (po_last p))" using fs(2) up by (auto simp: pending_def dest: le_less_trans)
  moreover have "set ?batch \<subseteq> set (pending es (po_last p))" by (rule set_take_subset)
  moreover have "length (filter (\<lambda>e. ee_time e = t) (?batch @ fs)) \<le> 100" for t
  proof (cases "t \<in> ee_time ` set ?batch")
    case True
    then have "t \<le> po_last ?p" using up by auto
    then have "filter (\<lambda>e. ee_time e = t) fs = []" using fs(2) by (auto simp: pending_def filter_empty_conv)
    then show ?thesis using length_filter_le[of "\<lambda>e. ee_time e = t" ?batch] by simp
  next
    case False
    then have "filter (\<lambda>e. ee_time e = t) ?batch = []" by (auto simp: filter_empty_conv)
    then show ?thesis using fs(3) by simp
  qed
  ultimately show ?case using fs(1) by (intro exI[of _ "?batch @ fs"]) (simp add: poll_eq[OF assms])
qed

text \<open>Of the events with one timestamp at most a hundred are ever handed over: the poller asks for a hundred events
  later than the last timestamp it has seen, so however long it runs the others with that timestamp are lost.\<close>

theorem polls_lose_equal_timestamps:
  assumes "answers_from es elastic" and "takes_or_fails send"
  shows "\<exists>fs. po_forwarded (polls elastic send n p) = po_forwarded p @ map labelled fs \<and>
    set fs \<subseteq> {e \<in> set es. po_last p < ee_time e} \<and> (\<forall>t. length (filter (\<lambda>e. ee_time e = t) fs) \<le> 100)"
  using polls_bunch[OF assms, of n p] by (simp add: pending_def)

section \<open>Witnesses\<close>

definition login_at :: "string \<Rightarrow> string \<Rightarrow> event" where
  "login_at i t = \<lparr>ee_id = i, ee_time = t, ee_body = []\<rparr>"

definition since_of :: "json \<Rightarrow> string" where
  "since_of q = (case ebind (py_key ''query'' q) (\<lambda>a. ebind (py_key ''range'' a) (\<lambda>b. ebind (py_key ''@timestamp'' b) (py_key ''gt''))) of
      Inr (JStr s) \<Rightarrow> s | _ \<Rightarrow> [])"

definition elastic_of :: "event list \<Rightarrow> json \<Rightarrow> exn + json" where
  "elastic_of es q = Inr (JObj [(''hits'', JObj [(''hits'', JArr (map hit_of (take 100 (filter (\<lambda>e. since_of q < ee_time e) es))))])])"

lemma elastic_answers: "sorted (map ee_time es) \<Longrightarrow> answers_from es (elastic_of es)"
  by (simp add: answers_from_def elastic_of_def since_of_def search_query_def py_key_def)

lemma unreachable: "takes_or_fails (\<lambda>s. Inl (OSError ''URLError''))"
  by (simp add: takes_or_fails_def is_url_error_def)


theorem polls_lose_equal_timestamps_witness:
  "length (po_forwarded (polls (elastic_of (replicate 150 (login_at ''a'' ''10:00''))) (\<lambda>s. Inl (OSError ''URLError'')) 7
     \<lparr>po_last = ''09:59'', po_forwarded = []\<rparr>)) \<le> 100"
proof -
  let ?e = "login_at ''a'' ''10:00''"
  have "sorted (map ee_time (replicate 150 ?e))" by (simp add: sorted_replicate)
  from polls_lose_equal_timestamps[OF elastic_answers[OF this] unreachable, of 7 "\<lparr>po_last = ''09:59'', po_forwarded = []\<rparr>"]
  obtain fs where fs: "po_forwarded (polls (elastic_of (replicate 150 ?e)) (\<lambda>s. Inl (OSError ''URLError'')) 7
      \<lparr>po_last = ''09:59'', po_forwarded = []\<rparr>) = map labelled fs" "set fs \<subseteq> {?e}"
      "length (filter (\<lambda>e. ee_time e = ''10:00'') fs) \<le> 100" by auto
  have "filter (\<lambda>e. ee_time e = ''10:00'') fs = fs" using fs(2) by (auto simp: filter_id_conv login_at_def)
  with fs show ?thesis by simp
qed

end
