(* ===== verification/Dedup.thy ===== *)
theory Dedup
  imports Complex_Main Ai Cache
begin

text \<open>
  \<open>opensoar/ai/embeddings.py\<close> and \<open>opensoar/api/ai_dedup.py\<close>: vectors for alerts, their similarity, and the
  endpoint that ranks the alerts most similar to one. Floats are real numbers, whose rounding, infinities and NaN
  are left out. The embedding provider, the JSON codec and the reading of a decimal are parameters; vectors are kept in
  the cache of \<open>opensoar/integrations/cache.py\<close>, over any of its backends.
\<close>

section \<open>Embeddings\<close>

record embedding_settings =
  es_provider :: "string option"
  es_model :: "string option"
  es_openai_api_key :: "string option"
  es_ollama_url :: "string option"
  es_anthropic_api_key :: "string option"

definition openai_embedder :: "embedding_settings \<Rightarrow> llm_client" where
  "openai_embedder s = \<lparr>lc_provider = ''openai'', lc_model = or_else (es_model s) ''text-embedding-3-small'',
     lc_api_key = the (es_openai_api_key s), lc_base_url = []\<rparr>"

definition ollama_embedder :: "embedding_settings \<Rightarrow> llm_client" where
  "ollama_embedder s = \<lparr>lc_provider = ''ollama'', lc_model = or_else (es_model s) ''nomic-embed-text'',
     lc_api_key = [], lc_base_url = the (es_ollama_url s)\<rparr>"

definition get_embedding_client :: "embedding_settings \<Rightarrow> llm_client option" where
  "get_embedding_client s =
     (let provider = lower (or_else (es_provider s) [])
      in if provider = ''openai'' then (if truthy_str (es_openai_api_key s) then Some (openai_embedder s) else None)
         else if provider = ''ollama'' then (if truthy_str (es_ollama_url s) then Some (ollama_embedder s) else None)
         else if provider = ''anthropic''
         then (if truthy_str (es_anthropic_api_key s)
               then Some \<lparr>lc_provider = ''anthropic'', lc_model = or_else (es_model s) ''voyage-3'',
                      lc_api_key = the (es_anthropic_api_key s), lc_base_url = []\<rparr>
               else None)
         else if truthy_str (es_openai_api_key s) then Some (openai_embedder s)
         else if truthy_str (es_ollama_url s) then Some (ollama_embedder s)
         else None)"

text \<open>A POST: the status of the answer and its JSON. A vector is what the provider sent, with the name of the model.\<close>

type_synonym embed_post = "string \<Rightarrow> jdict \<Rightarrow> exn + (int \<times> json)"

definition embed_openai :: "embed_post \<Rightarrow> llm_client \<Rightarrow> string \<Rightarrow> exn + (json list \<times> json)" where
  "embed_openai post c t =
     ebind (post (base_or c ''https://api.openai.com'' @ ''/v1/embeddings'') [(''model'', JStr (lc_model c)), (''input'', JStr t)])
       (\<lambda>(status, data).
         if status \<noteq> 200 then Inl (RuntimeError (''OpenAI embedding error: '' @ py_str data))
         else ebind (py_key ''data'' data) (\<lambda>rows. ebind (py_first rows) (\<lambda>row. ebind (py_key ''embedding'' row) (\<lambda>v.
              ebind (py_iter v) (\<lambda>vector. ebind (py_get data ''model'' (JStr (lc_model c))) (\<lambda>m. Inr (vector, m)))))))"

definition embed_ollama :: "embed_post \<Rightarrow> llm_client \<Rightarrow> string \<Rightarrow> exn + (json list \<times> json)" where
  "embed_ollama post c t =
     ebind (post (base_or c ''http://localhost:11434'' @ ''/api/embeddings'') [(''model'', JStr (lc_model c)), (''prompt'', JStr t)])
       (\<lambda>(status, data).
         if status \<noteq> 200 then Inl (RuntimeError (''Ollama embedding error: '' @ py_str data))
         else ebind (py_get data ''embedding'' (JArr [])) (\<lambda>v. ebind (py_iter v) (\<lambda>vector. Inr (vector, JStr (lc_model c)))))"

text \<open>\<open>NotImplementedError\<close> is a \<open>RuntimeError\<close>.\<close>

definition embed :: "embed_post \<Rightarrow> llm_client \<Rightarrow> string \<Rightarrow> exn + (json list \<times> json)" where
  "embed post c t =
     (if lc_provider c = ''openai'' then embed_openai post c t
      else if lc_provider c = ''ollama'' then embed_ollama post c t
      else if lc_provider c = ''anthropic''
      then Inl (RuntimeError (''Anthropic embeddings are not available. Use '' @ [CHR 0x27] @ ''openai'' @ [CHR 0x27] @
             '' or '' @ [CHR 0x27] @ ''ollama'' @ [CHR 0x27] @ ''.''))
      else Inl (ValueError (''Unknown embedding provider: '' @ lc_provider c)))"

definition add_products :: "real \<times> real \<times> real \<Rightarrow> real \<times> real \<Rightarrow> real \<times> real \<times> real" where
  "add_products acc xy = (case (acc, xy) of ((dot, norm_a, norm_b), (x, y)) \<Rightarrow> (dot + x * y, norm_a + x * x, norm_b + y * y))"

definition cosine_similarity :: "real list \<Rightarrow> real list \<Rightarrow> real" where
  "cosine_similarity a b =
     (if a = [] \<or> b = [] \<or> length a \<noteq> length b then 0
      else let (dot, norm_a, norm_b) = foldl add_products (0, 0, 0) (zip a b)
           in if norm_a = 0 \<or> norm_b = 0 then 0 else dot / (sqrt norm_a * sqrt norm_b))"

section \<open>The text of an alert\<close>

fun after_colon :: "string \<Rightarrow> string option" where
  "after_colon [] = None"
| "after_colon (c # cs) = (if startswith (c # cs) '': '' then Some (drop 2 (c # cs)) else after_colon cs)"

text \<open>\<open>p.split(": ", 1)[-1]\<close>.\<close>

definition last_part :: "string \<Rightarrow> string" where
  "last_part p = (case after_colon p of None \<Rightarrow> p | Some t \<Rightarrow> t)"

definition alert_text :: "(jdict \<Rightarrow> string) \<Rightarrow> alert \<Rightarrow> string" where
  "alert_text dumps a =
     (let parts = [''Title: '' @ al_title a, ''Severity: '' @ al_severity a, ''Rule: '' @ or_else (al_rule_name a) [],
            ''Source: '' @ al_source a, ''Hostname: '' @ or_else (al_hostname a) [],
            ''Source IP: '' @ or_else (al_source_ip a) [], ''Destination IP: '' @ or_else (al_dest_ip a) []] @
            (if truthy_str (al_description a) then [''Description: '' @ the (al_description a)] else []) @
            (case al_tags a of Some (t # ts) \<Rightarrow> [''Tags: '' @ join '', '' (t # ts)] | _ \<Rightarrow> []) @
            (case al_iocs a of Some (x # xs) \<Rightarrow> [''IOCs: '' @ dumps (x # xs)] | _ \<Rightarrow> [])
      in join [CHR 0x0A] (filter (\<lambda>p. last_part p \<noteq> []) parts))"

section \<open>The endpoint\<close>

record 's dedup_env = call_env +
  de_client :: "llm_client option"
  de_embed :: "string \<Rightarrow> exn + (json list \<times> json)"
  de_dumps :: "json \<Rightarrow> string option"
  de_dumps_iocs :: "jdict \<Rightarrow> string"
  de_loads :: "string \<Rightarrow> json option"
  de_real :: "string \<Rightarrow> real option"
  de_backend :: "'s backend"
  de_ttl :: int
  de_threshold :: real

text \<open>The cache and the texts sent to the provider.\<close>

record 's dedup_state =
  dd_store :: 's
  dd_sent :: "string list"

definition embedding_key :: "string \<Rightarrow> string" where
  "embedding_key alert_id = ''opensoar:ai_embedding:'' @ alert_id"

text \<open>\<open>float(v)\<close>, and a number as an operand of \<open>*\<close>.\<close>

definition real_of_json :: "(string \<Rightarrow> real option) \<Rightarrow> json \<Rightarrow> exn + real" where
  "real_of_json read v = (case v of
      JInt i \<Rightarrow> Inr (of_int i)
    | JBool b \<Rightarrow> Inr (if b then 1 else 0)
    | JFloat s \<Rightarrow> (case read s of Some x \<Rightarrow> Inr x | None \<Rightarrow> Inl (ValueError ''float''))
    | JStr s \<Rightarrow> (case read s of Some x \<Rightarrow> Inr x | None \<Rightarrow> Inl (ValueError ''float''))
    | _ \<Rightarrow> Inl (TypeError ''float''))"

fun map_err :: "('a \<Rightarrow> exn + 'b) \<Rightarrow> 'a list \<Rightarrow> exn + 'b list" where
  "map_err f [] = Inr []"
| "map_err f (x # xs) = ebind (f x) (\<lambda>y. ebind (map_err f xs) (\<lambda>ys. Inr (y # ys)))"

text \<open>A vector as the code holds it: its entries as operands of \<open>*\<close>, what is no number being a \<open>TypeError\<close> once it is
  multiplied. Vectors that are empty or differ in length are never multiplied.\<close>

type_synonym operands = "(exn + real) list"

definition plain_real :: "(string \<Rightarrow> real option) \<Rightarrow> json \<Rightarrow> exn + real" where
  "plain_real read v = (case v of JStr s \<Rightarrow> Inl (TypeError ''operand'') | _ \<Rightarrow> real_of_json read v)"

definition similarity_of :: "operands \<Rightarrow> operands \<Rightarrow> exn + real" where
  "similarity_of a b =
     (if a = [] \<or> b = [] \<or> length a \<noteq> length b then Inr 0
      else ebind (map_err (\<lambda>x. x) a) (\<lambda>u. ebind (map_err (\<lambda>x. x) b) (\<lambda>v. Inr (cosine_similarity u v))))"

text \<open>The vector of a cache entry; \<open>Inr None\<close> when the entry is skipped and the vector is computed again.\<close>

definition cached_vector :: "('s, 'x) dedup_env_scheme \<Rightarrow> string \<Rightarrow> exn + operands option" where
  "cached_vector env raw =
     (case de_loads env raw of
        None \<Rightarrow> Inr None
      | Some payload \<Rightarrow>
          ebind (py_get payload ''vector'' JNull) (\<lambda>vector.
            case vector of
              JArr (x # xs) \<Rightarrow>
                (case map_err (real_of_json (de_real env)) (x # xs) of
                   Inr v \<Rightarrow> Inr (Some (map Inr v))
                 | Inl (TypeError m) \<Rightarrow> Inr None
                 | Inl (ValueError m) \<Rightarrow> Inr None
                 | Inl e \<Rightarrow> Inl e)
            | _ \<Rightarrow> Inr None))"

definition compute_embedding ::
  "('s, 'x) dedup_env_scheme \<Rightarrow> time \<Rightarrow> alert \<Rightarrow> 's dedup_state \<Rightarrow> (exn + operands) \<times> 's dedup_state" where
  "compute_embedding env t a s =
     (let txt = alert_text (de_dumps_iocs env) a; s1 = s\<lparr>dd_sent := dd_sent s @ [txt]\<rparr>
      in case de_embed env txt of
           Inl e \<Rightarrow> (Inl e, s1)
         | Inr (vector, model) \<Rightarrow>
             (Inr (map (plain_real (de_real env)) vector),
              case de_dumps env (JObj [(''vector'', JArr vector), (''model'', model)]) of
                None \<Rightarrow> s1
              | Some encoded \<Rightarrow>
                  s1\<lparr>dd_store := be_set (de_backend env) t (embedding_key (uuid_str (al_id a))) encoded (de_ttl env) (dd_store s1)\<rparr>))"

definition get_or_compute_embedding ::
  "('s, 'x) dedup_env_scheme \<Rightarrow> time \<Rightarrow> alert \<Rightarrow> 's dedup_state \<Rightarrow> (exn + operands) \<times> 's dedup_state" where
  "get_or_compute_embedding env t a s =
     (let (hit, store) = be_get (de_backend env) t (embedding_key (uuid_str (al_id a))) (dd_store s);
          s1 = s\<lparr>dd_store := store\<rparr>
      in case (case hit of None \<Rightarrow> Inr None | Some raw \<Rightarrow> cached_vector env raw) of
           Inl e \<Rightarrow> (Inl e, s1)
         | Inr (Some v) \<Rightarrow> (Inr v, s1)
         | Inr None \<Rightarrow> compute_embedding env t a s1)"

record candidate =
  cd_alert_id :: uuid
  cd_similarity :: real
  cd_title :: string
  cd_severity :: string

text \<open>\<open>round(score, 4)\<close>: to the nearest, ties to the even one.\<close>

definition round_even :: "real \<Rightarrow> int" where
  "round_even x =
     (let f = \<lfloor>x\<rfloor>; r = x - of_int f
      in if r < 1 / 2 then f else if r > 1 / 2 then f + 1 else if even f then f else f + 1)"

definition round4 :: "real \<Rightarrow> real" where
  "round4 x = of_int (round_even (x * 10000)) / 10000"

definition embedding_caught :: "exn \<Rightarrow> bool" where
  "embedding_caught e = (case e of OSError _ \<Rightarrow> True | TimeoutError _ \<Rightarrow> True | RuntimeError _ \<Rightarrow> True | ValueError _ \<Rightarrow> True | _ \<Rightarrow> False)"

fun score_corpus ::
  "('s, 'x) dedup_env_scheme \<Rightarrow> time \<Rightarrow> real \<Rightarrow> operands \<Rightarrow> alert list \<Rightarrow> 's dedup_state \<Rightarrow>
     (exn + candidate list) \<times> 's dedup_state" where
  "score_corpus env t threshold target [] s = (Inr [], s)"
| "score_corpus env t threshold target (c # cs) s =
     (case get_or_compute_embedding env t c s of
        (Inl e, s') \<Rightarrow> (if embedding_caught e then score_corpus env t threshold target cs s' else (Inl e, s'))
      | (Inr v, s') \<Rightarrow>
          (case similarity_of target v of
             Inl e \<Rightarrow> (Inl e, s')
           | Inr score \<Rightarrow>
               (case score_corpus env t threshold target cs s' of
                  (Inl e, s'') \<Rightarrow> (Inl e, s'')
                | (Inr rest, s'') \<Rightarrow>
                    (Inr (if score \<ge> threshold
                          then \<lparr>cd_alert_id = al_id c, cd_similarity = round4 score, cd_title = al_title c,
                                 cd_severity = al_severity c\<rparr> # rest
                          else rest), s''))))"

record dedup_request =
  dr_alert_id :: string
  dr_threshold :: "real option"
  dr_limit :: int

definition dedup_target :: "('s, 'x) dedup_env_scheme \<Rightarrow> dedup_request \<Rightarrow> db \<Rightarrow> exn + alert" where
  "dedup_target env b d =
     ebind (require_permission AI_USE (ev_user env)) (\<lambda>an.
     ebind (guard ((case dr_threshold b of None \<Rightarrow> True | Some x \<Rightarrow> - 1 \<le> x \<and> x \<le> 1) \<and> 1 \<le> dr_limit b \<and> dr_limit b \<le> 50)
       (HTTPException 422 ''body'')) (\<lambda>_.
     ebind (guard (de_client env \<noteq> None) (HTTPException 503 ''Semantic deduplication is not configured.'')) (\<lambda>_.
     ebind (case parse_uuid (dr_alert_id b) of Inr i \<Rightarrow> Inr i | Inl e \<Rightarrow> Inl (HTTPException 400 ''Invalid alert_id'')) (\<lambda>i.
       load_alert (call_env.truncate env) ''ai_deduplicate'' i d))))"

definition dedup_corpus :: "('s, 'x) dedup_env_scheme \<Rightarrow> alert \<Rightarrow> db \<Rightarrow> exn + alert list" where
  "dedup_corpus env target d =
     ebind (scoped_query (call_env.truncate env) (\<lambda>r. case r of RAlert a \<Rightarrow> al_id a \<noteq> al_id target | _ \<Rightarrow> False)
         ''alert'' ''ai_deduplicate_corpus'') (\<lambda>q.
       Inr (take 500 (newest_first al_created_at (select_alerts q d))))"

definition rank_candidates :: "int \<Rightarrow> candidate list \<Rightarrow> candidate list" where
  "rank_candidates limit cs = take (nat limit) (sort_key (\<lambda>c. - cd_similarity c) cs)"

definition deduplicate_alert ::
  "('s, 'x) dedup_env_scheme \<Rightarrow> dedup_request \<Rightarrow> db \<Rightarrow> 's dedup_state \<Rightarrow> (exn + candidate list) \<times> 's dedup_state" where
  "deduplicate_alert env b d s =
     (case dedup_target env b d of
        Inl e \<Rightarrow> (Inl e, s)
      | Inr target \<Rightarrow>
          (case get_or_compute_embedding env (ev_now env) target s of
             (Inl e, s1) \<Rightarrow> (Inl e, s1)
           | (Inr v, s1) \<Rightarrow>
               (case dedup_corpus env target d of
                  Inl e \<Rightarrow> (Inl e, s1)
                | Inr corpus \<Rightarrow>
                    (case score_corpus env (ev_now env) (case dr_threshold b of None \<Rightarrow> de_threshold env | Some x \<Rightarrow> x) v corpus s1 of
                       (Inl e, s2) \<Rightarrow> (Inl e, s2)
                     | (Inr cs, s2) \<Rightarrow> (Inr (rank_candidates (dr_limit b) cs), s2)))))"

section \<open>The similarity of two vectors\<close>

definition dot :: "real list \<Rightarrow> real list \<Rightarrow> real" where
  "dot a b = sum_list (map2 (*) a b)"

lemma dot_simps [simp]: "dot [] [] = 0" "dot (x # a) (y # b) = x * y + dot a b"
  by (simp_all add: dot_def)

lemma dot_commute: "length a = length b \<Longrightarrow> dot a b = dot b a"
  by (induction rule: list_induct2) (simp_all add: mult.commute)

lemma dot_self: "0 \<le> dot a a" and dot_self_pos: "x \<in> set a \<Longrightarrow> x \<noteq> 0 \<Longrightarrow> 0 < dot a a"
proof -
  show nonneg: "0 \<le> dot a a" for a by (induction a) simp_all
  show "x \<in> set a \<Longrightarrow> x \<noteq> 0 \<Longrightarrow> 0 < dot a a"
  proof (induction a)
    case (Cons y a)
    then show ?case using nonneg[of a] zero_less_mult_iff[of y y] by (auto intro: add_pos_nonneg add_nonneg_pos)
  qed simp
qed

lemma fold_products: "length a = length b \<Longrightarrow>
    foldl add_products (d, p, q) (zip a b) = (d + dot a b, p + dot a a, q + dot b b)"
  by (induction arbitrary: d p q rule: list_induct2) (simp_all add: add_products_def)

lemma cosine_eq: "length a = length b \<Longrightarrow> a \<noteq> [] \<Longrightarrow>
    cosine_similarity a b = (if dot a a = 0 \<or> dot b b = 0 then 0 else dot a b / (sqrt (dot a a) * sqrt (dot b b)))"
  by (auto simp: cosine_similarity_def fold_products)

lemma four_products: "4 * u * v \<le> (u + v)\<^sup>2" for u v :: real
  using zero_le_power2[of "u - v"] by (simp add: power2_sum power2_diff)

lemma dot_square: "length a = length b \<Longrightarrow> (dot a b)\<^sup>2 \<le> dot a a * dot b b"
proof (induction rule: list_induct2)
  case (Cons x a y b)
  let ?d = "dot a b" and ?A = "dot a a" and ?B = "dot b b"
  have nonneg: "0 \<le> ?A * y\<^sup>2 + ?B * x\<^sup>2" by (simp add: dot_self)
  have "(2 * ?d * x * y)\<^sup>2 = 4 * ?d\<^sup>2 * (x\<^sup>2 * y\<^sup>2)" by (simp add: power2_eq_square)
  also have "\<dots> \<le> 4 * (?A * ?B) * (x\<^sup>2 * y\<^sup>2)" using Cons.IH by (intro mult_right_mono) simp_all
  also have "\<dots> = 4 * (?A * y\<^sup>2) * (?B * x\<^sup>2)" by simp
  also have "\<dots> \<le> (?A * y\<^sup>2 + ?B * x\<^sup>2)\<^sup>2"
    by (rule four_products)
  finally have "2 * ?d * x * y \<le> ?A * y\<^sup>2 + ?B * x\<^sup>2" using nonneg by (rule power2_le_imp_le)
  then show ?case using Cons.IH by (simp add: power2_eq_square algebra_simps)
qed simp

text \<open>The similarity of two vectors lies between minus one and one, does not depend on their order, and is one for a
  vector that is not zero and itself.\<close>

theorem cosine_bounds:
  "- 1 \<le> cosine_similarity a b \<and> cosine_similarity a b \<le> 1 \<and> cosine_similarity a b = cosine_similarity b a \<and>
   ((\<exists>x \<in> set a. x \<noteq> 0) \<longrightarrow> cosine_similarity a a = 1)"
proof (cases "a = [] \<or> b = [] \<or> length a \<noteq> length b")
  case False
  then have l: "length a = length b" and ne: "a \<noteq> []" "b \<noteq> []" by auto
  let ?n = "sqrt (dot a a) * sqrt (dot b b)"
  have "\<bar>dot a b\<bar> \<le> ?n" using dot_square[OF l] real_le_rsqrt[of "\<bar>dot a b\<bar>" "dot a a * dot b b"] by (simp add: real_sqrt_mult)
  moreover have "0 \<le> ?n" by (simp add: dot_self)
  ultimately have "- 1 \<le> dot a b / ?n \<and> dot a b / ?n \<le> 1" if "?n \<noteq> 0"
    using that by (auto simp: abs_le_iff le_divide_eq divide_le_eq simp del: mult_eq_0_iff)
  moreover have "cosine_similarity a a = 1" if "\<exists>x \<in> set a. x \<noteq> 0"
    using that ne cosine_eq[of a a] dot_self_pos by fastforce
  ultimately show ?thesis using cosine_eq[OF l ne(1)] cosine_eq[OF l[symmetric] ne(2)] dot_commute[OF l]
    by (auto simp: mult.commute)
next
  case True
  have "cosine_similarity a a = 1" if "\<exists>x \<in> set a. x \<noteq> 0"
    using that cosine_eq[of a a] dot_self_pos by fastforce
  then show ?thesis using True by (auto simp: cosine_similarity_def)
qed

section \<open>What the endpoint answers and sends\<close>

lemma round_even_bounds: "of_int m \<le> x \<Longrightarrow> x \<le> of_int n \<Longrightarrow> m \<le> round_even x \<and> round_even x \<le> n"
proof -
  assume x: "of_int m \<le> x" "x \<le> of_int n"
  then have f: "m \<le> \<lfloor>x\<rfloor>" "\<lfloor>x\<rfloor> \<le> n" by (simp_all add: le_floor_iff floor_le_iff)
  have "\<lfloor>x\<rfloor> + 1 \<le> n" if "x - of_int \<lfloor>x\<rfloor> \<noteq> 0"
  proof -
    have "of_int \<lfloor>x\<rfloor> < x" using that of_int_floor_le[of x] by linarith
    with x(2) have "of_int \<lfloor>x\<rfloor> < (of_int n :: real)" by linarith
    then show ?thesis by simp
  qed
  with f show ?thesis by (auto simp: round_even_def Let_def)
qed

lemma round4_bounds: "- 1 \<le> x \<Longrightarrow> x \<le> 1 \<Longrightarrow> - 1 \<le> round4 x \<and> round4 x \<le> 1"
  using round_even_bounds[of "- 10000" "x * 10000" 10000] by (auto simp: round4_def)

lemma map_err_Inr: "map_err f xs = Inr ys \<Longrightarrow> length ys = length xs"
  by (induction xs arbitrary: ys) (auto simp: ebind_eq_Inr)

lemma similarity_bounds: "similarity_of a b = Inr x \<Longrightarrow> - 1 \<le> x \<and> x \<le> 1"
  using cosine_bounds by (auto simp: similarity_of_def ebind_eq_Inr split: if_splits)

text \<open>A vector is computed from the text of its alert and nothing else is sent.\<close>

lemma embedding_sends:
  "dd_sent (snd (get_or_compute_embedding env t a s)) \<in> {dd_sent s, dd_sent s @ [alert_text (de_dumps_iocs env) a]}"
  by (auto simp: get_or_compute_embedding_def compute_embedding_def Let_def split: prod.splits sum.splits option.splits)

lemma score_sends:
  "set (dd_sent (snd (score_corpus env t th v cs s))) \<subseteq> set (dd_sent s) \<union> alert_text (de_dumps_iocs env) ` set cs"
proof (induction cs arbitrary: s)
  case Nil
  then show ?case by simp
next
  case (Cons c cs)
  obtain r s' where e: "get_or_compute_embedding env t c s = (r, s')" by fastforce
  have s': "set (dd_sent s') \<subseteq> set (dd_sent s) \<union> alert_text (de_dumps_iocs env) ` set (c # cs)"
    using embedding_sends[of env t c s] e by auto
  have rest: "set (dd_sent (snd (score_corpus env t th v cs s'))) \<subseteq> set (dd_sent s) \<union> alert_text (de_dumps_iocs env) ` set (c # cs)"
    using Cons.IH[of s'] s' by auto
  obtain q s'' where q: "score_corpus env t th v cs s' = (q, s'')" by fastforce
  show ?case using rest s' by (auto simp: e q split: sum.splits)
qed

lemma score_candidates:
  "score_corpus env t th v cs s = (Inr out, s') \<Longrightarrow>
    \<forall>c \<in> set out. (\<exists>a \<in> set cs. cd_alert_id c = al_id a \<and> cd_title c = al_title a \<and> cd_severity c = al_severity a) \<and>
      (\<exists>x. th \<le> x \<and> - 1 \<le> x \<and> x \<le> 1 \<and> cd_similarity c = round4 x)"
proof (induction cs arbitrary: s out)
  case Nil
  then show ?case by simp
next
  case (Cons a cs)
  obtain r s1 where e: "get_or_compute_embedding env t a s = (r, s1)" by fastforce
  show ?case
  proof (cases r)
    case (Inl x)
    then show ?thesis using Cons.prems Cons.IH[of s1 out] e by (auto split: if_splits)
  next
    case (Inr w)
    with Cons.prems e obtain x rest where x: "similarity_of v w = Inr x"
      and rest: "score_corpus env t th v cs s1 = (Inr rest, s')"
      and out: "out = (if x \<ge> th then \<lparr>cd_alert_id = al_id a, cd_similarity = round4 x, cd_title = al_title a,
                                 cd_severity = al_severity a\<rparr> # rest else rest)"
      by (auto split: sum.splits prod.splits)
    show ?thesis using Cons.IH[OF rest] similarity_bounds[OF x] unfolding out by auto
  qed
qed

lemma dedup_target_cases:
  assumes "dedup_target env b d = Inr a"
  shows "a \<in> set (db_alerts d) \<and> enforce (call_env.truncate env) (RAlert a) ''alert'' ''ai_deduplicate'' = Inr () \<and>
    parse_uuid (dr_alert_id b) = Inr (al_id a) \<and> (\<exists>an. ev_user env = Some an \<and> has_permission (an_role an) AI_USE)"
proof -
  from assms obtain an i where "require_permission AI_USE (ev_user env) = Inr an"
    and i: "(case parse_uuid (dr_alert_id b) of Inr i \<Rightarrow> Inr i | Inl e \<Rightarrow> Inl (HTTPException 400 ''Invalid alert_id'')) = Inr i"
    and l: "load_alert (call_env.truncate env) ''ai_deduplicate'' i d = Inr a"
    unfolding dedup_target_def by (auto simp: res_simps simp del: not_None_eq split: if_splits)
  moreover from l have "a \<in> set (db_alerts d)" "al_id a = i" "enforce (call_env.truncate env) (RAlert a) ''alert'' ''ai_deduplicate'' = Inr ()"
    by (auto simp: load_alert_def res_simps dest: sole_row)
  ultimately show ?thesis by (auto simp: res_simps split: sum.splits)
qed


section \<open>Reuse of a vector\<close>

context cache_backend
begin

lemma computed_vector_reused:
  assumes "de_backend env = B" and answer: "de_embed env (alert_text (de_dumps_iocs env) a) = Inr (vector, model)"
    and raw: "de_dumps env (JObj [(''vector'', JArr vector), (''model'', model)]) = Some raw"
    and codec: "de_loads env raw = Some (JObj [(''vector'', JArr vector), (''model'', model)])"
    and first: "get_or_compute_embedding env t a s = (Inr v, s1)" "dd_sent s1 \<noteq> dd_sent s"
    and later: "t \<le> t'" "t' < t + seconds (eff (de_ttl env))"
    and numbers: "v \<noteq> []" "\<forall>x \<in> set v. \<not> isl x"
  shows "\<exists>s2. get_or_compute_embedding env t' a s1 = (Inr v, s2) \<and> dd_sent s2 = dd_sent s1"
proof -
  let ?k = "embedding_key (uuid_str (al_id a))"
  from first obtain s0 where c: "compute_embedding env t a s0 = (Inr v, s1)"
    by (auto simp: get_or_compute_embedding_def Let_def split: prod.splits sum.splits option.splits)
  then have v: "v = map (plain_real (de_real env)) vector" and s1: "dd_store s1 = be_set B t ?k raw (de_ttl env) (dd_store s0)"
    using assms(1) answer raw by (auto simp: compute_embedding_def Let_def)
  have entry: "fst (be_get B t' ?k (dd_store s1)) = Some raw"
    using get_result set_view[OF later(1), of ?k raw "de_ttl env" "dd_store s0" ?k] later(2) by (simp add: s1)
  have read: "map_err (real_of_json r) xs = Inr (map projr (map (plain_real r) xs)) \<and>
      map Inr (map projr (map (plain_real r) xs)) = map (plain_real r) xs" if "\<forall>x \<in> set (map (plain_real r) xs). \<not> isl x" for r xs
    using that
  proof (induction xs)
    case (Cons x xs)
    then have "real_of_json r x = plain_real r x" "\<not> isl (plain_real r x)" by (auto simp: plain_real_def split: json.splits)
    then obtain y where "real_of_json r x = Inr y" "plain_real r x = Inr y" by (cases "plain_real r x") auto
    with Cons show ?case by simp
  qed simp
  have "vector \<noteq> []" using numbers(1) v by auto
  then have "cached_vector env raw = Inr (Some v)"
    using codec read[of "de_real env" vector] numbers(2) v
    by (cases vector) (auto simp: cached_vector_def py_get_def dget_default_def)
  then show ?thesis
    using entry assms(1) by (auto simp: get_or_compute_embedding_def Let_def split: prod.splits)
qed

end

text \<open>A vector computed for an alert is not computed again while its cache entry lives: with an in-memory cache and a
  codec that reads back what it wrote, asking again within the time to live returns the same vector and sends nothing to the provider. The entry is
  found by the identifier of the alert alone, so this holds also when another model is configured in between.\<close>

theorem embedding_reused:
  assumes "de_backend env = memory_backend" and "de_embed env (alert_text (de_dumps_iocs env) a) = Inr (vector, model)"
    and "de_dumps env (JObj [(''vector'', JArr vector), (''model'', model)]) = Some raw"
    and "de_loads env raw = Some (JObj [(''vector'', JArr vector), (''model'', model)])"
    and "get_or_compute_embedding env t a s = (Inr v, s1)" and "dd_sent s1 \<noteq> dd_sent s"
    and "t \<le> t'" and "t' < t + seconds (max 0 (de_ttl env))" and "v \<noteq> []" and "\<forall>x \<in> set v. \<not> isl x"
  shows "\<exists>s2. get_or_compute_embedding (env\<lparr>de_embed := other_model, de_client := c\<rparr>) t' a s1 = (Inr v, s2) \<and> dd_sent s2 = dd_sent s1"
proof -
  have "get_or_compute_embedding (env\<lparr>de_embed := other_model, de_client := c\<rparr>) t' a s1 = (Inr v, s2)"
    if "get_or_compute_embedding env t' a s1 = (Inr v, s2)" "dd_sent s2 = dd_sent s1" for s2
    using that by (auto simp: get_or_compute_embedding_def compute_embedding_def cached_vector_def Let_def
        split: prod.splits sum.splits option.splits)
  then show ?thesis using memory.computed_vector_reused[OF assms] by blast
qed

section \<open>Witnesses\<close>

text \<open>Two tenants; the provider answers every text with the same vector.\<close>

definition vector_entry :: json where
  "vector_entry = JObj [(''vector'', JArr [JInt 1, JInt 2]), (''model'', JStr ''m'')]"

definition local_embedder :: "memory_store dedup_env" where
  "local_embedder =
     \<lparr>ev_app = no_plugins\<lparr>app_validators := Some [partner_a_tenant]\<rparr>, ev_now = 50, ev_user = Some ana,
      de_client = get_embedding_client \<lparr>es_provider = None, es_model = None, es_openai_api_key = None,
        es_ollama_url = Some ''http://ollama'', es_anthropic_api_key = None\<rparr>,
      de_embed = (\<lambda>t. Inr ([JInt 1, JInt 2], JStr ''m'')), de_dumps = (\<lambda>j. Some (py_repr j)),
      de_dumps_iocs = (\<lambda>d. py_repr (JObj d)), de_loads = (\<lambda>s. if s = py_repr vector_entry then Some vector_entry else None),
      de_real = (\<lambda>s. None), de_backend = memory_backend, de_ttl = 60, de_threshold = 1 / 2\<rparr>"

definition blank_cache :: "memory_store dedup_state" where
  "blank_cache = \<lparr>dd_store = [], dd_sent = []\<rparr>"

lemma local_embedder_scope:
  "scoped_query (call_env.truncate local_embedder) q ''alert'' ''ai_deduplicate_corpus'' = Inr (\<lambda>r. q r \<and> partner_a r)"
  by (simp add: scoped_query_def apply_tenant_access_query_def initialize_plugin_state_def set_missing_def
      local_embedder_def call_env.truncate_def no_plugins_def partner_a_tenant_def)

lemma one_two: "similarity_of [Inr 1, Inr 2] [Inr 1, Inr 2] = Inr 1"
  using cosine_bounds[of "[1, 2]" "[1, 2]"] by (simp add: similarity_of_def)

lemma first_vector:
  "get_or_compute_embedding local_embedder t a blank_cache =
     (Inr [Inr 1, Inr 2], \<lparr>dd_store = memory_set t (embedding_key (uuid_str (al_id a))) (py_repr vector_entry) 60 [],
        dd_sent = [alert_text (de_dumps_iocs local_embedder) a]\<rparr>)"
  by (simp add: get_or_compute_embedding_def compute_embedding_def local_embedder_def blank_cache_def memory_backend_def
      memory_get_def plain_real_def real_of_json_def vector_entry_def)

theorem embedding_reused_witness:
  "\<exists>s2. get_or_compute_embedding (local_embedder\<lparr>de_embed := (\<lambda>t. Inr ([JInt 7], JStr ''other'')), de_client := None\<rparr>) 90
      (shared_alert 1 ''scan'' ''a'') (snd (get_or_compute_embedding local_embedder 50 (shared_alert 1 ''scan'' ''a'') blank_cache)) =
      (Inr [Inr 1, Inr 2], s2) \<and> length (dd_sent s2) = 1"
proof -
  let ?a = "shared_alert 1 ''scan'' ''a''" and ?e = local_embedder
  have e: "de_backend ?e = memory_backend" "de_embed ?e (alert_text (de_dumps_iocs ?e) ?a) = Inr ([JInt 1, JInt 2], JStr ''m'')"
    "de_dumps ?e (JObj [(''vector'', JArr [JInt 1, JInt 2]), (''model'', JStr ''m'')]) = Some (py_repr vector_entry)"
    "de_loads ?e (py_repr vector_entry) = Some (JObj [(''vector'', JArr [JInt 1, JInt 2]), (''model'', JStr ''m'')])"
    by (simp_all add: local_embedder_def vector_entry_def)
  have t: "(50 :: time) \<le> 90" "(90 :: time) < 50 + seconds (max 0 (de_ttl ?e))" by (simp_all add: local_embedder_def seconds_def)
  show ?thesis
    using embedding_reused[OF e first_vector _ t] unfolding first_vector snd_conv by (force simp: blank_cache_def)
qed


theorem cosine_bounds_witness: "cosine_similarity [3, 4] [3, 4] = 1"
  using cosine_bounds[of "[3, 4]" "[3, 4]"] by simp

end
