(* ===== verification/Connectors.thy ===== *)
theory Connectors
  imports Resources
begin

text \<open>
  The connectors \<open>opensoar/integrations/*/connector.py\<close> over \<open>base.py\<close>: their configuration, health check, actions
  and lookups. A connected connector has an HTTP session, which is a parameter from requests to answers; the
  threat-intelligence services go through the cache of \<open>Cache\<close>. \<open>connector_of\<close> packs each as the
  \<open>connector_class\<close> that \<open>Resources\<close> loads and checks.
\<close>

section \<open>Sessions\<close>

record http_answer =
  ha_status :: int
  ha_text :: string
  ha_json :: "exn + json"

datatype http_request =
    Get string "(string \<times> json) list"
  | PostJson string json
  | PostForm string "(string \<times> json) list"

text \<open>What a session is opened with: base address, headers, basic authentication, certificate check.\<close>

record session_config =
  sc_base :: json
  sc_headers :: "(string \<times> json) list"
  sc_auth :: "(json \<times> json) option"
  sc_verify :: bool

text \<open>The HTTP client library: opening a session, which may refuse its configuration, and a request over one.\<close>

record http =
  ht_open :: "session_config \<Rightarrow> exn + unit"
  ht_send :: "session_config \<Rightarrow> http_request \<Rightarrow> exn + http_answer"

text \<open>A connector instance; a closed session is still a session.\<close>

record connection =
  co_config :: jdict
  co_client :: "session_config option"
  co_closed :: bool

definition not_connected :: exn where
  "not_connected = RuntimeError ''Not connected''"

text \<open>A request over the session; a closed one refuses.\<close>

definition exchange :: "http \<Rightarrow> connection \<Rightarrow> http_request \<Rightarrow> exn + http_answer" where
  "exchange http c q =
     (case co_client c of
        None \<Rightarrow> Inl not_connected
      | Some sess \<Rightarrow> if co_closed c then Inl (RuntimeError ''Session is closed'') else ht_send http sess q)"

definition config_item :: "connection \<Rightarrow> string \<Rightarrow> exn + json" where
  "config_item c k = py_key k (JObj (co_config c))"

definition has_key :: "jdict \<Rightarrow> string \<Rightarrow> bool" where
  "has_key d k \<longleftrightarrow> map_of d k \<noteq> None"

definition healthy :: "string \<Rightarrow> jdict option \<Rightarrow> health_check" where
  "healthy message details = \<lparr>hc_healthy = True, hc_message = message, hc_details = details\<rparr>"

definition unhealthy :: "string \<Rightarrow> health_check" where
  "unhealthy message = \<lparr>hc_healthy = False, hc_message = message, hc_details = None\<rparr>"

text \<open>\<open>except (aiohttp.ClientError, OSError, asyncio.TimeoutError)\<close>; the first is \<open>OtherError ''ClientError''\<close>
  when it is no \<open>OSError\<close>.\<close>

definition network_error :: "exn \<Rightarrow> bool" where
  "network_error e = (case e of OSError _ \<Rightarrow> True | TimeoutError _ \<Rightarrow> True | OtherError k \<Rightarrow> k = ''ClientError'' | _ \<Rightarrow> False)"

definition http_status :: "http_answer \<Rightarrow> string" where
  "http_status r = ''HTTP '' @ show_int (ha_status r)"

text \<open>The shape all health checks over HTTP share: one request; status 200 is read by \<open>ok\<close>, anything else is named, a
  network error becomes its text, any other exception escapes.\<close>

definition probe :: "http \<Rightarrow> connection \<Rightarrow> (exn + http_request) \<Rightarrow> (http_answer \<Rightarrow> exn + health_check) \<Rightarrow> exn + health_check" where
  "probe http c request ok =
     (if co_client c = None then Inr (unhealthy ''Not connected'')
      else case ebind request (\<lambda>q. ebind (exchange http c q) (\<lambda>r.
             if ha_status r = 200 then ok r else Inr (unhealthy (http_status r)))) of
        Inr h \<Rightarrow> Inr h
      | Inl e \<Rightarrow> if network_error e then Inr (unhealthy (exn_str e)) else Inl e)"

text \<open>Three of the connectors forget the session they close.\<close>

definition disconnect :: "string \<Rightarrow> connection \<Rightarrow> connection" where
  "disconnect ty c =
     (if co_client c = None then c
      else if ty \<in> set [''shodan'', ''splunk'', ''msdefender''] then c\<lparr>co_client := None\<rparr>
      else c\<lparr>co_closed := True\<rparr>)"

section \<open>Configurations\<close>

definition require_key :: "string \<Rightarrow> string \<Rightarrow> jdict \<Rightarrow> exn + unit" where
  "require_key service k config =
     guard (has_key config k) (ValueError (service @ '' requires '' @ quoted k @ '' in config''))"

fun require_all :: "string list \<Rightarrow> jdict \<Rightarrow> exn + unit" where
  "require_all [] config = Inr ()"
| "require_all (k # ks) config =
     ebind (guard (has_key config k \<and> truthy (dget config k))
        (ValueError (''Microsoft Defender requires '' @ quoted k @
           '' in config (provide via environment-backed integration config)''))) (\<lambda>_. require_all ks config)"

definition basic_keys :: "jdict \<Rightarrow> bool" where
  "basic_keys config \<longleftrightarrow> has_key config ''username'' \<and> has_key config ''password''"

definition credentials_missing :: "string \<Rightarrow> string \<Rightarrow> exn" where
  "credentials_missing service k =
     ValueError (service @ '' requires '' @ quoted k @ '' or '' @ quoted ''username'' @ ''+'' @ quoted ''password'' @ '' in config'')"

definition virustotal_validate :: "jdict \<Rightarrow> exn + unit" where
  "virustotal_validate config = require_key ''VirusTotal'' ''api_key'' config"

definition abuseipdb_validate :: "jdict \<Rightarrow> exn + unit" where
  "abuseipdb_validate config = require_key ''AbuseIPDB'' ''api_key'' config"

definition greynoise_validate :: "jdict \<Rightarrow> exn + unit" where
  "greynoise_validate config = require_key ''GreyNoise'' ''api_key'' config"

definition shodan_validate :: "jdict \<Rightarrow> exn + unit" where
  "shodan_validate config = require_key ''Shodan'' ''api_key'' config"

definition elastic_validate :: "jdict \<Rightarrow> exn + unit" where
  "elastic_validate config =
     ebind (require_key ''Elastic'' ''url'' config) (\<lambda>_.
       guard (has_key config ''api_key'' \<or> basic_keys config) (credentials_missing ''Elastic'' ''api_key''))"

definition splunk_validate :: "jdict \<Rightarrow> exn + unit" where
  "splunk_validate config =
     ebind (require_key ''Splunk'' ''url'' config) (\<lambda>_.
       guard (has_key config ''token'' \<or> basic_keys config) (credentials_missing ''Splunk'' ''token''))"

definition slack_validate :: "jdict \<Rightarrow> exn + unit" where
  "slack_validate config =
     guard (has_key config ''webhook_url'' \<or> has_key config ''bot_token'')
       (ValueError (''Slack requires '' @ quoted ''webhook_url'' @ '' or '' @ quoted ''bot_token'' @ '' in config''))"

definition email_validate :: "jdict \<Rightarrow> exn + unit" where
  "email_validate config = require_key ''Email'' ''smtp_host'' config"

definition defender_validate :: "jdict \<Rightarrow> exn + unit" where
  "defender_validate config = require_all [''tenant_id'', ''client_id'', ''client_secret''] config"

definition validate_config :: "string \<Rightarrow> jdict \<Rightarrow> exn + unit" where
  "validate_config ty =
     (if ty = ''virustotal'' then virustotal_validate
      else if ty = ''abuseipdb'' then abuseipdb_validate
      else if ty = ''greynoise'' then greynoise_validate
      else if ty = ''shodan'' then shodan_validate
      else if ty = ''elastic'' then elastic_validate
      else if ty = ''splunk'' then splunk_validate
      else if ty = ''slack'' then slack_validate
      else if ty = ''email'' then email_validate
      else defender_validate)"

definition bearer :: "json \<Rightarrow> json" where
  "bearer token = JStr (''Bearer '' @ py_str token)"

definition plain_session :: "json \<Rightarrow> (string \<times> json) list \<Rightarrow> session_config" where
  "plain_session base headers = \<lparr>sc_base = base, sc_headers = headers, sc_auth = None, sc_verify = True\<rparr>"

definition accept_json :: "string \<times> json" where
  "accept_json = (''Accept'', JStr ''application/json'')"

definition content_json :: "string \<times> json" where
  "content_json = (''Content-Type'', JStr ''application/json'')"

definition defender_api :: string where
  "defender_api = ''https://api.securitycenter.microsoft.com''"

text \<open>\<open>k in v\<close>.\<close>

definition py_contains :: "string \<Rightarrow> json \<Rightarrow> exn + bool" where
  "py_contains k v = (case v of
      JObj d \<Rightarrow> Inr (has_key d k)
    | JArr xs \<Rightarrow> Inr (py_in (JStr k) xs)
    | JStr s \<Rightarrow> Inr (sublist k s)
    | _ \<Rightarrow> Inl (TypeError ''not iterable''))"

text \<open>The token of Microsoft Defender, fetched in a session of its own.\<close>

definition token_answer :: "http_answer \<Rightarrow> exn + string" where
  "token_answer r =
     ebind (ha_json r) (\<lambda>data.
     ebind (if ha_status r \<noteq> 200 then Inr False else py_contains ''access_token'' data) (\<lambda>granted.
       if granted then ebind (py_key ''access_token'' data) (\<lambda>t. Inr (py_str t))
       else ebind (py_get data ''error'' (JStr ''unknown'')) (\<lambda>e.
              Inl (RuntimeError (''Failed to obtain Defender access token: status='' @ show_int (ha_status r) @ '' error='' @ py_str e)))))"

definition fetch_access_token :: "http \<Rightarrow> connection \<Rightarrow> exn + string" where
  "fetch_access_token http c =
     ebind (config_item c ''tenant_id'') (\<lambda>tenant.
     ebind (config_item c ''client_id'') (\<lambda>client_id.
     ebind (config_item c ''client_secret'') (\<lambda>secret.
     ebind (ht_open http (plain_session JNull [])) (\<lambda>_.
     ebind (ht_send http (plain_session JNull [])
         (PostForm (''https://login.microsoftonline.com/'' @ py_str tenant @ ''/oauth2/v2.0/token'')
           [(''grant_type'', JStr ''client_credentials''), (''client_id'', client_id), (''client_secret'', secret),
            (''scope'', JStr (defender_api @ ''/.default'')), (''resource'', JStr defender_api)])) token_answer))))"

definition credentials :: "connection \<Rightarrow> string \<Rightarrow> (json \<Rightarrow> json) \<Rightarrow> exn + ((string \<times> json) list \<times> (json \<times> json) option)" where
  "credentials c k header =
     (if has_key (co_config c) k then ebind (config_item c k) (\<lambda>t. Inr ([(''Authorization'', header t)], None))
      else ebind (config_item c ''username'') (\<lambda>u. ebind (config_item c ''password'') (\<lambda>p. Inr ([], Some (u, p)))))"

definition virustotal_session :: "connection \<Rightarrow> exn + session_config" where
  "virustotal_session c = ebind (config_item c ''api_key'') (\<lambda>k.
     Inr (plain_session (JStr ''https://www.virustotal.com/api/v3'') [(''x-apikey'', k)]))"

definition abuseipdb_session :: "connection \<Rightarrow> exn + session_config" where
  "abuseipdb_session c = ebind (config_item c ''api_key'') (\<lambda>k.
     Inr (plain_session (JStr ''https://api.abuseipdb.com/api/v2'') [(''Key'', k), accept_json]))"

definition greynoise_session :: "json \<Rightarrow> session_config" where
  "greynoise_session k = plain_session (JStr ''https://api.greynoise.io'') [(''key'', k), accept_json]"

definition shodan_session :: session_config where
  "shodan_session = plain_session (JStr ''https://api.shodan.io'') [accept_json]"

definition elastic_session :: "connection \<Rightarrow> exn + session_config" where
  "elastic_session c =
     ebind (credentials c ''api_key'' (\<lambda>k. JStr (''ApiKey '' @ py_str k))) (\<lambda>(headers, auth).
     ebind (config_item c ''url'') (\<lambda>url.
       Inr \<lparr>sc_base = url, sc_headers = content_json # headers, sc_auth = auth, sc_verify = True\<rparr>))"

definition splunk_session :: "connection \<Rightarrow> exn + session_config" where
  "splunk_session c =
     ebind (credentials c ''token'' bearer) (\<lambda>(headers, auth).
     ebind (config_item c ''url'') (\<lambda>url.
       Inr \<lparr>sc_base = url, sc_headers = accept_json # headers, sc_auth = auth,
             sc_verify = truthy (dget_default (co_config c) ''verify_ssl'' (JBool True))\<rparr>))"

definition slack_session :: "connection \<Rightarrow> session_config" where
  "slack_session c =
     plain_session JNull (content_json # (case map_of (co_config c) ''bot_token'' of
       None \<Rightarrow> [] | Some t \<Rightarrow> [(''Authorization'', bearer t)]))"

definition defender_session :: "http \<Rightarrow> connection \<Rightarrow> exn + session_config" where
  "defender_session http c = ebind (fetch_access_token http c) (\<lambda>t.
     Inr (plain_session (JStr defender_api) [(''Authorization'', JStr (''Bearer '' @ t)), content_json, accept_json]))"

definition open_session :: "string \<Rightarrow> http \<Rightarrow> connection \<Rightarrow> exn + session_config" where
  "open_session ty http c =
     (if ty = ''virustotal'' then virustotal_session c
      else if ty = ''abuseipdb'' then abuseipdb_session c
      else if ty = ''greynoise'' then ebind (config_item c ''api_key'') (\<lambda>k. Inr (greynoise_session k))
      else if ty = ''shodan'' then Inr shodan_session
      else if ty = ''elastic'' then elastic_session c
      else if ty = ''splunk'' then splunk_session c
      else if ty = ''slack'' then Inr (slack_session c)
      else defender_session http c)"

definition connect :: "string \<Rightarrow> http \<Rightarrow> connection \<Rightarrow> exn + connection" where
  "connect ty http c =
     (if ty = ''email'' then Inr c
      else ebind (open_session ty http c) (\<lambda>sess. ebind (ht_open http sess) (\<lambda>_.
        Inr (c\<lparr>co_client := Some sess, co_closed := False\<rparr>))))"

section \<open>Health checks\<close>

definition get_probe :: "string \<Rightarrow> (string \<times> json) list \<Rightarrow> exn + http_request" where
  "get_probe path params = Inr (Get path params)"

definition api_key_params :: "connection \<Rightarrow> (string \<times> json) list \<Rightarrow> exn + (string \<times> json) list" where
  "api_key_params c extra = ebind (config_item c ''api_key'') (\<lambda>k. Inr ((''key'', k) # extra))"

definition or_empty :: "json \<Rightarrow> json" where
  "or_empty v = py_or v (JObj [])"

text \<open>\<open>(data.get("entry") or [{}])[0]\<close> and its content.\<close>

definition first_content :: "json \<Rightarrow> exn + json" where
  "first_content data =
     ebind (py_get data ''entry'' JNull) (\<lambda>entries. ebind (py_first (py_or entries (JArr [JObj []]))) (\<lambda>entry.
     ebind (py_get entry ''content'' JNull) (\<lambda>content. Inr (or_empty content))))"

definition splunk_version :: "http_answer \<Rightarrow> exn + health_check" where
  "splunk_version r =
     ebind (ha_json r) (\<lambda>data. ebind (first_content data) (\<lambda>content. ebind (py_get content ''version'' JNull) (\<lambda>v.
       Inr (healthy ''OK'' (Some [(''version'', py_or v (JStr []))])))))"

definition elastic_version :: "http_answer \<Rightarrow> exn + health_check" where
  "elastic_version r =
     ebind (ha_json r) (\<lambda>data. ebind (py_get data ''version'' (JObj [])) (\<lambda>ver. ebind (py_get ver ''number'' JNull) (\<lambda>v.
       Inr (healthy ''Connected'' (Some [(''version'', v)])))))"

definition slack_health :: "http \<Rightarrow> connection \<Rightarrow> exn + health_check" where
  "slack_health http c =
     (if co_client c = None then Inr (unhealthy ''Not connected'')
      else if \<not> has_key (co_config c) ''bot_token'' then Inr (healthy ''Webhook configured (cannot verify)'' None)
      else case ebind (exchange http c (PostForm ''https://slack.com/api/auth.test'' [])) (\<lambda>r. ebind (ha_json r) (\<lambda>data.
             ebind (py_get data ''ok'' JNull) (\<lambda>ok.
               if truthy ok then Inr (healthy ''OK'' None)
               else ebind (py_get data ''error'' (JStr ''Unknown'')) (\<lambda>e. Inr (unhealthy (py_str e)))))) of
        Inr h \<Rightarrow> Inr h
      | Inl e \<Rightarrow> if network_error e then Inr (unhealthy (exn_str e)) else Inl e)"

text \<open>The mail server: connecting to a host and port and greeting it. \<open>SMTPException\<close> is an \<open>OSError\<close>.\<close>

definition smtp_caught :: "exn \<Rightarrow> bool" where
  "smtp_caught e = (case e of OSError _ \<Rightarrow> True | TimeoutError _ \<Rightarrow> True | KeyError _ \<Rightarrow> True | _ \<Rightarrow> False)"

definition email_health :: "(json \<Rightarrow> json \<Rightarrow> exn + unit) \<Rightarrow> connection \<Rightarrow> exn + health_check" where
  "email_health smtp c =
     (case ebind (config_item c ''smtp_host'') (\<lambda>host. smtp host (dget_default (co_config c) ''smtp_port'' (JInt 587))) of
        Inr u \<Rightarrow> Inr (healthy ''SMTP connection OK'' None)
      | Inl e \<Rightarrow> if smtp_caught e then Inr (unhealthy (exn_str e)) else Inl e)"

definition plain_ok :: "http_answer \<Rightarrow> exn + health_check" where
  "plain_ok r = Inr (healthy ''OK'' None)"

definition virustotal_health :: "http \<Rightarrow> connection \<Rightarrow> exn + health_check" where
  "virustotal_health http c = probe http c (get_probe ''/users/me'' []) plain_ok"

definition abuseipdb_health :: "http \<Rightarrow> connection \<Rightarrow> exn + health_check" where
  "abuseipdb_health http c =
     probe http c (get_probe ''/check'' [(''ipAddress'', JStr ''8.8.8.8''), (''maxAgeInDays'', JStr ''1'')]) plain_ok"

definition greynoise_health :: "http \<Rightarrow> connection \<Rightarrow> exn + health_check" where
  "greynoise_health http c = probe http c (get_probe ''/v2/noise/quick/8.8.8.8'' []) plain_ok"

definition shodan_health :: "http \<Rightarrow> connection \<Rightarrow> exn + health_check" where
  "shodan_health http c = probe http c (ebind (api_key_params c []) (get_probe ''/api-info'')) plain_ok"

definition elastic_health :: "http \<Rightarrow> connection \<Rightarrow> exn + health_check" where
  "elastic_health http c = probe http c (get_probe ''/api/status'' []) elastic_version"

definition splunk_health :: "http \<Rightarrow> connection \<Rightarrow> exn + health_check" where
  "splunk_health http c = probe http c (get_probe ''/services/server/info'' [(''output_mode'', JStr ''json'')]) splunk_version"

definition defender_health :: "http \<Rightarrow> connection \<Rightarrow> exn + health_check" where
  "defender_health http c = probe http c (get_probe ''/api/alerts'' [(''$top'', JInt 1)]) plain_ok"

definition health_of :: "string \<Rightarrow> http \<Rightarrow> (json \<Rightarrow> json \<Rightarrow> exn + unit) \<Rightarrow> connection \<Rightarrow> exn + health_check" where
  "health_of ty http smtp =
     (if ty = ''virustotal'' then virustotal_health http
      else if ty = ''abuseipdb'' then abuseipdb_health http
      else if ty = ''greynoise'' then greynoise_health http
      else if ty = ''shodan'' then shodan_health http
      else if ty = ''elastic'' then elastic_health http
      else if ty = ''splunk'' then splunk_health http
      else if ty = ''slack'' then slack_health http
      else if ty = ''email'' then email_health smtp
      else defender_health http)"

text \<open>An instance is made, connected and checked; what the loader knows of a connector.\<close>

definition check_connector :: "string \<Rightarrow> http \<Rightarrow> (json \<Rightarrow> json \<Rightarrow> exn + unit) \<Rightarrow> jdict \<Rightarrow> exn + health_check" where
  "check_connector ty http smtp config =
     ebind (validate_config ty config) (\<lambda>_.
     ebind (connect ty http \<lparr>co_config = config, co_client = None, co_closed = False\<rparr>) (\<lambda>c. health_of ty http smtp c))"

definition connector_titles :: "(string \<times> string \<times> string) list" where
  "connector_titles = [
     (''virustotal'', ''VirusTotal'', ''File, URL, IP, and domain reputation lookups''),
     (''abuseipdb'', ''AbuseIPDB'', ''IP address reputation and abuse reporting''),
     (''greynoise'', ''GreyNoise'', ''Internet noise and RIOT classification for IP addresses''),
     (''shodan'', ''Shodan'', ''Shodan infrastructure enrichment -- host info, search, and DNS lookups''),
     (''elastic'', ''Elastic Security'', ''Elastic Security SIEM integration for alerts, cases, and response actions''),
     (''splunk'', ''Splunk'', ''Splunk Enterprise / ES integration for search, notables, and alert ingestion''),
     (''slack'', ''Slack'', ''Send notifications and alerts to Slack channels''),
     (''email'', ''Email (SMTP)'', ''Send email notifications via SMTP''),
     (''msdefender'', ''Microsoft Defender for Endpoint'',
        ''Microsoft Defender for Endpoint integration for alerts, machine isolation, antivirus scans, and threat indicators'')]"

definition connector_of :: "http \<Rightarrow> (json \<Rightarrow> json \<Rightarrow> exn + unit) \<Rightarrow> string \<Rightarrow> connector_class" where
  "connector_of http smtp ty =
     \<lparr>cc_display_name = map_option fst (map_of connector_titles ty),
      cc_description = map_option snd (map_of connector_titles ty),
      cc_check = check_connector ty http smtp\<rparr>"

section \<open>Lookups\<close>

datatype lookup =
    VtIp string | VtHash string | VtDomain string
  | AbuseIp string int
  | GnQuick string | GnContext string | GnRiot string | GnQuery string
  | ShodanHost string | ShodanSearch string | ShodanResolve string | ShodanReverse string

fun lookup_source :: "lookup \<Rightarrow> string" where
  "lookup_source (VtIp _) = ''virustotal''" | "lookup_source (VtHash _) = ''virustotal''"
| "lookup_source (VtDomain _) = ''virustotal''" | "lookup_source (AbuseIp _ _) = ''abuseipdb''"
| "lookup_source (GnQuick _) = ''greynoise''" | "lookup_source (GnContext _) = ''greynoise''"
| "lookup_source (GnRiot _) = ''greynoise''" | "lookup_source (GnQuery _) = ''greynoise''"
| "lookup_source (ShodanHost _) = ''shodan''" | "lookup_source (ShodanSearch _) = ''shodan''"
| "lookup_source (ShodanResolve _) = ''shodan''" | "lookup_source (ShodanReverse _) = ''shodan''"

fun lookup_type :: "lookup \<Rightarrow> string" where
  "lookup_type (VtIp _) = ''ip''" | "lookup_type (VtHash _) = ''hash''" | "lookup_type (VtDomain _) = ''domain''"
| "lookup_type (AbuseIp _ _) = ''ip''"
| "lookup_type (GnQuick _) = ''ip''" | "lookup_type (GnContext _) = ''ip''" | "lookup_type (GnRiot _) = ''ip''"
| "lookup_type (GnQuery _) = ''gnql''"
| "lookup_type (ShodanHost _) = ''ip''" | "lookup_type (ShodanSearch _) = ''search''"
| "lookup_type (ShodanResolve _) = ''domain''" | "lookup_type (ShodanReverse _) = ''ip_reverse''"

text \<open>The text the cache entry is kept under.\<close>

fun lookup_value :: "lookup \<Rightarrow> string" where
  "lookup_value (VtIp ip) = ip" | "lookup_value (VtHash h) = h" | "lookup_value (VtDomain d) = d"
| "lookup_value (AbuseIp ip days) = ip @ ''|maxAgeInDays='' @ show_int days"
| "lookup_value (GnQuick ip) = ''quick:'' @ ip" | "lookup_value (GnContext ip) = ''context:'' @ ip"
| "lookup_value (GnRiot ip) = ''riot:'' @ ip" | "lookup_value (GnQuery q) = q"
| "lookup_value (ShodanHost ip) = ip" | "lookup_value (ShodanSearch q) = q" | "lookup_value (ShodanResolve d) = d"
| "lookup_value (ShodanReverse ip) = ip"

fun lookup_request :: "connection \<Rightarrow> lookup \<Rightarrow> exn + http_request" where
  "lookup_request c (VtIp ip) = Inr (Get (''/ip_addresses/'' @ ip) [])"
| "lookup_request c (VtHash h) = Inr (Get (''/files/'' @ h) [])"
| "lookup_request c (VtDomain d) = Inr (Get (''/domains/'' @ d) [])"
| "lookup_request c (AbuseIp ip days) = Inr (Get ''/check'' [(''ipAddress'', JStr ip), (''maxAgeInDays'', JStr (show_int days))])"
| "lookup_request c (GnQuick ip) = Inr (Get (''/v2/noise/quick/'' @ ip) [])"
| "lookup_request c (GnContext ip) = Inr (Get (''/v2/noise/context/'' @ ip) [])"
| "lookup_request c (GnRiot ip) = Inr (Get (''/v2/riot/'' @ ip) [])"
| "lookup_request c (GnQuery q) = Inr (Get ''/v2/experimental/gnql'' [(''query'', JStr q)])"
| "lookup_request c (ShodanHost ip) = ebind (api_key_params c []) (get_probe (''/shodan/host/'' @ ip))"
| "lookup_request c (ShodanSearch q) = ebind (api_key_params c [(''query'', JStr q)]) (get_probe ''/shodan/host/search'')"
| "lookup_request c (ShodanResolve d) = ebind (api_key_params c [(''hostnames'', JStr d)]) (get_probe ''/dns/resolve'')"
| "lookup_request c (ShodanReverse ip) = ebind (api_key_params c [(''ips'', JStr ip)]) (get_probe ''/dns/reverse'')"

text \<open>The answer is read whatever its status.\<close>

definition fetch_lookup :: "http \<Rightarrow> connection \<Rightarrow> lookup \<Rightarrow> exn + json" where
  "fetch_lookup http c l = ebind (lookup_request c l) (\<lambda>q. ebind (exchange http c q) ha_json)"

definition run_lookup ::
  "cache_env \<Rightarrow> 's backend \<Rightarrow> http \<Rightarrow> time \<Rightarrow> connection \<Rightarrow> lookup \<Rightarrow> 's cache \<Rightarrow> (exn + json) \<times> bool \<times> 's cache" where
  "run_lookup env B http now c l cache =
     (if co_client c = None then (Inl not_connected, False, cache)
      else get_or_fetch env B now (lookup_source l) (lookup_type l) (lookup_value l) (fetch_lookup http c l)
             (Some (default_ttl_for (ce_ttls env) (lookup_source l))) cache)"

text \<open>The methods.\<close>

definition virustotal_lookup_ip :: "cache_env \<Rightarrow> 's backend \<Rightarrow> http \<Rightarrow> time \<Rightarrow> connection \<Rightarrow> string \<Rightarrow> 's cache \<Rightarrow> (exn + json) \<times> bool \<times> 's cache" where
  "virustotal_lookup_ip env B http now c v = run_lookup env B http now c (VtIp v)"

definition virustotal_lookup_hash :: "cache_env \<Rightarrow> 's backend \<Rightarrow> http \<Rightarrow> time \<Rightarrow> connection \<Rightarrow> string \<Rightarrow> 's cache \<Rightarrow> (exn + json) \<times> bool \<times> 's cache" where
  "virustotal_lookup_hash env B http now c v = run_lookup env B http now c (VtHash v)"

definition virustotal_lookup_domain :: "cache_env \<Rightarrow> 's backend \<Rightarrow> http \<Rightarrow> time \<Rightarrow> connection \<Rightarrow> string \<Rightarrow> 's cache \<Rightarrow> (exn + json) \<times> bool \<times> 's cache" where
  "virustotal_lookup_domain env B http now c v = run_lookup env B http now c (VtDomain v)"

definition greynoise_quick_lookup :: "cache_env \<Rightarrow> 's backend \<Rightarrow> http \<Rightarrow> time \<Rightarrow> connection \<Rightarrow> string \<Rightarrow> 's cache \<Rightarrow> (exn + json) \<times> bool \<times> 's cache" where
  "greynoise_quick_lookup env B http now c v = run_lookup env B http now c (GnQuick v)"

definition greynoise_context :: "cache_env \<Rightarrow> 's backend \<Rightarrow> http \<Rightarrow> time \<Rightarrow> connection \<Rightarrow> string \<Rightarrow> 's cache \<Rightarrow> (exn + json) \<times> bool \<times> 's cache" where
  "greynoise_context env B http now c v = run_lookup env B http now c (GnContext v)"

definition greynoise_riot :: "cache_env \<Rightarrow> 's backend \<Rightarrow> http \<Rightarrow> time \<Rightarrow> connection \<Rightarrow> string \<Rightarrow> 's cache \<Rightarrow> (exn + json) \<times> bool \<times> 's cache" where
  "greynoise_riot env B http now c v = run_lookup env B http now c (GnRiot v)"

definition greynoise_gnql :: "cache_env \<Rightarrow> 's backend \<Rightarrow> http \<Rightarrow> time \<Rightarrow> connection \<Rightarrow> string \<Rightarrow> 's cache \<Rightarrow> (exn + json) \<times> bool \<times> 's cache" where
  "greynoise_gnql env B http now c v = run_lookup env B http now c (GnQuery v)"

definition shodan_host_info :: "cache_env \<Rightarrow> 's backend \<Rightarrow> http \<Rightarrow> time \<Rightarrow> connection \<Rightarrow> string \<Rightarrow> 's cache \<Rightarrow> (exn + json) \<times> bool \<times> 's cache" where
  "shodan_host_info env B http now c v = run_lookup env B http now c (ShodanHost v)"

definition shodan_search :: "cache_env \<Rightarrow> 's backend \<Rightarrow> http \<Rightarrow> time \<Rightarrow> connection \<Rightarrow> string \<Rightarrow> 's cache \<Rightarrow> (exn + json) \<times> bool \<times> 's cache" where
  "shodan_search env B http now c v = run_lookup env B http now c (ShodanSearch v)"

definition shodan_dns_resolve :: "cache_env \<Rightarrow> 's backend \<Rightarrow> http \<Rightarrow> time \<Rightarrow> connection \<Rightarrow> string \<Rightarrow> 's cache \<Rightarrow> (exn + json) \<times> bool \<times> 's cache" where
  "shodan_dns_resolve env B http now c v = run_lookup env B http now c (ShodanResolve v)"

definition shodan_dns_reverse :: "cache_env \<Rightarrow> 's backend \<Rightarrow> http \<Rightarrow> time \<Rightarrow> connection \<Rightarrow> string \<Rightarrow> 's cache \<Rightarrow> (exn + json) \<times> bool \<times> 's cache" where
  "shodan_dns_reverse env B http now c v = run_lookup env B http now c (ShodanReverse v)"

definition abuseipdb_check_ip :: "cache_env \<Rightarrow> 's backend \<Rightarrow> http \<Rightarrow> time \<Rightarrow> connection \<Rightarrow> string \<Rightarrow> int \<Rightarrow> 's cache \<Rightarrow> (exn + json) \<times> bool \<times> 's cache" where
  "abuseipdb_check_ip env B http now c ip days = run_lookup env B http now c (AbuseIp ip days)"

text \<open>The two uncached ones.\<close>

definition shodan_uncached :: "http \<Rightarrow> connection \<Rightarrow> string \<Rightarrow> exn + json" where
  "shodan_uncached http c path =
     ebind (guard (co_client c \<noteq> None) not_connected) (\<lambda>_.
     ebind (api_key_params c []) (\<lambda>ps. ebind (exchange http c (Get path ps)) ha_json))"

definition shodan_account_profile :: "http \<Rightarrow> connection \<Rightarrow> exn + json" where
  "shodan_account_profile http c = shodan_uncached http c ''/account/profile''"

definition shodan_api_info :: "http \<Rightarrow> connection \<Rightarrow> exn + json" where
  "shodan_api_info http c = shodan_uncached http c ''/api-info''"

section \<open>Advertised actions\<close>

record action_definition =
  ad_name :: string
  ad_description :: string
  ad_parameters :: "(string \<times> string) list"

definition act :: "string \<Rightarrow> string \<Rightarrow> (string \<times> string) list \<Rightarrow> action_definition" where
  "act name description parameters =
     \<lparr>ad_name = name, ad_description = description, ad_parameters = parameters\<rparr>"

definition text_param :: "string \<Rightarrow> string \<times> string" where
  "text_param k = (k, ''string'')"

definition virustotal_actions :: "action_definition list" where
  "virustotal_actions =
       [act ''lookup_ip'' ''Get IP address reputation'' [text_param ''ip''],
        act ''lookup_hash'' ''Get file hash reputation'' [text_param ''file_hash''],
        act ''lookup_domain'' ''Get domain reputation'' [text_param ''domain'']]"

definition abuseipdb_actions :: "action_definition list" where
  "abuseipdb_actions =
       [act ''check_ip'' ''Check an IP address for abuse reports'' [text_param ''ip'', (''max_age_days'', ''integer'')]]"

definition greynoise_actions :: "action_definition list" where
  "greynoise_actions =
       [act ''quick_lookup'' ''Fast noise/RIOT classification for an IP'' [text_param ''ip''],
        act ''context'' ''Full noise context for an IP (metadata, tags, raw_data)'' [text_param ''ip''],
        act ''riot'' ''RIOT lookup -- is this IP a known-benign service?'' [text_param ''ip''],
        act ''gnql'' ''Run a GNQL query against GreyNoise'' [text_param ''query'']]"

definition shodan_actions :: "action_definition list" where
  "shodan_actions =
       [act ''host_info'' ''Get Shodan host record for an IP'' [text_param ''ip''],
        act ''search'' ''Run a Shodan search query'' [text_param ''query''],
        act ''dns_resolve'' ''Resolve a hostname to an IP via Shodan DNS'' [text_param ''domain''],
        act ''dns_reverse'' ''Reverse-resolve an IP to hostnames via Shodan DNS'' [text_param ''ip''],
        act ''account_profile'' ''Fetch the authenticated account profile'' [],
        act ''api_info'' ''Fetch API plan and quota information'' []]"

definition elastic_actions :: "action_definition list" where
  "elastic_actions =
       [act ''get_alerts'' ''Query Elastic Security alerts'' [(''query'', ''object''), (''size'', ''integer'')],
        act ''isolate_host'' ''Isolate a host via Elastic Endpoint'' [text_param ''agent_id''],
        act ''create_case'' ''Create an Elastic Security case'' [text_param ''title'', text_param ''description'']]"

definition splunk_actions :: "action_definition list" where
  "splunk_actions =
       [act ''run_search'' ''Dispatch an SPL search and return results'' [text_param ''spl'', text_param ''earliest'', text_param ''latest''],
        act ''list_indexes'' ''List available Splunk indexes'' [],
        act ''ingest_alerts'' ''Poll a saved search for recent notable events'' [text_param ''saved_search''],
        act ''create_notable_event'' ''Create a notable event via Splunk Enterprise Security''
          [text_param ''rule_name'', text_param ''description'', text_param ''severity'']]"

definition slack_actions :: "action_definition list" where
  "slack_actions =
       [act ''send_message'' ''Send a message to a Slack channel'' [text_param ''channel'', text_param ''text'']]"

definition email_actions :: "action_definition list" where
  "email_actions =
       [act ''send_email'' ''Send an email notification'' [text_param ''to'', text_param ''subject'', text_param ''body'']]"

definition defender_actions :: "action_definition list" where
  "defender_actions =
     [act ''list_alerts'' ''List Defender alerts, optionally filtered via OData'' [text_param ''odata_filter'', (''top'', ''integer'')],
      act ''get_alert'' ''Fetch a single Defender alert by ID'' [text_param ''alert_id''],
      act ''isolate_machine'' ''Isolate a machine from the network''
        [text_param ''machine_id'', text_param ''comment'', text_param ''isolation_type''],
      act ''unisolate_machine'' ''Release a machine from isolation'' [text_param ''machine_id'', text_param ''comment''],
      act ''list_machines'' ''List onboarded Defender machines'' [text_param ''odata_filter'', (''top'', ''integer'')],
      act ''run_antivirus_scan'' ''Trigger a Defender antivirus scan on a machine''
        [text_param ''machine_id'', text_param ''scan_type'', text_param ''comment''],
      act ''list_indicators'' ''List custom threat indicators configured in Defender'' [text_param ''odata_filter'', (''top'', ''integer'')]]"

definition get_actions :: "string \<Rightarrow> action_definition list" where
  "get_actions ty =
     (if ty = ''virustotal'' then virustotal_actions
      else if ty = ''abuseipdb'' then abuseipdb_actions
      else if ty = ''greynoise'' then greynoise_actions
      else if ty = ''shodan'' then shodan_actions
      else if ty = ''elastic'' then elastic_actions
      else if ty = ''splunk'' then splunk_actions
      else if ty = ''slack'' then slack_actions
      else if ty = ''email'' then email_actions
      else defender_actions)"

text \<open>The actions the modules register for playbooks: placeholders that name their argument and do nothing.\<close>

definition lookup_stub :: "string \<Rightarrow> string \<Rightarrow> string \<Rightarrow> string \<Rightarrow> json" where
  "lookup_stub key source title v =
     JObj [(key, JStr v), (''source'', JStr source), (''note'', JStr (''Configure '' @ title @ '' integration for live lookups''))]"

definition virustotal_ip_stub :: "string \<Rightarrow> json" where
  "virustotal_ip_stub = lookup_stub ''ip'' ''virustotal'' ''VT''"

definition virustotal_hash_stub :: "string \<Rightarrow> json" where
  "virustotal_hash_stub = lookup_stub ''hash'' ''virustotal'' ''VT''"

definition virustotal_domain_stub :: "string \<Rightarrow> json" where
  "virustotal_domain_stub = lookup_stub ''domain'' ''virustotal'' ''VT''"

definition abuseipdb_ip_stub :: "string \<Rightarrow> json" where
  "abuseipdb_ip_stub = lookup_stub ''ip'' ''abuseipdb'' ''AbuseIPDB''"

definition greynoise_quick_stub :: "string \<Rightarrow> json" where
  "greynoise_quick_stub = lookup_stub ''ip'' ''greynoise'' ''GreyNoise''"

definition greynoise_context_stub :: "string \<Rightarrow> json" where
  "greynoise_context_stub = lookup_stub ''ip'' ''greynoise'' ''GreyNoise''"

definition greynoise_riot_stub :: "string \<Rightarrow> json" where
  "greynoise_riot_stub = lookup_stub ''ip'' ''greynoise'' ''GreyNoise''"

definition greynoise_gnql_stub :: "string \<Rightarrow> json" where
  "greynoise_gnql_stub = lookup_stub ''query'' ''greynoise'' ''GreyNoise''"

definition shodan_host_stub :: "string \<Rightarrow> json" where
  "shodan_host_stub = lookup_stub ''ip'' ''shodan'' ''Shodan''"

definition shodan_search_stub :: "string \<Rightarrow> json" where
  "shodan_search_stub = lookup_stub ''query'' ''shodan'' ''Shodan''"

definition shodan_resolve_stub :: "string \<Rightarrow> json" where
  "shodan_resolve_stub = lookup_stub ''domain'' ''shodan'' ''Shodan''"

definition shodan_reverse_stub :: "string \<Rightarrow> json" where
  "shodan_reverse_stub = lookup_stub ''ip'' ''shodan'' ''Shodan''"

definition slack_stub :: "string \<Rightarrow> string \<Rightarrow> json" where
  "slack_stub channel message =
     JObj [(''channel'', JStr channel), (''text'', JStr message), (''note'', JStr ''Configure Slack integration for live messages'')]"

definition email_stub :: "string \<Rightarrow> string \<Rightarrow> string \<Rightarrow> json" where
  "email_stub recipient subject body =
     JObj [(''to'', JStr recipient), (''subject'', JStr subject), (''note'', JStr ''Configure Email integration for live sending'')]"

definition stub_meta :: "string \<Rightarrow> string \<Rightarrow> action_meta" where
  "stub_meta name description =
     (if name = ''slack.send_message'' then action_decorator name (Some name) 15 1 1 description
      else if name = ''email.send'' then action_decorator name (Some name) 30 1 1 description
      else action_decorator name (Some name) 30 2 2 description)"

section \<open>One entry per question\<close>

lemma show_int_bar: "CHR ''|'' \<notin> set (show_int n)"
proof -
  have d: "list_all is_digit (show_nat k)" for k by (rule show_nat_digits)
  have "CHR ''|'' \<notin> set (show_nat k)" for k
  proof
    assume "CHR ''|'' \<in> set (show_nat k)"
    with d[of k] have "is_digit (CHR ''|'')" by (simp add: list_all_iff)
    then show False by (simp add: is_digit_def)
  qed
  then show ?thesis by (simp add: show_int_def)
qed

lemma bar_split: "x @ CHR ''|'' # y = x' @ CHR ''|'' # y' \<Longrightarrow> CHR ''|'' \<notin> set y \<Longrightarrow> CHR ''|'' \<notin> set y' \<Longrightarrow> x = x' \<and> y = y'"
proof -
  assume e: "x @ CHR ''|'' # y = x' @ CHR ''|'' # y'" and n: "CHR ''|'' \<notin> set y" "CHR ''|'' \<notin> set y'"
  have "takeWhile (\<lambda>c. c \<noteq> CHR ''|'') (rev (u @ CHR ''|'' # v)) = rev v" if "CHR ''|'' \<notin> set v" for u v
    using that by (simp add: takeWhile_append)
  from this[OF n(1), of x] this[OF n(2), of x'] e have "y = y'" by simp
  with e show ?thesis by simp
qed

lemma show_int_inj: "show_int a = show_int b \<Longrightarrow> a = b"
proof -
  have val: "foldl add_digit 0 (show_nat i) = int i" for i
    by (simp add: show_nat_def show_nat_acc_value)
  have sign: "show_nat i \<noteq> CHR ''-'' # u" for i u
    using show_nat_digits[of i] by (auto simp: is_digit_def)
  assume eq: "show_int a = show_int b"
  consider "a < 0" "b < 0" | "a < 0" "\<not> b < 0" | "\<not> a < 0" "b < 0" | "\<not> a < 0" "\<not> b < 0" by blast
  then show "a = b"
  proof cases
    case 1
    then have "show_nat (nat (- a)) = show_nat (nat (- b))" using eq by (simp add: show_int_def)
    then have "int (nat (- a)) = int (nat (- b))" using val by metis
    with 1 show ?thesis by simp
  next
    case 2
    then show ?thesis using eq sign[of "nat b" "show_nat (nat (- a))"] by (simp add: show_int_def)
  next
    case 3
    then show ?thesis using eq sign[of "nat a" "show_nat (nat (- b))"] by (simp add: show_int_def)
  next
    case 4
    then have "show_nat (nat a) = show_nat (nat b)" using eq by (simp add: show_int_def)
    then have "int (nat a) = int (nat b)" using val by metis
    with 4 show ?thesis by simp
  qed
qed

lemma lookup_identity:
  assumes "lookup_source l = lookup_source l'" and "lookup_type l = lookup_type l'" and "lookup_value l = lookup_value l'"
  shows "l = l'"
proof (cases "\<exists>ip n. l = AbuseIp ip n")
  case True
  then obtain ip n where l: "l = AbuseIp ip n" by blast
  from assms l obtain ip' n' where l': "l' = AbuseIp ip' n'" by (cases l') auto
  have "ip @ CHR ''|'' # ''maxAgeInDays='' @ show_int n = ip' @ CHR ''|'' # ''maxAgeInDays='' @ show_int n'"
    using assms(3) by (simp add: l l')
  from bar_split[OF this] show_int_bar[of n] show_int_bar[of n'] have "ip = ip'" "show_int n = show_int n'" by simp_all
  then show ?thesis using show_int_inj by (simp add: l l')
next
  case False
  then show ?thesis using assms by (cases l; cases l') auto
qed

lemma lookup_keys:
  assumes "build_key env (lookup_source l) (lookup_type l) (lookup_value l) = build_key env (lookup_source l') (lookup_type l') (lookup_value l')"
    and "take 32 (ce_digest env (lookup_value l)) = take 32 (ce_digest env (lookup_value l')) \<Longrightarrow> lookup_value l = lookup_value l'"
  shows "l = l'"
proof -
  have "lookup_source l = lookup_source l' \<and> lookup_type l = lookup_type l' \<and>
      take 32 (ce_digest env (lookup_value l)) = take 32 (ce_digest env (lookup_value l'))"
    using assms(1) by (cases l; cases l') (simp_all add: build_key_def)
  with assms(2) lookup_identity show ?thesis by blast
qed

lemma default_ttl_fetch:
  "get_or_fetch env B now source ty v f (Some (default_ttl_for (ce_ttls env) source)) c = get_or_fetch env B now source ty v f None c"
  unfolding get_or_fetch_def option.case ..

context cache_backend
begin

lemma fetch_result:
  "fst (get_or_fetch env B t source ty v f ttl c) =
     (if fresh env (ca_store c) t (build_key env source ty v) then Inr (fst (cache_get env B t source ty v c)) else f)"
  by (auto simp: get_or_fetch_def fresh_iff Let_def split: prod.splits sum.splits)

lemma lookup_sticks:
  assumes first: "run_lookup env B http t c l s = (Inr j, True, s1)"
    and codec: "j \<noteq> JNull" "ce_dumps env j = Some raw" "ce_loads env raw = Some j"
    and later: "t \<le> t'" "t' < t + seconds (eff (default_ttl_for (ce_ttls env) (lookup_source l)))"
    and conn: "co_client c' \<noteq> None"
    and apart: "take 32 (ce_digest env (lookup_value l)) = take 32 (ce_digest env (lookup_value l')) \<Longrightarrow> lookup_value l = lookup_value l'"
  shows "\<exists>s2. run_lookup env B http' t' c' l s1 = (Inr j, False, s2)"
    and "l' \<noteq> l \<Longrightarrow> fst (run_lookup env B http' t' c' l' s1) = fst (run_lookup env B http' t' c' l' s)"
proof -
  let ?key = "\<lambda>l. build_key env (lookup_source l) (lookup_type l) (lookup_value l)"
  let ?go = "\<lambda>h c u l. get_or_fetch env B u (lookup_source l) (lookup_type l) (lookup_value l) (fetch_lookup h c l) None"
  have go: "run_lookup env B h u d m = ?go h d u m" if "co_client d \<noteq> None" for h u d m
    using that by (auto simp: run_lookup_def default_ttl_fetch)
  have "co_client c \<noteq> None" using first by (auto simp: run_lookup_def split: if_splits)
  then have g: "?go http c t l s = (Inr j, True, s1)" using first go by simp
  then have stale: "\<not> fresh env (ca_store s) t (?key l)"
    using fetch_called[of env t "lookup_source l" "lookup_type l" "lookup_value l" "fetch_lookup http c l" None s] by simp
  then have f: "fetch_lookup http c l = Inr j"
    using fetch_result[of env t "lookup_source l" "lookup_type l" "lookup_value l" "fetch_lookup http c l" None s] g by simp
  from fetch_stores[OF stale codec(2)] f g have views: "\<forall>u \<ge> t. \<forall>k. view (ca_store s1) u k =
      (if k = ?key l then (if u < t + seconds (eff (default_ttl_for (ce_ttls env) (lookup_source l))) then Some raw else None)
       else view (ca_store s) u k)" by auto
  then have "fresh env (ca_store s1) t' (?key l)" using later codec by (simp add: fresh_def)
  from fetch_hit[OF this, of "fetch_lookup http' c' l" None] obtain s2 where
    hit: "?go http' c' t' l s1 = (Inr (fst (cache_get env B t' (lookup_source l) (lookup_type l) (lookup_value l) s1)), False, s2)"
    by blast
  have "fst (cache_get env B t' (lookup_source l) (lookup_type l) (lookup_value l) s1) = j"
    using views later codec(3) by (simp add: cache_get_result)
  with hit show "\<exists>s2. run_lookup env B http' t' c' l s1 = (Inr j, False, s2)" by (auto simp: go[OF conn])
  assume "l' \<noteq> l"
  then have "?key l' \<noteq> ?key l" using lookup_keys[of env l l'] apart by metis
  then have same: "view (ca_store s1) t' (?key l') = view (ca_store s) t' (?key l')" using views later(1) by simp
  show "fst (run_lookup env B http' t' c' l' s1) = fst (run_lookup env B http' t' c' l' s)"
    unfolding go[OF conn] fetch_result cache_get_result by (auto simp: fresh_def same)
qed

end


section \<open>Health checks answer\<close>

text \<open>What the HTTP library documents of the address a session starts from: a path has to end with a slash.\<close>

definition base_path :: "string \<Rightarrow> string" where
  "base_path u = dropWhile (\<lambda>c. c \<noteq> CHR ''/'') (drop (length ''https://'') u)"

definition base_refused :: exn where
  "base_refused = ValueError (''base_url must have a trailing '' @ quoted ''/'')"

definition plain_url :: "string \<Rightarrow> bool" where
  "plain_url u \<longleftrightarrow> prefix ''https://'' u \<and> u \<noteq> ''https://'' \<and> hd (drop (length ''https://'') u) \<noteq> CHR ''/'' \<and>
     list_all (\<lambda>c. c \<in> set ''abcdefghijklmnopqrstuvwxyz0123456789./'') (drop (length ''https://'') u)"

definition slash_bases :: "http \<Rightarrow> bool" where
  "slash_bases http \<longleftrightarrow> (\<forall>u headers. plain_url u \<longrightarrow>
     ht_open http (plain_session (JStr u) headers) =
       (if base_path u = [] \<or> last (base_path u) = CHR ''/'' then Inr () else Inl base_refused))"

text \<open>A network that answers or fails in the ways the connectors expect.\<close>

definition tame_network :: "http \<Rightarrow> bool" where
  "tame_network http \<longleftrightarrow> (\<forall>sess q e. ht_send http sess q = Inl e \<longrightarrow> network_error e)"

definition answers_ok :: "http \<Rightarrow> session_config \<Rightarrow> http_request \<Rightarrow> bool" where
  "answers_ok http sess q \<longleftrightarrow> (case ht_send http sess q of Inl e \<Rightarrow> False | Inr r \<Rightarrow> ha_status r = 200)"

lemma probe_answers:
  assumes "tame_network http" and "\<not> co_closed c" and "co_client c = Some sess"
  shows "\<exists>h. probe http c (Inr q) plain_ok = Inr h \<and> (hc_healthy h \<longleftrightarrow> answers_ok http sess q)"
proof (cases "ht_send http sess q")
  case (Inl e)
  then have "network_error e" using assms(1) by (simp add: tame_network_def)
  with Inl assms(2-3) show ?thesis by (simp add: probe_def exchange_def unhealthy_def answers_ok_def)
next
  case (Inr r)
  then show ?thesis using assms(2-3)
    by (cases "ha_status r = 200") (simp_all add: probe_def exchange_def unhealthy_def healthy_def plain_ok_def answers_ok_def)
qed

lemma bases_open:
  assumes "slash_bases http"
  shows "ht_open http (plain_session (JStr ''https://www.virustotal.com/api/v3'') hs) = Inl base_refused"
    and "ht_open http (plain_session (JStr ''https://api.abuseipdb.com/api/v2'') hs) = Inl base_refused"
    and "ht_open http (plain_session (JStr ''https://api.greynoise.io'') hs) = Inr ()"
    and "ht_open http (plain_session (JStr ''https://api.shodan.io'') hs) = Inr ()"
  using assms by (simp_all add: slash_bases_def plain_url_def base_path_def)

lemma api_key_item: "map_of config ''api_key'' = Some k \<Longrightarrow> config_item \<lparr>co_config = config, co_client = x, co_closed = y\<rparr> ''api_key'' = Inr k"
  by (simp add: config_item_def py_key_def)

lemmas check_defs = guard_def check_connector_def validate_config_def virustotal_validate_def abuseipdb_validate_def greynoise_validate_def
  shodan_validate_def require_key_def has_key_def connect_def open_session_def virustotal_session_def abuseipdb_session_def
  health_of_def greynoise_health_def shodan_health_def get_probe_def api_key_params_def api_key_item


definition example_http :: http where
  "example_http = \<lparr>
     ht_open = (\<lambda>sess. case sc_base sess of
        JStr u \<Rightarrow> if prefix ''https://'' u \<and> base_path u \<noteq> [] \<and> last (base_path u) \<noteq> CHR ''/'' then Inl base_refused else Inr ()
      | _ \<Rightarrow> Inr ()),
     ht_send = (\<lambda>sess q. if sc_base sess = JStr ''https://api.shodan.io'' then Inl (OSError ''unreachable'')
        else Inr \<lparr>ha_status = 429, ha_text = [], ha_json = Inr (JStr ''slow down'')\<rparr>)\<rparr>"


definition example_connection :: connection where
  "example_connection = \<lparr>co_config = [], co_client = Some (greynoise_session (JStr ''k'')), co_closed = False\<rparr>"

definition example_cache :: "memory_store cache" where
  "example_cache = \<lparr>ca_store = [], ca_metrics = no_metrics\<rparr>"


end
