(* ===== verification/Siem.thy ===== *)
theory Siem
  imports Connectors
begin

text \<open>
  The operations of the connectors to detection platforms and messengers: Splunk (\<open>integrations/splunk/connector.py\<close>),
  Microsoft Defender, Elastic, Slack and mail. The service answers from the history of the requests sent to it, so a
  job that is polled can change its answer; an operation returns its outcome and the longer history.
\<close>

section \<open>Talking to a service\<close>

type_synonym server = "http_request list \<Rightarrow> http"

type_synonym 'a talk = "http_request list \<Rightarrow> (exn + 'a) \<times> http_request list"

definition tbind :: "'a talk \<Rightarrow> ('a \<Rightarrow> 'b talk) \<Rightarrow> 'b talk" where
  "tbind m f h = (case m h of (Inl e, h') \<Rightarrow> (Inl e, h') | (Inr x, h') \<Rightarrow> f x h')"

definition tlift :: "exn + 'a \<Rightarrow> 'a talk" where
  "tlift r h = (r, h)"

text \<open>A request; only an open session sends it.\<close>

definition live :: "connection \<Rightarrow> bool" where
  "live c \<longleftrightarrow> co_client c \<noteq> None \<and> \<not> co_closed c"

definition talk_to :: "server \<Rightarrow> connection \<Rightarrow> http_request \<Rightarrow> http_answer talk" where
  "talk_to srv c q h = (exchange (srv h) c q, if live c then h @ [q] else h)"

definition connected :: "connection \<Rightarrow> unit talk" where
  "connected c = tlift (guard (co_client c \<noteq> None) not_connected)"

section \<open>Splunk\<close>

definition poll_interval :: int where "poll_interval = 1"

definition poll_timeout :: int where "poll_timeout = 300"

definition json_output :: "string \<times> json" where
  "json_output = (''output_mode'', JStr ''json'')"

definition given_text :: "string \<Rightarrow> string option \<Rightarrow> (string \<times> json) list" where
  "given_text k v = (case v of None \<Rightarrow> [] | Some s \<Rightarrow> if s = [] then [] else [(k, JStr s)])"

definition search_command :: "string \<Rightarrow> string" where
  "search_command spl = (if prefix ''search'' (lstrip spl) then spl else ''search '' @ spl)"

definition job_path :: "json \<Rightarrow> string" where
  "job_path sid = ''/services/search/jobs/'' @ py_str sid"

definition dispatch_request :: "string \<Rightarrow> string option \<Rightarrow> string option \<Rightarrow> http_request" where
  "dispatch_request spl earliest latest =
     PostForm ''/services/search/jobs''
       ([(''search'', JStr (search_command spl)), json_output, (''exec_mode'', JStr ''normal'')]
        @ given_text ''earliest_time'' earliest @ given_text ''latest_time'' latest)"

text \<open>The body of an accepted dispatch.\<close>

definition dispatch_accepted :: "string \<Rightarrow> http_answer \<Rightarrow> exn + json" where
  "dispatch_accepted what r =
     (if ha_status r \<notin> {200, 201} then Inl (RuntimeError (what @ '' dispatch failed: '' @ http_status r @ '' '' @ ha_text r))
      else ha_json r)"

definition poll_request :: "json \<Rightarrow> http_request" where
  "poll_request sid = Get (job_path sid) [json_output]"

definition job_failed :: "json \<Rightarrow> exn" where
  "job_failed sid = RuntimeError (''Splunk job '' @ py_str sid @ '' dispatchState=FAILED'')"

definition job_late :: "json \<Rightarrow> exn" where
  "job_late sid = RuntimeError (''Splunk job '' @ py_str sid @ '' did not complete in time'')"

text \<open>\<open>state.upper() == "FAILED"\<close>.\<close>

definition failed_state :: "json \<Rightarrow> exn + bool" where
  "failed_state state =
     (if \<not> truthy state then Inr False
      else case state of JStr s \<Rightarrow> Inr (lower s = ''failed'') | _ \<Rightarrow> Inl (AttributeError ''upper''))"

text \<open>Whether an answer says that the job is done.\<close>

definition job_done :: "json \<Rightarrow> http_answer \<Rightarrow> exn + bool" where
  "job_done sid r =
     ebind (ha_json r) (\<lambda>data. ebind (first_content data) (\<lambda>content.
     ebind (py_get content ''dispatchState'' JNull) (\<lambda>state. ebind (py_get content ''isDone'' JNull) (\<lambda>done_flag.
       if truthy done_flag
       then ebind (failed_state state) (\<lambda>f. if f then Inl (job_failed sid) else Inr True)
       else Inr False))))"

function wait_from :: "server \<Rightarrow> connection \<Rightarrow> json \<Rightarrow> int \<Rightarrow> unit talk" where
  "wait_from srv c sid elapsed h =
     (if elapsed < poll_timeout
      then case tbind (talk_to srv c (poll_request sid)) (\<lambda>r. tlift (job_done sid r)) h of
             (Inl e, h') \<Rightarrow> (Inl e, h')
           | (Inr True, h') \<Rightarrow> (Inr (), h')
           | (Inr False, h') \<Rightarrow> wait_from srv c sid (elapsed + poll_interval) h'
      else (Inl (job_late sid), h))"
  by pat_completeness auto

termination
  by (relation "measure (\<lambda>(srv, c, sid, elapsed, h). nat (poll_timeout - elapsed))") (auto simp: poll_interval_def)

declare wait_from.simps [simp del]

definition wait_for_job :: "server \<Rightarrow> connection \<Rightarrow> json \<Rightarrow> unit talk" where
  "wait_for_job srv c sid = wait_from srv c sid 0"

definition results_request :: "json \<Rightarrow> int \<Rightarrow> http_request" where
  "results_request sid max_count = Get (job_path sid @ ''/results'') [json_output, (''count'', JStr (show_int max_count))]"

definition result_rows :: "http_answer \<Rightarrow> exn + json list" where
  "result_rows r = ebind (ha_json r) (\<lambda>data. ebind (py_get data ''results'' JNull) (\<lambda>v. py_iter (py_or v (JArr []))))"

definition fetch_job_results :: "server \<Rightarrow> connection \<Rightarrow> json \<Rightarrow> int \<Rightarrow> json list talk" where
  "fetch_job_results srv c sid max_count =
     tbind (talk_to srv c (results_request sid max_count)) (\<lambda>r. tlift (result_rows r))"

definition run_search ::
  "server \<Rightarrow> connection \<Rightarrow> string \<Rightarrow> string option \<Rightarrow> string option \<Rightarrow> int \<Rightarrow> (json \<times> json list) talk" where
  "run_search srv c spl earliest latest max_count =
     tbind (connected c) (\<lambda>_.
     tbind (talk_to srv c (dispatch_request spl earliest latest)) (\<lambda>r.
     tbind (tlift (ebind (dispatch_accepted ''Search'' r) (\<lambda>data. py_get data ''sid'' JNull))) (\<lambda>sid.
     tbind (tlift (guard (truthy sid) (RuntimeError ''Splunk did not return a search id''))) (\<lambda>_.
     tbind (wait_for_job srv c sid) (\<lambda>_.
     tbind (fetch_job_results srv c sid max_count) (\<lambda>rows. tlift (Inr (sid, rows))))))))"

fun traverse :: "('a \<Rightarrow> exn + 'b) \<Rightarrow> 'a list \<Rightarrow> exn + 'b list" where
  "traverse f [] = Inr []"
| "traverse f (x # xs) = ebind (f x) (\<lambda>y. ebind (traverse f xs) (\<lambda>ys. Inr (y # ys)))"

definition index_entry :: "json \<Rightarrow> exn + json" where
  "index_entry e =
     ebind (py_get e ''name'' JNull) (\<lambda>name. ebind (py_get e ''content'' JNull) (\<lambda>content.
       Inr (JObj [(''name'', name), (''content'', or_empty content)])))"

definition list_indexes :: "server \<Rightarrow> connection \<Rightarrow> json list talk" where
  "list_indexes srv c =
     tbind (connected c) (\<lambda>_.
     tbind (talk_to srv c (Get ''/services/data/indexes'' [json_output, (''count'', JStr ''0'')])) (\<lambda>r.
       tlift (ebind (ha_json r) (\<lambda>data. ebind (py_get data ''entry'' JNull) (\<lambda>v.
         ebind (py_iter (py_or v (JArr []))) (traverse index_entry))))))"

fun first_sid :: "json list \<Rightarrow> exn + json" where
  "first_sid [] = Inr JNull"
| "first_sid (entry # entries) =
     ebind (py_get entry ''content'' JNull) (\<lambda>content.
     ebind (py_get (or_empty content) ''sid'' JNull) (\<lambda>sid.
     ebind (if truthy sid then Inr sid else py_get entry ''name'' JNull) (\<lambda>sid'.
       if truthy sid' then Inr sid' else first_sid entries)))"

definition extract_sid_from_history :: "json \<Rightarrow> exn + json" where
  "extract_sid_from_history meta =
     ebind (py_get meta ''entry'' JNull) (\<lambda>v. ebind (py_iter (py_or v (JArr []))) first_sid)"

definition normalize_row :: "(string list \<Rightarrow> string list) \<Rightarrow> json \<Rightarrow> exn + jdict" where
  "normalize_row ord row = (case row of JObj d \<Rightarrow> normalize_splunk_notable ord d | _ \<Rightarrow> Inl (AttributeError ''get''))"

definition saved_path :: "string \<Rightarrow> string \<Rightarrow> string" where
  "saved_path saved_search part = ''/services/saved/searches/'' @ saved_search @ part"

definition ingest_alerts :: "(string list \<Rightarrow> string list) \<Rightarrow> server \<Rightarrow> connection \<Rightarrow> string \<Rightarrow> jdict list talk" where
  "ingest_alerts ord srv c saved_search =
     tbind (connected c) (\<lambda>_.
     tbind (talk_to srv c (Get (saved_path saved_search ''/history'') [json_output])) (\<lambda>r0.
     tbind (tlift (ha_json r0)) (\<lambda>meta.
     tbind (talk_to srv c (PostForm (saved_path saved_search ''/dispatch'') [json_output])) (\<lambda>r.
     tbind (tlift (ebind (dispatch_accepted ''Saved search'' r) (\<lambda>data. ebind (py_get data ''sid'' JNull) (\<lambda>sid.
              if truthy sid then Inr sid else extract_sid_from_history meta)))) (\<lambda>sid.
       if \<not> truthy sid then tlift (Inr [])
       else tbind (wait_for_job srv c sid) (\<lambda>_.
            tbind (fetch_job_results srv c sid 1000) (\<lambda>rows. tlift (traverse (normalize_row ord) rows))))))))"

definition notable_form :: "string \<Rightarrow> string option \<Rightarrow> string \<Rightarrow> (string \<times> json) list \<Rightarrow> (string \<times> json) list" where
  "notable_form rule_name description severity extra =
     foldl (\<lambda>body (k, v). if v = JNull then body else AList.update k v body)
       ([(''rule_name'', JStr rule_name), (''severity'', JStr severity), json_output] @ given_text ''description'' description) extra"

definition create_notable_event ::
  "server \<Rightarrow> connection \<Rightarrow> string \<Rightarrow> string option \<Rightarrow> string \<Rightarrow> (string \<times> json) list \<Rightarrow> json talk" where
  "create_notable_event srv c rule_name description severity extra =
     tbind (connected c) (\<lambda>_.
     tbind (talk_to srv c (PostForm ''/services/notable_update'' (notable_form rule_name description severity extra))) (\<lambda>r.
       tlift (if 400 \<le> ha_status r then Inl (RuntimeError (''Notable event creation failed: '' @ http_status r @ '' '' @ ha_text r))
              else ha_json r)))"

section \<open>Defender, Elastic and Slack\<close>

datatype defender_call =
    ListAlerts "string option" "int option"
  | GetAlert string
  | IsolateMachine string string string
  | UnisolateMachine string string
  | ListMachines "string option" "int option"
  | RunAntivirusScan string string string
  | ListIndicators "string option" "int option"

definition build_params :: "string option \<Rightarrow> int option \<Rightarrow> (string \<times> json) list" where
  "build_params odata_filter limit =
     given_text ''$filter'' odata_filter @ (case limit of None \<Rightarrow> [] | Some n \<Rightarrow> [(''$top'', JInt n)])"

definition machine_post :: "string \<Rightarrow> string \<Rightarrow> (string \<times> json) list \<Rightarrow> http_request" where
  "machine_post machine verb body = PostJson (''/api/machines/'' @ machine @ ''/'' @ verb) (JObj body)"

fun defender_request :: "defender_call \<Rightarrow> http_request" where
  "defender_request (ListAlerts f limit) = Get ''/api/alerts'' (build_params f limit)"
| "defender_request (GetAlert i) = Get (''/api/alerts/'' @ i) []"
| "defender_request (IsolateMachine m comment ty) = machine_post m ''isolate'' [(''Comment'', JStr comment), (''IsolationType'', JStr ty)]"
| "defender_request (UnisolateMachine m comment) = machine_post m ''unisolate'' [(''Comment'', JStr comment)]"
| "defender_request (ListMachines f limit) = Get ''/api/machines'' (build_params f limit)"
| "defender_request (RunAntivirusScan m ty comment) = machine_post m ''runAntiVirusScan'' [(''ScanType'', JStr ty), (''Comment'', JStr comment)]"
| "defender_request (ListIndicators f limit) = Get ''/api/indicators'' (build_params f limit)"

definition listed_values :: "json \<Rightarrow> exn + json" where
  "listed_values data = ebind (py_get data ''value'' (JArr [])) (\<lambda>v. ebind (py_iter v) (\<lambda>xs. Inr (JArr xs)))"

fun defender_result :: "defender_call \<Rightarrow> json \<Rightarrow> exn + json" where
  "defender_result (ListAlerts f limit) data = listed_values data"
| "defender_result (ListMachines f limit) data = listed_values data"
| "defender_result (ListIndicators f limit) data = listed_values data"
| "defender_result _ data = Inr data"

definition defender :: "server \<Rightarrow> connection \<Rightarrow> defender_call \<Rightarrow> json talk" where
  "defender srv c call =
     tbind (connected c) (\<lambda>_. tbind (talk_to srv c (defender_request call)) (\<lambda>r.
       tlift (ebind (ha_json r) (defender_result call))))"

definition elastic_get_alerts :: "server \<Rightarrow> connection \<Rightarrow> json \<Rightarrow> int \<Rightarrow> json talk" where
  "elastic_get_alerts srv c query n =
     tbind (connected c) (\<lambda>_. tbind (talk_to srv c (PostJson ''/api/detection_engine/signals/search''
       (JObj [(''query'', py_or query (JObj [(''match_all'', JObj [])])), (''size'', JInt n)]))) (\<lambda>r. tlift (ha_json r)))"

definition elastic_isolate_host :: "server \<Rightarrow> connection \<Rightarrow> string \<Rightarrow> json talk" where
  "elastic_isolate_host srv c agent =
     tbind (connected c) (\<lambda>_. tbind (talk_to srv c (PostJson ''/api/endpoint/action/isolate''
       (JObj [(''endpoint_ids'', JArr [JStr agent])]))) (\<lambda>r. tlift (ha_json r)))"

definition slack_send_message :: "server \<Rightarrow> connection \<Rightarrow> string \<Rightarrow> string \<Rightarrow> json \<Rightarrow> json talk" where
  "slack_send_message srv c channel message blocks =
     tbind (connected c) (\<lambda>_.
     (case map_of (co_config c) ''webhook_url'' of
        Some url \<Rightarrow> tbind (talk_to srv c (PostJson (py_str url)
            (JObj ((''text'', JStr message) # (if truthy blocks then [(''blocks'', blocks)] else []))))) (\<lambda>r.
          tlift (Inr (JObj [(''status'', JInt (ha_status r)), (''ok'', JBool (ha_status r = 200))])))
      | None \<Rightarrow> tbind (talk_to srv c (PostJson ''https://slack.com/api/chat.postMessage''
            (JObj [(''channel'', JStr channel), (''text'', JStr message), (''blocks'', blocks)]))) (\<lambda>r. tlift (ha_json r))))"

section \<open>Mail\<close>

text \<open>The conversation with the mail server, each step performed or raising.\<close>

datatype mail_step =
    MailConnect json json
  | StartTls
  | MailLogin json json
  | MailSend json string string string

type_synonym mail_server = "mail_step list \<Rightarrow> mail_step \<Rightarrow> exn + unit"

fun perform :: "mail_server \<Rightarrow> (exn + mail_step) list \<Rightarrow> mail_step list \<Rightarrow> (exn + unit) \<times> mail_step list" where
  "perform srv [] sent = (Inr (), sent)"
| "perform srv (Inl e # steps) sent = (Inl e, sent)"
| "perform srv (Inr x # steps) sent =
     (case srv sent x of Inl e \<Rightarrow> (Inl e, sent @ [x]) | Inr u \<Rightarrow> perform srv steps (sent @ [x]))"

text \<open>A header is a text of at most one line.\<close>

definition line_break :: "char \<Rightarrow> bool" where
  "line_break c \<longleftrightarrow> of_char c \<in> {10, 11, 12, 13, 28, 29, 30 :: nat}"

definition one_line :: "string \<Rightarrow> bool" where
  "one_line s \<longleftrightarrow> (let rest = dropWhile (\<lambda>c. \<not> line_break c) s in length rest \<le> 1 \<or> rest = [CHR 0x0D, CHR 0x0A])"

definition header_value :: "json \<Rightarrow> exn + unit" where
  "header_value v = (case v of
      JStr s \<Rightarrow> guard (one_line s) (ValueError ''Header values may not contain linefeed or carriage return characters'')
    | _ \<Rightarrow> Inl (AttributeError ''splitlines''))"

definition mail_login :: "jdict \<Rightarrow> (exn + mail_step) list" where
  "mail_login config =
     (case map_of config ''username'' of None \<Rightarrow> []
      | Some u \<Rightarrow> [ebind (py_key ''password'' (JObj config)) (\<lambda>p. Inr (MailLogin u p))])"

definition mail_from :: "jdict \<Rightarrow> json" where
  "mail_from config = dget_default config ''from_address'' (JStr ''opensoar@localhost'')"

definition send_email :: "mail_server \<Rightarrow> jdict \<Rightarrow> string \<Rightarrow> string \<Rightarrow> string \<Rightarrow> (exn + json) \<times> mail_step list" where
  "send_email srv config recipient subject body =
     (case ebind (header_value (JStr subject)) (\<lambda>_. ebind (header_value (mail_from config)) (\<lambda>_.
             ebind (header_value (JStr recipient)) (\<lambda>_. py_key ''smtp_host'' (JObj config)))) of
        Inl e \<Rightarrow> (Inl e, [])
      | Inr host \<Rightarrow>
         (case perform srv ([Inr (MailConnect host (dget_default config ''smtp_port'' (JInt 587)))]
                 @ (if truthy (dget_default config ''use_tls'' (JBool True)) then [Inr StartTls] else [])
                 @ mail_login config
                 @ [Inr (MailSend (mail_from config) recipient subject body)]) [] of
            (Inl e, sent) \<Rightarrow> (Inl e, sent)
          | (Inr u, sent) \<Rightarrow> (Inr (JObj [(''sent_to'', JStr recipient), (''subject'', JStr subject)]), sent)))"

section \<open>Waiting for a job\<close>

text \<open>What the k-th poll after the history h says.\<close>

definition poll_says :: "server \<Rightarrow> connection \<Rightarrow> json \<Rightarrow> http_request list \<Rightarrow> nat \<Rightarrow> exn + bool" where
  "poll_says srv c sid h k =
     ebind (exchange (srv (h @ replicate k (poll_request sid))) c (poll_request sid)) (job_done sid)"

lemma find_upt: "m < M \<Longrightarrow> find P [m..<M] = (if P m then Some m else find P [Suc m..<M])"
  by (simp add: upt_conv_Cons)

lemma wait_from_find:
  "live c \<Longrightarrow> m + n = M \<Longrightarrow> wait_from srv c sid (poll_timeout - int n) (h @ replicate m (poll_request sid)) =
     (case find (\<lambda>k. poll_says srv c sid h k \<noteq> Inr False) [m..<M] of
        None \<Rightarrow> (Inl (job_late sid), h @ replicate M (poll_request sid))
      | Some k \<Rightarrow> (ebind (poll_says srv c sid h k) (\<lambda>_. Inr ()), h @ replicate (Suc k) (poll_request sid)))"
proof (induction n arbitrary: m)
  case 0
  then show ?case by (simp add: wait_from.simps)
next
  case (Suc n)
  have asked: "tbind (talk_to srv c (poll_request sid)) (\<lambda>r. tlift (job_done sid r)) (h @ replicate m (poll_request sid)) =
      (poll_says srv c sid h m, h @ replicate (Suc m) (poll_request sid))"
    using Suc.prems by (auto simp: tbind_def talk_to_def tlift_def poll_says_def replicate_append_same split: sum.splits)
  have step: "poll_timeout - int (Suc n) + poll_interval = poll_timeout - int n" by (simp add: poll_interval_def)
  have less: "poll_timeout - int (Suc n) < poll_timeout" and within: "m < M" "Suc m + n = M" using Suc.prems by simp_all
  note found = find_upt[OF within(1), of "\<lambda>k. poll_says srv c sid h k \<noteq> Inr False"]
  show ?case
  proof (cases "poll_says srv c sid h m")
    case (Inl e)
    then show ?thesis by (subst wait_from.simps) (simp add: asked less found del: upt_Suc of_nat_Suc replicate_Suc)
  next
    case (Inr b)
    then show ?thesis using Suc.IH[OF Suc.prems(1) within(2)]
      by (cases b; subst wait_from.simps) (simp_all add: asked less step found del: upt_Suc of_nat_Suc replicate_Suc)
  qed
qed

lemma wait_for_job_polls:
  assumes "live c"
  shows "wait_for_job srv c sid h =
     (case find (\<lambda>k. poll_says srv c sid h k \<noteq> Inr False) [0..<300] of
        None \<Rightarrow> (Inl (job_late sid), h @ replicate 300 (poll_request sid))
      | Some k \<Rightarrow> (ebind (poll_says srv c sid h k) (\<lambda>_. Inr ()), h @ replicate (Suc k) (poll_request sid)))"
proof -
  have "poll_timeout - int 300 = 0" "h @ replicate 0 (poll_request sid) = h" "(0::nat) + 300 = 300" by (simp_all add: poll_timeout_def)
  then show ?thesis using wait_from_find[OF assms, of 0 300 300 srv sid h] by (simp only: wait_for_job_def)
qed

text \<open>C31: Waiting for a Splunk job always ends, whatever the server does: the loop with its clock is the same as reading the answers to at
  most 300 polls of that job and stopping at the first that is not "not done yet". That answer decides: done returns, a failed
  job or an unreadable answer raises; when all 300 say not done, the wait raises after exactly 300 requests.\<close>

theorem wait_for_job_spec:
  assumes "live c"
  shows "wait_for_job srv c sid h =
     (case find (\<lambda>k. poll_says srv c sid h k \<noteq> Inr False) [0..<300] of
        None \<Rightarrow> (Inl (job_late sid), h @ replicate 300 (poll_request sid))
      | Some k \<Rightarrow> (ebind (poll_says srv c sid h k) (\<lambda>_. Inr ()), h @ replicate (Suc k) (poll_request sid)))"
  by (rule wait_for_job_polls[OF assms])

section \<open>Searching\<close>

lemma wait_shape:
  assumes "live c" and "wait_for_job srv c sid h = (r, h')"
  shows "\<exists>n \<le> 300. h' = h @ replicate n (poll_request sid) \<and>
    (r = Inr () \<longrightarrow> 0 < n \<and> poll_says srv c sid h (n - 1) = Inr True)"
proof (cases "find (\<lambda>k. poll_says srv c sid h k \<noteq> Inr False) [0..<300]")
  case None
  then show ?thesis using assms by (intro exI[of _ 300]) (auto simp: wait_for_job_polls)
next
  case (Some k)
  then have "k < 300" and said: "poll_says srv c sid h k \<noteq> Inr False"
    by (auto simp: find_Some_iff)
  moreover have "r = ebind (poll_says srv c sid h k) (\<lambda>_. Inr ())" "h' = h @ replicate (Suc k) (poll_request sid)"
    using assms Some by (simp_all add: wait_for_job_polls)
  ultimately show ?thesis by (intro exI[of _ "Suc k"]) (auto simp: ebind_eq_Inr)
qed

lemmas talk_defs = tbind_def talk_to_def tlift_def connected_def guard_def

lemma run_search_steps:
  assumes "live c" and "run_search srv c spl earliest latest limit h = (r, h')"
  obtains (refused) e where "r = Inl e" and "h' = h @ [dispatch_request spl earliest latest]"
  | (waited) sid n e where "n \<le> 300" and "r = Inl e" and "h' = h @ dispatch_request spl earliest latest # replicate n (poll_request sid)"
  | (fetched) sid n where "0 < n" and "n \<le> 300" and "truthy sid"
      and "poll_says srv c sid (h @ [dispatch_request spl earliest latest]) (n - 1) = Inr True"
      and "h' = h @ dispatch_request spl earliest latest # replicate n (poll_request sid) @ [results_request sid limit]"
      and "r = ebind (ebind (exchange (srv (h @ dispatch_request spl earliest latest # replicate n (poll_request sid))) c
             (results_request sid limit)) result_rows) (\<lambda>rows. Inr (sid, rows))"
proof -
  let ?d = "dispatch_request spl earliest latest"
  let ?sid = "ebind (exchange (srv h) c ?d) (\<lambda>a. ebind (dispatch_accepted ''Search'' a) (\<lambda>data. py_get data ''sid'' JNull))"
  have c: "co_client c \<noteq> None" using assms(1) by (simp add: live_def)
  show thesis
  proof (cases ?sid)
    case (Inl e)
    with assms c have "r = Inl e \<and> h' = h @ [?d]"
      by (cases "exchange (srv h) c ?d") (auto simp: run_search_def talk_defs)
    then show ?thesis using refused by blast
  next
    case (Inr sid)
    then obtain a where a: "exchange (srv h) c ?d = Inr a" "ebind (dispatch_accepted ''Search'' a) (\<lambda>data. py_get data ''sid'' JNull) = Inr sid"
      by (auto simp: ebind_eq_Inr)
    show ?thesis
    proof (cases "truthy sid")
      case False
      with assms c a have "\<exists>e. r = Inl e \<and> h' = h @ [?d]" by (auto simp: run_search_def talk_defs)
      then show ?thesis using refused by blast
    next
      case True
      obtain r1 h1 where w: "wait_for_job srv c sid (h @ [?d]) = (r1, h1)" by fastforce
      from wait_shape[OF assms(1) w] obtain n where n: "n \<le> 300" "h1 = h @ ?d # replicate n (poll_request sid)"
        "r1 = Inr () \<longrightarrow> 0 < n \<and> poll_says srv c sid (h @ [?d]) (n - 1) = Inr True" by auto
      show ?thesis
      proof (cases r1)
        case (Inl e)
        with assms c a True w have "r = Inl e \<and> h' = h1" by (auto simp: run_search_def talk_defs)
        then show ?thesis using waited n by blast
      next
        case (Inr u)
        with assms c a True w n(2) have "h' = h @ ?d # replicate n (poll_request sid) @ [results_request sid limit] \<and>
            r = ebind (ebind (exchange (srv (h @ ?d # replicate n (poll_request sid))) c (results_request sid limit)) result_rows)
              (\<lambda>rows. Inr (sid, rows))"
          by (auto simp: run_search_def talk_defs fetch_job_results_def split: sum.splits)
        then show ?thesis using fetched[of n sid] n Inr True by auto
      qed
    qed
  qed
qed

text \<open>C18: Whatever the server answers, a Splunk search sends one dispatch, at most 300 polls of one job and at most one request for its
  results, in this order and nothing else. It returns rows only when the last poll before that request said the job is done and
  not failed, and they are the rows of the answer to that request, under the search id polled.\<close>

theorem search_protocol:
  assumes "live c" and "run_search srv c spl earliest latest limit h = (r, h')"
  shows "\<exists>sid n. n \<le> 300 \<and>
    prefix h' (h @ dispatch_request spl earliest latest # replicate n (poll_request sid) @ [results_request sid limit]) \<and>
    (\<forall>sid' rows. r = Inr (sid', rows) \<longrightarrow> sid' = sid \<and> 0 < n \<and>
       poll_says srv c sid (h @ [dispatch_request spl earliest latest]) (n - 1) = Inr True \<and>
       ebind (exchange (srv (h @ dispatch_request spl earliest latest # replicate n (poll_request sid))) c (results_request sid limit)) result_rows
         = Inr rows)"
  using assms
proof (cases rule: run_search_steps)
  case (refused e)
  then show ?thesis by (intro exI[of _ 0] exI) simp
next
  case (waited sid n e)
  then show ?thesis by (intro exI[of _ n] exI[of _ sid]) simp
next
  case (fetched sid n)
  then show ?thesis by (intro exI[of _ n] exI[of _ sid]) (auto simp: ebind_eq_Inr)
qed

section \<open>Alerts of a saved search\<close>

lemma traverse_eq_Inr: "traverse f xs = Inr ys \<longleftrightarrow> list_all2 (\<lambda>x y. f x = Inr y) xs ys"
proof (induction xs arbitrary: ys)
  case (Cons x xs)
  then show ?case by (cases ys) (auto simp: ebind_eq_Inr)
qed auto

definition splunk_alert :: "jdict \<Rightarrow> bool" where
  "splunk_alert a \<longleftrightarrow> dget a ''source'' = JStr ''splunk'' \<and> dget a ''status'' = JStr ''new'' \<and>
     (\<exists>v \<in> severity_levels. dget a ''severity'' = JStr v)"

lemma normalize_row_shape: "normalize_row ord row = Inr a \<Longrightarrow> splunk_alert a"
  using normalize_severity_level
  by (cases row) (auto simp: normalize_row_def normalize_splunk_notable_def splunk_alert_def ebind_eq_Inr Let_def dget_def)

text \<open>Alerts taken from a saved search are whole: when the operation returns any, a job of that search was waited for and finished, each
  row of its results became exactly one alert, in order, with source splunk, status new and one of the known
  severities. One row that cannot be normalised makes it return none.\<close>

theorem ingest_normalized:
  assumes "fst (ingest_alerts ord srv c saved_search h) = Inr alerts"
  shows "list_all splunk_alert alerts \<and>
    (alerts \<noteq> [] \<longrightarrow> (\<exists>sid h1 h2 rows. wait_for_job srv c sid h1 = (Inr (), h2) \<and>
       fst (fetch_job_results srv c sid 1000 h2) = Inr rows \<and> list_all2 (\<lambda>row a. normalize_row ord row = Inr a) rows alerts))"
proof -
  have c: "co_client c \<noteq> None" using assms by (auto simp: ingest_alerts_def talk_defs split: if_splits)
  let ?q0 = "Get (saved_path saved_search ''/history'') [json_output]"
  let ?q1 = "PostForm (saved_path saved_search ''/dispatch'') [json_output]"
  obtain r0 h0 where a0: "talk_to srv c ?q0 h = (Inr r0, h0)"
    using assms c by (cases "talk_to srv c ?q0 h"; cases "fst (talk_to srv c ?q0 h)") (auto simp: ingest_alerts_def tbind_def tlift_def connected_def guard_def)
  obtain meta where m: "ha_json r0 = Inr meta"
    using assms c a0 by (cases "ha_json r0") (auto simp: ingest_alerts_def tbind_def tlift_def connected_def guard_def)
  obtain r1 h1 where a1: "talk_to srv c ?q1 h0 = (Inr r1, h1)"
    using assms c a0 m by (cases "talk_to srv c ?q1 h0"; cases "fst (talk_to srv c ?q1 h0)") (auto simp: ingest_alerts_def tbind_def tlift_def connected_def guard_def)
  let ?sid = "ebind (dispatch_accepted ''Saved search'' r1) (\<lambda>data. ebind (py_get data ''sid'' JNull) (\<lambda>sid.
              if truthy sid then Inr sid else extract_sid_from_history meta))"
  obtain sid where sid: "?sid = Inr sid"
    using assms c a0 m a1 by (cases ?sid) (auto simp: ingest_alerts_def tbind_def tlift_def connected_def guard_def)
  show ?thesis
  proof (cases "truthy sid")
    case False
    then show ?thesis using assms c a0 m a1 sid by (auto simp: ingest_alerts_def tbind_def tlift_def connected_def guard_def)
  next
    case True
    obtain r2 h2 where w: "wait_for_job srv c sid h1 = (r2, h2)" by fastforce
    obtain r3 h3 where f: "fetch_job_results srv c sid 1000 h2 = (r3, h3)" by fastforce
    have "\<exists>rows. r2 = Inr () \<and> r3 = Inr rows \<and> traverse (normalize_row ord) rows = Inr alerts"
      using assms c a0 m a1 sid True w f
      by (cases r2; cases r3) (auto simp: ingest_alerts_def tbind_def tlift_def connected_def guard_def)
    then obtain rows where rows: "r2 = Inr ()" "r3 = Inr rows" "list_all2 (\<lambda>row a. normalize_row ord row = Inr a) rows alerts"
      by (auto simp: traverse_eq_Inr)
    from rows(3) have "list_all splunk_alert alerts"
      by (induction rule: list_all2_induct) (auto dest: normalize_row_shape)
    with rows w f show ?thesis by fastforce
  qed
qed

section \<open>After a disconnect\<close>

definition silent :: "'a talk \<Rightarrow> http_request list \<Rightarrow> bool" where
  "silent m h \<longleftrightarrow> snd (m h) = h \<and> (\<exists>e. fst (m h) = Inl (RuntimeError e))"

lemma talk_to_dead: "\<not> live c \<Longrightarrow> silent (talk_to srv c q) h"
  by (auto simp: silent_def talk_to_def exchange_def live_def not_connected_def split: option.splits)

lemma silent_bind: "silent m h \<Longrightarrow> silent (tbind m f) h"
  by (cases "m h") (auto simp: silent_def tbind_def)

lemma silent_connected: "silent m h \<Longrightarrow> silent (tbind (connected c) (\<lambda>_. m)) h"
  by (auto simp: silent_def talk_defs not_connected_def)

lemma disconnect_dead: "\<not> live (disconnect ty c)"
  by (simp add: live_def disconnect_def)

text \<open>A connector that has been disconnected sends nothing any more: every operation of the platform connectors then
  raises and leaves the history of requests as it is.\<close>

theorem disconnected_silent:
  fixes c ty
  defines "d \<equiv> disconnect ty c"
  shows "silent (run_search srv d spl earliest latest limit) h \<and> silent (list_indexes srv d) h \<and>
    silent (ingest_alerts ord srv d saved_search) h \<and> silent (create_notable_event srv d rule description severity extra) h \<and>
    silent (defender srv d call) h \<and> silent (elastic_get_alerts srv d query n) h \<and> silent (elastic_isolate_host srv d agent) h \<and>
    silent (slack_send_message srv d channel message blocks) h"
proof -
  have dead: "\<not> live d" unfolding d_def by (rule disconnect_dead)
  show ?thesis
    unfolding run_search_def list_indexes_def ingest_alerts_def create_notable_event_def defender_def elastic_get_alerts_def
      elastic_isolate_host_def slack_send_message_def
    by (intro conjI silent_connected) (auto intro!: silent_bind talk_to_dead dead split: option.split)
qed

section \<open>Mail\<close>

text \<open>C33: Unless TLS is switched off, credentials go to the mail server only after it has agreed to TLS, and a message is sent only to
  the given recipient with the given subject, neither able to add a header; the operation succeeds only when the message was
  the last thing sent.\<close>

theorem mail_login_after_tls:
  assumes "send_email srv config recipient subject body = (r, sent)"
  shows "(truthy (dget_default config ''use_tls'' (JBool True)) \<longrightarrow> MailLogin u p \<in> set sent \<longrightarrow>
      (\<exists>host port post. sent = MailConnect host port # StartTls # MailLogin u p # post \<and> srv [MailConnect host port] StartTls = Inr ())) \<and>
    (MailSend f t s b \<in> set sent \<longrightarrow> t = recipient \<and> s = subject \<and> one_line t \<and> one_line s) \<and>
    (r = Inr x \<longrightarrow> last sent = MailSend (mail_from config) recipient subject body)"
  using assms
  by (cases "map_of config ''username''"; cases "map_of config ''password''")
    (auto simp: send_email_def mail_login_def header_value_def ebind_eq_Inr guard_def py_key_def
      split: sum.splits if_splits option.splits json.splits prod.splits)

section \<open>Examples\<close>

definition answer :: "json \<Rightarrow> exn + http_answer" where
  "answer j = Inr \<lparr>ha_status = 200, ha_text = [], ha_json = Inr j\<rparr>"

definition example_splunk :: server where
  "example_splunk h = \<lparr>ht_open = (\<lambda>sess. Inr ()), ht_send = (\<lambda>sess q. case q of
       PostForm path form \<Rightarrow> answer (JObj [(''sid'', JStr ''7'')])
     | PostJson path body \<Rightarrow> answer JNull
     | Get path params \<Rightarrow>
         if path = ''/services/search/jobs/7/results'' then answer (JObj [(''results'', JArr [JObj [(''rule_name'', JStr ''r'')]])])
         else answer (JObj [(''entry'', JArr [JObj [(''content'', JObj [(''isDone'', JBool (3 \<le> length h))])]])]))\<rparr>"

definition example_splunk_session :: connection where
  "example_splunk_session = \<lparr>co_config = [], co_client = Some (plain_session (JStr ''https://splunk'') []), co_closed = False\<rparr>"

definition stuck_splunk :: server where
  "stuck_splunk h = \<lparr>ht_open = (\<lambda>sess. Inr ()), ht_send = (\<lambda>sess q. answer (JObj []))\<rparr>"

lemma example_live: "live example_splunk_session"
  by (simp add: live_def example_splunk_session_def)

theorem wait_for_job_spec_witness:
  "wait_for_job stuck_splunk example_splunk_session (JStr ''7'') [] =
     (Inl (job_late (JStr ''7'')), replicate 300 (poll_request (JStr ''7'')))"
proof -
  have "poll_says stuck_splunk example_splunk_session (JStr ''7'') [] k = Inr False" for k
    by (simp add: poll_says_def exchange_def example_splunk_session_def stuck_splunk_def answer_def job_done_def first_content_def
        py_get_def dget_default_def py_or_def py_first_def or_empty_def)
  then have "find (\<lambda>k. poll_says stuck_splunk example_splunk_session (JStr ''7'') [] k \<noteq> Inr False) [0..<300] = None"
    by (simp add: find_None_iff)
  then show ?thesis using wait_for_job_spec[OF example_live, of stuck_splunk "JStr ''7''" "[]"] by simp
qed

theorem search_protocol_witness:
  "\<exists>n \<le> 300. 0 < n \<and> snd (run_search example_splunk example_splunk_session ''index=main'' None None 10 []) =
     dispatch_request ''index=main'' None None # replicate n (poll_request (JStr ''7'')) @ [results_request (JStr ''7'') 10]"
proof -
  have run: "run_search example_splunk example_splunk_session ''index=main'' None None 10 [] =
      (Inr (JStr ''7'', [JObj [(''rule_name'', JStr ''r'')]]),
       dispatch_request ''index=main'' None None # replicate 3 (poll_request (JStr ''7'')) @ [results_request (JStr ''7'') 10])"
    by code_simp
  from search_protocol[OF example_live run] show ?thesis unfolding run by (intro exI[of _ 3]) auto
qed

theorem ingest_normalized_witness:
  "\<exists>a. fst (ingest_alerts id example_splunk example_splunk_session ''s'' []) = Inr [a] \<and> splunk_alert a"
proof -
  have "case fst (ingest_alerts id example_splunk example_splunk_session ''s'' []) of Inr [a] \<Rightarrow> True | _ \<Rightarrow> False" by code_simp
  then obtain a where a: "fst (ingest_alerts id example_splunk example_splunk_session ''s'' []) = Inr [a]"
    by (auto split: sum.splits list.splits)
  from ingest_normalized[OF this] a show ?thesis by auto
qed

definition example_mail :: jdict where
  "example_mail = [(''smtp_host'', JStr ''mail''), (''username'', JStr ''u''), (''password'', JStr ''p'')]"

theorem mail_login_after_tls_witness:
  "\<exists>sent. send_email (\<lambda>h x. Inr ()) example_mail ''a@b'' ''Hi'' ''text'' =
       (Inr (JObj [(''sent_to'', JStr ''a@b''), (''subject'', JStr ''Hi'')]), sent) \<and>
     last sent = MailSend (JStr ''opensoar@localhost'') ''a@b'' ''Hi'' ''text'' \<and>
     (\<exists>host port post. sent = MailConnect host port # StartTls # MailLogin (JStr ''u'') (JStr ''p'') # post)"
proof -
  have run: "send_email (\<lambda>h x. Inr ()) example_mail ''a@b'' ''Hi'' ''text'' =
      (Inr (JObj [(''sent_to'', JStr ''a@b''), (''subject'', JStr ''Hi'')]),
       [MailConnect (JStr ''mail'') (JInt 587), StartTls, MailLogin (JStr ''u'') (JStr ''p''),
        MailSend (JStr ''opensoar@localhost'') ''a@b'' ''Hi'' ''text''])"
    by code_simp
  have "mail_from example_mail = JStr ''opensoar@localhost''" by code_simp
  moreover have "truthy (dget_default example_mail ''use_tls'' (JBool True))" by code_simp
  ultimately show ?thesis
    using mail_login_after_tls[OF run, of "JStr ''u''" "JStr ''p''" JNull "[]" "[]" "[]" "JObj [(''sent_to'', JStr ''a@b''), (''subject'', JStr ''Hi'')]"] run
    by simp
qed

end
