(* ===== verification/Playbooks.thy ===== *)
theory Playbooks
  imports Runtime Executor Actions Ai Connectors
begin

text \<open>
  The playbooks shipped with the platform, \<open>src/playbooks/examples\<close>: each is a coroutine of the kind \<open>Executor\<close> runs
  (\<open>pb_func\<close>), built from actions that the decorator of \<open>Decorators\<close> retries and records. Settings, the HTTP library, lookups
  through the cache and language models are parameters. Indicators are texts, as the normalisers produce them; for anything
  else a lookup raises. Actions that are gathered run one after the other here, and the dictionary of the alert a
  playbook changes in place is its own.
\<close>

section \<open>Actions inside a run\<close>

text \<open>What a language model is asked: the data a prompt is made of.\<close>

datatype play_prompt =
    PhishingPrompt jdict json json json
  | EndpointPrompt jdict json json json
  | HuntPrompt jdict json json json json

record play_env =
  pe_now :: time
  pe_clock :: "nat \<Rightarrow> time"
  pe_vt_key :: "string option"
  pe_abuse_key :: "string option"
  pe_llm :: llm_settings
  pe_http :: http
  pe_cached :: "connection \<Rightarrow> lookup \<Rightarrow> exn + json"
  pe_complete :: "llm_client \<Rightarrow> play_prompt \<Rightarrow> nat \<Rightarrow> exn + llm_response"
  pe_loads :: "string \<Rightarrow> json option"
  pe_float :: "string \<Rightarrow> pyfloat option"
  pe_slack :: "jdict \<Rightarrow> string \<Rightarrow> string \<Rightarrow> exn + unit"
  pe_set_order :: "json list \<Rightarrow> json list"
  pe_by_name :: "analyst list \<Rightarrow> analyst list"
  pe_show :: "rat \<Rightarrow> string"

type_synonym 'a play = "db \<Rightarrow> (exn + 'a) \<times> db"

definition pbind :: "'a play \<Rightarrow> ('a \<Rightarrow> 'b play) \<Rightarrow> 'b play" where
  "pbind m f d = (case m d of (Inl e, d') \<Rightarrow> (Inl e, d') | (Inr x, d') \<Rightarrow> f x d')"

definition plift :: "exn + 'a \<Rightarrow> 'a play" where
  "plift r d = (r, d)"

text \<open>\<open>asyncio.gather\<close> of two: both run, the first exception is raised.\<close>

definition gather2 :: "'a play \<Rightarrow> 'b play \<Rightarrow> ('a \<times> 'b) play" where
  "gather2 m n d = (case m d of (r, d1) \<Rightarrow> case n d1 of (s, d2) \<Rightarrow> (ebind r (\<lambda>x. ebind s (\<lambda>y. Inr (x, y))), d2))"

text \<open>The first attempt that succeeds, as the decorator makes them.\<close>

fun tried :: "(nat \<Rightarrow> exn + 'a) \<Rightarrow> nat list \<Rightarrow> exn + 'a" where
  "tried f [] = Inl (RuntimeError ''no attempt'')"
| "tried f [k] = f k"
| "tried f (k # ks) = (case f k of Inr v \<Rightarrow> Inr v | Inl e \<Rightarrow> if is_Exception e then tried f ks else Inl e)"

text \<open>A decorated action: its attempts, the change of the database by the one that succeeds, and the rows the decorator records.\<close>

definition attempts_made :: "play_env \<Rightarrow> action_meta \<Rightarrow> (nat \<Rightarrow> exn + json) \<Rightarrow> (exn + json) \<times> action_event list" where
  "attempts_made env meta f = action_wrapper meta (Some (Some (\<lambda>r. None))) (f 1) f (pe_clock env)"

definition act_in :: "play_env \<Rightarrow> exec_context \<Rightarrow> action_meta \<Rightarrow> (nat \<Rightarrow> db \<Rightarrow> exn + (json \<times> db)) \<Rightarrow> json play" where
  "act_in env ctx meta body d =
     (case attempts_made env meta (\<lambda>k. map_sum id fst (body k d)) of (r, evs) \<Rightarrow>
        (r, foldl (\<lambda>d r. record_action ctx r d)
              (case tried (\<lambda>k. body k d) (attempts_of meta) of Inr (v, d') \<Rightarrow> d' | Inl e \<Rightarrow> d) (records_of evs)))"

definition pure_body :: "(nat \<Rightarrow> exn + json) \<Rightarrow> nat \<Rightarrow> db \<Rightarrow> exn + (json \<times> db)" where
  "pure_body f k d = ebind (f k) (\<lambda>v. Inr (v, d))"

definition meta_of :: "string \<Rightarrow> int \<Rightarrow> int \<Rightarrow> rat \<Rightarrow> action_meta" where
  "meta_of name timeout retries backoff = action_decorator name (Some name) timeout retries backoff []"

definition once :: "string \<Rightarrow> int \<Rightarrow> action_meta" where
  "once name timeout = meta_of name timeout 0 1"

definition enriching :: "string \<Rightarrow> int \<Rightarrow> action_meta" where
  "enriching name timeout = meta_of name timeout 2 2"

section \<open>The data of an alert\<close>

definition setdefault :: "string \<Rightarrow> json \<Rightarrow> jdict \<Rightarrow> jdict" where
  "setdefault k v d = (if map_of d k = None then d @ [(k, v)] else d)"

definition alert_defaults :: "alert \<Rightarrow> (string \<times> json) list" where
  "alert_defaults a = [(''title'', JStr (al_title a)), (''description'', str_or_null (al_description a)),
     (''severity'', JStr (al_severity a)), (''source'', JStr (al_source a)), (''source_ip'', str_or_null (al_source_ip a)),
     (''dest_ip'', str_or_null (al_dest_ip a)), (''hostname'', str_or_null (al_hostname a)),
     (''rule_name'', str_or_null (al_rule_name a)),
     (''tags'', JArr (case al_tags a of None \<Rightarrow> [] | Some ts \<Rightarrow> map JStr ts))]"

definition iocs_of :: "alert \<Rightarrow> jdict" where
  "iocs_of a = (case al_iocs a of None \<Rightarrow> [] | Some d \<Rightarrow> d)"

text \<open>The dictionary a playbook works on and the identifier of its alert.\<close>

fun input_data :: "string list \<Rightarrow> pb_input \<Rightarrow> jdict \<times> json" where
  "input_data unused (AlertInput a) =
     (foldl (\<lambda>d (k, v). setdefault k v d) (AList.update ''iocs'' (JObj (iocs_of a)) (al_normalized a))
        (filter (\<lambda>(k, v). k \<notin> set unused) (alert_defaults a)),
      JStr (uuid_str (al_id a)))"
| "input_data unused (ManualInput d) = (d, dget_default d ''id'' (JStr []))"

definition input_iocs :: "jdict \<Rightarrow> json" where
  "input_iocs data = dget_default data ''iocs'' (JObj [])"

section \<open>Lookups\<close>

text \<open>The connector of a service, made and connected.\<close>

definition service :: "play_env \<Rightarrow> string \<Rightarrow> string \<Rightarrow> exn + connection" where
  "service env ty key =
     (let config = [(''api_key'', JStr key)]
      in ebind (validate_config ty config) (\<lambda>_.
         connect ty (pe_http env) \<lparr>co_config = config, co_client = None, co_closed = False\<rparr>))"

definition text_item :: "json \<Rightarrow> exn + string" where
  "text_item v = (case v of JStr s \<Rightarrow> Inr s | _ \<Rightarrow> Inl (TypeError ''indicator''))"

text \<open>A loop that fills a dictionary and keeps what it has when an item raises.\<close>

fun fill :: "(string \<Rightarrow> jdict \<Rightarrow> exn + jdict) \<Rightarrow> json list \<Rightarrow> jdict \<Rightarrow> jdict \<times> exn option" where
  "fill f [] acc = (acc, None)"
| "fill f (x # xs) acc =
     (case ebind (text_item x) (\<lambda>s. f s acc) of Inl e \<Rightarrow> (acc, Some e) | Inr acc' \<Rightarrow> fill f xs acc')"

definition put_entry :: "(string \<Rightarrow> exn + jdict) \<Rightarrow> string \<Rightarrow> jdict \<Rightarrow> exn + jdict" where
  "put_entry f s acc = ebind (f s) (\<lambda>v. Inr (AList.update s (JObj v) acc))"

text \<open>The lookups of the first n items with the service, if it connects.\<close>

definition lookups ::
  "play_env \<Rightarrow> string \<Rightarrow> string \<Rightarrow> nat \<Rightarrow> (connection \<Rightarrow> string \<Rightarrow> jdict \<Rightarrow> exn + jdict) \<Rightarrow> json \<Rightarrow> jdict \<Rightarrow> jdict \<times> exn option" where
  "lookups env ty key n f items acc =
     (case ebind (service env ty key) (\<lambda>c. ebind (py_take n items) (\<lambda>v. ebind (py_iter v) (\<lambda>xs. Inr (c, xs)))) of
        Inl e \<Rightarrow> (acc, Some e)
      | Inr (c, xs) \<Rightarrow> fill (f c) xs acc)"

definition vt_parts :: "json \<Rightarrow> exn + (json \<times> json)" where
  "vt_parts raw =
     ebind (py_get raw ''data'' (JObj [])) (\<lambda>x. ebind (py_get x ''attributes'' (JObj [])) (\<lambda>attrs.
     ebind (py_get attrs ''last_analysis_stats'' (JObj [])) (\<lambda>stats. Inr (attrs, stats))))"

text \<open>What is kept of an answer of VirusTotal: counts, attributes, and attributes as texts.\<close>

definition vt_entry ::
  "play_env \<Rightarrow> connection \<Rightarrow> lookup \<Rightarrow> string list \<Rightarrow> (string \<times> string \<times> json) list \<Rightarrow> string list \<Rightarrow> exn + jdict" where
  "vt_entry env c l counts keys texts =
     ebind (pe_cached env c l) (\<lambda>raw. ebind (vt_parts raw) (\<lambda>(attrs, stats).
     ebind (py_gets stats (map (\<lambda>k. (k, k, JInt 0)) counts)) (\<lambda>a.
     ebind (py_gets attrs keys) (\<lambda>b.
     ebind (py_gets attrs (map (\<lambda>k. (k, k, JStr [])) texts)) (\<lambda>t.
       Inr (a @ b @ map (\<lambda>(k, v). (k, JStr (py_str v))) t))))))"

definition abuse_entry :: "play_env \<Rightarrow> connection \<Rightarrow> json \<Rightarrow> string \<Rightarrow> exn + jdict" where
  "abuse_entry env c missing ip =
     ebind (pe_cached env c (AbuseIp ip 90)) (\<lambda>raw. ebind (py_get raw ''data'' (JObj [])) (\<lambda>data.
       py_gets data [(''abuse_confidence_score'', ''abuseConfidenceScore'', missing), (''total_reports'', ''totalReports'', missing),
                     (''country_code'', ''countryCode'', JNull), (''isp'', ''isp'', JNull)]))"

definition intel :: "string \<Rightarrow> jdict \<Rightarrow> json" where
  "intel source results = JObj [(''source'', JStr source), (''results'', JObj results)]"

text \<open>The lookups if a key is set, and the same for every item when there is none or they failed.\<close>

definition reputation ::
  "play_env \<Rightarrow> string \<Rightarrow> string option \<Rightarrow> (connection \<Rightarrow> string \<Rightarrow> exn + jdict) \<Rightarrow> jdict \<Rightarrow> json \<Rightarrow> exn + json" where
  "reputation env ty key entry unknown items =
     (let fallback = (\<lambda>acc. ebind (py_iter items) (\<lambda>xs. case fill (put_entry (\<lambda>s. Inr unknown)) xs acc of
            (acc', None) \<Rightarrow> Inr (intel ty acc') | (acc', Some e) \<Rightarrow> Inl e))
      in if truthy_str key
         then (case lookups env ty (the key) 5 (\<lambda>c. put_entry (entry c)) items [] of
                 (acc, None) \<Rightarrow> Inr (intel ty acc)
               | (acc, Some e) \<Rightarrow> if is_Exception e then fallback acc else Inl e)
         else fallback [])"

definition unknown_vt :: jdict where
  "unknown_vt = [(''reputation'', JStr ''unknown''), (''note'', JStr ''VT not configured'')]"

definition unknown_abuse :: jdict where
  "unknown_abuse = [(''abuse_confidence_score'', JInt 0), (''note'', JStr ''AbuseIPDB not configured'')]"

definition check_domain_reputation :: "play_env \<Rightarrow> json \<Rightarrow> exn + json" where
  "check_domain_reputation env =
     reputation env ''virustotal'' (pe_vt_key env)
       (\<lambda>c s. vt_entry env c (VtDomain s) [''malicious'', ''suspicious''] [(''registrar'', ''registrar'', JNull)] [''creation_date''])
       unknown_vt"

definition check_ip_reputation :: "play_env \<Rightarrow> json \<Rightarrow> exn + json" where
  "check_ip_reputation env = reputation env ''abuseipdb'' (pe_abuse_key env) (\<lambda>c. abuse_entry env c (JInt 0)) unknown_abuse"

definition enrich_file_hashes :: "play_env \<Rightarrow> json \<Rightarrow> exn + json" where
  "enrich_file_hashes env =
     reputation env ''virustotal'' (pe_vt_key env)
       (\<lambda>c s. vt_entry env c (VtHash s) [''malicious'', ''suspicious'', ''undetected'']
          [(''type_description'', ''type_description'', JNull), (''meaningful_name'', ''meaningful_name'', JNull),
           (''popular_threat_name'', ''popular_threat_label'', JNull)] [])
       unknown_vt"

definition enrich_c2_ips :: "play_env \<Rightarrow> json \<Rightarrow> exn + json" where
  "enrich_c2_ips env = reputation env ''abuseipdb'' (pe_abuse_key env) (\<lambda>c. abuse_entry env c (JInt 0)) unknown_abuse"

section \<open>Answers of language models\<close>

text \<open>\<open>json.loads\<close> of an answer, with a fixed verdict when it is no JSON, and the name of the model put in.\<close>

definition model_verdict :: "play_env \<Rightarrow> (json \<Rightarrow> exn + jdict) \<Rightarrow> llm_response \<Rightarrow> exn + json" where
  "model_verdict env unparsed r =
     ebind (case lr_content r of
              JStr s \<Rightarrow> (case pe_loads env s of Some v \<Rightarrow> Inr v | None \<Rightarrow> map_sum id JObj (unparsed (JStr s)))
            | _ \<Rightarrow> Inl (TypeError ''JSON object'')) (\<lambda>v.
     case v of JObj d \<Rightarrow> Inr (JObj (AList.update ''model'' (lr_model r) d)) | _ \<Rightarrow> Inl (TypeError ''item assignment''))"

text \<open>\<open>v >= q\<close> for a value without a checked type.\<close>

definition at_least :: "play_env \<Rightarrow> json \<Rightarrow> rat \<Rightarrow> exn + bool" where
  "at_least env v q = (case v of
      JInt i \<Rightarrow> Inr (q \<le> of_int i)
    | JBool b \<Rightarrow> Inr (q \<le> of_bool b)
    | JFloat t \<Rightarrow> (case pe_float env t of
          Some (Finite x) \<Rightarrow> Inr (q \<le> x) | Some PlusInf \<Rightarrow> Inr True | _ \<Rightarrow> Inr False)
    | _ \<Rightarrow> Inl (TypeError ''not supported''))"

definition no_llm :: "string \<Rightarrow> json" where
  "no_llm what = JStr (''No LLM configured'' @ em_dash @ what)"

section \<open>Changing the alert\<close>

definition id_of :: "json \<Rightarrow> exn + uuid" where
  "id_of v = (case v of JStr s \<Rightarrow> parse_uuid s | _ \<Rightarrow> Inl (AttributeError ''replace''))"

text \<open>A value bound to a text column.\<close>

definition column_text :: "json \<Rightarrow> exn + string" where
  "column_text v = (case v of JStr s \<Rightarrow> Inr s | JNull \<Rightarrow> Inl (IntegrityError ''not null'') | _ \<Rightarrow> Inl data_error)"

text \<open>An action in a session of its own: the alert is read, changed and logged, and the change is committed.\<close>

definition on_alert_row ::
  "play_env \<Rightarrow> json \<Rightarrow> jdict \<Rightarrow> (alert \<Rightarrow> exn + (alert \<times> activity \<times> jdict)) \<Rightarrow> db \<Rightarrow> exn + (json \<times> db)" where
  "on_alert_row env alert_id missing f d =
     ebind (id_of alert_id) (\<lambda>i.
     ebind (fetch (\<lambda>a. al_id a = i) (db_alerts d)) (\<lambda>found. case found of
       None \<Rightarrow> Inr (JObj missing, d)
     | Some a \<Rightarrow> ebind (f a) (\<lambda>(a', entry, result).
         ebind (save_alert a' (add_activity (pe_now env) entry d)) (\<lambda>d'. Inr (JObj result, d')))))"

definition taken_up :: "alert \<Rightarrow> alert" where
  "taken_up a = (if al_status a = ''new'' then a\<lparr>al_status := ''in_progress''\<rparr> else a)"

definition alert_not_there :: "string \<Rightarrow> jdict" where
  "alert_not_there k = [(k, JBool False), (''error'', JStr ''Alert not found'')]"


section \<open>Phishing triage\<close>

definition extract_phishing_iocs :: "jdict \<Rightarrow> exn + json" where
  "extract_phishing_iocs data =
     ebind (py_gets (input_iocs data) (map (\<lambda>k. (k, k, JArr [])) [''urls'', ''domains'', ''ips'', ''hashes''])) (\<lambda>r.
       Inr (JObj (r @ [(''source_ip'', dget data ''source_ip''), (''dest_ip'', dget data ''dest_ip'')])))"

text \<open>The default \<open>{{}}\<close> inside a replacement field of an f-string is a set with a dictionary in it.\<close>

definition set_of_dict :: "exn + json" where
  "set_of_dict = (if hashable (JObj []) then Inr (JObj []) else Inl (TypeError ''unhashable type''))"

definition phishing_prompt :: "jdict \<Rightarrow> json \<Rightarrow> json \<Rightarrow> exn + play_prompt" where
  "phishing_prompt data domain_intel ip_intel =
     ebind set_of_dict (\<lambda>dflt. ebind (py_get domain_intel ''results'' dflt) (\<lambda>ds. ebind (py_get ip_intel ''results'' dflt) (\<lambda>is.
       Inr (PhishingPrompt data (dget_default data ''iocs'' dflt) ds is))))"

definition phishing_unparsed :: "json \<Rightarrow> exn + jdict" where
  "phishing_unparsed content = ebind (py_take 500 content) (\<lambda>c.
     Inr [(''verdict'', JStr ''suspicious''), (''confidence'', JFloat ''0.5''), (''reasoning'', c),
          (''recommended_actions'', JArr [JStr (''Manual review required'' @ em_dash @ ''LLM response was not structured'')])])"

definition ai_analyze_phishing :: "play_env \<Rightarrow> jdict \<Rightarrow> json \<Rightarrow> json \<Rightarrow> nat \<Rightarrow> exn + json" where
  "ai_analyze_phishing env data domain_intel ip_intel k =
     (case get_llm_client (pe_llm env) of
        None \<Rightarrow> Inr (JObj [(''verdict'', JStr ''unknown''), (''confidence'', JFloat ''0.0''), (''reasoning'', no_llm ''manual review required.''),
                  (''recommended_actions'', JArr [JStr ''Assign to analyst for manual triage''])])
      | Some c \<Rightarrow> ebind (phishing_prompt data domain_intel ip_intel) (\<lambda>p. ebind (pe_complete env c p k) (model_verdict env phishing_unparsed)))"

definition auto_resolve_benign :: "play_env \<Rightarrow> exec_context \<Rightarrow> json \<Rightarrow> db \<Rightarrow> exn + (json \<times> db)" where
  "auto_resolve_benign env ctx reasoning d =
     ebind (resolve_current_alert (pe_now env) (ec_alert_id ctx) ''benign''
       \<lparr>ru_status = None, ru_determination = None, ru_reason = Some (''AI auto-resolved: '' @ py_str reasoning), ru_partner = None,
        ru_activity_action = Some ''ai_auto_resolved'',
        ru_activity_detail = Some (''AI phishing triage determined alert is benign: '' @ py_str reasoning),
        ru_activity_metadata = Some [(''ai_resolved'', JBool True), (''playbook'', JStr ''ai_phishing_triage'')]\<rparr> d) (\<lambda>(a, d').
       Inr (JObj [(''resolved'', JBool True), (''determination'', JStr (al_determination a))], d'))"

definition escalate_phishing :: "play_env \<Rightarrow> json \<Rightarrow> json \<Rightarrow> json \<Rightarrow> db \<Rightarrow> exn + (json \<times> db)" where
  "escalate_phishing env alert_id verdict reasoning =
     on_alert_row env alert_id (alert_not_there ''escalated'') (\<lambda>a. ebind (column_text verdict) (\<lambda>det.
       Inr ((taken_up a)\<lparr>al_determination := det\<rparr>,
            by_playbook (al_id a) ''ai_escalated'' (''AI phishing triage escalated ('' @ py_str verdict @ ''): '' @ py_str reasoning)
              [(''ai_escalated'', JBool True), (''verdict'', verdict), (''playbook'', JStr ''ai_phishing_triage'')],
            [(''escalated'', JBool True), (''verdict'', verdict)])))"

definition py_concat :: "json \<Rightarrow> json list \<Rightarrow> exn + json" where
  "py_concat v ys = (case v of JArr xs \<Rightarrow> Inr (JArr (xs @ ys)) | _ \<Rightarrow> Inl (TypeError ''concatenate''))"

definition if_set :: "json \<Rightarrow> json list" where
  "if_set v = (if truthy v then [v] else [])"

definition phishing_ips :: "json \<Rightarrow> exn + json" where
  "phishing_ips iocs = ebind (py_key ''ips'' iocs) (\<lambda>ips. ebind (py_key ''dest_ip'' iocs) (\<lambda>dest. py_concat ips (if_set dest)))"

definition phishing_resolution ::
  "play_env \<Rightarrow> exec_context \<Rightarrow> json \<Rightarrow> json \<Rightarrow> json \<Rightarrow> json \<Rightarrow> json play" where
  "phishing_resolution env ctx alert_id verdict confidence reasoning =
     pbind (plift (if verdict = JStr ''benign'' then at_least env confidence (85 / 100) else Inr False)) (\<lambda>sure.
       if sure \<and> truthy alert_id
       then act_in env ctx (once ''auto_resolve_benign_phishing'' 10) (\<lambda>k. auto_resolve_benign env ctx reasoning)
       else if truthy alert_id
       then act_in env ctx (meta_of ''escalate_phishing_alert'' 15 1 1) (\<lambda>k. escalate_phishing env alert_id verdict reasoning)
       else plift (Inr (JObj [(''note'', JStr (''No alert ID'' @ em_dash @ ''dry run''))])))"

definition phishing_verdict :: "play_env \<Rightarrow> exec_context \<Rightarrow> jdict \<Rightarrow> json \<Rightarrow> json \<Rightarrow> json \<Rightarrow> json play" where
  "phishing_verdict env ctx data alert_id domain_intel ip_intel =
     pbind (act_in env ctx (meta_of ''ai_analyze_phishing'' 60 1 1) (pure_body (ai_analyze_phishing env data domain_intel ip_intel))) (\<lambda>ai.
     pbind (plift (py_get ai ''verdict'' (JStr ''unknown''))) (\<lambda>verdict.
     pbind (plift (py_get ai ''confidence'' (JFloat ''0.0''))) (\<lambda>confidence.
     pbind (plift (py_get ai ''reasoning'' (JStr []))) (\<lambda>reasoning.
     pbind (phishing_resolution env ctx alert_id verdict confidence reasoning) (\<lambda>resolution.
       plift (ebind (py_gets ai [(''indicators'', ''indicators'', JArr []), (''recommended_actions'', ''recommended_actions'', JArr [])]) (\<lambda>more.
         ebind (py_get ai ''model'' JNull) (\<lambda>model.
           Inr (JObj ([(''triaged'', JBool True), (''verdict'', verdict), (''confidence'', confidence), (''reasoning'', reasoning)] @ more @
             [(''enrichment'', JObj [(''domains'', domain_intel), (''ips'', ip_intel)]), (''resolution'', resolution), (''model'', model)]))))))))))"

definition ai_phishing_triage :: "play_env \<Rightarrow> exec_context \<Rightarrow> pb_input \<Rightarrow> json play" where
  "ai_phishing_triage env ctx inp =
     (case input_data [] inp of (data, alert_id) \<Rightarrow>
        pbind (act_in env ctx (once ''extract_phishing_iocs'' 10) (pure_body (\<lambda>k. extract_phishing_iocs data))) (\<lambda>iocs.
        pbind (plift (py_key ''domains'' iocs)) (\<lambda>domains.
        pbind (plift (phishing_ips iocs)) (\<lambda>ips.
        pbind (gather2
            (act_in env ctx (enriching ''check_domain_reputation'' 30) (pure_body (\<lambda>k. check_domain_reputation env domains)))
            (act_in env ctx (enriching ''check_ip_reputation'' 30) (pure_body (\<lambda>k. check_ip_reputation env ips)))) (\<lambda>(domain_intel, ip_intel).
          phishing_verdict env ctx data alert_id domain_intel ip_intel)))))"

section \<open>Endpoint containment\<close>

definition extract_endpoint_context :: "jdict \<Rightarrow> exn + json" where
  "extract_endpoint_context data =
     ebind (py_gets (input_iocs data) (map (\<lambda>k. (k, k, JArr [])) [''hashes'', ''ips'', ''domains''])) (\<lambda>r.
       Inr (JObj ([(''hostname'', dget data ''hostname''), (''source_ip'', dget data ''source_ip'')] @ r @
         [(''rule_name'', dget data ''rule_name''), (''tags'', dget_default data ''tags'' (JArr []))])))"

definition endpoint_unparsed :: "json \<Rightarrow> exn + jdict" where
  "endpoint_unparsed content = ebind (py_take 500 content) (\<lambda>c.
     Inr [(''severity'', JStr ''high''), (''should_isolate'', JBool False), (''confidence'', JFloat ''0.5''), (''reasoning'', c),
          (''recommended_actions'', JArr [JStr (''Manual assessment required'' @ em_dash @ ''LLM response was not structured'')])])"

definition ai_assess_endpoint_threat :: "play_env \<Rightarrow> jdict \<Rightarrow> json \<Rightarrow> json \<Rightarrow> json \<Rightarrow> nat \<Rightarrow> exn + json" where
  "ai_assess_endpoint_threat env data endpoint_ctx hash_intel ip_intel k =
     (case get_llm_client (pe_llm env) of
        None \<Rightarrow> Inr (JObj [(''severity'', JStr ''unknown''), (''should_isolate'', JBool False), (''confidence'', JFloat ''0.0''),
                  (''reasoning'', no_llm ''manual assessment required.''),
                  (''recommended_actions'', JArr [JStr ''Assign to endpoint security team''])])
      | Some c \<Rightarrow> ebind (py_get hash_intel ''results'' (JObj [])) (\<lambda>hs. ebind (py_get ip_intel ''results'' (JObj [])) (\<lambda>is.
          ebind (pe_complete env c (EndpointPrompt data endpoint_ctx hs is) k) (model_verdict env endpoint_unparsed))))"

definition isolate_endpoint :: "play_env \<Rightarrow> json \<Rightarrow> json \<Rightarrow> json \<Rightarrow> db \<Rightarrow> exn + (json \<times> db)" where
  "isolate_endpoint env alert_id hostname reasoning =
     on_alert_row env alert_id (alert_not_there ''isolated'') (\<lambda>a.
       Inr (a\<lparr>al_status := ''in_progress'', al_determination := ''malicious''\<rparr>,
            by_playbook (al_id a) ''endpoint_isolated'' (''AI containment: endpoint '' @ py_str hostname @ '' isolated. '' @ py_str reasoning)
              [(''ai_isolated'', JBool True), (''hostname'', hostname), (''playbook'', JStr ''ai_endpoint_containment'')],
            [(''isolated'', JBool True), (''hostname'', hostname)]))"

definition log_endpoint_assessment :: "play_env \<Rightarrow> json \<Rightarrow> json \<Rightarrow> json \<Rightarrow> json \<Rightarrow> db \<Rightarrow> exn + (json \<times> db)" where
  "log_endpoint_assessment env alert_id severity reasoning actions =
     on_alert_row env alert_id (alert_not_there ''logged'') (\<lambda>a.
       Inr (taken_up a,
            by_playbook (al_id a) ''ai_endpoint_assessment'' (''AI assessed severity as '' @ py_str severity @ '': '' @ py_str reasoning)
              [(''ai_severity'', severity), (''recommended_actions'', actions), (''playbook'', JStr ''ai_endpoint_containment'')],
            [(''logged'', JBool True), (''severity'', severity)]))"

definition put_key :: "string \<Rightarrow> json \<Rightarrow> json \<Rightarrow> json" where
  "put_key k x v = (case v of JObj d \<Rightarrow> JObj (AList.update k x d) | _ \<Rightarrow> v)"

definition containment_of :: "play_env \<Rightarrow> exec_context \<Rightarrow> json \<Rightarrow> json \<Rightarrow> json \<Rightarrow> json play" where
  "containment_of env ctx alert_id hostname assessment =
     pbind (plift (py_gets assessment [(''severity'', ''severity'', JStr ''unknown''), (''should_isolate'', ''should_isolate'', JBool False),
        (''confidence'', ''confidence'', JFloat ''0.0''), (''reasoning'', ''reasoning'', JStr []),
        (''recommended_actions'', ''recommended_actions'', JArr [])])) (\<lambda>v.
     pbind (plift (if truthy (dget v ''should_isolate'') then at_least env (dget v ''confidence'') (80 / 100) else Inr False)) (\<lambda>sure.
       if sure \<and> truthy alert_id \<and> truthy hostname
       then pbind (act_in env ctx (once ''isolate_endpoint'' 15) (\<lambda>k. isolate_endpoint env alert_id hostname (dget v ''reasoning'')))
              (\<lambda>r. plift (Inr (put_key ''action'' (JStr ''isolated'') r)))
       else if truthy alert_id
       then pbind (act_in env ctx (once ''log_endpoint_assessment'' 10)
              (\<lambda>k. log_endpoint_assessment env alert_id (dget v ''severity'') (dget v ''reasoning'') (dget v ''recommended_actions'')))
              (\<lambda>r. plift (Inr (JObj [(''action'', JStr ''logged'')])))
       else plift (Inr (JObj [(''action'', JStr ''none'')]))))"

definition ai_endpoint_containment :: "play_env \<Rightarrow> exec_context \<Rightarrow> pb_input \<Rightarrow> json play" where
  "ai_endpoint_containment env ctx inp =
     (case input_data [''dest_ip''] inp of (data, alert_id) \<Rightarrow>
        pbind (act_in env ctx (once ''extract_endpoint_context'' 10) (pure_body (\<lambda>k. extract_endpoint_context data))) (\<lambda>endpoint_ctx.
        pbind (plift (py_key ''hashes'' endpoint_ctx)) (\<lambda>hashes.
        pbind (plift (py_key ''ips'' endpoint_ctx)) (\<lambda>ips.
        pbind (gather2
            (act_in env ctx (enriching ''enrich_file_hashes'' 30) (pure_body (\<lambda>k. enrich_file_hashes env hashes)))
            (act_in env ctx (enriching ''enrich_c2_ips'' 30) (pure_body (\<lambda>k. enrich_c2_ips env ips)))) (\<lambda>(hash_intel, ip_intel).
        pbind (act_in env ctx (meta_of ''ai_assess_endpoint_threat'' 60 1 1)
            (pure_body (ai_assess_endpoint_threat env data endpoint_ctx hash_intel ip_intel))) (\<lambda>assessment.
        pbind (plift (py_key ''hostname'' endpoint_ctx)) (\<lambda>hostname.
        pbind (containment_of env ctx alert_id hostname assessment) (\<lambda>containment.
          plift (ebind (py_gets assessment [(''severity'', ''severity'', JStr ''unknown''), (''threat_type'', ''threat_type'', JStr ''unknown''),
              (''should_isolate'', ''should_isolate'', JBool False), (''confidence'', ''confidence'', JFloat ''0.0''),
              (''reasoning'', ''reasoning'', JStr []), (''indicators'', ''indicators_of_compromise'', JArr []),
              (''recommended_actions'', ''recommended_actions'', JArr [])]) (\<lambda>fields.
            ebind (py_get assessment ''model'' JNull) (\<lambda>model.
              Inr (JObj ((''assessed'', JBool True) # fields @ [(''containment'', containment),
                (''enrichment'', JObj [(''hashes'', hash_intel), (''ips'', ip_intel)]), (''model'', model)])))))))))))))"


section \<open>Threat hunt\<close>

definition py_length :: "json \<Rightarrow> exn + int" where
  "py_length v = (case v of
      JArr xs \<Rightarrow> Inr (int (length xs)) | JStr t \<Rightarrow> Inr (int (length t)) | JObj d \<Rightarrow> Inr (int (length d))
    | _ \<Rightarrow> Inl (TypeError ''len''))"

text \<open>\<open>list(set(xs))\<close>, in the order sets happen to have.\<close>

definition distinct_items :: "play_env \<Rightarrow> json list \<Rightarrow> exn + json list" where
  "distinct_items env xs =
     (if list_all hashable xs then Inr (pe_set_order env (remdups xs)) else Inl (TypeError ''unhashable type''))"

definition collect_hunt_iocs :: "play_env \<Rightarrow> jdict \<Rightarrow> exn + json" where
  "collect_hunt_iocs env data =
     ebind (py_get (input_iocs data) ''ips'' (JArr [])) (\<lambda>ips.
     ebind (py_concat ips (if_set (dget data ''source_ip'') @ if_set (dget data ''dest_ip''))) (\<lambda>all.
     ebind (py_iter all) (\<lambda>xs. ebind (distinct_items env xs) (\<lambda>all_ips.
     ebind (py_gets (input_iocs data) (map (\<lambda>k. (k, k, JArr [])) [''domains'', ''hashes'', ''urls''])) (\<lambda>r.
     ebind (py_length (dget r ''domains'')) (\<lambda>nd. ebind (py_length (dget r ''hashes'')) (\<lambda>nh.
       Inr (JObj ((''ips'', JArr all_ips) # r @ [(''hostname'', dget data ''hostname''),
         (''total_iocs'', JInt (int (length all_ips) + nd + nh))])))))))))"

text \<open>An answer stored under its service in the entry of an address.\<close>

definition put_source :: "string \<Rightarrow> (string \<Rightarrow> exn + jdict) \<Rightarrow> string \<Rightarrow> jdict \<Rightarrow> exn + jdict" where
  "put_source ty f s acc =
     ebind (f s) (\<lambda>v. ebind (py_key s (JObj acc)) (\<lambda>entry. ebind (py_key ''sources'' entry) (\<lambda>sources.
       Inr (AList.update s (put_key ''sources'' (put_key ty (JObj v) sources) entry) acc))))"

definition ip_entry :: "play_env \<Rightarrow> connection \<Rightarrow> string \<Rightarrow> exn + jdict" where
  "ip_entry env c s =
     vt_entry env c (VtIp s) [''malicious'', ''suspicious''] [(''country'', ''country'', JNull), (''as_owner'', ''as_owner'', JNull)] []"

text \<open>What a failed step leaves: an ordinary exception is swallowed.\<close>

definition swallowed :: "string \<Rightarrow> jdict \<times> exn option \<Rightarrow> exn + json" where
  "swallowed kind r =
     (case r of
        (acc, Some e) \<Rightarrow> if is_Exception e then Inr (JObj [(''type'', JStr kind), (''results'', JObj acc)]) else Inl e
      | (acc, None) \<Rightarrow> Inr (JObj [(''type'', JStr kind), (''results'', JObj acc)]))"

definition if_keyed :: "string option \<Rightarrow> (string \<Rightarrow> jdict \<Rightarrow> jdict \<times> exn option) \<Rightarrow> jdict \<times> exn option \<Rightarrow> jdict \<times> exn option" where
  "if_keyed key f r = (case r of (acc, Some e) \<Rightarrow> (acc, Some e) | (acc, None) \<Rightarrow> if truthy_str key then f (the key) acc else (acc, None))"

definition hunt_ips :: "play_env \<Rightarrow> json \<Rightarrow> exn + json" where
  "hunt_ips env ips =
     ebind (py_take 10 ips) (\<lambda>v. ebind (py_iter v) (\<lambda>xs.
       case fill (put_entry (\<lambda>s. Inr [(''sources'', JObj [])])) xs [] of
         (acc, Some e) \<Rightarrow> Inl e
       | (acc, None) \<Rightarrow> swallowed ''ip''
           (if_keyed (pe_abuse_key env) (\<lambda>key. lookups env ''abuseipdb'' key 10 (\<lambda>c. put_source ''abuseipdb'' (abuse_entry env c (JInt 0))) ips)
             (if_keyed (pe_vt_key env) (\<lambda>key. lookups env ''virustotal'' key 10 (\<lambda>c. put_source ''virustotal'' (ip_entry env c)) ips)
               (acc, None)))))"

definition hunt_listed :: "play_env \<Rightarrow> string \<Rightarrow> (connection \<Rightarrow> string \<Rightarrow> exn + jdict) \<Rightarrow> json \<Rightarrow> exn + json" where
  "hunt_listed env kind entry items =
     swallowed kind
       (if truthy_str (pe_vt_key env) then lookups env ''virustotal'' (the (pe_vt_key env)) 10 (\<lambda>c. put_entry (entry c)) items []
        else case py_iter items of
               Inl e \<Rightarrow> ([], Some e)
             | Inr xs \<Rightarrow> fill (put_entry (\<lambda>s. Inr [(''note'', JStr ''VT not configured'')])) xs [])"

definition hunt_domains :: "play_env \<Rightarrow> json \<Rightarrow> exn + json" where
  "hunt_domains env = hunt_listed env ''domain'' (\<lambda>c s.
     vt_entry env c (VtDomain s) [''malicious'', ''suspicious'']
       [(''registrar'', ''registrar'', JNull), (''categories'', ''categories'', JObj [])] [''creation_date''])"

definition hunt_hashes :: "play_env \<Rightarrow> json \<Rightarrow> exn + json" where
  "hunt_hashes env = hunt_listed env ''hash'' (\<lambda>c s.
     vt_entry env c (VtHash s) [''malicious'', ''suspicious'']
       [(''type_description'', ''type_description'', JNull), (''meaningful_name'', ''meaningful_name'', JNull),
        (''popular_threat_label'', ''popular_threat_label'', JNull)] [''first_submission_date''])"

definition hunt_unparsed :: "json \<Rightarrow> exn + jdict" where
  "hunt_unparsed content = ebind (py_take 2000 content) (\<lambda>c.
     Inr [(''report'', c), (''threat_level'', JStr ''unknown''), (''confidence'', JFloat ''0.5''),
          (''recommended_actions'', JArr [JStr (''Manual review required'' @ em_dash @ ''LLM response was not structured'')])])"

definition ai_correlate_and_report :: "play_env \<Rightarrow> jdict \<Rightarrow> json \<Rightarrow> json \<Rightarrow> json \<Rightarrow> json \<Rightarrow> nat \<Rightarrow> exn + json" where
  "ai_correlate_and_report env data hunt_iocs ip_intel domain_intel hash_intel k =
     (case get_llm_client (pe_llm env) of
        None \<Rightarrow> Inr (JObj [(''report'', no_llm ''manual correlation required.''), (''threat_level'', JStr ''unknown''),
                  (''confidence'', JFloat ''0.0''), (''related_threats'', JArr [])])
      | Some c \<Rightarrow> ebind (py_get ip_intel ''results'' (JObj [])) (\<lambda>is. ebind (py_get domain_intel ''results'' (JObj [])) (\<lambda>ds.
          ebind (py_get hash_intel ''results'' (JObj [])) (\<lambda>hs.
          ebind (pe_complete env c (HuntPrompt data hunt_iocs is ds hs) k) (model_verdict env hunt_unparsed)))))"

definition save_hunt_report :: "play_env \<Rightarrow> json \<Rightarrow> json \<Rightarrow> db \<Rightarrow> exn + (json \<times> db)" where
  "save_hunt_report env alert_id report =
     on_alert_row env alert_id (alert_not_there ''saved'') (\<lambda>a.
       ebind (py_get report ''executive_summary'' (JStr ''AI threat hunt completed'')) (\<lambda>summary.
       ebind (if summary = JNull then Inr None else map_sum id Some (column_text summary)) (\<lambda>detail.
       ebind (py_gets report [(''threat_level'', ''threat_level'', JNull), (''confidence'', ''confidence'', JNull), (''report'', ''report'', JNull),
          (''ioc_verdicts'', ''ioc_verdicts'', JObj []), (''related_threats'', ''related_threats'', JArr []),
          (''recommended_actions'', ''recommended_actions'', JArr [])]) (\<lambda>meta.
         Inr (taken_up a,
              (by_playbook (al_id a) ''ai_threat_hunt_report'' [] (meta @ [(''playbook'', JStr ''ai_threat_hunt'')]))\<lparr>ac_detail := detail\<rparr>,
              [(''saved'', JBool True), (''threat_level'', dget meta ''threat_level'')])))))"

definition hunt_report :: "json \<Rightarrow> exn + jdict" where
  "hunt_report report =
     py_gets report [(''threat_level'', ''threat_level'', JStr ''unknown''), (''confidence'', ''confidence'', JFloat ''0.0''),
       (''executive_summary'', ''executive_summary'', JStr []), (''report'', ''report'', JStr []),
       (''related_threats'', ''related_threats'', JArr []), (''ioc_verdicts'', ''ioc_verdicts'', JObj []),
       (''recommended_actions'', ''recommended_actions'', JArr [])]"

definition ai_threat_hunt :: "play_env \<Rightarrow> exec_context \<Rightarrow> pb_input \<Rightarrow> json play" where
  "ai_threat_hunt env ctx inp =
     (case input_data [] inp of (data, alert_id) \<Rightarrow>
        pbind (act_in env ctx (once ''collect_hunt_iocs'' 10) (pure_body (\<lambda>k. collect_hunt_iocs env data))) (\<lambda>iocs.
        pbind (plift (py_key ''total_iocs'' iocs)) (\<lambda>total.
        if total = JInt 0
        then plift (Inr (JObj [(''hunted'', JBool False), (''note'', JStr (''No IOCs to hunt'' @ em_dash @ ''alert has no indicators''))]))
        else
          pbind (plift (ebind (py_key ''ips'' iocs) (\<lambda>i. ebind (py_key ''domains'' iocs) (\<lambda>n. ebind (py_key ''hashes'' iocs) (\<lambda>h.
            Inr (i, n, h)))))) (\<lambda>(ips, domains, hashes).
          pbind (gather2 (act_in env ctx (enriching ''hunt_ips'' 45) (pure_body (\<lambda>k. hunt_ips env ips)))
                   (gather2 (act_in env ctx (enriching ''hunt_domains'' 45) (pure_body (\<lambda>k. hunt_domains env domains)))
                            (act_in env ctx (enriching ''hunt_hashes'' 45) (pure_body (\<lambda>k. hunt_hashes env hashes))))) (\<lambda>(ip_intel, domain_intel, hash_intel).
          pbind (act_in env ctx (meta_of ''ai_correlate_and_report'' 90 1 1)
              (pure_body (ai_correlate_and_report env data iocs ip_intel domain_intel hash_intel))) (\<lambda>report.
          pbind (if truthy alert_id
                 then act_in env ctx (once ''save_hunt_report'' 15) (\<lambda>k. save_hunt_report env alert_id report)
                 else plift (Inr (JObj [(''note'', JStr (''No alert ID'' @ em_dash @ ''dry run''))]))) (\<lambda>saved.
          plift (ebind (hunt_report report) (\<lambda>fields. ebind (py_get report ''model'' JNull) (\<lambda>model.
            Inr (JObj ((''hunted'', JBool True) # fields @ [(''iocs_investigated'', total),
              (''enrichment'', JObj [(''ips'', ip_intel), (''domains'', domain_intel), (''hashes'', hash_intel)]),
              (''saved'', saved), (''model'', model)]))))))))))))"

section \<open>Enriching every indicator\<close>

definition caught_as :: "jdict \<Rightarrow> exn + json \<Rightarrow> exn + json" where
  "caught_as d r = (case r of
      Inr v \<Rightarrow> Inr v | Inl e \<Rightarrow> if is_Exception e then Inr (JObj (d @ [(''error'', JStr (exn_str e))])) else Inl e)"

text \<open>One service asked for one indicator.\<close>

definition one_source :: "play_env \<Rightarrow> string \<Rightarrow> string option \<Rightarrow> (connection \<Rightarrow> exn + jdict) \<Rightarrow> exn + jdict" where
  "one_source env ty key entry =
     (if truthy_str key then ebind (service env ty (the key)) (\<lambda>c. ebind (entry c) (\<lambda>v. Inr [(ty, JObj v)])) else Inr [])"

definition enrich_ip :: "play_env \<Rightarrow> json \<Rightarrow> exn + json" where
  "enrich_ip env ip =
     (let vt = one_source env ''virustotal'' (pe_vt_key env) (\<lambda>c. ebind (text_item ip) (ip_entry env c));
          abuse = one_source env ''abuseipdb'' (pe_abuse_key env) (\<lambda>c. ebind (text_item ip) (abuse_entry env c JNull));
          answer = (\<lambda>sources err. JObj ([(''ip'', ip), (''sources'', JObj sources)] @ err @
            (if sources = [] then [(''note'', JStr ''No integration API keys configured'')] else [])));
          failed = (\<lambda>sources e. if is_Exception e then Inr (answer sources [(''error'', JStr (exn_str e))]) else Inl e)
      in case vt of
           Inl e \<Rightarrow> failed [] e
         | Inr s1 \<Rightarrow> (case abuse of Inl e \<Rightarrow> failed s1 e | Inr s2 \<Rightarrow> Inr (answer (s1 @ s2) [])))"

definition enrich_listed :: "play_env \<Rightarrow> string \<Rightarrow> (connection \<Rightarrow> string \<Rightarrow> exn + jdict) \<Rightarrow> json \<Rightarrow> exn + json" where
  "enrich_listed env kind entry item =
     caught_as [(kind, item)]
       (if \<not> truthy_str (pe_vt_key env) then Inr (JObj [(kind, item), (''note'', JStr ''VT_API_KEY not configured'')])
        else ebind (service env ''virustotal'' (the (pe_vt_key env))) (\<lambda>c. ebind (text_item item) (\<lambda>s. ebind (entry c s) (\<lambda>v.
               Inr (JObj ((kind, item) # v))))))"

definition enrich_domain :: "play_env \<Rightarrow> json \<Rightarrow> exn + json" where
  "enrich_domain env = enrich_listed env ''domain'' (\<lambda>c s.
     vt_entry env c (VtDomain s) [''malicious'', ''suspicious''] [(''registrar'', ''registrar'', JNull)] [''creation_date''])"

definition enrich_hash :: "play_env \<Rightarrow> json \<Rightarrow> exn + json" where
  "enrich_hash env = enrich_listed env ''hash'' (\<lambda>c s.
     vt_entry env c (VtHash s) [''malicious'', ''suspicious'']
       [(''type_description'', ''type_description'', JNull), (''meaningful_name'', ''meaningful_name'', JNull)] [])"

text \<open>\<open>gather(..., return_exceptions=True)\<close>, with an exception told as an error.\<close>

fun gather_all :: "json play list \<Rightarrow> json list play" where
  "gather_all [] d = (Inr [], d)"
| "gather_all (m # ms) d =
     (case m d of (r, d1) \<Rightarrow> case caught_as [] r of
        Inl e \<Rightarrow> (Inl e, d1)
      | Inr v \<Rightarrow> (case gather_all ms d1 of (Inl e, d2) \<Rightarrow> (Inl e, d2) | (Inr vs, d2) \<Rightarrow> (Inr (v # vs), d2)))"

definition listed :: "json \<Rightarrow> string \<Rightarrow> exn + json list" where
  "listed iocs k = ebind (py_get iocs k (JArr [])) py_iter"

definition auto_enrich_iocs :: "play_env \<Rightarrow> exec_context \<Rightarrow> pb_input \<Rightarrow> json play" where
  "auto_enrich_iocs env ctx inp =
     (let iocs = (case inp of AlertInput a \<Rightarrow> JObj (iocs_of a) | ManualInput d \<Rightarrow> input_iocs d)
      in pbind (plift (ebind (listed iocs ''ips'') (\<lambda>i. ebind (listed iocs ''domains'') (\<lambda>n. ebind (listed iocs ''hashes'') (\<lambda>h.
           Inr (map (\<lambda>x. act_in env ctx (enriching ''enrich_ip'' 30) (pure_body (\<lambda>k. enrich_ip env x))) i
              @ map (\<lambda>x. act_in env ctx (enriching ''enrich_domain'' 30) (pure_body (\<lambda>k. enrich_domain env x))) n
              @ map (\<lambda>x. act_in env ctx (enriching ''enrich_hash'' 30) (pure_body (\<lambda>k. enrich_hash env x))) h)))))) (\<lambda>tasks.
         if tasks = [] then plift (Inr (JObj [(''enriched'', JInt 0), (''note'', JStr ''No IOCs to enrich'')]))
         else pbind (gather_all tasks) (\<lambda>results.
           plift (Inr (JObj [(''enriched'', JInt (int (length results))), (''results'', JArr results)])))))"

section \<open>Escalation\<close>

definition find_duty_analyst :: "play_env \<Rightarrow> db \<Rightarrow> exn + (json \<times> db)" where
  "find_duty_analyst env d =
     (case pe_by_name env (filter (\<lambda>x. an_is_active x \<and> an_role x = ''admin'') (db_analysts d)) of
        [] \<Rightarrow> Inr (JObj [(''found'', JBool False), (''note'', JStr ''No admin analysts available'')], d)
      | x # xs \<Rightarrow> Inr (JObj [(''found'', JBool True), (''analyst_id'', JStr (uuid_str (an_id x))), (''username'', JStr (an_username x)),
          (''display_name'', JStr (an_display_name x))], d))"

definition assign_alert :: "play_env \<Rightarrow> exec_context \<Rightarrow> json \<Rightarrow> json \<Rightarrow> db \<Rightarrow> exn + (json \<times> db)" where
  "assign_alert env ctx analyst_id username d =
     ebind (assign_current_alert (pe_now env) (ec_alert_id ctx) (Some (py_str analyst_id)) None d) (\<lambda>(a, d').
       Inr (JObj [(''assigned'', JBool True), (''to'', py_or (str_or_null (al_assigned_username a)) username)], d'))"

text \<open>The names \<open>integrations/slack/connector.py\<close> defines, and the one that is imported.\<close>

definition slack_names :: "string list" where
  "slack_names = [''SlackIntegration'', ''send_message'']"

definition import_from :: "string list \<Rightarrow> string \<Rightarrow> exn + unit" where
  "import_from names k = guard (k \<in> set names) (ImportError (''cannot import name '' @ quoted k))"

definition escalation_text :: "json \<Rightarrow> json \<Rightarrow> json \<Rightarrow> string" where
  "escalation_text title severity assignee =
     (let nl = [CHR 0x0A]
      in ''*CRITICAL ALERT ESCALATED*'' @ nl @ ''*Title:* '' @ py_str title @ nl @ ''*Severity:* '' @ py_str severity @ nl
         @ ''*Assigned to:* '' @ py_str assignee)"

definition notify_slack :: "play_env \<Rightarrow> json \<Rightarrow> json \<Rightarrow> json \<Rightarrow> db \<Rightarrow> exn + json option" where
  "notify_slack env title severity assignee d =
     ebind (import_from slack_names ''SlackConnector'') (\<lambda>_.
     ebind (fetch (\<lambda>r. ii_integration_type r = ''slack'' \<and> ii_enabled r) (db_integrations d)) (\<lambda>found. case found of
       None \<Rightarrow> Inr None
     | Some r \<Rightarrow> if truthy (dget (ii_config r) ''webhook_url'')
         then ebind (pe_slack env (ii_config r) (py_str (dget_default (ii_config r) ''default_channel'' (JStr ''#soc-alerts'')))
                (escalation_text title severity assignee)) (\<lambda>_.
              Inr (Some (JObj [(''notified'', JBool True), (''channel'', dget (ii_config r) ''default_channel'')])))
         else Inr None))"

definition send_escalation_notification :: "play_env \<Rightarrow> json \<Rightarrow> json \<Rightarrow> json \<Rightarrow> db \<Rightarrow> exn + (json \<times> db)" where
  "send_escalation_notification env title severity assignee d =
     (let logged = Inr (JObj [(''notified'', JBool False), (''note'', JStr ''Slack not configured, logged only'')], d)
      in case notify_slack env title severity assignee d of
           Inr (Some v) \<Rightarrow> Inr (v, d)
         | Inr None \<Rightarrow> logged
         | Inl e \<Rightarrow> if is_Exception e then logged else Inl e)"

definition escalation_workflow :: "play_env \<Rightarrow> exec_context \<Rightarrow> pb_input \<Rightarrow> json play" where
  "escalation_workflow env ctx inp =
     (case (case inp of
              AlertInput a \<Rightarrow> (JStr (al_title a), JStr (al_severity a))
            | ManualInput d \<Rightarrow> (dget_default d ''title'' (JStr ''Unknown''), dget_default d ''severity'' (JStr ''critical''))) of (title, severity) \<Rightarrow>
      pbind (act_in env ctx (once ''find_duty_analyst'' 10) (\<lambda>k. find_duty_analyst env)) (\<lambda>duty.
      pbind (plift (py_get duty ''found'' JNull)) (\<lambda>found.
      if \<not> truthy found
      then plift (Inr (JObj [(''escalated'', JBool False), (''note'', JStr ''No admin analyst available for assignment'')]))
      else
        pbind (plift (ebind (py_key ''analyst_id'' duty) (\<lambda>i. ebind (py_key ''username'' duty) (\<lambda>u. ebind (py_key ''display_name'' duty) (\<lambda>n.
          Inr (i, u, n)))))) (\<lambda>(i, u, name).
        pbind (act_in env ctx (once ''assign_alert'' 10) (\<lambda>k. assign_alert env ctx i u)) (\<lambda>assignment.
        pbind (act_in env ctx (meta_of ''send_escalation_notification'' 15 1 1)
            (\<lambda>k. send_escalation_notification env title severity name)) (\<lambda>notification.
        plift (Inr (JObj [(''escalated'', JBool True), (''assigned_to'', name), (''assignment'', assignment), (''notification'', notification)]))))))))"

section \<open>Triage of high severities\<close>

definition enrich_virustotal :: "json \<Rightarrow> exn + json" where
  "enrich_virustotal iocs =
     ebind (listed iocs ''ips'') (\<lambda>xs.
       case fill (put_entry (\<lambda>s. Inr [(''reputation'', JStr ''unknown''), (''source'', JStr ''virustotal'')])) xs [] of
         (acc, Some e) \<Rightarrow> Inl e
       | (acc, None) \<Rightarrow> Inr (intel ''virustotal'' acc))"

definition enrich_abuseipdb :: "json \<Rightarrow> exn + json" where
  "enrich_abuseipdb source_ip =
     Inr (JObj (if \<not> truthy source_ip then [(''source'', JStr ''abuseipdb''), (''result'', JStr ''no_ip'')]
                else [(''source'', JStr ''abuseipdb''), (''ip'', source_ip), (''abuse_score'', JInt 0)]))"

definition more_than :: "play_env \<Rightarrow> json \<Rightarrow> rat \<Rightarrow> exn + bool" where
  "more_than env v q = (case v of
      JInt i \<Rightarrow> Inr (q < of_int i)
    | JBool b \<Rightarrow> Inr (q < of_bool b)
    | JFloat t \<Rightarrow> (case pe_float env t of
          Some (Finite x) \<Rightarrow> Inr (q < x) | Some PlusInf \<Rightarrow> Inr True | _ \<Rightarrow> Inr False)
    | _ \<Rightarrow> Inl (TypeError ''not supported''))"

definition severity_score :: "json \<Rightarrow> rat" where
  "severity_score s =
     (if s = JStr ''critical'' then 5 / 10 else if s = JStr ''high'' then 3 / 10 else if s = JStr ''medium'' then 1 / 10 else 0)"

definition calculate_risk :: "play_env \<Rightarrow> jdict \<Rightarrow> json \<Rightarrow> exn + json" where
  "calculate_risk env data abuse_result =
     (let base = severity_score (dget_default data ''severity'' (JStr ''medium''))
      in ebind (py_get abuse_result ''abuse_score'' (JInt 0)) (\<lambda>abuse.
         ebind (more_than env abuse 80) (\<lambda>very.
         ebind (if very then Inr (4 / 10) else ebind (more_than env abuse 50) (\<lambda>much. Inr (if much then 2 / 10 else 0))) (\<lambda>more.
           Inr (JObj [(''risk_score'', JFloat (pe_show env (min (base + more) 1))), (''details'', JStr ''Auto-calculated'')])))))"

definition notify_soc :: "jdict \<Rightarrow> json \<Rightarrow> exn + json" where
  "notify_soc data risk =
     ebind (py_get risk ''risk_score'' (JInt 0)) (\<lambda>_. Inr (JObj [(''notified'', JBool True), (''channel'', JStr ''#soc-alerts'')]))"

definition triage_response :: "play_env \<Rightarrow> exec_context \<Rightarrow> jdict \<Rightarrow> json \<Rightarrow> json \<Rightarrow> json play" where
  "triage_response env ctx data vt_result abuse_result =
     pbind (act_in env ctx (once ''calculate_risk'' 5) (pure_body (\<lambda>k. calculate_risk env data abuse_result))) (\<lambda>risk.
     pbind (plift (ebind (py_key ''risk_score'' risk) (\<lambda>q. more_than env q (1 / 2)))) (\<lambda>alarming.
     pbind (if alarming then act_in env ctx (meta_of ''notify_soc'' 15 1 1) (pure_body (\<lambda>k. notify_soc data risk)) else plift (Inr JNull)) (\<lambda>_.
       plift (Inr (JObj [(''enrichment'', JObj [(''virustotal'', vt_result), (''abuseipdb'', abuse_result)]), (''risk'', risk),
         (''auto_triaged'', JBool True)])))))"

definition triage_high_severity :: "play_env \<Rightarrow> exec_context \<Rightarrow> pb_input \<Rightarrow> json play" where
  "triage_high_severity env ctx inp =
     (case (case inp of
              AlertInput a \<Rightarrow> (al_normalized a, JObj (iocs_of a), str_or_null (al_source_ip a))
            | ManualInput d \<Rightarrow> (d, input_iocs d, dget d ''source_ip'')) of (data, iocs, source_ip) \<Rightarrow>
      pbind (gather2
          (act_in env ctx (enriching ''enrich_virustotal'' 30) (pure_body (\<lambda>k. enrich_virustotal iocs)))
          (act_in env ctx (enriching ''enrich_abuseipdb'' 30) (pure_body (\<lambda>k. enrich_abuseipdb source_ip)))) (\<lambda>(vt_result, abuse_result).
        triage_response env ctx data vt_result abuse_result))"

section \<open>Registration\<close>

definition webhook_playbook :: "string \<Rightarrow> jdict \<Rightarrow> string \<Rightarrow> playbook_args" where
  "webhook_playbook func conditions description =
     \<lparr>pa_func = func, pa_trigger = Some ''webhook'', pa_conditions = Some conditions, pa_description = description,
      pa_name = None, pa_order = 1000, pa_priority = ''default''\<rparr>"

definition phishing_args :: playbook_args where
  "phishing_args = webhook_playbook ''ai_phishing_triage'' [(''tags'', JStr ''phishing'')]
     ''AI-powered phishing triage: extract IOCs, check reputation, use LLM to analyze and verdict, auto-resolve or escalate''"

definition endpoint_args :: playbook_args where
  "endpoint_args = webhook_playbook ''ai_endpoint_containment'' [(''tags'', JStr ''endpoint'')]
     ''AI-powered endpoint containment: enrich malware hashes via VT, use LLM to assess severity, auto-isolate if critical''"

definition hunt_args :: playbook_args where
  "hunt_args = webhook_playbook ''ai_threat_hunt'' []
     ''AI-powered threat hunt: collect IOCs, search across all integrations, use LLM to correlate findings and produce a threat hunt summary report''"

definition enrich_args :: playbook_args where
  "enrich_args = webhook_playbook ''auto_enrich_iocs'' []
     ''Auto-enrich all IOCs (IPs, domains, hashes) using configured integrations''"

definition escalation_args :: playbook_args where
  "escalation_args = webhook_playbook ''escalation_workflow'' [(''severity'', JArr [JStr ''critical''])]
     ''Auto-escalate critical alerts: assign to duty analyst and notify SOC''"

definition triage_args :: playbook_args where
  "triage_args = webhook_playbook ''triage_high_severity'' [(''severity'', JArr [JStr ''high'', JStr ''critical''])]
     ''Automatically triage high-severity alerts with enrichment and risk scoring''"

text \<open>The coroutine a name stands for, as \<open>Executor\<close> asks for it.\<close>

definition example_funcs :: "play_env \<Rightarrow> string \<Rightarrow> pb_func" where
  "example_funcs env name =
     (if name = ''ai_phishing_triage'' then ai_phishing_triage env
      else if name = ''ai_endpoint_containment'' then ai_endpoint_containment env
      else if name = ''ai_threat_hunt'' then ai_threat_hunt env
      else if name = ''auto_enrich_iocs'' then auto_enrich_iocs env
      else if name = ''escalation_workflow'' then escalation_workflow env
      else triage_high_severity env)"

section \<open>What an action does\<close>

lemma tried_map: "tried (\<lambda>k. map_sum id g (f k)) ks = map_sum id g (tried f ks)"
  by (induction f ks rule: tried.induct) (auto split: sum.splits)

lemma loop_tried:
  "k < n \<Longrightarrow> int n = am_retries meta + 2 \<Longrightarrow> fst (action_loop meta f (Some (\<lambda>r. None)) now [k..<n]) = tried f [k..<n]"
proof (induction "n - k" arbitrary: k)
  case (Suc m)
  show ?case
  proof (cases "Suc k < n")
    case True
    then have ih: "fst (action_loop meta f (Some (\<lambda>r. None)) now [Suc k..<n]) = tried f [Suc k..<n]"
      using Suc by auto
    have up: "[k..<n] = k # Suc k # [Suc (Suc k)..<n]" "[Suc k..<n] = Suc k # [Suc (Suc k)..<n]" using True by (simp_all add: upt_conv_Cons)
    have "int k \<le> am_retries meta" using True Suc.prems by simp
    then show ?thesis using ih unfolding up
      by (auto simp: attempt_body_def Let_def split: sum.splits prod.splits)
  next
    case False
    then have "[k..<n] = [k]" "\<not> int k \<le> am_retries meta" using Suc.prems by (auto simp: upt_conv_Cons)
    then show ?thesis by (auto simp: attempt_body_def Let_def split: sum.splits prod.splits)
  qed
qed simp

lemma attempts_made_tried: "0 \<le> am_retries meta \<Longrightarrow> fst (attempts_made env meta f) = tried f (attempts_of meta)"
  using loop_tried[of 1 "nat (am_retries meta + 2)" meta f "pe_clock env"]
  by (simp add: attempts_made_def action_wrapper_def attempts_of_def)

lemma act_in_outcome:
  "0 \<le> am_retries meta \<Longrightarrow> fst (act_in env ctx meta body d) = map_sum id fst (tried (\<lambda>k. body k d) (attempts_of meta))"
  using attempts_made_tried[of meta env "\<lambda>k. map_sum id fst (body k d)"]
  by (cases "attempts_made env meta (\<lambda>k. map_sum id fst (body k d))") (simp add: act_in_def tried_map)

lemma metas [simp]: "am_retries (meta_of name timeout retries b) = retries" "am_name (meta_of name timeout retries b) = name"
  "am_name (once name timeout) = name" "am_name (enriching name timeout) = name"
  "am_retries (once name timeout) = 0" "am_retries (enriching name timeout) = 2"
  by (simp_all add: meta_of_def once_def enriching_def action_decorator_def)

text \<open>Only rows of action results are added.\<close>

definition only_results :: "db \<Rightarrow> db \<Rightarrow> bool" where
  "only_results d d' \<longleftrightarrow> (\<exists>n rs. d' = d\<lparr>db_next_id := n, db_action_results := db_action_results d @ rs\<rparr>)"

lemma only_results_refl: "only_results d d"
  unfolding only_results_def by (rule exI[of _ "db_next_id d"], rule exI[of _ "[]"]) simp

lemma only_results_trans: "only_results d d' \<Longrightarrow> only_results d' d'' \<Longrightarrow> only_results d d''"
proof -
  assume "only_results d d'" and "only_results d' d''"
  then obtain n rs n' rs' where "d' = d\<lparr>db_next_id := n, db_action_results := db_action_results d @ rs\<rparr>"
    "d'' = d'\<lparr>db_next_id := n', db_action_results := db_action_results d' @ rs'\<rparr>" by (auto simp: only_results_def)
  then have "d'' = d\<lparr>db_next_id := n', db_action_results := db_action_results d @ (rs @ rs')\<rparr>" by simp
  then show ?thesis unfolding only_results_def by blast
qed

lemma only_results_record: "only_results d (record_action ctx r d)"
  by (auto simp: only_results_def record_action_def)

lemma only_results_records: "only_results d (foldl (\<lambda>d r. record_action ctx r d) d rs)"
proof (induction rs arbitrary: d)
  case (Cons r rs)
  show ?case using only_results_trans[OF only_results_record Cons] by simp
qed (simp add: only_results_refl)

lemma only_results_same: "only_results d d' \<Longrightarrow> db_alerts d' = db_alerts d \<and> db_activities d' = db_activities d \<and> db_analysts d' = db_analysts d \<and> db_integrations d' = db_integrations d"
  by (auto simp: only_results_def)

definition quiet :: "'a play \<Rightarrow> bool" where
  "quiet m \<longleftrightarrow> (\<forall>d. only_results d (snd (m d)))"

named_theorems quiet_intros

lemma quiet_lift [quiet_intros]: "quiet (plift r)"
  by (simp add: quiet_def plift_def only_results_refl)

lemma quiet_bind [quiet_intros]: "quiet m \<Longrightarrow> (\<And>x. quiet (f x)) \<Longrightarrow> quiet (pbind m f)"
  unfolding quiet_def pbind_def by (auto split: prod.splits sum.splits dest: only_results_trans)
    (metis only_results_trans snd_conv)+

lemma quiet_gather [quiet_intros]: "quiet m \<Longrightarrow> quiet n \<Longrightarrow> quiet (gather2 m n)"
  unfolding quiet_def gather2_def by (auto split: prod.splits) (metis only_results_trans snd_conv)

lemma act_in_db:
  "\<exists>d1. only_results d1 (snd (act_in env ctx meta body d)) \<and>
    (d1 = d \<or> (\<exists>k v. body k d = Inr (v, d1)))"
proof -
  have ok: "\<exists>k. f k = Inr v" if "tried f ks = Inr v" for f :: "nat \<Rightarrow> exn + (json \<times> db)" and ks v
    using that by (induction f ks rule: tried.induct) (auto split: sum.splits if_splits)
  show ?thesis
  proof (cases "tried (\<lambda>k. body k d) (attempts_of meta)")
    case (Inl e)
    then show ?thesis by (intro exI[of _ d]) (simp add: act_in_def only_results_records split: prod.splits)
  next
    case (Inr v)
    from ok[OF Inr] obtain k where "body k d = Inr (fst v, snd v)" by auto
    with Inr show ?thesis by (intro exI[of _ "snd v"]) (auto simp: act_in_def only_results_records split: prod.splits)
  qed
qed

lemma quiet_act [quiet_intros]: "quiet (act_in env ctx meta (pure_body f))"
  unfolding quiet_def
proof
  fix d
  from act_in_db[of env ctx meta "pure_body f" d] show "only_results d (snd (act_in env ctx meta (pure_body f) d))"
    by (auto simp: pure_body_def ebind_eq_Inr)
qed

section \<open>Phishing with a language model\<close>

definition raising :: "'a play \<Rightarrow> bool" where
  "raising m \<longleftrightarrow> (\<forall>d. \<exists>e. fst (m d) = Inl e)"

lemma raising_bind: "raising m \<Longrightarrow> raising (pbind m f)"
  unfolding raising_def pbind_def by (auto split: prod.splits sum.splits) (metis fst_conv sum.distinct(1))

lemma raising_later: "(\<And>x. raising (f x)) \<Longrightarrow> raising (pbind m f)"
  unfolding raising_def pbind_def by (auto split: prod.splits sum.splits)

lemma raising_act: "0 \<le> am_retries meta \<Longrightarrow> (\<And>k d. \<exists>e. body k d = Inl e) \<Longrightarrow> raising (act_in env ctx meta body)"
proof -
  assume retries: "0 \<le> am_retries meta" and bad: "\<And>k d. \<exists>e. body k d = Inl e"
  have never: "body k d \<noteq> Inr x" for k d x using bad[of k d] by auto
  have bad_end: "\<exists>e. tried (\<lambda>k. body k d) ks = Inl e" for ks d
    using bad by (induction "\<lambda>k. body k d" ks rule: tried.induct) (auto simp: never split: sum.splits)
  show ?thesis unfolding raising_def
  proof
    fix d
    obtain e where "tried (\<lambda>k. body k d) (attempts_of meta) = Inl e" using bad_end by blast
    then show "\<exists>e. fst (act_in env ctx meta body d) = Inl e" by (simp add: act_in_outcome[OF retries])
  qed
qed

lemma analysis_raises: "get_llm_client (pe_llm env) = Some c \<Longrightarrow> raising (act_in env ctx (meta_of ''ai_analyze_phishing'' 60 1 1)
    (pure_body (ai_analyze_phishing env data di ii)))"
  by (rule raising_act) (simp_all add: pure_body_def ai_analyze_phishing_def phishing_prompt_def set_of_dict_def hashable_def)

lemma phishing_raises: "get_llm_client (pe_llm env) = Some c \<Longrightarrow> raising (ai_phishing_triage env ctx inp)"
proof -
  assume "get_llm_client (pe_llm env) = Some c"
  then have "raising (phishing_verdict env ctx data i di ii)" for data i di ii
    unfolding phishing_verdict_def by (intro raising_bind analysis_raises)
  then show ?thesis unfolding ai_phishing_triage_def by (auto split: prod.splits intro!: raising_later)
qed

lemma quiet_raising: "raising m \<Longrightarrow> quiet m \<Longrightarrow> quiet (pbind m f)"
  unfolding raising_def quiet_def pbind_def by (auto split: prod.splits sum.splits) (metis fst_conv snd_conv sum.distinct(1))+

lemma phishing_quiet: "get_llm_client (pe_llm env) = Some c \<Longrightarrow> quiet (ai_phishing_triage env ctx inp)"
proof -
  assume "get_llm_client (pe_llm env) = Some c"
  then have "quiet (phishing_verdict env ctx data i di ii)" for data i di ii
    unfolding phishing_verdict_def by (intro quiet_raising analysis_raises quiet_act)
  then show ?thesis unfolding ai_phishing_triage_def by (auto split: prod.splits intro!: quiet_intros)
qed

text \<open>C22: With a language model configured the phishing playbook never triages anything: for every input and whatever the
  services answer, its run does not end in success, and neither the alert nor its activities change. (The prompt is built with a
  default that is a set holding a dictionary.)\<close>

theorem phishing_fails_with_model:
  assumes "get_llm_client (pe_llm env) = Some c"
    and "execute (ai_phishing_triage env) pb alert_id manual slot clk w = (r, w')"
  shows "db_alerts (wk_db w') = db_alerts (wk_db w) \<and> db_activities (wk_db w') = db_activities (wk_db w) \<and>
    (\<forall>run. r = Inr run \<longrightarrow> pr_status run \<noteq> ''success'')"
proof (cases "begin_run (fst clk) (pm_name (rp_meta pb)) alert_id slot w")
  case (Inl e)
  then show ?thesis using assms(2) by (auto simp: execute_def)
next
  case (Inr x)
  obtain run alert d1 where x: "x = (run, alert, d1)" by (cases x)
  have begun: "db_alerts d1 = db_alerts (wk_db w)" "db_activities d1 = db_activities (wk_db w)" "pr_status run = ''running''"
    using Inr x by (auto simp: begin_run_def ebind_eq_Inr Let_def)
  let ?ctx = "\<lparr>ec_run_id = pr_id run, ec_alert_id = alert_id, ec_correlation_id = the (pr_correlation_id run)\<rparr>"
  obtain out d2 where o: "ai_phishing_triage env ?ctx (input_of alert manual) d1 = (out, d2)" by fastforce
  obtain e where e: "out = Inl e" using phishing_raises[OF assms(1)] o by (metis fst_conv raising_def)
  have "only_results d1 d2" using phishing_quiet[OF assms(1)] o by (metis snd_conv quiet_def)
  note same = only_results_same[OF this]
  have "pr_status (close_run out t run) \<noteq> ''success''" for t
    using begun(3) e by (cases e) (simp_all add: close_run_def)
  then show ?thesis using assms(2) Inr x o e same begun
    by (auto simp: execute_def Let_def split: if_splits)
qed

section \<open>What a play yields\<close>

definition yields :: "('a \<Rightarrow> bool) \<Rightarrow> 'a play \<Rightarrow> bool" where
  "yields P m \<longleftrightarrow> (\<forall>d x. fst (m d) = Inr x \<longrightarrow> P x)"

lemma yields_any: "yields (\<lambda>x. True) m"
  by (simp add: yields_def)

lemma yields_lift: "(\<And>x. r = Inr x \<Longrightarrow> P x) \<Longrightarrow> yields P (plift r)"
  by (simp add: yields_def plift_def)

lemma yields_bind: "yields P m \<Longrightarrow> (\<And>x. P x \<Longrightarrow> yields Q (f x)) \<Longrightarrow> yields Q (pbind m f)"
  unfolding yields_def pbind_def by (auto split: prod.splits sum.splits) (metis fst_conv)

lemma yields_gather: "yields P m \<Longrightarrow> yields Q n \<Longrightarrow> yields (\<lambda>(x, y). P x \<and> Q y) (gather2 m n)"
  unfolding yields_def gather2_def by (auto split: prod.splits simp: ebind_eq_Inr) (metis fst_conv)+

lemma tried_some: "tried f ks = Inr v \<Longrightarrow> \<exists>k. f k = Inr v"
  by (induction f ks rule: tried.induct) (auto split: sum.splits if_splits)

lemma act_in_some:
  assumes "0 \<le> am_retries meta" and "fst (act_in env ctx meta body d) = Inr v"
  shows "\<exists>k d'. body k d = Inr (v, d')"
proof -
  have "map_sum id fst (tried (\<lambda>k. body k d) (attempts_of meta)) = Inr v" using act_in_outcome[OF assms(1)] assms(2) by metis
  then obtain w where "tried (\<lambda>k. body k d) (attempts_of meta) = Inr w" "fst w = v"
    by (cases "tried (\<lambda>k. body k d) (attempts_of meta)") auto
  then show ?thesis using tried_some[of "\<lambda>k. body k d" "attempts_of meta" w] by (metis prod.collapse)
qed

lemma yields_act: "0 \<le> am_retries meta \<Longrightarrow> (\<And>k d v d'. body k d = Inr (v, d') \<Longrightarrow> P v) \<Longrightarrow> yields P (act_in env ctx meta body)"
  unfolding yields_def using act_in_some by blast

text \<open>Properties of the rows a play adds, given what its parts yield.\<close>

definition logs :: "(action_result \<Rightarrow> bool) \<Rightarrow> 'a play \<Rightarrow> bool" where
  "logs N m \<longleftrightarrow> (\<forall>d. \<forall>r \<in> set (db_action_results (snd (m d))). r \<in> set (db_action_results d) \<or> N r)"

definition tells :: "(activity \<Rightarrow> bool) \<Rightarrow> 'a play \<Rightarrow> bool" where
  "tells N m \<longleftrightarrow> (\<forall>d. \<forall>a \<in> set (db_activities (snd (m d))). a \<in> set (db_activities d) \<or> N a)"

lemma logs_lift: "logs N (plift r)" and tells_lift: "tells M (plift r)"
  by (simp_all add: logs_def tells_def plift_def)

lemma logs_bind: "logs N m \<Longrightarrow> yields P m \<Longrightarrow> (\<And>x. P x \<Longrightarrow> logs N (f x)) \<Longrightarrow> logs N (pbind m f)"
  unfolding logs_def yields_def pbind_def by (auto split: prod.splits sum.splits) (metis fst_conv snd_conv)+

lemma tells_bind: "tells N m \<Longrightarrow> yields P m \<Longrightarrow> (\<And>x. P x \<Longrightarrow> tells N (f x)) \<Longrightarrow> tells N (pbind m f)"
  unfolding tells_def yields_def pbind_def by (auto split: prod.splits sum.splits) (metis fst_conv snd_conv)+

lemma logs_gather: "logs N m \<Longrightarrow> logs N n \<Longrightarrow> logs N (gather2 m n)"
  unfolding logs_def gather2_def by (auto split: prod.splits) (metis snd_conv)

lemma quiet_tells: "quiet m \<Longrightarrow> tells N m"
  unfolding quiet_def tells_def using only_results_same by metis

lemma loop_records: "\<forall>r \<in> set (records_of (snd (action_loop meta f rcd now ks))). rc_action_name r = am_name meta"
proof (induction meta f rcd now ks rule: action_loop.induct)
  case (2 meta f rcd now k ks)
  have app: "set (records_of (a @ b)) = set (records_of a) \<union> set (records_of b)" for a b
    by (induction a rule: records_of.induct) auto
  show ?case using 2
    by (auto simp: attempt_body_def Let_def app success_record_def failed_record_def split: sum.splits prod.splits option.splits if_splits)
qed simp

lemma logs_act:
  assumes "\<And>r. ar_action_name r = am_name meta \<Longrightarrow> N r" and "\<And>k d v d'. body k d = Inr (v, d') \<Longrightarrow> db_action_results d' = db_action_results d"
  shows "logs N (act_in env ctx meta body)"
  unfolding logs_def
proof (intro allI ballI)
  fix d r
  assume r: "r \<in> set (db_action_results (snd (act_in env ctx meta body d)))"
  obtain res evs where evs: "attempts_made env meta (\<lambda>k. map_sum id fst (body k d)) = (res, evs)" by fastforce
  have names: "\<forall>x \<in> set (records_of evs). rc_action_name x = am_name meta"
    using loop_records[of meta "\<lambda>k. map_sum id fst (body k d)" "Some (\<lambda>r. None)" "pe_clock env" "attempts_of meta"] evs
    by (simp add: attempts_made_def action_wrapper_def)
  have fold: "set (db_action_results (foldl (\<lambda>d x. record_action ctx x d) d0 rs)) \<subseteq>
      set (db_action_results d0) \<union> {y. \<exists>x \<in> set rs. ar_action_name y = rc_action_name x}" for d0 rs
    by (induction rs arbitrary: d0) (auto simp: record_action_def, fastforce+)
  let ?d0 = "case tried (\<lambda>k. body k d) (attempts_of meta) of Inr (v, d') \<Rightarrow> d' | Inl e \<Rightarrow> d"
  have base: "db_action_results ?d0 = db_action_results d"
    using assms(2) tried_some[of "\<lambda>k. body k d" "attempts_of meta"] by (auto split: sum.splits)
  have "r \<in> set (db_action_results ?d0) \<union> {y. \<exists>x \<in> set (records_of evs). ar_action_name y = rc_action_name x}"
    using r fold[of ?d0 "records_of evs"] by (auto simp: act_in_def evs)
  then show "r \<in> set (db_action_results d) \<or> N r" using names assms(1) base by auto
qed

section \<open>Risk scores\<close>

lemma severity_score_range: "severity_score s \<in> {0, 1 / 10, 3 / 10, 1 / 2}"
  by (simp add: severity_score_def)

text \<open>C36: The playbook that triages high severities never notifies anybody: whatever the alert, the score it computes is at most one
  half, since the reputation it asks for is always zero, and the notification needs more than one half. (The hypothesis is that the
  texts of the four scores are read back as those numbers.)\<close>

theorem triage_never_notifies:
  assumes "\<forall>q \<in> {0, 1 / 10, 3 / 10, 1 / 2}. pe_float env (pe_show env q) = Some (Finite q)"
    and "r \<in> set (db_action_results (snd (triage_high_severity env ctx inp d)))"
  shows "r \<in> set (db_action_results d) \<or> ar_action_name r \<noteq> ''notify_soc''"
proof -
  let ?N = "\<lambda>r. ar_action_name r \<noteq> ''notify_soc''"
  have pure: "pure_body f k d = Inr (v, d') \<Longrightarrow> db_action_results d' = db_action_results d" for f k d v d'
    by (auto simp: pure_body_def ebind_eq_Inr)
  have act: "logs ?N (act_in env ctx meta (pure_body f))" if "am_name meta \<noteq> ''notify_soc''" for meta f
    using that pure by (intro logs_act) auto
  let ?A = "\<lambda>v. \<exists>d. v = JObj d \<and> (map_of d ''abuse_score'' = None \<or> map_of d ''abuse_score'' = Some (JInt 0))"
  have abuse: "yields ?A (act_in env ctx (enriching ''enrich_abuseipdb'' 30) (pure_body (\<lambda>k. enrich_abuseipdb ip)))" for ip
    by (rule yields_act) (auto simp: pure_body_def enrich_abuseipdb_def ebind_eq_Inr)
  let ?R = "\<lambda>v. \<exists>q d. q \<in> {0, 1 / 10, 3 / 10, 1 / 2} \<and> v = JObj d \<and> map_of d ''risk_score'' = Some (JFloat (pe_show env q))"
  have risk: "yields ?R (act_in env ctx (once ''calculate_risk'' 5) (pure_body (\<lambda>k. calculate_risk env data v)))" if "?A v" for data v
  proof (rule yields_act)
    fix k d' w d''
    let ?s = "severity_score (dget_default data ''severity'' (JStr ''medium''))"
    assume "pure_body (\<lambda>k. calculate_risk env data v) k d' = Inr (w, d'')"
    then have "w = JObj [(''risk_score'', JFloat (pe_show env (min ?s 1))), (''details'', JStr ''Auto-calculated'')]"
      using that by (auto simp: pure_body_def calculate_risk_def ebind_eq_Inr py_get_def dget_default_def more_than_def Let_def)
    moreover have "min ?s 1 = ?s" using severity_score_range[of "dget_default data ''severity'' (JStr ''medium'')"] by auto
    ultimately show "?R w" using severity_score_range by auto
  qed simp
  have calm: "yields (\<lambda>b. \<not> b) (plift (ebind (py_key ''risk_score'' v) (\<lambda>q. more_than env q (1 / 2))))" if R: "?R v" for v
  proof -
    from R obtain q d where qd: "q \<in> {0, 1 / 10, 3 / 10, 1 / 2} \<and> v = JObj d \<and> map_of d ''risk_score'' = Some (JFloat (pe_show env q))"
      by (elim exE)
    note q = conjunct1[OF qd] and v = conjunct1[OF conjunct2[OF qd]] conjunct2[OF conjunct2[OF qd]]
    have "pe_float env (pe_show env q) = Some (Finite q)" using assms(1) q by (rule bspec)
    moreover have "\<not> 1 / 2 < q" using q by (elim insertE emptyE) simp_all
    ultimately show ?thesis using v by (simp add: yields_def plift_def py_key_def more_than_def)
  qed
  have tail: "logs ?N (triage_response env ctx data vt v)" if "?A v" for data vt v
    unfolding triage_response_def
  proof (rule logs_bind[OF act risk[OF that]], simp)
    fix w assume "?R w"
    show "logs ?N (pbind (plift (ebind (py_key ''risk_score'' w) (\<lambda>q. more_than env q (1 / 2)))) (\<lambda>alarming.
       pbind (if alarming then act_in env ctx (meta_of ''notify_soc'' 15 1 1) (pure_body (\<lambda>k. notify_soc data w)) else plift (Inr JNull)) (\<lambda>_.
       plift (Inr (JObj [(''enrichment'', JObj [(''virustotal'', vt), (''abuseipdb'', v)]), (''risk'', w), (''auto_triaged'', JBool True)])))))"
      by (rule logs_bind[OF logs_lift calm[OF \<open>?R w\<close>]]) (auto intro: logs_bind[OF logs_lift yields_any logs_lift])
  qed
  have "logs ?N (triage_high_severity env ctx inp)"
    unfolding triage_high_severity_def
    by (auto split: prod.split intro!: logs_bind[OF logs_gather[OF act act] yields_gather[OF yields_any abuse]] tail)
  then show ?thesis using assms(2) by (auto simp: logs_def)
qed

section \<open>Configured services that never connect\<close>

lemma service_refused:
  assumes "slash_bases (pe_http env)" and "ty \<in> set [''virustotal'', ''abuseipdb'']"
  shows "service env ty key = Inl base_refused"
  using assms(2) by (auto simp: service_def Let_def check_defs bases_open[OF assms(1)])

lemma reputation_offline:
  assumes "slash_bases (pe_http env)" and "ty \<in> set [''virustotal'', ''abuseipdb'']"
  shows "reputation env ty key entry unknown items = reputation env' ty None entry' unknown items"
  by (cases key) (auto simp: reputation_def lookups_def service_refused[OF assms] base_refused_def Let_def)

lemma act_in_keys: "act_in (env\<lparr>pe_vt_key := v, pe_abuse_key := w\<rparr>) = act_in env"
  by (simp add: fun_eq_iff act_in_def attempts_made_def)

text \<open>C30: Keys for VirusTotal and AbuseIPDB change nothing in the phishing and containment playbooks: as neither connector can be
  connected, every run gives what it gives without the keys, including the remark that the service is not configured.\<close>

theorem reputation_keys_change_nothing:
  assumes "slash_bases (pe_http env)"
  defines "keyless \<equiv> env\<lparr>pe_vt_key := None, pe_abuse_key := None\<rparr>"
  shows "ai_phishing_triage env ctx inp d = ai_phishing_triage keyless ctx inp d \<and>
    ai_endpoint_containment env ctx inp d = ai_endpoint_containment keyless ctx inp d"
proof -
  have offline: "check_domain_reputation env = check_domain_reputation keyless" "check_ip_reputation env = check_ip_reputation keyless"
    "enrich_file_hashes env = enrich_file_hashes keyless" "enrich_c2_ips env = enrich_c2_ips keyless"
    using reputation_offline[OF assms(1)]
    by (auto simp: fun_eq_iff keyless_def check_domain_reputation_def check_ip_reputation_def enrich_file_hashes_def enrich_c2_ips_def)
  have fields: "pe_now keyless = pe_now env" "pe_llm keyless = pe_llm env" "pe_complete keyless = pe_complete env"
    "pe_loads keyless = pe_loads env" "pe_float keyless = pe_float env" by (simp_all add: keyless_def)
  have same: "model_verdict keyless = model_verdict env" "at_least keyless = at_least env" "on_alert_row keyless = on_alert_row env"
    unfolding fun_eq_iff model_verdict_def at_least_def on_alert_row_def fields by simp_all
  have acts: "act_in keyless = act_in env" unfolding keyless_def by (rule act_in_keys)
  have parts: "ai_analyze_phishing keyless = ai_analyze_phishing env" "auto_resolve_benign keyless = auto_resolve_benign env"
    "escalate_phishing keyless = escalate_phishing env" "isolate_endpoint keyless = isolate_endpoint env"
    "log_endpoint_assessment keyless = log_endpoint_assessment env" "ai_assess_endpoint_threat keyless = ai_assess_endpoint_threat env"
    unfolding fun_eq_iff ai_analyze_phishing_def auto_resolve_benign_def escalate_phishing_def isolate_endpoint_def
        log_endpoint_assessment_def ai_assess_endpoint_threat_def same fields by simp_all
  show ?thesis
    unfolding ai_phishing_triage_def phishing_verdict_def phishing_resolution_def ai_endpoint_containment_def containment_of_def
        offline acts parts same by simp
qed

section \<open>Nobody is notified\<close>

lemma pbind_eq_Inr: "pbind m f d = (Inr y, d') \<longleftrightarrow> (\<exists>x d1. m d = (Inr x, d1) \<and> f x d1 = (Inr y, d'))"
  by (auto simp: pbind_def split: prod.splits sum.splits)

lemma plift_eq_Inr: "plift r d = (Inr y, d') \<longleftrightarrow> r = Inr y \<and> d' = d"
  by (auto simp: plift_def)

lemma never_slack: "notify_slack env title severity assignee d = Inl (ImportError (''cannot import name '' @ quoted ''SlackConnector''))"
  by (simp add: notify_slack_def import_from_def slack_names_def guard_def)

text \<open>The escalation playbook never posts to Slack, although it has a configured integration to do it with: the class it
  imports does not exist, and the failing import is taken for a missing configuration. A run that escalates says that it notified
  nobody, and the alert is then assigned to an active administrator.\<close>

theorem escalation_notifies_nobody:
  assumes "\<And>xs. set (pe_by_name env xs) = set xs"
    and "escalation_workflow env ctx inp d = (Inr (JObj res), d')" and "dget res ''escalated'' = JBool True"
  shows "escalation_workflow (env\<lparr>pe_slack := slack\<rparr>) ctx inp d = (Inr (JObj res), d') \<and>
    dget res ''notification'' = JObj [(''notified'', JBool False), (''note'', JStr ''Slack not configured, logged only'')] \<and>
    (\<exists>x \<in> set (db_analysts d). an_is_active x \<and> an_role x = ''admin'' \<and> dget res ''assigned_to'' = JStr (an_display_name x))"
proof -
  let ?silent = "JObj [(''notified'', JBool False), (''note'', JStr ''Slack not configured, logged only'')]"
  have acts: "act_in (env\<lparr>pe_slack := slack\<rparr>) = act_in env" by (simp add: fun_eq_iff act_in_def attempts_made_def)
  have parts: "find_duty_analyst (env\<lparr>pe_slack := slack\<rparr>) = find_duty_analyst env" "assign_alert (env\<lparr>pe_slack := slack\<rparr>) = assign_alert env"
    "send_escalation_notification (env\<lparr>pe_slack := slack\<rparr>) = send_escalation_notification env"
    by (simp_all add: fun_eq_iff find_duty_analyst_def assign_alert_def send_escalation_notification_def never_slack)
  have same: "escalation_workflow (env\<lparr>pe_slack := slack\<rparr>) ctx inp d = (Inr (JObj res), d')"
    unfolding assms(2)[symmetric] escalation_workflow_def acts parts ..
  obtain title severity where ts: "(case inp of AlertInput a \<Rightarrow> (JStr (al_title a), JStr (al_severity a))
      | ManualInput d \<Rightarrow> (dget_default d ''title'' (JStr ''Unknown''), dget_default d ''severity'' (JStr ''critical''))) = (title, severity)"
    by fastforce
  note run = assms(2)[unfolded escalation_workflow_def ts prod.case pbind_eq_Inr plift_eq_Inr]
  from run obtain duty d1 found where duty: "act_in env ctx (once ''find_duty_analyst'' 10) (\<lambda>k. find_duty_analyst env) d = (Inr duty, d1)"
    and found: "py_get duty ''found'' JNull = Inr found" by blast
  have "\<exists>k d2. find_duty_analyst env d = Inr (duty, d2)"
    using act_in_some[of "once ''find_duty_analyst'' 10" env ctx "\<lambda>k. find_duty_analyst env" d duty] duty by simp
  then have who: "(\<exists>x xs. pe_by_name env (filter (\<lambda>x. an_is_active x \<and> an_role x = ''admin'') (db_analysts d)) = x # xs \<and>
      duty = JObj [(''found'', JBool True), (''analyst_id'', JStr (uuid_str (an_id x))), (''username'', JStr (an_username x)),
          (''display_name'', JStr (an_display_name x))]) \<or> found = JBool False"
    using found by (auto simp: find_duty_analyst_def py_get_def dget_default_def split: list.splits)
  have ok: "truthy found" using run duty found assms(3) by (auto simp: plift_def dget_def split: if_splits)
  with who obtain x xs where x: "pe_by_name env (filter (\<lambda>x. an_is_active x \<and> an_role x = ''admin'') (db_analysts d)) = x # xs"
    "duty = JObj [(''found'', JBool True), (''analyst_id'', JStr (uuid_str (an_id x))), (''username'', JStr (an_username x)),
          (''display_name'', JStr (an_display_name x))]" by auto
  have "x \<in> set (filter (\<lambda>x. an_is_active x \<and> an_role x = ''admin'') (db_analysts d))"
    using assms(1)[of "filter (\<lambda>x. an_is_active x \<and> an_role x = ''admin'') (db_analysts d)"] unfolding x(1) by (metis list.set_intros(1))
  moreover have "dget res ''assigned_to'' = JStr (an_display_name x) \<and> dget res ''notification'' = ?silent"
  proof -
    from run duty found ok x(2) obtain assignment notification d2 d3 where
      sent: "act_in env ctx (meta_of ''send_escalation_notification'' 15 1 1)
          (\<lambda>k. send_escalation_notification env title severity (JStr (an_display_name x))) d2 = (Inr notification, d3)"
      and res: "res = [(''escalated'', JBool True), (''assigned_to'', JStr (an_display_name x)), (''assignment'', assignment), (''notification'', notification)]"
      by (auto simp: pbind_eq_Inr plift_eq_Inr py_key_def ebind_eq_Inr)
    have "\<exists>k d4. send_escalation_notification env title severity (JStr (an_display_name x)) d2 = Inr (notification, d4)"
      using act_in_some[of "meta_of ''send_escalation_notification'' 15 1 1" env ctx
          "\<lambda>k. send_escalation_notification env title severity (JStr (an_display_name x))" d2 notification] sent by simp
    then have "notification = ?silent" by (auto simp: send_escalation_notification_def never_slack Let_def)
    with res show ?thesis by (simp add: dget_def)
  qed
  ultimately show ?thesis using same by auto
qed

section \<open>Isolation\<close>

lemma activities_act:
  assumes "\<And>k d v d' a. body k d = Inr (v, d') \<Longrightarrow> a \<in> set (db_activities d') \<Longrightarrow> a \<in> set (db_activities d) \<or> N a"
  shows "tells N (act_in env ctx meta body)"
  unfolding tells_def
proof (intro allI ballI)
  fix d a
  assume a: "a \<in> set (db_activities (snd (act_in env ctx meta body d)))"
  obtain d1 where "only_results d1 (snd (act_in env ctx meta body d))" and d1: "d1 = d \<or> (\<exists>k v. body k d = Inr (v, d1))"
    using act_in_db by blast
  then have "a \<in> set (db_activities d1)" using a only_results_same by metis
  with d1 assms show "a \<in> set (db_activities d) \<or> N a" by blast
qed

lemma on_alert_tells:
  assumes "on_alert_row env i missing f d = Inr (v, d')" and "a \<in> set (db_activities d')"
    and "\<And>x x' entry res. f x = Inr (x', entry, res) \<Longrightarrow> ac_action entry = what"
  shows "a \<in> set (db_activities d) \<or> ac_action a = what"
  using assms(1,2) by (auto simp: on_alert_row_def ebind_eq_Inr save_alert_eq put_alert_def add_activity_def split: option.splits) (use assms(3) in fastforce)+

definition recommends :: "play_env \<Rightarrow> json \<Rightarrow> bool" where
  "recommends env v \<longleftrightarrow> (\<exists>c p k r m. get_llm_client (pe_llm env) = Some c \<and> pe_complete env c p k = Inr r \<and>
     model_verdict env endpoint_unparsed r = Inr v \<and> v = JObj m \<and> truthy (dget m ''should_isolate'') \<and>
     at_least env (dget_default m ''confidence'' (JFloat ''0.0'')) (80 / 100) = Inr True)"


section \<open>Phishing without a language model\<close>

lemma act_in_success:
  assumes "0 \<le> am_retries meta" and "act_in env ctx meta body d = (Inr v, d')"
  shows "\<exists>k d1. body k d = Inr (v, d1) \<and> only_results d1 d'"
proof -
  have "map_sum id fst (tried (\<lambda>k. body k d) (attempts_of meta)) = Inr v" using act_in_outcome[OF assms(1)] assms(2) by (metis fst_conv)
  then obtain d1 where t: "tried (\<lambda>k. body k d) (attempts_of meta) = Inr (v, d1)"
    by (cases "tried (\<lambda>k. body k d) (attempts_of meta)") auto
  from tried_some[OF t] obtain k where "body k d = Inr (v, d1)" by blast
  moreover have "only_results d1 d'" using assms(2) t by (auto simp: act_in_def only_results_records split: prod.splits)
  ultimately show ?thesis by blast
qed

lemma quiet_alerts: "quiet m \<Longrightarrow> m d = (r, d') \<Longrightarrow> db_alerts d' = db_alerts d"
  unfolding quiet_def using only_results_same by (metis snd_conv)

text \<open>Without a language model the phishing playbook still decides: a completed run for an alert sets its determination to
  unknown, whatever an analyst had determined, and takes a new alert up. It does so for resolved alerts as well, which then are
  resolved without a determination, a state the API and the runtime refuse.\<close>

theorem phishing_undetermines:
  assumes "get_llm_client (pe_llm env) = None" and "filter (\<lambda>x. al_id x = al_id a) (db_alerts d) = [a]"
    and "ai_phishing_triage env ctx (AlertInput a) d = (Inr v, d')"
  shows "db_alerts d' = update_where (\<lambda>r. al_id r = al_id a) (\<lambda>_. (taken_up a)\<lparr>al_determination := ''unknown''\<rparr>) (db_alerts d)"
proof -
  obtain data where data: "input_data [] (AlertInput a) = (data, JStr (uuid_str (al_id a)))" by simp
  note run = assms(3)[unfolded ai_phishing_triage_def data prod.case pbind_eq_Inr plift_eq_Inr]
  from run obtain iocs d1 domains ips p d2 where
    one: "act_in env ctx (once ''extract_phishing_iocs'' 10) (pure_body (\<lambda>k. extract_phishing_iocs data)) d = (Inr iocs, d1)"
    and two: "gather2 (act_in env ctx (enriching ''check_domain_reputation'' 30) (pure_body (\<lambda>k. check_domain_reputation env domains)))
            (act_in env ctx (enriching ''check_ip_reputation'' 30) (pure_body (\<lambda>k. check_ip_reputation env ips))) d1 = (Inr p, d2)"
    and three: "phishing_verdict env ctx data (JStr (uuid_str (al_id a))) (fst p) (snd p) d2 = (Inr v, d')"
    by (auto simp: case_prod_beta)
  have same2: "db_alerts d2 = db_alerts d"
    using quiet_alerts[OF quiet_act one] quiet_alerts[OF quiet_gather[OF quiet_act quiet_act] two] by simp
  note run3 = three[unfolded phishing_verdict_def pbind_eq_Inr plift_eq_Inr]
  from run3 obtain ai d3 verdict confidence reasoning resolution where
    asked: "act_in env ctx (meta_of ''ai_analyze_phishing'' 60 1 1) (pure_body (ai_analyze_phishing env data (fst p) (snd p))) d2 = (Inr ai, d3)"
    and verdict: "py_get ai ''verdict'' (JStr ''unknown'') = Inr verdict"
    and settled: "phishing_resolution env ctx (JStr (uuid_str (al_id a))) verdict confidence reasoning d3 = (Inr resolution, d')"
    by auto
  have same3: "db_alerts d3 = db_alerts d" using quiet_alerts[OF quiet_act asked] same2 by simp
  from act_in_success[OF _ asked] have "\<exists>k. ai_analyze_phishing env data (fst p) (snd p) k = Inr ai"
    by (auto simp: pure_body_def ebind_eq_Inr)
  then have v: "verdict = JStr ''unknown''"
    using verdict assms(1) by (auto simp: ai_analyze_phishing_def py_get_def dget_default_def)
  have id: "truthy (JStr (uuid_str (al_id a)))" by (simp add: uuid_str_def show_nat_def)
  from settled v id obtain k d4 where esc: "escalate_phishing env (JStr (uuid_str (al_id a))) verdict reasoning d3 = Inr (resolution, d4)"
    and after: "only_results d4 d'"
    using act_in_success[of "meta_of ''escalate_phishing_alert'' 15 1 1" env ctx
        "\<lambda>k. escalate_phishing env (JStr (uuid_str (al_id a))) verdict reasoning" d3 resolution d']
    by (auto simp: phishing_resolution_def pbind_eq_Inr plift_eq_Inr)
  have "fetch (\<lambda>x. al_id x = al_id a) (db_alerts d3) = Inr (Some a)" using assms(2) same3 by (simp add: fetch_def)
  with esc v have "db_alerts d4 = update_where (\<lambda>r. al_id r = al_id a) (\<lambda>_. (taken_up a)\<lparr>al_determination := ''unknown''\<rparr>) (db_alerts d3)"
    by (auto simp: escalate_phishing_def on_alert_row_def id_of_def column_text_def ebind_eq_Inr save_alert_eq put_alert_def add_activity_def taken_up_def)
  with same3 only_results_same[OF after] show ?thesis by simp
qed

section \<open>Examples\<close>

definition no_llm_settings :: llm_settings where
  "no_llm_settings = \<lparr>ls_anthropic_api_key = None, ls_openai_api_key = None, ls_ollama_url = None, ls_llm_model = None\<rparr>"

definition score_text :: "rat \<Rightarrow> string" where
  "score_text q = (if q = 0 then ''0.0'' else if q = 1 / 10 then ''0.1'' else if q = 3 / 10 then ''0.3'' else ''0.5'')"

definition score_of :: "string \<Rightarrow> pyfloat option" where
  "score_of t = (if t = ''0.0'' then Some (Finite 0) else if t = ''0.1'' then Some (Finite (1 / 10)) else if t = ''0.3'' then Some (Finite (3 / 10))
     else if t = ''0.5'' then Some (Finite (1 / 2)) else if t = ''0.9'' then Some (Finite (9 / 10)) else None)"

definition example_play :: play_env where
  "example_play = \<lparr>pe_now = 5, pe_clock = int, pe_vt_key = Some ''k'', pe_abuse_key = None, pe_llm = no_llm_settings,
     pe_http = example_http, pe_cached = (\<lambda>c l. Inl (TimeoutError [])),
     pe_complete = (\<lambda>c p k. Inr \<lparr>lr_content = JStr ''isolate'', lr_model = JStr ''m'', lr_usage = JNull\<rparr>),
     pe_loads = (\<lambda>t. if t = ''isolate'' then Some (JObj [(''should_isolate'', JBool True), (''confidence'', JFloat ''0.9'')]) else None),
     pe_float = score_of, pe_slack = (\<lambda>cfg channel t. Inr ()), pe_set_order = id, pe_by_name = id, pe_show = score_text\<rparr>"

definition modelled_play :: play_env where
  "modelled_play = example_play\<lparr>pe_llm := no_llm_settings\<lparr>ls_ollama_url := Some ''http://llm''\<rparr>\<rparr>"

definition example_ctx :: exec_context where
  "example_ctx = \<lparr>ec_run_id = 1, ec_alert_id = Some 2, ec_correlation_id = 3\<rparr>"

lemma example_slash: "slash_bases example_http"
  by (auto simp: slash_bases_def example_http_def plain_session_def plain_url_def)

theorem triage_never_notifies_witness:
  "list_all (\<lambda>r. ar_action_name r \<noteq> ''notify_soc'')
     (db_action_results (snd (triage_high_severity example_play example_ctx (AlertInput resolved_alert) two_alerts)))"
proof -
  have "\<forall>q \<in> {0, 1 / 10, 3 / 10, 1 / 2}. pe_float example_play (pe_show example_play q) = Some (Finite q)"
    by (simp add: example_play_def score_text_def score_of_def)
  moreover have "db_action_results two_alerts = []" by (simp add: two_alerts_def empty_db_def)
  ultimately show ?thesis
    using triage_never_notifies[of example_play _ example_ctx "AlertInput resolved_alert" two_alerts] by (auto simp: list_all_iff)
qed

theorem reputation_keys_change_nothing_witness:
  "ai_phishing_triage example_play example_ctx (AlertInput resolved_alert) two_alerts =
     ai_phishing_triage (example_play\<lparr>pe_vt_key := None, pe_abuse_key := None\<rparr>) example_ctx (AlertInput resolved_alert) two_alerts"
proof -
  have "slash_bases (pe_http example_play)" using example_slash by (simp add: example_play_def)
  from reputation_keys_change_nothing[OF this, of example_ctx "AlertInput resolved_alert" two_alerts] show ?thesis by blast
qed

theorem phishing_undetermines_witness:
  "map (\<lambda>a. (al_status a, al_determination a))
     (db_alerts (snd (ai_phishing_triage example_play example_ctx (AlertInput resolved_alert) two_alerts))) =
   [(''new'', ''unknown''), (''resolved'', ''unknown'')]"
proof -
  have "case fst (ai_phishing_triage example_play example_ctx (AlertInput resolved_alert) two_alerts) of Inr v \<Rightarrow> True | Inl e \<Rightarrow> False"
    by code_simp
  then obtain v d' where run: "ai_phishing_triage example_play example_ctx (AlertInput resolved_alert) two_alerts = (Inr v, d')"
    by (cases "ai_phishing_triage example_play example_ctx (AlertInput resolved_alert) two_alerts") (auto split: sum.splits)
  have "get_llm_client (pe_llm example_play) = None" "filter (\<lambda>x. al_id x = al_id resolved_alert) (db_alerts two_alerts) = [resolved_alert]"
    by code_simp+
  from phishing_undetermines[OF this run] run show ?thesis
    by (simp add: two_alerts_def resolved_alert_def taken_up_def update_where_def) code_simp
qed

theorem phishing_fails_with_model_witness:
  "\<exists>r w'. execute (ai_phishing_triage modelled_play) triage_playbook None None \<lparr>sl_id = None, sl_position = None, sl_total = None\<rparr> (5, 9)
       example_worker = (r, w') \<and> db_alerts (wk_db w') = db_alerts (wk_db example_worker) \<and>
     (\<forall>run. r = Inr run \<longrightarrow> pr_status run \<noteq> ''success'')"
proof -
  obtain r w' where run: "execute (ai_phishing_triage modelled_play) triage_playbook None None
      \<lparr>sl_id = None, sl_position = None, sl_total = None\<rparr> (5, 9) example_worker = (r, w')" by fastforce
  have "get_llm_client (pe_llm modelled_play) = Some (the (get_llm_client (pe_llm modelled_play)))" by code_simp
  from phishing_fails_with_model[OF this run] run show ?thesis by blast
qed

definition duty_roster :: db where
  "duty_roster = two_alerts\<lparr>db_analysts := [ana\<lparr>an_role := ''admin''\<rparr>]\<rparr>"

theorem escalation_notifies_nobody_witness:
  "\<exists>res d'. escalation_workflow example_play example_ctx (AlertInput resolved_alert) duty_roster = (Inr (JObj res), d') \<and>
     dget res ''notification'' = JObj [(''notified'', JBool False), (''note'', JStr ''Slack not configured, logged only'')]"
proof -
  have shape: "case fst (escalation_workflow example_play example_ctx (AlertInput resolved_alert) duty_roster) of
      Inr (JObj res) \<Rightarrow> dget res ''escalated'' = JBool True | _ \<Rightarrow> False" by code_simp
  obtain out d' where run: "escalation_workflow example_play example_ctx (AlertInput resolved_alert) duty_roster = (out, d')" by fastforce
  with shape obtain res where res: "out = Inr (JObj res)" "dget res ''escalated'' = JBool True"
    by (auto split: sum.splits json.splits)
  have "set (pe_by_name example_play xs) = set xs" for xs by (simp add: example_play_def)
  from escalation_notifies_nobody[OF this run[unfolded res(1)] res(2)] run res show ?thesis by blast
qed

definition infected :: alert where
  "infected = resolved_alert\<lparr>al_hostname := Some ''pc1''\<rparr>"


end
