(* ===== verification/Spec2Isabelle.thy ===== *)
theory Spec2Isabelle
  imports Normalize Observability Executor Cache Rate_Limit Scheduler Lifecycle Accounts Retention Anomaly Resources Dashboard Actions Ai Migrate Poller Dedup Connectors Siem Playbooks
begin

text \<open>
  A model of OpenSOAR (\<open>src/src/opensoar\<close>, \<open>src/playbooks\<close> and \<open>src/scripts\<close>), a platform for security orchestration: detection
  systems post alerts to webhooks, alerts are normalised, deduplicated and stored, playbooks (Python functions) whose
  triggers match run in workers, analysts work on alerts and incidents through an API, observables are enriched from
  threat-intelligence services through a cache, and language models help to triage. This development translates the
  Python into HOL definitions, one theory per part, and proves what each part promises.

  \<^bold>\<open>Conventions.\<close> A row of a table is a record, the database a record of lists of rows (\<open>Tables\<close>, from
  \<open>models/*.py\<close>); a query is a filter, \<open>scalar_one_or_none\<close> raises on two rows, a statement that breaks a constraint is
  an \<open>IntegrityError\<close>. A handler is a function from a \<open>call_env\<close> (application, clock, signed-in analyst), its arguments
  and the database to an exception or a result with the new database: \<open>exn + 'a\<close> with \<open>ebind\<close> (\<open>Prelude\<close>), where
  \<open>exn\<close> names the Python exceptions the code raises or catches and \<open>HTTPException\<close> carries status and detail. A handler
  that raises leaves the database as it was, as the session is rolled back; the webhook, the retention task and the enrichment
  task, which commit or have effects before they fail, return their state also then. JSON values are the datatype \<open>json\<close>
  (\<open>Json\<close>) with Python's \<open>repr\<close>, \<open>==\<close>, truth and untyped access. Times are microseconds, integers are \<open>int\<close> as
  in Python, identifiers are numbers whose text is their decimal form, texts are ASCII.

  \<^bold>\<open>Parts.\<close>
  \<^item> Ingestion: \<open>Normalize\<close> (\<open>ingestion/normalize.py\<close>, \<open>integrations/*/normalize.py\<close>: fields, severities,
    indicators), \<open>Webhook\<close> (\<open>api/webhooks.py\<close>, \<open>ingestion/webhook.py\<close>: API keys, signatures, deduplication, triggers),
    \<open>Rate_Limit\<close> (\<open>middleware/rate_limit.py\<close>).
  \<^item> Playbooks: \<open>Decorators\<close> (\<open>core/decorators.py\<close>: attempts, timeout, backoff), \<open>Registry\<close> (\<open>core/registry.py\<close>,
    \<open>core/triggers.py\<close>), \<open>Executor\<close> (\<open>worker/routing.py\<close>, \<open>core/executor.py\<close>, \<open>worker/tasks.py\<close>), \<open>Runtime\<close>
    (\<open>runtime.py\<close>), \<open>Scheduler\<close> (\<open>core/scheduler.py\<close>: instances that compete for a lock), \<open>Playbooks\<close>
    (\<open>playbooks/examples\<close>: the shipped playbooks, as coroutines \<open>Executor\<close> runs).
  \<^item> Access: \<open>Access\<close> (\<open>auth/rbac.py\<close>, \<open>auth/jwt.py\<close>, \<open>auth/api_key.py\<close>, \<open>plugins.py\<close>: roles, tokens, tenant validators),
    \<open>Accounts\<close> (\<open>api/auth.py\<close>, \<open>api/api_keys.py\<close>, \<open>bootstrap_admin.py\<close>).
  \<^item> The API: \<open>Alerts\<close> (\<open>api/alerts.py\<close>), \<open>Mentions\<close> (\<open>comments/\<close>, \<open>notifications.py\<close>, comments of \<open>api/alerts.py\<close>),
    \<open>Incidents\<close> (\<open>api/incidents.py\<close>), \<open>Resources\<close> (observables, templates, playbooks, runs, integrations and
    \<open>integrations/loader.py\<close>), \<open>Dashboard\<close>, \<open>Actions\<close>.
  \<^item> Enrichment: \<open>Cache\<close> (\<open>integrations/cache.py\<close>), \<open>Enrichment\<close> (\<open>worker/enrichment.py\<close>), \<open>Connectors\<close> and
    \<open>Siem\<close> (\<open>integrations/*/connector.py\<close>: sessions, health checks and lookups; operations of platforms and mail).
  \<^item> Intelligence: \<open>Anomaly\<close> (\<open>ai/anomaly.py\<close>), \<open>Ai\<close> (\<open>ai/client.py\<close>, \<open>api/ai.py\<close>), \<open>Dedup\<close> (\<open>ai/embeddings.py\<close>,
    \<open>api/ai_dedup.py\<close>).
  \<^item> Operation: \<open>Retention\<close> (\<open>retention/service.py\<close>, \<open>worker/retention.py\<close>, \<open>api/admin_retention.py\<close>),
    \<open>Observability\<close> (\<open>logging_context.py\<close>, \<open>middleware/metrics.py\<close>), \<open>Migrate\<close> and \<open>Poller\<close> (\<open>scripts/\<close>).
  \<^item> \<open>Lifecycle\<close> joins the parts: its step relation has a step for every handler that changes alerts, incidents, links or
    the audit log, of \<open>Webhook\<close>, \<open>Alerts\<close>, \<open>Mentions\<close>, \<open>Incidents\<close>, \<open>Runtime\<close> and \<open>Enrichment\<close>.

  \<^bold>\<open>Interfaces.\<close> \<open>cache_backend\<close> (\<open>Cache\<close>) is the protocol of cache backends, as a view of the state at a time; the laws of
  the cache, in \<open>Dedup\<close> the reuse of vectors and in \<open>Connectors\<close> that of answers, are proved inside it, and \<open>memory\<close> interprets it on the in-memory
  backend. \<open>claim_store\<close> (\<open>Enrichment\<close>) is what the in-flight tracker promises, interpreted on the in-memory tracker. Tenant
  validators, connectors in \<open>Enrichment\<close>, Redis, the broker, the clock, digests, password hashes, tokens, the JSON codec, the
  language models, the vendors' services and the mail server are arguments of the definitions that use them; what a
  property needs of one is a hypothesis of that property, and its witness gives a concrete one.

  \<^bold>\<open>What is shown.\<close>
  \<^item> Invariants by rule induction over all interleavings of handlers: resolved alerts are determined and stamped, links
    and activities point to rows, counters only grow; the audit log is never shortened except by retention; the whole system
    refines a ledger of identities (\<open>Lifecycle\<close>, \<open>Mentions\<close>, \<open>Retention\<close>).
  \<^item> Authentication and scope: no webhook request changes anything without a valid key, revoked keys and old passwords stop
    working, an administrator always remains when operations do not overlap (and may not when they do), and nothing outside the
    tenant scope is shown, changed, put to a model or sent to an embedding provider (\<open>Webhook\<close>, \<open>Accounts\<close>, \<open>Alerts\<close>,
    \<open>Incidents\<close>, \<open>Ai\<close>, \<open>Dedup\<close>).
  \<^item> Functional behaviour of each operation, errors included, and of the executor: which playbooks match, which runs are
    recorded with which status, what retries repeat.
  \<^item> Mutual exclusion and rates: scheduler ticks, enrichment jobs, requests per window, upstream calls per time to live.
  \<^item> Termination and bounds: the loops that read pages or wait for a job (\<open>Migrate\<close>, \<open>Siem\<close>); the nesting of
    payloads is walked structurally. There is no fuel: a loop that may not end is a \<open>partial_function (option)\<close> and its
    theorem says when it ends, the wait for a job is a recursion on the time left (300 polls, a second apart, by the code's
    own clock), and every other recursion is over the data.
  \<^item> Exchanges with other systems as histories of requests: what is sent, in which order, under which answers of the other
    side, and what is never sent (\<open>Siem\<close>, \<open>Migrate\<close>, \<open>Poller\<close>, \<open>Ai\<close>).
  \<^item> The shipped playbooks against the platform: what they change, on whose word, and what they never do (\<open>Playbooks\<close>).
  \<^item> Divergences: where the code does not do what it or its documentation says, a theorem or its witness shows it and
    the manifest records a finding.

  \<^bold>\<open>Not modelled.\<close> The text of prompts (\<open>ai/prompts.py\<close>: a prompt is its template and data), the listing of anomalies, the
  conversion of rows to response models and the shape checks of request models beyond what handlers rely on
  (\<open>schemas/\<close>), configuration and process wiring (\<open>config.py\<close>, \<open>main.py\<close>, \<open>db.py\<close>, \<open>worker/celery_app.py\<close>), log output, sample data
  (\<open>scripts/seed.py\<close>, \<open>seed_templates.py\<close>), database migrations, tests and the user interface: they hold no logic of their own or only call libraries.
  Rounding, NaN and infinities of floats are left out except where a confidence is read (\<open>Ai\<close>): scores are rationals or real
  numbers. Concurrency of requests is the interleaving of handlers; inside a handler only the races named in
  \<open>Accounts\<close> and the exchanges with Redis in \<open>Scheduler\<close> and \<open>Enrichment\<close> are split into steps.
\<close>

end
